(* ===== verification/Prelude.thy ===== *)
theory Prelude
  imports Main "HOL-Library.Word" "HOL-Library.Product_Lexorder" "HOL-Library.Option_ord"
begin

text \<open>
  Shared vocabulary of the development: Rust results as sums with the error on the left, the
  \<open>?\<close> operator, \<open>ok_or\<close>, machine integers, the monotonic clock, and the collections of facts
  (\<open>named_theorems\<close>) the component proofs use.

  A Rust function \<open>fn f(&self, ..) -> Result<T, E>\<close> becomes a HOL function into \<open>'e + 'a\<close>.
  A function \<open>fn f(&mut self, ..) -> Result<T, E>\<close> returns the result and the state, also when
  the result is an error: a mutation made before an early return stays visible, as in the source.
\<close>

section \<open>Collections of facts\<close>

named_theorems result_simps \<open>evaluation of results and of the question-mark operator\<close>
named_theorems inv_intros \<open>one-step preservation of component invariants\<close>
named_theorems frame_simps \<open>fields an operation leaves unchanged\<close>

section \<open>Machine integers\<close>

text \<open>
  \<open>u64\<close> and \<open>u32\<close> are words. A \<open>usize\<close> counts elements of collections in memory and is a
  \<open>nat\<close>: \<open>saturating_sub\<close> is subtraction on \<open>nat\<close>, and \<open>usize_sat_add\<close> is \<open>saturating_add\<close>.
\<close>

type_synonym u8 = "8 word"
type_synonym u16 = "16 word"
type_synonym u32 = "32 word"
type_synonym u64 = "64 word"
type_synonym usize = nat

abbreviation u64_max :: u64 where "u64_max \<equiv> - 1"

definition usize_max :: usize where
  "usize_max = 2 ^ 64 - 1"

definition usize_sat_add :: "usize \<Rightarrow> usize \<Rightarrow> usize" where
  "usize_sat_add a b = min usize_max (a + b)"

definition checked_add_u64 :: "u64 \<Rightarrow> u64 \<Rightarrow> u64 option" where
  "checked_add_u64 a b = (if unat a + unat b < 2 ^ 64 then Some (a + b) else None)"

lemma checked_add_u64_Some:
  "checked_add_u64 a b = Some c \<Longrightarrow> unat c = unat a + unat b"
  by (auto simp: checked_add_u64_def unat_word_ariths split: if_splits)

lemma checked_succ_u64:
  "checked_add_u64 a 1 = (if a = u64_max then None else Some (a + 1))"
proof -
  have lt: "unat a < 2 ^ 64" using unsigned_less [of a] by simp
  have "a = u64_max \<longleftrightarrow> unat a = unat u64_max"
    by (simp add: word_unat_eq_iff)
  also have "unat u64_max = 2 ^ 64 - 1"
    by (simp add: unsigned_minus_1_eq_mask mask_eq_exp_minus_1)
  finally have "a = u64_max \<longleftrightarrow> unat a = 2 ^ 64 - 1" .
  with lt show ?thesis
    by (auto simp: checked_add_u64_def)
qed

lemma u64_less_succ: "a \<noteq> u64_max \<Longrightarrow> a < a + (1 :: u64)"
  by (metis checked_add_u64_Some checked_succ_u64 less_add_one unat_1 word_less_nat_alt)

section \<open>The monotonic clock\<close>

text \<open>
  \<open>Instant\<close> and \<open>Duration\<close> are counts of nanoseconds. \<open>Instant::checked_add\<close> fails past the
  last representable instant (a signed 64-bit number of seconds and the nanoseconds of it).
\<close>

type_synonym Instant = nat
type_synonym Duration = nat

definition from_secs :: "nat \<Rightarrow> Duration" where
  "from_secs n = n * 1000000000"

definition as_secs :: "Duration \<Rightarrow> nat" where
  "as_secs d = d div 1000000000"

definition instant_max :: Instant where
  "instant_max = (2 ^ 63 - 1) * 1000000000 + 999999999"

definition instant_checked_add :: "Instant \<Rightarrow> Duration \<Rightarrow> Instant option" where
  "instant_checked_add t d = (if t + d \<le> instant_max then Some (t + d) else None)"

definition saturating_duration_since :: "Instant \<Rightarrow> Instant \<Rightarrow> Duration" where
  "saturating_duration_since now earlier = now - earlier"

definition checked_duration_since :: "Instant \<Rightarrow> Instant \<Rightarrow> Duration option" where
  "checked_duration_since now earlier = (if earlier \<le> now then Some (now - earlier) else None)"

section \<open>Results\<close>

definition ok_or :: "'a option \<Rightarrow> 'e \<Rightarrow> 'e + 'a" where
  "ok_or x e = (case x of None \<Rightarrow> Inl e | Some a \<Rightarrow> Inr a)"

definition map_err :: "('e \<Rightarrow> 'f) \<Rightarrow> 'e + 'a \<Rightarrow> 'f + 'a" where
  "map_err f r = (case r of Inl e \<Rightarrow> Inl (f e) | Inr a \<Rightarrow> Inr a)"

definition ensure :: "bool \<Rightarrow> 'e \<Rightarrow> 'e + unit" where
  "ensure b e = (if b then Inr () else Inl e)"

text \<open>\<open>and_then r k\<close> is \<open>r?\<close> followed by \<open>k\<close> in a function that reads the state only;
  \<open>try_in s r k\<close> is \<open>r?\<close> followed by \<open>k\<close> in a function that owns the state \<open>s\<close>.\<close>

definition and_then :: "'e + 'a \<Rightarrow> ('a \<Rightarrow> 'e + 'b) \<Rightarrow> 'e + 'b" where
  "and_then r k = (case r of Inl e \<Rightarrow> Inl e | Inr a \<Rightarrow> k a)"

definition try_in :: "'s \<Rightarrow> 'e + 'a \<Rightarrow> ('a \<Rightarrow> ('e + 'b) \<times> 's) \<Rightarrow> ('e + 'b) \<times> 's" where
  "try_in s r k = (case r of Inl e \<Rightarrow> (Inl e, s) | Inr a \<Rightarrow> k a)"

definition is_ok :: "'e + 'a \<Rightarrow> bool" where
  "is_ok r = (case r of Inl _ \<Rightarrow> False | Inr _ \<Rightarrow> True)"

lemma ok_or_simps [simp, result_simps]:
  "ok_or None e = Inl e" "ok_or (Some a) e = Inr a"
  by (simp_all add: ok_or_def)

lemma ok_or_Inr [simp, result_simps]: "ok_or x e = Inr a \<longleftrightarrow> x = Some a"
  by (cases x) auto

lemma ok_or_Inl [simp, result_simps]: "ok_or x e = Inl e' \<longleftrightarrow> x = None \<and> e' = e"
  by (cases x) auto

lemma map_err_simps [simp, result_simps]:
  "map_err f (Inl e) = Inl (f e)" "map_err f (Inr a) = Inr a"
  by (simp_all add: map_err_def)

lemma map_err_Inr [simp, result_simps]: "map_err f r = Inr a \<longleftrightarrow> r = Inr a"
  by (cases r) auto

lemma ensure_simps [simp, result_simps]:
  "ensure True e = Inr ()" "ensure False e = Inl e"
  by (simp_all add: ensure_def)

lemma ensure_Inr [simp, result_simps]: "ensure b e = Inr u \<longleftrightarrow> b"
  by (cases b) auto

lemma ensure_Inl [simp, result_simps]: "ensure b e = Inl e' \<longleftrightarrow> \<not> b \<and> e' = e"
  by (cases b) auto

lemma and_then_simps [simp, result_simps]:
  "and_then (Inl e) k = Inl e" "and_then (Inr a) k = k a"
  by (simp_all add: and_then_def)

lemma and_then_Inr [simp, result_simps]:
  "and_then r k = Inr b \<longleftrightarrow> (\<exists>a. r = Inr a \<and> k a = Inr b)"
  by (cases r) auto

lemma try_in_simps [simp, result_simps]:
  "try_in s (Inl e) k = (Inl e, s)" "try_in s (Inr a) k = k a"
  by (simp_all add: try_in_def)

lemma try_in_Inr [simp, result_simps]:
  "try_in s r k = (Inr b, t) \<longleftrightarrow> (\<exists>a. r = Inr a \<and> k a = (Inr b, t))"
  by (cases r) auto

lemma is_ok_simps [simp, result_simps]: "is_ok (Inl e) = False" "is_ok (Inr a) = True"
  by (simp_all add: is_ok_def)

lemma is_ok_iff: "is_ok r \<longleftrightarrow> (\<exists>a. r = Inr a)"
  by (cases r) auto

text \<open>An early return leaves the state as it is, so a property of the state after a step is
  shown for the continuation only.\<close>

lemma try_in_preserves [inv_intros]:
  assumes "P s" and "\<And>a. r = Inr a \<Longrightarrow> P (snd (k a))"
  shows "P (snd (try_in s r k))"
  using assms by (cases r) auto

lemma try_in_split:
  "P (try_in s r k) \<longleftrightarrow> (\<forall>e. r = Inl e \<longrightarrow> P (Inl e, s)) \<and> (\<forall>a. r = Inr a \<longrightarrow> P (k a))"
  by (cases r) auto

end
