(* ===== verification/BTree_Map.thy ===== *)
theory BTree_Map
  imports Prelude
begin

text \<open>
  The standard library's \<open>BTreeMap\<close> and \<open>BTreeSet\<close> as the source uses them: finite maps whose
  iteration runs in ascending key order. A map is its list of entries, strictly sorted by key;
  the representation is canonical, so two maps with the same lookups are equal, and every
  operation computes. A set is a map into \<open>unit\<close>.
\<close>

section \<open>Sorted association lists\<close>

fun ins_entry :: "'k::linorder \<Rightarrow> 'v \<Rightarrow> ('k \<times> 'v) list \<Rightarrow> ('k \<times> 'v) list" where
  "ins_entry k v [] = [(k, v)]"
| "ins_entry k v ((a, b) # es) =
     (if a < k then (a, b) # ins_entry k v es
      else if a = k then (k, v) # es
      else (k, v) # (a, b) # es)"

abbreviation key_sorted :: "('k::linorder \<times> 'v) list \<Rightarrow> bool" where
  "key_sorted es \<equiv> sorted_wrt (<) (map fst es)"

lemma fst_ins_entry: "fst ` set (ins_entry k v es) = insert k (fst ` set es)"
  by (induction k v es rule: ins_entry.induct) auto

lemma key_sorted_ins_entry: "key_sorted es \<Longrightarrow> key_sorted (ins_entry k v es)"
proof (induction k v es rule: ins_entry.induct)
  case (2 k v a b es)
  have "fst ` set (ins_entry k v es) = insert k (fst ` set es)"
    by (rule fst_ins_entry)
  with 2 show ?case
    by (fastforce simp flip: set_map)
qed simp

lemma key_sorted_filter: "key_sorted es \<Longrightarrow> key_sorted (filter P es)"
  by (induction es) auto

lemma key_sorted_distinct: "key_sorted es \<Longrightarrow> distinct (map fst es)"
  using strict_sorted_iff [of "map fst es"] by simp

lemma map_of_ins_entry:
  "key_sorted es \<Longrightarrow> map_of (ins_entry k v es) = (map_of es)(k \<mapsto> v)"
proof (induction k v es rule: ins_entry.induct)
  case (2 k v a b es)
  then show ?case by (auto simp: fun_eq_iff)
qed auto

lemma map_of_filter_key:
  assumes "key_sorted es"
  shows "map_of (filter (\<lambda>(k, v). P k v) es) k =
     (case map_of es k of None \<Rightarrow> None | Some v \<Rightarrow> if P k v then Some v else None)"
proof -
  have "distinct (map fst es)" using assms by (rule key_sorted_distinct)
  then show ?thesis
    by (induction es) (auto split: option.split dest: map_of_SomeD simp: map_of_eq_None_iff rev_image_eqI)
qed

lemma key_sorted_eqI:
  assumes "key_sorted xs" and "key_sorted ys" and "map_of xs = map_of ys"
  shows "xs = ys"
proof -
  have "set xs = set ys"
    using assms by (metis key_sorted_distinct map_of_eq_Some_iff subrelI subset_antisym)
  moreover have "sorted_wrt (\<lambda>p q. fst p < fst q) xs" "sorted_wrt (\<lambda>p q. fst p < fst q) ys"
    using assms(1,2) by (simp_all add: sorted_wrt_map)
  ultimately show ?thesis
  proof (induction xs arbitrary: ys)
    case (Cons x xs)
    then obtain y ys' where ys: "ys = y # ys'" by (cases ys) auto
    from Cons.prems ys have "x = y"
      by (metis insertE list.simps(15) not_less_iff_gr_or_eq sorted_wrt.simps(2) insertI1)
    moreover have "set xs = set ys'"
      using Cons.prems ys \<open>x = y\<close> by auto
    ultimately show ?case
      using Cons.IH [of ys'] Cons.prems ys by simp
  qed simp
qed

section \<open>The type of maps\<close>

typedef (overloaded) ('k::linorder, 'v) btree_map = "{es :: ('k \<times> 'v) list. key_sorted es}"
  morphisms bt_entries BTreeMap
  by (rule exI [of _ "[]"]) simp

setup_lifting type_definition_btree_map

lift_definition bt_empty :: "('k::linorder, 'v) btree_map" is "[]"
  by simp

lift_definition bt_get :: "('k::linorder, 'v) btree_map \<Rightarrow> 'k \<Rightarrow> 'v option" is map_of .

lift_definition bt_insert :: "'k::linorder \<Rightarrow> 'v \<Rightarrow> ('k, 'v) btree_map \<Rightarrow> ('k, 'v) btree_map"
  is ins_entry
  by (rule key_sorted_ins_entry)

lift_definition bt_retain :: "('k::linorder \<Rightarrow> 'v \<Rightarrow> bool) \<Rightarrow> ('k, 'v) btree_map \<Rightarrow> ('k, 'v) btree_map"
  is "\<lambda>P. filter (\<lambda>(k, v). P k v)"
  by (rule key_sorted_filter)

text \<open>\<open>values_mut\<close>: every value replaced, the keys kept.\<close>

lift_definition bt_map :: "('k::linorder \<Rightarrow> 'v \<Rightarrow> 'w) \<Rightarrow> ('k, 'v) btree_map \<Rightarrow> ('k, 'w) btree_map"
  is "\<lambda>f. map (\<lambda>(k, v). (k, f k v))"
  by (simp add: comp_def case_prod_beta)

definition bt_remove :: "'k::linorder \<Rightarrow> ('k, 'v) btree_map \<Rightarrow> ('k, 'v) btree_map" where
  "bt_remove k = bt_retain (\<lambda>k' _. k' \<noteq> k)"

definition bt_keys :: "('k::linorder, 'v) btree_map \<Rightarrow> 'k list" where
  "bt_keys m = map fst (bt_entries m)"

definition bt_values :: "('k::linorder, 'v) btree_map \<Rightarrow> 'v list" where
  "bt_values m = map snd (bt_entries m)"

definition bt_len :: "('k::linorder, 'v) btree_map \<Rightarrow> nat" where
  "bt_len m = length (bt_entries m)"

definition bt_contains :: "('k::linorder, 'v) btree_map \<Rightarrow> 'k \<Rightarrow> bool" where
  "bt_contains m k = (bt_get m k \<noteq> None)"

definition bt_is_empty :: "('k::linorder, 'v) btree_map \<Rightarrow> bool" where
  "bt_is_empty m = (bt_len m = 0)"

text \<open>\<open>get_mut\<close> followed by an assignment: nothing happens when the key is absent.\<close>

definition bt_update :: "'k::linorder \<Rightarrow> ('v \<Rightarrow> 'v) \<Rightarrow> ('k, 'v) btree_map \<Rightarrow> ('k, 'v) btree_map" where
  "bt_update k f m = (case bt_get m k of None \<Rightarrow> m | Some v \<Rightarrow> bt_insert k (f v) m)"

instantiation btree_map :: (linorder, equal) equal
begin

definition equal_btree_map :: "('a, 'b) btree_map \<Rightarrow> ('a, 'b) btree_map \<Rightarrow> bool" where
  "equal_btree_map m n \<longleftrightarrow>
     list_all2 (\<lambda>(k, v) (l, w). k \<le> l \<and> l \<le> k \<and> v = w) (bt_entries m) (bt_entries n)"

instance
proof
  fix m n :: "('a, 'b) btree_map"
  have "(\<lambda>(k, v) (l, w). k \<le> l \<and> l \<le> k \<and> v = w) = ((=) :: 'a \<times> 'b \<Rightarrow> 'a \<times> 'b \<Rightarrow> bool)"
    by (auto simp: fun_eq_iff)
  then show "HOL.equal m n = (m = n)"
    by (simp add: equal_btree_map_def list.rel_eq bt_entries_inject)
qed

end

subsection \<open>Lookup laws and extensionality\<close>

lemma key_sorted_entries [simp]: "key_sorted (bt_entries m)"
  using bt_entries [of m] by simp

lemma bt_eqI: "(\<And>k. bt_get m k = bt_get n k) \<Longrightarrow> m = n"
  by transfer (auto intro!: key_sorted_eqI)

lemma bt_get_empty [simp]: "bt_get bt_empty k = None"
  by transfer simp

lemma bt_get_insert: "bt_get (bt_insert k v m) k' = (if k' = k then Some v else bt_get m k')"
  by transfer (simp add: map_of_ins_entry)

lemma bt_get_insert_same [simp]: "bt_get (bt_insert k v m) k = Some v"
  by (simp add: bt_get_insert)

lemma bt_get_insert_other [simp]: "k' \<noteq> k \<Longrightarrow> bt_get (bt_insert k v m) k' = bt_get m k'"
  by (simp add: bt_get_insert)

lemma bt_get_retain: "bt_get (bt_retain P m) k =
    (case bt_get m k of None \<Rightarrow> None | Some v \<Rightarrow> if P k v then Some v else None)"
  by transfer (rule map_of_filter_key)

lemma bt_get_retain_Some [simp]:
  "bt_get (bt_retain P m) k = Some v \<longleftrightarrow> bt_get m k = Some v \<and> P k v"
  by (auto simp: bt_get_retain split: option.splits if_splits)

lemma bt_get_retain_None:
  "bt_get (bt_retain P m) k = None \<longleftrightarrow> (\<forall>v. bt_get m k = Some v \<longrightarrow> \<not> P k v)"
  by (auto simp: bt_get_retain split: option.splits)

lemma bt_get_remove: "bt_get (bt_remove k m) k' = (if k' = k then None else bt_get m k')"
  by (auto simp: bt_remove_def bt_get_retain split: option.split)

lemma bt_get_remove_same [simp]: "bt_get (bt_remove k m) k = None"
  by (simp add: bt_get_remove)

lemma bt_get_remove_other [simp]: "k' \<noteq> k \<Longrightarrow> bt_get (bt_remove k m) k' = bt_get m k'"
  by (simp add: bt_get_remove)

lemma bt_get_map [simp]: "bt_get (bt_map f m) k = map_option (f k) (bt_get m k)"
proof -
  have "map_of (map (\<lambda>(k, v). (k, f k v)) es) k = map_option (f k) (map_of es k)" for es
    by (induction es) auto
  then show ?thesis by transfer
qed

lemma bt_get_update:
  "bt_get (bt_update k f m) k' = (if k' = k then map_option f (bt_get m k) else bt_get m k')"
  by (auto simp: bt_update_def bt_get_insert split: option.split)

lemma bt_get_update_same [simp]: "bt_get (bt_update k f m) k = map_option f (bt_get m k)"
  by (simp add: bt_get_update)

lemma bt_get_update_other [simp]: "k' \<noteq> k \<Longrightarrow> bt_get (bt_update k f m) k' = bt_get m k'"
  by (simp add: bt_get_update)

subsection \<open>Entries, keys, values and sizes\<close>

lemma bt_entries_iff: "(k, v) \<in> set (bt_entries m) \<longleftrightarrow> bt_get m k = Some v"
  by transfer (simp add: map_of_eq_Some_iff key_sorted_distinct)

lemma bt_keys_iff [simp]: "k \<in> set (bt_keys m) \<longleftrightarrow> bt_get m k \<noteq> None"
  unfolding bt_keys_def using bt_entries_iff [of k _ m] by force

lemma set_bt_keys: "set (bt_keys m) = dom (bt_get m)"
  by auto

lemma bt_values_iff [simp]: "v \<in> set (bt_values m) \<longleftrightarrow> (\<exists>k. bt_get m k = Some v)"
  unfolding bt_values_def using bt_entries_iff [of _ v m] by force

lemma distinct_bt_keys [simp]: "distinct (bt_keys m)"
  by (simp add: bt_keys_def key_sorted_distinct)

lemma distinct_bt_entries [simp]: "distinct (bt_entries m)"
  using distinct_bt_keys [of m] by (simp add: bt_keys_def distinct_map)

lemma sorted_bt_keys [simp]: "sorted (bt_keys m)"
  using strict_sorted_iff [of "bt_keys m"] by (simp add: bt_keys_def)

lemma length_bt_keys [simp]: "length (bt_keys m) = bt_len m"
  by (simp add: bt_keys_def bt_len_def)

lemma length_bt_values [simp]: "length (bt_values m) = bt_len m"
  by (simp add: bt_values_def bt_len_def)

lemma bt_len_card: "bt_len m = card (dom (bt_get m))"
  using distinct_card [OF distinct_bt_keys, of m] by (simp add: set_bt_keys)

lemma finite_dom_bt_get [simp]: "finite (dom (bt_get m))"
  by (metis List.finite_set set_bt_keys)

lemma bt_contains_iff [simp]: "bt_contains m k \<longleftrightarrow> bt_get m k \<noteq> None"
  by (simp add: bt_contains_def)

lemma bt_len_empty [simp]: "bt_len bt_empty = 0"
  by (simp add: bt_len_def bt_empty.rep_eq)

lemma bt_len_0 [simp]: "bt_len m = 0 \<longleftrightarrow> m = bt_empty"
  by (metis bt_eqI bt_get_empty bt_len_card bt_len_empty card_0_eq dom_eq_empty_conv finite_dom_bt_get)

lemma bt_is_empty_iff [simp]: "bt_is_empty m \<longleftrightarrow> m = bt_empty"
  by (simp add: bt_is_empty_def)

lemma bt_len_insert:
  "bt_len (bt_insert k v m) = (if bt_get m k = None then Suc (bt_len m) else bt_len m)"
proof -
  have "dom (bt_get (bt_insert k v m)) = insert k (dom (bt_get m))"
    by (auto simp: bt_get_insert split: if_splits)
  then show ?thesis by (simp add: bt_len_card card_insert_if domIff)
qed

lemma bt_len_update [simp]: "bt_len (bt_update k f m) = bt_len m"
  by (simp add: bt_update_def bt_len_insert split: option.split)

lemma bt_len_map [simp]: "bt_len (bt_map f m) = bt_len m"
  by (simp add: bt_len_def bt_map.rep_eq)

lemma bt_len_mono: "dom (bt_get m) \<subseteq> dom (bt_get n) \<Longrightarrow> bt_len m \<le> bt_len n"
  by (simp add: bt_len_card card_mono)

lemma bt_len_retain: "bt_len (bt_retain P m) \<le> bt_len m"
  by (simp add: bt_len_def bt_retain.rep_eq)

lemma bt_len_remove: "bt_len (bt_remove k m) = (if bt_get m k = None then bt_len m else bt_len m - 1)"
proof -
  have "dom (bt_get (bt_remove k m)) = dom (bt_get m) - {k}"
    by (auto simp: bt_get_remove split: if_splits)
  then show ?thesis by (simp add: bt_len_card domIff)
qed

lemma bt_len_pos: "bt_get m k = Some v \<Longrightarrow> 0 < bt_len m"
  using bt_len_0 [of m] by fastforce

lemma bt_insert_absorb: "bt_get m k = Some v \<Longrightarrow> bt_insert k v m = m"
  by (rule bt_eqI) (simp add: bt_get_insert)

lemma bt_remove_absent: "bt_get m k = None \<Longrightarrow> bt_remove k m = m"
  by (rule bt_eqI) (auto simp: bt_get_remove)

lemma bt_retain_all: "(\<And>k v. bt_get m k = Some v \<Longrightarrow> P k v) \<Longrightarrow> bt_retain P m = m"
  by (rule bt_eqI) (auto simp: bt_get_retain split: option.split)

lemma bt_remove_insert [simp]: "bt_remove k (bt_insert k v m) = bt_remove k m"
  by (rule bt_eqI) (simp add: bt_get_remove)

section \<open>Sums over maps\<close>

text \<open>Byte and owner accounting sum a measure over the values of a map.\<close>

definition bt_sum :: "('k::linorder \<Rightarrow> 'v \<Rightarrow> nat) \<Rightarrow> ('k, 'v) btree_map \<Rightarrow> nat" where
  "bt_sum f m = (\<Sum>(k, v) \<leftarrow> bt_entries m. f k v)"

lemma bt_sum_dom: "bt_sum f m = (\<Sum>k \<in> dom (bt_get m). f k (the (bt_get m k)))"
proof -
  have "bt_sum f m = sum (\<lambda>(k, v). f k v) (set (bt_entries m))"
    by (simp add: bt_sum_def sum_list_distinct_conv_sum_set)
  also have "set (bt_entries m) = (\<lambda>k. (k, the (bt_get m k))) ` dom (bt_get m)"
    by (auto simp: bt_entries_iff image_iff)
  also have "sum (\<lambda>(k, v). f k v) \<dots> = (\<Sum>k \<in> dom (bt_get m). f k (the (bt_get m k)))"
    by (subst sum.reindex) (auto simp: inj_on_def)
  finally show ?thesis .
qed

lemma bt_sum_empty [simp]: "bt_sum f bt_empty = 0"
  by (simp add: bt_sum_def bt_empty.rep_eq)

lemma bt_sum_remove:
  "bt_get m k = Some v \<Longrightarrow> bt_sum f m = f k v + bt_sum f (bt_remove k m)"
proof -
  assume v: "bt_get m k = Some v"
  have dom: "dom (bt_get (bt_remove k m)) = dom (bt_get m) - {k}"
    by (auto simp: bt_get_remove split: if_splits)
  have "bt_sum f m = f k v + (\<Sum>k' \<in> dom (bt_get m) - {k}. f k' (the (bt_get m k')))"
    using v by (subst bt_sum_dom, subst sum.remove [of _ k]) auto
  also have "(\<Sum>k' \<in> dom (bt_get m) - {k}. f k' (the (bt_get m k'))) = bt_sum f (bt_remove k m)"
    unfolding bt_sum_dom dom by (intro sum.cong) auto
  finally show ?thesis .
qed

lemma bt_sum_insert: "bt_sum f (bt_insert k v m) = f k v + bt_sum f (bt_remove k m)"
  using bt_sum_remove [of "bt_insert k v m" k v f] by simp

lemma bt_sum_insert_add:
  "bt_sum f (bt_insert k v m) + (case bt_get m k of None \<Rightarrow> 0 | Some w \<Rightarrow> f k w) = f k v + bt_sum f m"
  by (auto simp: bt_sum_insert bt_remove_absent bt_sum_remove split: option.split)

subsection \<open>Counting values\<close>

definition bt_count :: "('v \<Rightarrow> bool) \<Rightarrow> ('k::linorder, 'v) btree_map \<Rightarrow> nat" where
  "bt_count P m = length (filter P (bt_values m))"

lemma bt_sum_retain_le: "bt_sum f (bt_retain P m) \<le> bt_sum f m"
proof -
  have "bt_sum f (bt_retain P m) = (\<Sum>k \<in> dom (bt_get (bt_retain P m)). f k (the (bt_get m k)))"
    unfolding bt_sum_dom by (intro sum.cong refl) (auto simp: bt_get_retain split: option.splits if_splits)
  also have "\<dots> \<le> bt_sum f m" unfolding bt_sum_dom by (intro sum_mono2) auto
  finally show ?thesis .
qed

lemma bt_count_sum: "bt_count P m = bt_sum (\<lambda>_ v. of_bool (P v)) m"
proof -
  have "length (filter P (map snd es)) = (\<Sum>(k, v) \<leftarrow> es. of_bool (P v))"
    for es
    by (induction es) auto
  then show ?thesis by (simp add: bt_count_def bt_values_def bt_sum_def)
qed

lemma bt_count_card: "bt_count P m = card {k. \<exists>v. bt_get m k = Some v \<and> P v}"
proof -
  have "bt_count P m = (\<Sum>k \<in> dom (bt_get m). of_bool (P (the (bt_get m k))))"
    by (simp add: bt_count_sum bt_sum_dom)
  also have "\<dots> = card {k \<in> dom (bt_get m). P (the (bt_get m k))}"
    by (simp add: sum.If_cases of_bool_def Int_def)
  also have "{k \<in> dom (bt_get m). P (the (bt_get m k))} = {k. \<exists>v. bt_get m k = Some v \<and> P v}"
    by auto
  finally show ?thesis .
qed

lemma bt_count_empty [simp]: "bt_count P bt_empty = 0"
  by (simp add: bt_count_sum)

lemma bt_count_insert:
  "bt_count P (bt_insert k v m) + (case bt_get m k of None \<Rightarrow> 0 | Some w \<Rightarrow> of_bool (P w)) =
     of_bool (P v) + bt_count P m"
  unfolding bt_count_sum by (rule bt_sum_insert_add)

lemma bt_count_mono:
  assumes "\<And>k v. bt_get m k = Some v \<Longrightarrow> P v \<Longrightarrow> \<exists>w. bt_get n k = Some w \<and> Q w"
  shows "bt_count P m \<le> bt_count Q n"
  unfolding bt_count_card
proof (rule card_mono)
  have "{k. \<exists>v. bt_get n k = Some v \<and> Q v} \<subseteq> dom (bt_get n)" by auto
  then show "finite {k. \<exists>v. bt_get n k = Some v \<and> Q v}"
    by (rule finite_subset) simp
  show "{k. \<exists>v. bt_get m k = Some v \<and> P v} \<subseteq> {k. \<exists>v. bt_get n k = Some v \<and> Q v}"
    using assms by auto
qed

lemma bt_get_fold_remove:
  "bt_get (fold bt_remove ks m) k = (if k \<in> set ks then None else bt_get m k)"
  by (induction ks arbitrary: m) (auto simp: bt_get_remove)

section \<open>Sets\<close>

type_synonym 'k btree_set = "('k, unit) btree_map"

definition bs_member :: "'k::linorder \<Rightarrow> 'k btree_set \<Rightarrow> bool" where
  "bs_member k s = bt_contains s k"

definition bs_insert :: "'k::linorder \<Rightarrow> 'k btree_set \<Rightarrow> 'k btree_set" where
  "bs_insert k = bt_insert k ()"

definition bs_remove :: "'k::linorder \<Rightarrow> 'k btree_set \<Rightarrow> 'k btree_set" where
  "bs_remove = bt_remove"

definition bs_retain :: "('k::linorder \<Rightarrow> bool) \<Rightarrow> 'k btree_set \<Rightarrow> 'k btree_set" where
  "bs_retain P = bt_retain (\<lambda>k _. P k)"

definition bs_of_list :: "'k::linorder list \<Rightarrow> 'k btree_set" where
  "bs_of_list ks = fold bs_insert ks bt_empty"

definition bs_set :: "'k::linorder btree_set \<Rightarrow> 'k set" where
  "bs_set s = {k. bt_contains s k}"

abbreviation bs_list :: "'k::linorder btree_set \<Rightarrow> 'k list" where
  "bs_list \<equiv> bt_keys"

lemma bs_member_iff [simp]: "bs_member k s \<longleftrightarrow> k \<in> bs_set s"
  by (simp add: bs_member_def bs_set_def)

lemma set_bs_list [simp]: "set (bs_list s) = bs_set s"
  by (auto simp: bs_set_def)

lemma bs_set_empty [simp]: "bs_set bt_empty = {}"
  by (simp add: bs_set_def)

lemma bs_set_insert [simp]: "bs_set (bs_insert k s) = insert k (bs_set s)"
  by (auto simp: bs_set_def bs_insert_def bt_get_insert)

lemma bs_set_remove [simp]: "bs_set (bs_remove k s) = bs_set s - {k}"
  by (auto simp: bs_set_def bs_remove_def bt_get_remove)

lemma bs_set_retain [simp]: "bs_set (bs_retain P s) = {k \<in> bs_set s. P k}"
  by (auto simp: bs_set_def bs_retain_def bt_get_retain split: option.splits if_splits)

lemma bs_set_fold_insert: "bs_set (fold bs_insert ks s) = set ks \<union> bs_set s"
  by (induction ks arbitrary: s) auto

lemma bs_set_of_list [simp]: "bs_set (bs_of_list ks) = set ks"
  by (simp add: bs_of_list_def bs_set_fold_insert)

lemma bs_set_dom: "bs_set s = dom (bt_get s)"
  by (auto simp: bs_set_def)

lemma finite_bs_set [simp]: "finite (bs_set s)"
  by (simp add: bs_set_dom)

lemma bs_len_card: "bt_len s = card (bs_set s)"
  by (simp add: bt_len_card bs_set_dom)

lemma bs_eqI: "bs_set s = bs_set t \<Longrightarrow> s = t"
proof (rule bt_eqI)
  fix k
  assume "bs_set s = bs_set t"
  then have "k \<in> bs_set s \<longleftrightarrow> k \<in> bs_set t" by simp
  then show "bt_get s k = bt_get t k"
    by (cases "bt_get s k"; cases "bt_get t k") (auto simp: bs_set_dom)
qed

lemma bs_empty_iff: "s = bt_empty \<longleftrightarrow> bs_set s = {}"
  by (metis bs_eqI bs_set_empty)

end
