(* ===== verification/Float64.thy ===== *)
theory Float64
  imports Prelude "HOL-Library.Log_Nat" Complex_Main
begin

text \<open>
  Binary64 arithmetic (\<open>f64\<close>) as the spatial code uses it. A finite double is its rational value;
  every operation computes the exact rational result and rounds it to the nearest representable
  value, ties to even, overflowing to an infinity. The sign of zero is not represented: the source
  divides only by validated positive numbers and compares with the usual operators, so it cannot
  observe it.
\<close>

section \<open>Values and rounding\<close>

datatype f64 = Fin rat | PInf | NInf | NaN

definition pow2 :: "int \<Rightarrow> rat" where
  "pow2 k = (if 0 \<le> k then 2 ^ nat k else 1 / 2 ^ nat (- k))"

text \<open>The binary exponent of a positive rational: \<open>2 ^ k \<le> q < 2 ^ (k + 1)\<close>.\<close>

definition exponent_of :: "rat \<Rightarrow> int" where
  "exponent_of q =
     (let (n, d) = quotient_of q;
          k = int (floorlog 2 (nat n)) - int (floorlog 2 (nat d))
      in if pow2 k \<le> q then k else k - 1)"

definition round_half_even :: "rat \<Rightarrow> int" where
  "round_half_even q =
     (let f = \<lfloor>q\<rfloor>; r = q - of_int f
      in if r < 1 / 2 then f else if 1 / 2 < r then f + 1 else if even f then f else f + 1)"

definition f64_round :: "rat \<Rightarrow> f64" where
  "f64_round q =
     (if q = 0 then Fin 0
      else let e = max (exponent_of \<bar>q\<bar>) (- 1022);
               u = pow2 (e - 52);
               r = of_int (round_half_even (\<bar>q\<bar> / u)) * u
           in if pow2 1024 \<le> r then (if 0 < q then PInf else NInf) else Fin (sgn q * r))"

section \<open>Predicates and comparisons\<close>

fun f64_is_finite :: "f64 \<Rightarrow> bool" where
  "f64_is_finite (Fin _) = True"
| "f64_is_finite _ = False"

fun f64_le :: "f64 \<Rightarrow> f64 \<Rightarrow> bool" where
  "f64_le NaN _ = False"
| "f64_le _ NaN = False"
| "f64_le NInf _ = True"
| "f64_le _ PInf = True"
| "f64_le (Fin a) (Fin b) = (a \<le> b)"
| "f64_le _ _ = False"

fun f64_lt :: "f64 \<Rightarrow> f64 \<Rightarrow> bool" where
  "f64_lt NaN _ = False"
| "f64_lt _ NaN = False"
| "f64_lt NInf b = (b \<noteq> NInf)"
| "f64_lt a PInf = (a \<noteq> PInf)"
| "f64_lt (Fin a) (Fin b) = (a < b)"
| "f64_lt _ _ = False"

text \<open>The derived \<open>PartialEq\<close> of a double: \<open>NaN\<close> is not equal to itself.\<close>

definition f64_eq :: "f64 \<Rightarrow> f64 \<Rightarrow> bool" where
  "f64_eq a b \<longleftrightarrow> a \<noteq> NaN \<and> a = b"

section \<open>Arithmetic\<close>

fun f64_neg :: "f64 \<Rightarrow> f64" where
  "f64_neg (Fin a) = Fin (- a)"
| "f64_neg PInf = NInf"
| "f64_neg NInf = PInf"
| "f64_neg NaN = NaN"

fun f64_abs :: "f64 \<Rightarrow> f64" where
  "f64_abs (Fin a) = Fin \<bar>a\<bar>"
| "f64_abs NaN = NaN"
| "f64_abs _ = PInf"

fun f64_add :: "f64 \<Rightarrow> f64 \<Rightarrow> f64" where
  "f64_add (Fin a) (Fin b) = f64_round (a + b)"
| "f64_add NaN _ = NaN"
| "f64_add _ NaN = NaN"
| "f64_add PInf NInf = NaN"
| "f64_add NInf PInf = NaN"
| "f64_add PInf _ = PInf"
| "f64_add _ PInf = PInf"
| "f64_add NInf _ = NInf"
| "f64_add _ NInf = NInf"

definition f64_sub :: "f64 \<Rightarrow> f64 \<Rightarrow> f64" where
  "f64_sub a b = f64_add a (f64_neg b)"

definition f64_signum :: "f64 \<Rightarrow> rat" where
  "f64_signum a = (case a of Fin q \<Rightarrow> sgn q | PInf \<Rightarrow> 1 | NInf \<Rightarrow> - 1 | NaN \<Rightarrow> 0)"

definition f64_inf_of :: "rat \<Rightarrow> f64" where
  "f64_inf_of s = (if s = 0 then NaN else if 0 < s then PInf else NInf)"

fun f64_mul :: "f64 \<Rightarrow> f64 \<Rightarrow> f64" where
  "f64_mul (Fin a) (Fin b) = f64_round (a * b)"
| "f64_mul NaN _ = NaN"
| "f64_mul _ NaN = NaN"
| "f64_mul a b = f64_inf_of (f64_signum a * f64_signum b)"

fun f64_div :: "f64 \<Rightarrow> f64 \<Rightarrow> f64" where
  "f64_div (Fin a) (Fin b) = (if b = 0 then f64_inf_of (sgn a) else f64_round (a / b))"
| "f64_div NaN _ = NaN"
| "f64_div _ NaN = NaN"
| "f64_div (Fin a) _ = Fin 0"
| "f64_div a (Fin b) = f64_inf_of (f64_signum a * (if b < 0 then - 1 else 1))"
| "f64_div _ _ = NaN"

text \<open>\<open>f64::max\<close> ignores a \<open>NaN\<close> operand.\<close>

definition f64_max :: "f64 \<Rightarrow> f64 \<Rightarrow> f64" where
  "f64_max a b = (if a = NaN then b else if b = NaN then a else if f64_le a b then b else a)"

text \<open>The integral value next to a finite double is representable, so no rounding is needed.\<close>

fun f64_floor :: "f64 \<Rightarrow> f64" where
  "f64_floor (Fin a) = Fin (of_int \<lfloor>a\<rfloor>)"
| "f64_floor a = a"

fun f64_ceil :: "f64 \<Rightarrow> f64" where
  "f64_ceil (Fin a) = Fin (of_int \<lceil>a\<rceil>)"
| "f64_ceil a = a"

text \<open>Casts: \<open>as f64\<close> of an unsigned integer rounds; \<open>as i64\<close> truncates and saturates.\<close>

definition f64_of_nat :: "nat \<Rightarrow> f64" where
  "f64_of_nat n = f64_round (of_nat n)"

definition i64_min :: int where "i64_min = - (2 ^ 63)"

definition i64_max :: int where "i64_max = 2 ^ 63 - 1"

definition trunc_rat :: "rat \<Rightarrow> int" where
  "trunc_rat q = (if 0 \<le> q then \<lfloor>q\<rfloor> else \<lceil>q\<rceil>)"

fun f64_to_i64 :: "f64 \<Rightarrow> int" where
  "f64_to_i64 (Fin a) = max i64_min (min i64_max (trunc_rat a))"
| "f64_to_i64 PInf = i64_max"
| "f64_to_i64 NInf = i64_min"
| "f64_to_i64 NaN = 0"

section \<open>Facts\<close>

lemma f64_is_finite_iff: "f64_is_finite x \<longleftrightarrow> (\<exists>q. x = Fin q)"
  by (cases x) auto

lemma f64_lt_Fin_iff [simp]: "f64_lt (Fin a) (Fin b) \<longleftrightarrow> a < b"
  by simp

lemma f64_le_refl: "x \<noteq> NaN \<Longrightarrow> f64_le x x"
  by (cases x) auto

lemma f64_round_0 [simp]: "f64_round 0 = Fin 0"
  by (simp add: f64_round_def)

lemma f64_sub_self: "f64_is_finite x \<Longrightarrow> f64_sub x x = Fin 0"
  by (auto simp: f64_is_finite_iff f64_sub_def)

lemma i64_of_floor:
  assumes "- (2 ^ 63) \<le> q" and "q < 2 ^ 63" and "q = of_int \<lfloor>p\<rfloor>"
  shows "f64_to_i64 (Fin q) = \<lfloor>p\<rfloor>"
proof -
  have lo: "- (2 ^ 63) \<le> \<lfloor>p\<rfloor>"
    using assms(1,3) by (metis of_int_le_iff of_int_minus of_int_numeral of_int_power)
  have hi: "\<lfloor>p\<rfloor> < 2 ^ 63"
    using assms(2,3) by (metis of_int_less_iff of_int_numeral of_int_power)
  have "trunc_rat q = \<lfloor>p\<rfloor>"
    using assms(3) by (simp add: trunc_rat_def)
  with lo hi show ?thesis by (simp add: i64_min_def i64_max_def)
qed

end
