(* ===== verification/Model.thy ===== *)
theory Model
  imports BTree_Map Float64
begin

text \<open>
  The identifiers (\<open>ids.rs\<close>) and the message and space model (\<open>model.rs\<close>) of the core crate.
  Structures that are keys of ordered maps are single-constructor datatypes with the derived
  (lexicographic) order of the source; the other structures are records.
\<close>

section \<open>Identifiers (ids.rs)\<close>

type_synonym NamespaceId = u64
type_synonym SessionId = u64
type_synonym SpaceId = u64
type_synonym EntityId = u64
type_synonym ConnectionId = u64
type_synonym PrincipalId = u64
type_synonym ChannelId = u64
type_synonym SpaceEpoch = u64
type_synonym NodeId = u64

datatype SessionKey = SessionKey (sk_namespace: NamespaceId) (sk_session: SessionId)

datatype SpaceKey = SpaceKey (spk_session: SessionKey) (spk_space: SpaceId)

definition session_key_tuple :: "SessionKey \<Rightarrow> u64 \<times> u64" where
  "session_key_tuple k = (sk_namespace k, sk_session k)"

instantiation SessionKey :: linorder
begin

definition less_eq_SessionKey :: "SessionKey \<Rightarrow> SessionKey \<Rightarrow> bool" where
  "less_eq_SessionKey a b \<longleftrightarrow> session_key_tuple a \<le> session_key_tuple b"

definition less_SessionKey :: "SessionKey \<Rightarrow> SessionKey \<Rightarrow> bool" where
  "less_SessionKey a b \<longleftrightarrow> session_key_tuple a < session_key_tuple b"

instance
  by standard
    (auto simp: less_eq_SessionKey_def less_SessionKey_def session_key_tuple_def
      intro: SessionKey.expand)

end

definition space_key_tuple :: "SpaceKey \<Rightarrow> SessionKey \<times> u64" where
  "space_key_tuple k = (spk_session k, spk_space k)"

instantiation SpaceKey :: linorder
begin

definition less_eq_SpaceKey :: "SpaceKey \<Rightarrow> SpaceKey \<Rightarrow> bool" where
  "less_eq_SpaceKey a b \<longleftrightarrow> space_key_tuple a \<le> space_key_tuple b"

definition less_SpaceKey :: "SpaceKey \<Rightarrow> SpaceKey \<Rightarrow> bool" where
  "less_SpaceKey a b \<longleftrightarrow> space_key_tuple a < space_key_tuple b"

instance
  by standard
    (auto simp: less_eq_SpaceKey_def less_SpaceKey_def space_key_tuple_def
      intro: SpaceKey.expand)

end

section \<open>Delivery and persistence classes (model.rs)\<close>

datatype DeliveryClass =
    ReliableOrdered
  | ReliableUnordered
  | LatestValue
  | UnreliableSequenced
  | BestEffortEvent

definition is_critical :: "DeliveryClass \<Rightarrow> bool" where
  "is_critical d \<longleftrightarrow> d = ReliableOrdered \<or> d = ReliableUnordered"

definition is_replaceable :: "DeliveryClass \<Rightarrow> bool" where
  "is_replaceable d \<longleftrightarrow> d = LatestValue \<or> d = UnreliableSequenced"

datatype PersistenceClass = Ephemeral | Stateful "Duration option" | Durable

fun same_kind :: "PersistenceClass \<Rightarrow> PersistenceClass \<Rightarrow> bool" where
  "same_kind Ephemeral Ephemeral = True"
| "same_kind (Stateful _) (Stateful _) = True"
| "same_kind Durable Durable = True"
| "same_kind _ _ = False"

fun is_stateful :: "PersistenceClass \<Rightarrow> bool" where
  "is_stateful (Stateful _) = True"
| "is_stateful _ = False"

section \<open>Spaces and positions\<close>

datatype CoordinateFrame =
    FrameLogical
  | FrameCartesian2D f64
  | FrameCartesian3D f64

record SpatialBounds3D =
  min_x :: f64
  min_y :: f64
  min_z :: f64
  max_x :: f64
  max_y :: f64
  max_z :: f64

definition bounds_contains :: "SpatialBounds3D \<Rightarrow> f64 \<Rightarrow> f64 \<Rightarrow> f64 \<Rightarrow> bool" where
  "bounds_contains b x y z \<longleftrightarrow>
     f64_le (min_x b) x \<and> f64_le x (max_x b)
   \<and> f64_le (min_y b) y \<and> f64_le y (max_y b)
   \<and> f64_le (min_z b) z \<and> f64_le z (max_z b)"

definition bounds_is_valid :: "SpatialBounds3D \<Rightarrow> bool" where
  "bounds_is_valid b \<longleftrightarrow>
     f64_is_finite (min_x b) \<and> f64_is_finite (min_y b) \<and> f64_is_finite (min_z b)
   \<and> f64_is_finite (max_x b) \<and> f64_is_finite (max_y b) \<and> f64_is_finite (max_z b)
   \<and> f64_lt (min_x b) (max_x b) \<and> f64_lt (min_y b) (max_y b) \<and> f64_lt (min_z b) (max_z b)"

datatype EntityPosition =
    PosCartesian2D f64 f64
  | PosCartesian3D f64 f64 f64

datatype PositionValidationError =
    LogicalFrame
  | DimensionMismatch
  | NonFiniteCoordinate
  | OutOfBounds

fun position_is_finite :: "EntityPosition \<Rightarrow> bool" where
  "position_is_finite (PosCartesian2D x y) = (f64_is_finite x \<and> f64_is_finite y)"
| "position_is_finite (PosCartesian3D x y z) =
     (f64_is_finite x \<and> f64_is_finite y \<and> f64_is_finite z)"

fun dimensions_match :: "EntityPosition \<Rightarrow> CoordinateFrame \<Rightarrow> bool" where
  "dimensions_match (PosCartesian2D _ _) (FrameCartesian2D _) = True"
| "dimensions_match (PosCartesian3D _ _ _) (FrameCartesian3D _) = True"
| "dimensions_match _ _ = False"

definition validate_for_frame ::
  "EntityPosition \<Rightarrow> CoordinateFrame \<Rightarrow> PositionValidationError + unit" where
  "validate_for_frame p frame =
     (if frame = FrameLogical then Inl LogicalFrame
      else if \<not> dimensions_match p frame then Inl DimensionMismatch
      else if position_is_finite p then Inr ()
      else Inl NonFiniteCoordinate)"

datatype ParentAnchor = ParentAnchor (parent_space: SpaceId) (anchor_entity: EntityId)

datatype RoutingPolicy =
    BroadcastAll
  | SpatialGrid2D f64 f64 bool  \<comment> \<open>cell size, interest radius, exact distance\<close>
  | SpatialGrid3D f64 f64 bool
  | TopicOnly

record SpaceDescriptor =
  sd_id :: SpaceId
  sd_local_frame :: CoordinateFrame
  sd_bounds :: "SpatialBounds3D option"
  sd_parent :: "ParentAnchor option"
  sd_epoch :: SpaceEpoch
  sd_routing :: RoutingPolicy

datatype SpaceValidationError =
    ZeroSpaceId
  | ZeroEpoch
  | ZeroParentSpaceId
  | ZeroAnchorEntityId
  | SelfParent
  | InvalidScale
  | InvalidBounds
  | BoundsDimensionMismatch
  | RoutingDimensionMismatch

definition validate_positive_finite :: "f64 \<Rightarrow> SpaceValidationError + unit" where
  "validate_positive_finite v =
     (if f64_is_finite v \<and> f64_lt (Fin 0) v then Inr () else Inl InvalidScale)"

fun frame_is_2d :: "CoordinateFrame \<Rightarrow> bool" where
  "frame_is_2d (FrameCartesian2D _) = True"
| "frame_is_2d _ = False"

fun frame_is_3d :: "CoordinateFrame \<Rightarrow> bool" where
  "frame_is_3d (FrameCartesian3D _) = True"
| "frame_is_3d _ = False"

definition validate_parent :: "SpaceId \<Rightarrow> ParentAnchor option \<Rightarrow> SpaceValidationError + unit" where
  "validate_parent self parent =
     (case parent of
        None \<Rightarrow> Inr ()
      | Some p \<Rightarrow>
          if parent_space p = 0 then Inl ZeroParentSpaceId
          else if anchor_entity p = 0 then Inl ZeroAnchorEntityId
          else if parent_space p = self then Inl SelfParent
          else Inr ())"

fun validate_frame :: "CoordinateFrame \<Rightarrow> SpaceValidationError + unit" where
  "validate_frame FrameLogical = Inr ()"
| "validate_frame (FrameCartesian2D m) = validate_positive_finite m"
| "validate_frame (FrameCartesian3D m) = validate_positive_finite m"

definition validate_bounds ::
  "CoordinateFrame \<Rightarrow> SpatialBounds3D option \<Rightarrow> SpaceValidationError + unit" where
  "validate_bounds frame bounds =
     (case bounds of
        None \<Rightarrow> Inr ()
      | Some b \<Rightarrow>
          if \<not> frame_is_3d frame then Inl BoundsDimensionMismatch
          else if \<not> bounds_is_valid b then Inl InvalidBounds
          else Inr ())"

fun validate_routing :: "CoordinateFrame \<Rightarrow> RoutingPolicy \<Rightarrow> SpaceValidationError + unit" where
  "validate_routing frame BroadcastAll = Inr ()"
| "validate_routing frame TopicOnly = Inr ()"
| "validate_routing frame (SpatialGrid2D cell radius _) =
     (if \<not> frame_is_2d frame then Inl RoutingDimensionMismatch
      else and_then (validate_positive_finite cell) (\<lambda>_. validate_positive_finite radius))"
| "validate_routing frame (SpatialGrid3D cell radius _) =
     (if \<not> frame_is_3d frame then Inl RoutingDimensionMismatch
      else and_then (validate_positive_finite cell) (\<lambda>_. validate_positive_finite radius))"

definition validate_space :: "SpaceDescriptor \<Rightarrow> SpaceValidationError + unit" where
  "validate_space d =
     (if sd_id d = 0 then Inl ZeroSpaceId
      else if sd_epoch d = 0 then Inl ZeroEpoch
      else and_then (validate_parent (sd_id d) (sd_parent d)) (\<lambda>_.
           and_then (validate_frame (sd_local_frame d)) (\<lambda>_.
           and_then (validate_bounds (sd_local_frame d) (sd_bounds d)) (\<lambda>_.
           validate_routing (sd_local_frame d) (sd_routing d)))))"

definition validate_position ::
  "SpaceDescriptor \<Rightarrow> EntityPosition \<Rightarrow> PositionValidationError + unit" where
  "validate_position d p =
     and_then (validate_for_frame p (sd_local_frame d)) (\<lambda>_.
       case (sd_bounds d, p) of
         (Some b, PosCartesian3D x y z) \<Rightarrow>
           if bounds_contains b x y z then Inr () else Inl OutOfBounds
       | _ \<Rightarrow> Inr ())"

section \<open>Messages\<close>

datatype CoalesceKey =
  CoalesceKey (ck_channel: ChannelId) (ck_entity: "EntityId option") (ck_component: u64)

datatype ScopedCoalesceKey =
  ScopedCoalesceKey (sck_namespace: NamespaceId) (sck_session: SessionId) (sck_space: SpaceId)
    (sck_space_epoch: SpaceEpoch) (sck_application: CoalesceKey)

definition coalesce_key_tuple :: "CoalesceKey \<Rightarrow> u64 \<times> u64 option \<times> u64" where
  "coalesce_key_tuple k = (ck_channel k, ck_entity k, ck_component k)"

instantiation CoalesceKey :: linorder
begin

definition less_eq_CoalesceKey :: "CoalesceKey \<Rightarrow> CoalesceKey \<Rightarrow> bool" where
  "less_eq_CoalesceKey a b \<longleftrightarrow> coalesce_key_tuple a \<le> coalesce_key_tuple b"

definition less_CoalesceKey :: "CoalesceKey \<Rightarrow> CoalesceKey \<Rightarrow> bool" where
  "less_CoalesceKey a b \<longleftrightarrow> coalesce_key_tuple a < coalesce_key_tuple b"

instance
  by standard
    (auto simp: less_eq_CoalesceKey_def less_CoalesceKey_def coalesce_key_tuple_def
      intro: CoalesceKey.expand)

end

definition scoped_key_tuple :: "ScopedCoalesceKey \<Rightarrow> u64 \<times> u64 \<times> u64 \<times> u64 \<times> CoalesceKey" where
  "scoped_key_tuple k =
     (sck_namespace k, sck_session k, sck_space k, sck_space_epoch k, sck_application k)"

instantiation ScopedCoalesceKey :: linorder
begin

definition less_eq_ScopedCoalesceKey :: "ScopedCoalesceKey \<Rightarrow> ScopedCoalesceKey \<Rightarrow> bool" where
  "less_eq_ScopedCoalesceKey a b \<longleftrightarrow> scoped_key_tuple a \<le> scoped_key_tuple b"

definition less_ScopedCoalesceKey :: "ScopedCoalesceKey \<Rightarrow> ScopedCoalesceKey \<Rightarrow> bool" where
  "less_ScopedCoalesceKey a b \<longleftrightarrow> scoped_key_tuple a < scoped_key_tuple b"

instance
  by standard
    (auto simp: less_eq_ScopedCoalesceKey_def less_ScopedCoalesceKey_def scoped_key_tuple_def
      intro: ScopedCoalesceKey.expand)

end

record OutboundMessage =
  om_namespace :: NamespaceId
  om_session :: SessionId
  om_space :: SpaceId
  om_space_epoch :: SpaceEpoch
  om_entity :: "EntityId option"
  om_channel :: ChannelId
  om_sequence :: u64
  om_delivery :: DeliveryClass
  om_persistence :: PersistenceClass
  om_coalesce_key :: "CoalesceKey option"
  om_routing_position :: "EntityPosition option"
  om_payload :: "u8 list"

definition scoped_coalesce_key :: "OutboundMessage \<Rightarrow> ScopedCoalesceKey option" where
  "scoped_coalesce_key m =
     map_option (ScopedCoalesceKey (om_namespace m) (om_session m) (om_space m) (om_space_epoch m))
       (om_coalesce_key m)"

section \<open>Snapshots\<close>

record SpaceSnapshot =
  ss_descriptor :: SpaceDescriptor

record EntitySnapshot =
  es_id :: EntityId
  es_owner_connection :: ConnectionId
  es_owner_principal :: PrincipalId
  es_space :: SpaceId
  es_space_epoch :: SpaceEpoch

record StateSnapshot =
  st_space :: SpaceId
  st_space_epoch :: SpaceEpoch
  st_entity :: "EntityId option"
  st_channel :: ChannelId
  st_component :: u64
  st_sequence :: u64
  st_payload :: "u8 list"

record SessionSnapshot =
  sn_key :: SessionKey
  sn_member_count :: usize
  sn_subscription_count :: usize
  sn_state_bytes :: usize
  sn_spaces :: "SpaceSnapshot list"
  sn_entities :: "EntitySnapshot list"
  sn_state :: "StateSnapshot list"

section \<open>Properties\<close>

lemma delivery_trichotomy:
  "is_critical d \<and> \<not> is_replaceable d \<and> d \<noteq> BestEffortEvent
   \<or> \<not> is_critical d \<and> is_replaceable d \<and> d \<noteq> BestEffortEvent
   \<or> \<not> is_critical d \<and> \<not> is_replaceable d \<and> d = BestEffortEvent"
  by (cases d) (auto simp: is_critical_def is_replaceable_def)

lemma same_kind_stateful: "same_kind p q \<Longrightarrow> is_stateful p = is_stateful q"
  by (cases p; cases q) auto

lemma validate_positive_finite_ok [simp]:
  "validate_positive_finite v = Inr () \<longleftrightarrow> (\<exists>q. v = Fin q \<and> 0 < q)"
  by (cases v) (auto simp: validate_positive_finite_def)

lemma validate_space_ok_ids:
  assumes "validate_space d = Inr ()"
  shows "sd_id d \<noteq> 0" and "sd_epoch d \<noteq> 0"
    and "sd_parent d = Some p \<Longrightarrow> parent_space p \<noteq> sd_id d"
  using assms by (auto simp: validate_space_def validate_parent_def split: if_splits option.splits)

text \<open>A validated position has finite coordinates, and lies within the bounds of its space.\<close>

lemma validate_position_finite:
  "validate_position d p = Inr () \<Longrightarrow> position_is_finite p \<and> dimensions_match p (sd_local_frame d)"
  by (auto simp: validate_position_def validate_for_frame_def split: if_splits)

end
