(* ===== verification/Buffer_Interface.thy ===== *)
theory Buffer_Interface
  imports Prelude
begin

text \<open>
  Interfaces of the bounded buffers. \<open>bounded_buffer\<close> is what every bounded store of messages
  promises (the journal outbox, the outbound queue); \<open>message_queue\<close> adds what the core relies on
  when it routes, purges and drains: a push never panics, never invents a message, and a purge
  removes exactly the matching messages.
\<close>

fun fold_option :: "('a \<Rightarrow> 's \<Rightarrow> 's option) \<Rightarrow> 'a list \<Rightarrow> 's \<Rightarrow> 's option" where
  "fold_option f [] s = Some s"
| "fold_option f (x # xs) s = (case f x s of None \<Rightarrow> None | Some s' \<Rightarrow> fold_option f xs s')"

locale bounded_buffer =
  fixes inv :: "'q \<Rightarrow> bool" and items :: "'q \<Rightarrow> 'm list" and cap :: "'q \<Rightarrow> nat"
  assumes bounded: "inv q \<Longrightarrow> length (items q) \<le> cap q"
begin

lemma free_slots: "inv q \<Longrightarrow> length (items q) + (cap q - length (items q)) = cap q"
  using bounded [of q] by simp

end

locale message_queue = bounded_buffer inv items cap
  for inv :: "'q \<Rightarrow> bool" and items :: "'q \<Rightarrow> 'm list" and cap :: "'q \<Rightarrow> nat" +
  fixes enqueue :: "'q \<Rightarrow> 'm \<Rightarrow> ('r \<times> 'q) option"
    and discard :: "('m \<Rightarrow> bool) \<Rightarrow> 'q \<Rightarrow> 'q"
    and take_all :: "'q \<Rightarrow> 'm list \<times> 'q"
  assumes enqueue_total: "inv q \<Longrightarrow> \<exists>r q'. enqueue q m = Some (r, q') \<and> inv q'"
    and enqueue_items: "inv q \<Longrightarrow> enqueue q m = Some (r, q') \<Longrightarrow> set (items q') \<subseteq> insert m (set (items q))"
    and enqueue_cap: "enqueue q m = Some (r, q') \<Longrightarrow> cap q' = cap q"
    and discard_inv: "inv q \<Longrightarrow> inv (discard P q)"
    and discard_items: "inv q \<Longrightarrow> items (discard P q) = filter (\<lambda>m. \<not> P m) (items q)"
    and discard_cap: "cap (discard P q) = cap q"
    and take_all_items: "inv q \<Longrightarrow> fst (take_all q) = items q"
    and take_all_empties: "inv q \<Longrightarrow> items (snd (take_all q)) = [] \<and> inv (snd (take_all q))"
begin

lemma enqueue_inv: "inv q \<Longrightarrow> enqueue q m = Some (r, q') \<Longrightarrow> inv q'"
  using enqueue_total [of q m] by auto

text \<open>Any number of pushes succeeds and stays within the capacity.\<close>

lemma enqueue_many:
  assumes "inv q"
  shows "\<exists>q'. fold_option (\<lambda>m q. map_option snd (enqueue q m)) ms q = Some q' \<and> inv q'
     \<and> cap q' = cap q \<and> length (items q') \<le> cap q \<and> set (items q') \<subseteq> set ms \<union> set (items q)"
  using assms
proof (induction ms arbitrary: q)
  case Nil
  then show ?case by (auto simp: bounded)
next
  case (Cons m ms)
  from enqueue_total [OF Cons.prems] obtain r q1 where
    e: "enqueue q m = Some (r, q1)" and i: "inv q1" by blast
  from Cons.IH [OF i] enqueue_items [OF Cons.prems e] enqueue_cap [OF e] show ?case
    by (fastforce simp: e)
qed

text \<open>A discarded class of messages does not come back as long as none is pushed, so a drain
  after the discard hands out none of it.\<close>

lemma discard_then_enqueue:
  assumes "inv q" and "\<forall>m \<in> set ms. \<not> P m"
    and "fold_option (\<lambda>m q. map_option snd (enqueue q m)) ms (discard P q) = Some q'"
  shows "\<forall>m \<in> set (fst (take_all q')). \<not> P m"
proof -
  from enqueue_many [OF discard_inv [OF assms(1)], of ms P] assms(3)
  have i: "inv q'" and s: "set (items q') \<subseteq> set ms \<union> set (items (discard P q))" by auto
  from s assms(2) show ?thesis
    by (auto simp: take_all_items [OF i] discard_items [OF assms(1)])
qed

end

end
