(* ===== verification/Outbound_Queue.thy ===== *)
theory Outbound_Queue
  imports Model Buffer_Interface
begin

text \<open>
  The bounded outbound queue of a connection (\<open>queue.rs\<close>): three lanes (critical, latest-value,
  best-effort) under one total capacity. The latest-value lane is an order of keys and a map from
  keys to messages that the code keeps synchronised; where it relies on that with \<open>expect\<close>, the
  model returns \<open>None\<close> (a panic), and the invariant of this theory rules it out.
\<close>

section \<open>Configuration\<close>

record OutboundQueueConfig =
  total_capacity :: usize
  critical_capacity :: usize
  latest_capacity :: usize
  best_effort_capacity :: usize

definition default_queue_config :: OutboundQueueConfig where
  "default_queue_config =
     \<lparr>total_capacity = 512, critical_capacity = 256, latest_capacity = 512,
      best_effort_capacity = 128\<rparr>"

datatype QueueConfigError =
    ZeroTotalCapacity
  | ZeroCriticalCapacity
  | ClassCapacityExceedsTotal

definition validate_queue_config ::
  "OutboundQueueConfig \<Rightarrow> QueueConfigError + OutboundQueueConfig" where
  "validate_queue_config c =
     (if total_capacity c = 0 then Inl ZeroTotalCapacity
      else if critical_capacity c = 0 then Inl ZeroCriticalCapacity
      else if critical_capacity c > total_capacity c
              \<or> latest_capacity c > total_capacity c
              \<or> best_effort_capacity c > total_capacity c
      then Inl ClassCapacityExceedsTotal
      else Inr c)"

section \<open>The queue and its operations\<close>

datatype QueueError = MissingCoalesceKeyQ

datatype QueueEviction = EvictionLatest ScopedCoalesceKey | EvictionBestEffort

datatype QueuePush =
    Queued
  | QueuedCriticalAfterEviction QueueEviction
  | ReplacedLatest
  | EvictedLatest ScopedCoalesceKey
  | EvictedBestEffortForLatest
  | DroppedLatest
  | DroppedBestEffort
  | CriticalCapacityExhausted

record OutboundQueue =
  q_config :: OutboundQueueConfig
  q_critical :: "OutboundMessage list"
  q_latest_order :: "ScopedCoalesceKey list"
  q_latest :: "(ScopedCoalesceKey, OutboundMessage) btree_map"
  q_best_effort :: "OutboundMessage list"
  q_critical_capacity_exhausted :: bool

definition new_queue :: "OutboundQueueConfig \<Rightarrow> QueueConfigError + OutboundQueue" where
  "new_queue config =
     and_then (validate_queue_config config) (\<lambda>config.
       Inr \<lparr>q_config = config, q_critical = [], q_latest_order = [], q_latest = bt_empty,
            q_best_effort = [], q_critical_capacity_exhausted = False\<rparr>)"

definition queue_len :: "OutboundQueue \<Rightarrow> usize" where
  "queue_len q = length (q_critical q) + bt_len (q_latest q) + length (q_best_effort q)"

definition is_slow_consumer :: "OutboundQueue \<Rightarrow> bool" where
  "is_slow_consumer q = q_critical_capacity_exhausted q"

definition insert_latest ::
  "ScopedCoalesceKey \<Rightarrow> OutboundMessage \<Rightarrow> OutboundQueue \<Rightarrow> OutboundQueue" where
  "insert_latest key m q =
     q\<lparr>q_latest_order := q_latest_order q @ [key], q_latest := bt_insert key m (q_latest q)\<rparr>"

definition evict_oldest_latest :: "OutboundQueue \<Rightarrow> ScopedCoalesceKey option \<times> OutboundQueue" where
  "evict_oldest_latest q =
     (case q_latest_order q of
        [] \<Rightarrow> (None, q)
      | key # rest \<Rightarrow>
          (Some key, q\<lparr>q_latest_order := rest, q_latest := bt_remove key (q_latest q)\<rparr>))"

definition pop_best_effort :: "OutboundQueue \<Rightarrow> OutboundMessage option \<times> OutboundQueue" where
  "pop_best_effort q =
     (case q_best_effort q of
        [] \<Rightarrow> (None, q)
      | m # rest \<Rightarrow> (Some m, q\<lparr>q_best_effort := rest\<rparr>))"

definition push_critical :: "OutboundQueue \<Rightarrow> OutboundMessage \<Rightarrow> QueuePush \<times> OutboundQueue" where
  "push_critical q m =
     (if length (q_critical q) = critical_capacity (q_config q)
      then (CriticalCapacityExhausted, q\<lparr>q_critical_capacity_exhausted := True\<rparr>)
      else
        let (eviction, q1) =
              (if queue_len q = total_capacity (q_config q)
               then (case evict_oldest_latest q of
                       (Some key, q') \<Rightarrow> (Some (EvictionLatest key), q')
                     | (None, q') \<Rightarrow>
                         (case pop_best_effort q' of
                            (Some _, q'') \<Rightarrow> (Some EvictionBestEffort, q'')
                          | (None, q'') \<Rightarrow> (None, q'')))
               else (None, q))
        in ((case eviction of None \<Rightarrow> Queued | Some e \<Rightarrow> QueuedCriticalAfterEviction e),
            q1\<lparr>q_critical := q_critical q1 @ [m]\<rparr>))"

definition push_latest ::
  "OutboundQueue \<Rightarrow> OutboundMessage \<Rightarrow> ((QueueError + QueuePush) \<times> OutboundQueue) option" where
  "push_latest q m =
     (case scoped_coalesce_key m of
        None \<Rightarrow> Some (Inl MissingCoalesceKeyQ, q)
      | Some key \<Rightarrow>
          if bt_contains (q_latest q) key
          then Some (Inr ReplacedLatest,
                 q\<lparr>q_latest := bt_insert key m (q_latest q),
                   q_latest_order := filter (\<lambda>k. k \<noteq> key) (q_latest_order q) @ [key]\<rparr>)
          else if latest_capacity (q_config q) = 0 then Some (Inr DroppedLatest, q)
          else if bt_len (q_latest q) = latest_capacity (q_config q)
          then (case evict_oldest_latest q of
                  (None, q') \<Rightarrow> None
                | (Some evicted, q') \<Rightarrow> Some (Inr (EvictedLatest evicted), insert_latest key m q'))
          else if queue_len q = total_capacity (q_config q)
          then (case evict_oldest_latest q of
                  (Some evicted, q') \<Rightarrow> Some (Inr (EvictedLatest evicted), insert_latest key m q')
                | (None, q') \<Rightarrow>
                    (case pop_best_effort q' of
                       (Some _, q'') \<Rightarrow> Some (Inr EvictedBestEffortForLatest, insert_latest key m q'')
                     | (None, q'') \<Rightarrow> Some (Inr DroppedLatest, q'')))
          else Some (Inr Queued, insert_latest key m q))"

definition push_best_effort :: "OutboundQueue \<Rightarrow> OutboundMessage \<Rightarrow> QueuePush \<times> OutboundQueue" where
  "push_best_effort q m =
     (if length (q_best_effort q) = best_effort_capacity (q_config q)
         \<or> queue_len q = total_capacity (q_config q)
      then (DroppedBestEffort, q)
      else (Queued, q\<lparr>q_best_effort := q_best_effort q @ [m]\<rparr>))"

definition push ::
  "OutboundQueue \<Rightarrow> OutboundMessage \<Rightarrow> ((QueueError + QueuePush) \<times> OutboundQueue) option" where
  "push q m =
     (if is_critical (om_delivery m)
      then (case push_critical q m of (r, q') \<Rightarrow> Some (Inr r, q'))
      else if is_replaceable (om_delivery m) then push_latest q m
      else (case push_best_effort q m of (r, q') \<Rightarrow> Some (Inr r, q')))"

definition pop :: "OutboundQueue \<Rightarrow> OutboundMessage option \<times> OutboundQueue" where
  "pop q =
     (case q_critical q of
        m # rest \<Rightarrow> (Some m, q\<lparr>q_critical := rest\<rparr>)
      | [] \<Rightarrow>
          (case q_latest_order q of
             key # rest \<Rightarrow>
               (bt_get (q_latest q) key,
                q\<lparr>q_latest_order := rest, q_latest := bt_remove key (q_latest q)\<rparr>)
           | [] \<Rightarrow> pop_best_effort q))"

definition purge :: "(OutboundMessage \<Rightarrow> bool) \<Rightarrow> OutboundQueue \<Rightarrow> usize \<times> OutboundQueue" where
  "purge should_remove q =
     (let latest' = bt_retain (\<lambda>_ m. \<not> should_remove m) (q_latest q);
          q' = q\<lparr>q_critical := filter (\<lambda>m. \<not> should_remove m) (q_critical q),
                 q_best_effort := filter (\<lambda>m. \<not> should_remove m) (q_best_effort q),
                 q_latest := latest',
                 q_latest_order := filter (bt_contains latest') (q_latest_order q)\<rparr>
      in (queue_len q - queue_len q', q'))"

text \<open>\<open>drain_matching\<close> rotates each lane once: an eligible element leaves, any other goes to the
  back.\<close>

fun rotate_lane ::
  "nat \<Rightarrow> (OutboundMessage \<Rightarrow> bool) \<Rightarrow> OutboundMessage list \<Rightarrow> OutboundMessage list
   \<Rightarrow> (OutboundMessage list \<times> OutboundMessage list) option" where
  "rotate_lane 0 eligible lane out = Some (lane, out)"
| "rotate_lane (Suc n) eligible [] out = None"
| "rotate_lane (Suc n) eligible (m # lane) out =
     (if eligible m then rotate_lane n eligible lane (out @ [m])
      else rotate_lane n eligible (lane @ [m]) out)"

fun rotate_latest ::
  "nat \<Rightarrow> (OutboundMessage \<Rightarrow> bool) \<Rightarrow> ScopedCoalesceKey list
   \<Rightarrow> (ScopedCoalesceKey, OutboundMessage) btree_map \<Rightarrow> OutboundMessage list
   \<Rightarrow> (ScopedCoalesceKey list \<times> (ScopedCoalesceKey, OutboundMessage) btree_map
        \<times> OutboundMessage list) option" where
  "rotate_latest 0 eligible order latest out = Some (order, latest, out)"
| "rotate_latest (Suc n) eligible [] latest out = None"
| "rotate_latest (Suc n) eligible (key # order) latest out =
     (case bt_get latest key of
        None \<Rightarrow> None
      | Some m \<Rightarrow>
          if eligible m then rotate_latest n eligible order (bt_remove key latest) (out @ [m])
          else rotate_latest n eligible (order @ [key]) latest out)"

definition drain_matching ::
  "(OutboundMessage \<Rightarrow> bool) \<Rightarrow> OutboundQueue \<Rightarrow> (OutboundMessage list \<times> OutboundQueue) option" where
  "drain_matching eligible q =
     (case rotate_lane (length (q_critical q)) eligible (q_critical q) [] of
        None \<Rightarrow> None
      | Some (critical, out1) \<Rightarrow>
          (case rotate_latest (length (q_latest_order q)) eligible (q_latest_order q) (q_latest q) out1 of
             None \<Rightarrow> None
           | Some (order, latest, out2) \<Rightarrow>
               (case rotate_lane (length (q_best_effort q)) eligible (q_best_effort q) out2 of
                  None \<Rightarrow> None
                | Some (best_effort, out3) \<Rightarrow>
                    Some (out3, q\<lparr>q_critical := critical, q_latest_order := order,
                                  q_latest := latest, q_best_effort := best_effort\<rparr>))))"

definition slots :: "OutboundQueue \<Rightarrow> nat" where
  "slots q = length (q_critical q) + length (q_latest_order q) + length (q_best_effort q)"

lemma pop_slots: "pop q = (Some m, q') \<Longrightarrow> slots q' < slots q"
  by (auto simp: pop_def slots_def pop_best_effort_def split: list.splits)

function drain :: "OutboundQueue \<Rightarrow> OutboundMessage list \<times> OutboundQueue" where
  "drain q =
     (case pop q of
        (None, q') \<Rightarrow> ([], q')
      | (Some m, q') \<Rightarrow> (case drain q' of (ms, q'') \<Rightarrow> (m # ms, q'')))"
  by pat_completeness auto
termination
  by (relation "measure slots") (auto dest: pop_slots [OF sym])

declare drain.simps [simp del]

section \<open>Invariant\<close>

definition lanes_synchronised :: "OutboundQueue \<Rightarrow> bool" where
  "lanes_synchronised q \<longleftrightarrow>
     distinct (q_latest_order q) \<and> set (q_latest_order q) = dom (bt_get (q_latest q))"

definition lanes_bounded :: "OutboundQueue \<Rightarrow> bool" where
  "lanes_bounded q \<longleftrightarrow>
     length (q_critical q) \<le> critical_capacity (q_config q)
   \<and> bt_len (q_latest q) \<le> latest_capacity (q_config q)
   \<and> length (q_best_effort q) \<le> best_effort_capacity (q_config q)
   \<and> queue_len q \<le> total_capacity (q_config q)"

definition lanes_typed :: "OutboundQueue \<Rightarrow> bool" where
  "lanes_typed q \<longleftrightarrow>
     (\<forall>m \<in> set (q_critical q). is_critical (om_delivery m))
   \<and> (\<forall>k m. bt_get (q_latest q) k = Some m \<longrightarrow>
        is_replaceable (om_delivery m) \<and> scoped_coalesce_key m = Some k)
   \<and> (\<forall>m \<in> set (q_best_effort q). om_delivery m = BestEffortEvent)"

definition queue_inv :: "OutboundQueue \<Rightarrow> bool" where
  "queue_inv q \<longleftrightarrow>
     validate_queue_config (q_config q) = Inr (q_config q)
   \<and> lanes_synchronised q \<and> lanes_bounded q \<and> lanes_typed q"

text \<open>The messages of a queue in the order \<open>pop\<close> hands them out.\<close>

definition latest_lane :: "OutboundQueue \<Rightarrow> OutboundMessage list" where
  "latest_lane q = map (\<lambda>k. the (bt_get (q_latest q) k)) (q_latest_order q)"

definition contents :: "OutboundQueue \<Rightarrow> OutboundMessage list" where
  "contents q = q_critical q @ latest_lane q @ q_best_effort q"

lemmas queue_inv_defs =
  queue_inv_def lanes_synchronised_def lanes_bounded_def lanes_typed_def

section \<open>Preservation\<close>


lemma queue_len_contents:
  "lanes_synchronised q \<Longrightarrow> queue_len q = length (contents q)"
proof -
  assume s: "lanes_synchronised q"
  have "bt_len (q_latest q) = card (set (q_latest_order q))"
    using s by (simp add: bt_len_card lanes_synchronised_def)
  also have "\<dots> = length (q_latest_order q)"
    using s by (metis distinct_card lanes_synchronised_def)
  finally show ?thesis
    by (simp add: queue_len_def contents_def latest_lane_def)
qed

lemma set_latest_lane:
  "lanes_synchronised q \<Longrightarrow> set (latest_lane q) = {m. \<exists>k. bt_get (q_latest q) k = Some m}"
proof -
  assume "lanes_synchronised q"
  then have "set (latest_lane q) = (\<lambda>k. the (bt_get (q_latest q) k)) ` dom (bt_get (q_latest q))"
    by (simp add: latest_lane_def lanes_synchronised_def)
  also have "\<dots> = {m. \<exists>k. bt_get (q_latest q) k = Some m}"
    by (force simp: dom_def)
  finally show ?thesis .
qed

lemma new_queue_inv: "new_queue c = Inr q \<Longrightarrow> queue_inv q \<and> contents q = []"
  by (auto simp: new_queue_def queue_inv_defs validate_queue_config_def queue_len_def contents_def
      latest_lane_def split: if_splits)

lemma evict_oldest_latest_cases:
  assumes "lanes_synchronised q"
  obtains (empty) "evict_oldest_latest q = (None, q)" "q_latest_order q = []" "q_latest q = bt_empty"
  | (evict) key rest v where
      "evict_oldest_latest q =
         (Some key, q\<lparr>q_latest_order := rest, q_latest := bt_remove key (q_latest q)\<rparr>)"
      "q_latest_order q = key # rest" "bt_get (q_latest q) key = Some v"
proof (cases "q_latest_order q")
  case Nil
  then have "dom (bt_get (q_latest q)) = {}"
    using assms by (simp add: lanes_synchronised_def)
  then have "q_latest q = bt_empty" by (intro bt_eqI) auto
  with Nil show ?thesis by (intro empty) (simp_all add: evict_oldest_latest_def)
next
  case (Cons key rest)
  then obtain v where "bt_get (q_latest q) key = Some v"
    using assms by (auto simp: lanes_synchronised_def)
  with Cons show ?thesis by (intro evict) (simp_all add: evict_oldest_latest_def)
qed

lemma dom_remove_latest: "dom (bt_get (bt_remove k m)) = dom (bt_get m) - {k}"
  by (auto simp: bt_get_remove split: if_splits)

lemma dom_insert_latest: "dom (bt_get (bt_insert k v m)) = insert k (dom (bt_get m))"
  by (auto simp: bt_get_insert split: if_splits)

text \<open>Eviction makes room for exactly one message.\<close>

lemma evict_oldest_latest_inv:
  assumes "queue_inv q" and "evict_oldest_latest q = (Some key, q')"
  shows "queue_inv q'" and "Suc (queue_len q') = queue_len q"
    and "Suc (bt_len (q_latest q')) = bt_len (q_latest q)"
    and "q_critical q' = q_critical q" and "q_best_effort q' = q_best_effort q"
    and "q_config q' = q_config q"
    and "\<And>k. bt_get (q_latest q') k = (if k = key then None else bt_get (q_latest q) k)"
    and "q_critical_capacity_exhausted q' = q_critical_capacity_exhausted q"
proof -
  from assms(1) have "lanes_synchronised q" by (simp add: queue_inv_def)
  from this assms(2) obtain rest v where
    order: "q_latest_order q = key # rest" and v: "bt_get (q_latest q) key = Some v"
    and q': "q' = q\<lparr>q_latest_order := rest, q_latest := bt_remove key (q_latest q)\<rparr>"
    by (cases rule: evict_oldest_latest_cases) auto
  have pos: "0 < bt_len (q_latest q)" using v by (rule bt_len_pos)
  from q' show "q_critical q' = q_critical q" "q_best_effort q' = q_best_effort q"
    "q_config q' = q_config q" "q_critical_capacity_exhausted q' = q_critical_capacity_exhausted q"
    by simp_all
  show get: "\<And>k. bt_get (q_latest q') k = (if k = key then None else bt_get (q_latest q) k)"
    by (simp add: q' bt_get_remove)
  show len: "Suc (bt_len (q_latest q')) = bt_len (q_latest q)"
    using v pos by (simp add: q' bt_len_remove)
  then show tot: "Suc (queue_len q') = queue_len q" by (simp add: queue_len_def q')
  have "lanes_synchronised q'"
    using \<open>lanes_synchronised q\<close> order by (auto simp: lanes_synchronised_def q' dom_remove_latest)
  moreover have "lanes_bounded q'"
    using assms(1) len tot by (auto simp: queue_inv_defs q')
  moreover have "lanes_typed q'"
    using assms(1) by (auto simp: queue_inv_defs q' bt_get_remove split: if_splits)
  ultimately show "queue_inv q'" using assms(1) by (simp add: queue_inv_def q')
qed

lemma pop_best_effort_inv:
  assumes "queue_inv q" and "pop_best_effort q = (Some m, q')"
  shows "queue_inv q'" and "Suc (queue_len q') = queue_len q"
    and "q_critical q' = q_critical q" and "q_latest q' = q_latest q"
    and "q_latest_order q' = q_latest_order q" and "q_config q' = q_config q"
    and "q_critical_capacity_exhausted q' = q_critical_capacity_exhausted q"
  using assms
  by (auto simp: pop_best_effort_def queue_inv_defs queue_len_def split: list.splits)

lemma pop_best_effort_nonempty:
  "q_best_effort q \<noteq> [] \<Longrightarrow> \<exists>m q'. pop_best_effort q = (Some m, q')"
  by (cases "q_best_effort q") (simp_all add: pop_best_effort_def)

text \<open>A message appended to a lane that has room keeps the invariant.\<close>

lemma insert_latest_inv:
  assumes "queue_inv q" and "scoped_coalesce_key m = Some key" and "is_replaceable (om_delivery m)"
    and "bt_get (q_latest q) key = None"
    and "bt_len (q_latest q) < latest_capacity (q_config q)"
    and "queue_len q < total_capacity (q_config q)"
  shows "queue_inv (insert_latest key m q)"
proof -
  have "lanes_synchronised (insert_latest key m q)"
    using assms by (auto simp: queue_inv_defs insert_latest_def dom_insert_latest domIff)
  moreover have "lanes_bounded (insert_latest key m q)"
    using assms by (auto simp: queue_inv_defs insert_latest_def bt_len_insert queue_len_def)
  moreover have "lanes_typed (insert_latest key m q)"
    using assms by (auto simp: queue_inv_defs insert_latest_def bt_get_insert split: if_splits)
  ultimately show ?thesis using assms(1) by (simp add: queue_inv_def insert_latest_def)
qed

lemma replace_latest_inv:
  assumes "queue_inv q" and "scoped_coalesce_key m = Some key" and "is_replaceable (om_delivery m)"
    and "bt_contains (q_latest q) key"
  shows "queue_inv (q\<lparr>q_latest := bt_insert key m (q_latest q),
                      q_latest_order := filter (\<lambda>k. k \<noteq> key) (q_latest_order q) @ [key]\<rparr>)"
    (is "queue_inv ?q")
proof -
  have "lanes_synchronised ?q"
    using assms by (auto simp: queue_inv_defs dom_insert_latest)
  moreover have "lanes_bounded ?q"
    using assms by (auto simp: queue_inv_defs bt_len_insert queue_len_def)
  moreover have "lanes_typed ?q"
    using assms by (auto simp: queue_inv_defs bt_get_insert split: if_splits)
  ultimately show ?thesis using assms(1) by (simp add: queue_inv_def)
qed
text \<open>Appending to the critical lane below its capacity and the total capacity.\<close>

lemma append_critical_inv:
  assumes "queue_inv q" and "is_critical (om_delivery m)"
    and "length (q_critical q) < critical_capacity (q_config q)"
    and "queue_len q < total_capacity (q_config q)"
  shows "queue_inv (q\<lparr>q_critical := q_critical q @ [m]\<rparr>)"
  using assms by (auto simp: queue_inv_defs queue_len_def)

text \<open>Below the critical capacity there is always a non-critical message to evict when the
  queue is full: a class capacity never exceeds the total.\<close>

lemma full_queue_has_victim:
  assumes "queue_inv q" and "length (q_critical q) \<noteq> critical_capacity (q_config q)"
    and "queue_len q = total_capacity (q_config q)"
    and "q_latest q = bt_empty"
  shows "q_best_effort q \<noteq> []"
  using assms by (auto simp: queue_inv_defs validate_queue_config_def queue_len_def split: if_splits)

lemma push_critical_inv:
  assumes inv: "queue_inv q" and crit: "is_critical (om_delivery m)"
    and push: "push_critical q m = (r, q')"
  shows "queue_inv q'"
proof (cases "length (q_critical q) = critical_capacity (q_config q)")
  case True
  with push inv show ?thesis by (auto simp: push_critical_def queue_inv_defs queue_len_def)
next
  case notfull: False
  with inv have room: "length (q_critical q) < critical_capacity (q_config q)"
    by (simp add: queue_inv_defs)
  show ?thesis
  proof (cases "queue_len q = total_capacity (q_config q)")
    case False
    with inv have "queue_len q < total_capacity (q_config q)" by (simp add: queue_inv_defs)
    with False notfull push room show ?thesis
      by (auto simp: push_critical_def intro: append_critical_inv [OF inv crit])
  next
    case full: True
    from inv have "lanes_synchronised q" by (simp add: queue_inv_def)
    then show ?thesis
    proof (cases rule: evict_oldest_latest_cases)
      case empty
      with full_queue_has_victim [OF inv notfull full] obtain b q1 where
        b: "pop_best_effort q = (Some b, q1)"
        using pop_best_effort_nonempty by blast
      note i = pop_best_effort_inv [OF inv b]
      have "q' = q1\<lparr>q_critical := q_critical q1 @ [m]\<rparr>"
        using push notfull full empty b by (simp add: push_critical_def)
      then show ?thesis
        using append_critical_inv [OF i(1) crit] i room full by simp
    next
      case (evict key rest v)
      then obtain q1 where e: "evict_oldest_latest q = (Some key, q1)" by blast
      note i = evict_oldest_latest_inv [OF inv e]
      have "q' = q1\<lparr>q_critical := q_critical q1 @ [m]\<rparr>"
        using push notfull full e by (simp add: push_critical_def)
      then show ?thesis
        using append_critical_inv [OF i(1) crit] i room full by simp
    qed
  qed
qed

lemma push_best_effort_inv:
  assumes "queue_inv q" and "om_delivery m = BestEffortEvent"
    and "push_best_effort q m = (r, q')"
  shows "queue_inv q'"
  using assms by (auto simp: push_best_effort_def queue_inv_defs queue_len_def split: if_splits)

text \<open>Pushing a replaceable message: every branch returns, and keeps the invariant. In
  particular the eviction the code expects to succeed does.\<close>

lemma push_latest_total:
  assumes inv: "queue_inv q" and repl: "is_replaceable (om_delivery m)"
  shows "\<exists>r q'. push_latest q m = Some (r, q') \<and> queue_inv q'"
proof (cases "scoped_coalesce_key m")
  case None
  with inv show ?thesis by (simp add: push_latest_def)
next
  case (Some key)
  let ?lcap = "latest_capacity (q_config q)" and ?tcap = "total_capacity (q_config q)"
  from inv have sync: "lanes_synchronised q" by (simp add: queue_inv_def)
  from inv have bound: "bt_len (q_latest q) \<le> ?lcap" "queue_len q \<le> ?tcap"
    by (simp_all add: queue_inv_defs)
  consider (present) "bt_contains (q_latest q) key"
    | (zero) "bt_get (q_latest q) key = None" "?lcap = 0"
    | (full) "bt_get (q_latest q) key = None" "?lcap \<noteq> 0" "bt_len (q_latest q) = ?lcap \<or> queue_len q = ?tcap"
    | (room) "bt_get (q_latest q) key = None" "?lcap \<noteq> 0" "bt_len (q_latest q) \<noteq> ?lcap" "queue_len q \<noteq> ?tcap"
    by auto
  then show ?thesis
  proof cases
    case present
    with Some replace_latest_inv [OF inv Some repl] show ?thesis by (simp add: push_latest_def)
  next
    case zero
    with Some inv show ?thesis by (simp add: push_latest_def)
  next
    case room
    with bound have "queue_inv (insert_latest key m q)"
      by (intro insert_latest_inv [OF inv Some repl]) auto
    with room Some show ?thesis by (simp add: push_latest_def)
  next
    case full
    from sync show ?thesis
    proof (cases rule: evict_oldest_latest_cases)
      case (evict k rest v)
      then obtain q1 where e: "evict_oldest_latest q = (Some k, q1)" by blast
      note i = evict_oldest_latest_inv [OF inv e]
      have "queue_inv (insert_latest key m q1)"
        using i bound full(1) by (intro insert_latest_inv [OF i(1) Some repl]) auto
      with full Some e show ?thesis by (auto simp: push_latest_def)
    next
      case empty
      with full have tot: "queue_len q = ?tcap" "bt_len (q_latest q) \<noteq> ?lcap" by auto
      show ?thesis
      proof (cases "pop_best_effort q")
        case (Pair b q1)
        show ?thesis
        proof (cases b)
          case None
          with Pair have "q1 = q" by (auto simp: pop_best_effort_def split: list.splits)
          with None Pair tot full Some empty inv show ?thesis by (simp add: push_latest_def)
        next
          case (Some b')
          with Pair have b: "pop_best_effort q = (Some b', q1)" by simp
          note i = pop_best_effort_inv [OF inv b]
          have "queue_inv (insert_latest key m q1)"
            using i tot full empty bound
            by (intro insert_latest_inv [OF i(1) \<open>scoped_coalesce_key m = Some key\<close> repl]) auto
          with b tot full \<open>scoped_coalesce_key m = Some key\<close> empty show ?thesis
            by (simp add: push_latest_def)
        qed
      qed
    qed
  qed
qed

lemma push_total:
  assumes "queue_inv q"
  shows "\<exists>r q'. push q m = Some (r, q') \<and> queue_inv q'"
proof -
  consider "is_critical (om_delivery m)"
    | "\<not> is_critical (om_delivery m)" "is_replaceable (om_delivery m)"
    | "\<not> is_critical (om_delivery m)" "\<not> is_replaceable (om_delivery m)" "om_delivery m = BestEffortEvent"
    using delivery_trichotomy [of "om_delivery m"] by blast
  then show ?thesis
  proof cases
    case 1
    obtain r q' where "push_critical q m = (r, q')" by fastforce
    with 1 push_critical_inv [OF assms 1] show ?thesis by (simp add: push_def)
  next
    case 2
    with push_latest_total [OF assms] show ?thesis by (simp add: push_def)
  next
    case 3
    obtain r q' where "push_best_effort q m = (r, q')" by fastforce
    with 3 push_best_effort_inv [OF assms 3(3)] show ?thesis by (simp add: push_def)
  qed
qed


subsection \<open>Popping and draining\<close>

lemma latest_lane_remove_head:
  assumes "q_latest_order q = key # rest" and "key \<notin> set rest"
  shows "map (\<lambda>k. the (bt_get (bt_remove key (q_latest q)) k)) rest =
     map (\<lambda>k. the (bt_get (q_latest q) k)) rest"
  using assms by (auto simp: bt_get_remove)

lemma pop_refines:
  assumes "queue_inv q" and "pop q = (r, q')"
  shows "queue_inv q' \<and> r = (case contents q of [] \<Rightarrow> None | m # _ \<Rightarrow> Some m)
     \<and> contents q' = tl (contents q)"
proof (cases "q_critical q")
  case (Cons m rest)
  with assms show ?thesis
    by (auto simp: pop_def contents_def latest_lane_def queue_inv_defs queue_len_def)
next
  case Nil
  from assms(1) have "lanes_synchronised q" by (simp add: queue_inv_def)
  then show ?thesis
  proof (cases rule: evict_oldest_latest_cases)
    case empty
    show ?thesis
    proof (cases "q_best_effort q")
      case Nil
      with assms \<open>q_critical q = []\<close> empty show ?thesis
        by (auto simp: pop_def pop_best_effort_def contents_def latest_lane_def)
    next
      case (Cons b bs)
      then have b: "pop_best_effort q = (Some b, q\<lparr>q_best_effort := bs\<rparr>)"
        by (simp add: pop_best_effort_def)
      with assms \<open>q_critical q = []\<close> empty Cons pop_best_effort_inv [OF assms(1) b] show ?thesis
        by (auto simp: pop_def contents_def latest_lane_def)
    qed
  next
    case (evict key rest v)
    then have "key \<notin> set rest" using \<open>lanes_synchronised q\<close> by (simp add: lanes_synchronised_def)
    moreover have "r = Some v"
      and "q' = q\<lparr>q_latest_order := rest, q_latest := bt_remove key (q_latest q)\<rparr>"
      using Nil assms(2) evict by (simp_all add: pop_def)
    ultimately show ?thesis
      using Nil evict evict_oldest_latest_inv(1) [OF assms(1) evict(1)]
      by (simp add: contents_def latest_lane_def latest_lane_remove_head)
  qed
qed

lemma drain_refines: "queue_inv q \<Longrightarrow>
   fst (drain q) = contents q \<and> contents (snd (drain q)) = [] \<and> queue_inv (snd (drain q))"
proof (induction q rule: drain.induct)
  case (1 q)
  obtain r q' where pop: "pop q = (r, q')" by fastforce
  note p = pop_refines [OF "1.prems" pop]
  show ?case
  proof (cases r)
    case None
    with p have "contents q = []" by (cases "contents q") auto
    with None pop p show ?thesis by (simp add: drain.simps [of q])
  next
    case (Some m)
    with p have "contents q = m # contents q'" by (cases "contents q") auto
    moreover have "fst (drain q') = contents q' \<and> contents (snd (drain q')) = [] \<and> queue_inv (snd (drain q'))"
      using "1.IH" [OF pop [symmetric] Some] p by blast
    ultimately show ?thesis using pop Some by (simp add: drain.simps [of q] case_prod_beta)
  qed
qed

subsection \<open>Purging\<close>

lemma purge_latest_order:
  "lanes_synchronised q \<Longrightarrow>
   filter (bt_contains (bt_retain (\<lambda>_ m. \<not> P m) (q_latest q))) (q_latest_order q) =
   filter (\<lambda>k. \<not> P (the (bt_get (q_latest q) k))) (q_latest_order q)"
  by (rule filter_cong) (auto simp: lanes_synchronised_def bt_get_retain split: option.splits)

lemma purge_contents:
  assumes "lanes_synchronised q"
  shows "contents (snd (purge P q)) = filter (\<lambda>m. \<not> P m) (contents q)"
proof -
  have "map (\<lambda>k. the (bt_get (bt_retain (\<lambda>_ m. \<not> P m) (q_latest q)) k))
          (filter (\<lambda>k. \<not> P (the (bt_get (q_latest q) k))) (q_latest_order q))
      = filter (\<lambda>m. \<not> P m) (map (\<lambda>k. the (bt_get (q_latest q) k)) (q_latest_order q))"
    unfolding filter_map comp_def
    using assms by (auto simp: lanes_synchronised_def bt_get_retain split: option.splits)
  then show ?thesis
    using assms by (simp add: purge_def Let_def contents_def latest_lane_def purge_latest_order)
qed

lemma purge_inv [inv_intros]:
  assumes "queue_inv q"
  shows "queue_inv (snd (purge P q))"
proof -
  let ?q = "snd (purge P q)"
  from assms have sync: "lanes_synchronised q" by (simp add: queue_inv_def)
  have q: "q_config ?q = q_config q" by (simp add: purge_def Let_def)
  have "lanes_synchronised ?q"
    using sync by (auto simp: purge_def Let_def lanes_synchronised_def bt_get_retain
        split: option.splits if_splits)
  moreover have "lanes_bounded ?q"
  proof -
    have "length (filter f xs) \<le> length xs" for f and xs :: "OutboundMessage list" by simp
    note le = this [of "\<lambda>m. \<not> P m" "q_critical q"] this [of "\<lambda>m. \<not> P m" "q_best_effort q"]
      bt_len_retain [of "\<lambda>_ m. \<not> P m" "q_latest q"]
    from assms have "lanes_bounded q" by (simp add: queue_inv_def)
    with le show ?thesis
      by (auto simp: purge_def Let_def lanes_bounded_def queue_len_def simp del: length_filter_le)
  qed
  moreover have "lanes_typed ?q"
    using assms by (auto simp: purge_def Let_def queue_inv_defs)
  ultimately show ?thesis using assms q by (simp add: queue_inv_def)
qed

lemma purge_count:
  assumes "queue_inv q"
  shows "fst (purge P q) = length (filter P (contents q))"
proof -
  have sync: "lanes_synchronised q" "lanes_synchronised (snd (purge P q))"
    using assms purge_inv [OF assms] by (simp_all add: queue_inv_def)
  have "fst (purge P q) = queue_len q - queue_len (snd (purge P q))"
    by (simp add: purge_def Let_def)
  also have "\<dots> = length (contents q) - length (filter (\<lambda>m. \<not> P m) (contents q))"
    using sync by (simp add: queue_len_contents purge_contents)
  also have "\<dots> = length (filter P (contents q))"
    using sum_length_filter_compl [of P "contents q"] by linarith
  finally show ?thesis .
qed

subsection \<open>Selective draining\<close>

lemma rotate_lane_spec:
  "rotate_lane (length xs) e (xs @ ys) out =
     Some (ys @ filter (\<lambda>m. \<not> e m) xs, out @ filter e xs)"
proof (induction xs arbitrary: ys out)
  case (Cons x xs)
  show ?case
    using Cons.IH [of ys "out @ [x]"] Cons.IH [of "ys @ [x]" out] by simp
qed simp

lemma rotate_latest_spec:
  assumes "distinct ks" and "set ks \<subseteq> dom (bt_get l)"
  shows "rotate_latest (length ks) e (ks @ ys) l out =
     Some (ys @ filter (\<lambda>k. \<not> e (the (bt_get l k))) ks,
           bt_retain (\<lambda>k m. k \<notin> set ks \<or> \<not> e m) l,
           out @ filter e (map (\<lambda>k. the (bt_get l k)) ks))"
  using assms
proof (induction ks arbitrary: ys l out)
  case Nil
  then show ?case by (simp add: bt_retain_all)
next
  case (Cons k ks)
  then obtain m where m: "bt_get l k = Some m" by auto
  show ?case
  proof (cases "e m")
    case True
    have dom: "set ks \<subseteq> dom (bt_get (bt_remove k l))"
      using Cons.prems by (auto simp: bt_get_remove)
    have get: "\<And>k'. k' \<in> set ks \<Longrightarrow> bt_get (bt_remove k l) k' = bt_get l k'"
      using Cons.prems by (auto simp: bt_get_remove)
    have r: "bt_retain (\<lambda>k m. k \<notin> set ks \<or> \<not> e m) (bt_remove k l) =
        bt_retain (\<lambda>k' m. k' \<notin> set (k # ks) \<or> \<not> e m) l"
      by (rule bt_eqI) (use m True in \<open>auto simp: bt_get_retain bt_get_remove split: option.split\<close>)
    have f: "filter (\<lambda>k'. \<not> e (the (bt_get (bt_remove k l) k'))) ks =
        filter (\<lambda>k'. \<not> e (the (bt_get l k'))) ks"
      using get by (intro filter_cong) auto
    have g: "map (\<lambda>k'. the (bt_get (bt_remove k l) k')) ks = map (\<lambda>k'. the (bt_get l k')) ks"
      using get by auto
    show ?thesis
      using Cons.IH [OF _ dom, of ys "out @ [m]", unfolded r f g] Cons.prems True m by simp
  next
    case False
    have "bt_retain (\<lambda>k m. k \<notin> set ks \<or> \<not> e m) l =
        bt_retain (\<lambda>k' m. k' \<notin> set (k # ks) \<or> \<not> e m) l"
      by (rule bt_eqI) (use m False in \<open>auto simp: bt_get_retain split: option.split\<close>)
    then show ?thesis
      using Cons.IH [of l "ys @ [k]" out] Cons.prems False m by simp
  qed
qed

lemma drain_matching_state:
  assumes "lanes_synchronised q"
  shows "drain_matching e q = Some (filter e (contents q), snd (purge e q))"
proof -
  have d: "distinct (q_latest_order q)" "set (q_latest_order q) \<subseteq> dom (bt_get (q_latest q))"
    using assms by (simp_all add: lanes_synchronised_def)
  have "bt_retain (\<lambda>k m. k \<notin> set (q_latest_order q) \<or> \<not> e m) (q_latest q) =
      bt_retain (\<lambda>_ m. \<not> e m) (q_latest q)"
    by (rule bt_eqI) (use assms in \<open>auto simp: lanes_synchronised_def bt_get_retain split: option.split\<close>)
  then show ?thesis
    using rotate_lane_spec [where ys = "[]"] rotate_latest_spec [OF d, where ys = "[]"]
      purge_latest_order [OF assms, of e]
    by (simp add: drain_matching_def purge_def Let_def contents_def latest_lane_def)
qed

subsection \<open>What a push does to the lanes\<close>

lemma evict_oldest_latest_frame:
  assumes "evict_oldest_latest q = (r, q')"
  shows "q_critical q' = q_critical q \<and> q_best_effort q' = q_best_effort q
     \<and> q_config q' = q_config q \<and> q_critical_capacity_exhausted q' = q_critical_capacity_exhausted q"
  using assms by (auto simp: evict_oldest_latest_def split: list.splits)

lemma pop_best_effort_frame:
  assumes "pop_best_effort q = (r, q')"
  shows "q_critical q' = q_critical q \<and> q_latest q' = q_latest q \<and> q_latest_order q' = q_latest_order q
     \<and> q_config q' = q_config q \<and> q_critical_capacity_exhausted q' = q_critical_capacity_exhausted q
     \<and> set (q_best_effort q') \<subseteq> set (q_best_effort q)"
  using assms by (auto simp: pop_best_effort_def split: list.splits)

lemma push_critical_lanes:
  assumes "push_critical q m = (r, q')"
  shows "q_critical q' = q_critical q @ (if r = CriticalCapacityExhausted then [] else [m])
     \<and> q_critical_capacity_exhausted q' = (q_critical_capacity_exhausted q \<or> r = CriticalCapacityExhausted)
     \<and> q_config q' = q_config q"
  using assms
  by (auto simp: push_critical_def Let_def split: if_splits prod.splits option.splits
      dest!: evict_oldest_latest_frame pop_best_effort_frame)

lemma push_latest_lanes:
  assumes "push_latest q m = Some (r, q')"
  shows "q_critical q' = q_critical q
     \<and> q_critical_capacity_exhausted q' = q_critical_capacity_exhausted q
     \<and> q_config q' = q_config q \<and> r \<noteq> Inr CriticalCapacityExhausted"
  using assms
  by (auto simp: push_latest_def insert_latest_def split: if_splits prod.splits option.splits
      dest!: evict_oldest_latest_frame pop_best_effort_frame)

lemma push_best_effort_lanes:
  assumes "push_best_effort q m = (r, q')"
  shows "q_critical q' = q_critical q
     \<and> q_critical_capacity_exhausted q' = q_critical_capacity_exhausted q
     \<and> q_config q' = q_config q \<and> r \<noteq> CriticalCapacityExhausted"
  using assms by (auto simp: push_best_effort_def split: if_splits)

lemma evict_contents:
  assumes "evict_oldest_latest q = (r, q')"
  shows "\<forall>k m. bt_get (q_latest q') k = Some m \<longrightarrow> bt_get (q_latest q) k = Some m"
  using assms by (auto simp: evict_oldest_latest_def bt_get_remove split: list.splits if_splits)

text \<open>The messages of a synchronised queue, lane by lane.\<close>

lemma contents_iff:
  "lanes_synchronised q \<Longrightarrow> m \<in> set (contents q) \<longleftrightarrow>
     m \<in> set (q_critical q) \<or> (\<exists>k. bt_get (q_latest q) k = Some m) \<or> m \<in> set (q_best_effort q)"
  by (auto simp: contents_def set_latest_lane)

definition holds_msg :: "OutboundQueue \<Rightarrow> OutboundMessage \<Rightarrow> bool" where
  "holds_msg q m \<longleftrightarrow>
     m \<in> set (q_critical q) \<or> (\<exists>k. bt_get (q_latest q) k = Some m) \<or> m \<in> set (q_best_effort q)"

lemma holds_msg_insert_latest: "holds_msg (insert_latest k x q) m \<Longrightarrow> m = x \<or> holds_msg q m"
  by (auto simp: holds_msg_def insert_latest_def bt_get_insert split: if_splits)

lemma holds_msg_evict: "evict_oldest_latest q = (r, q') \<Longrightarrow> holds_msg q' m \<Longrightarrow> holds_msg q m"
  using evict_oldest_latest_frame [of q r q'] evict_contents [of q r q'] by (auto simp: holds_msg_def)

lemma holds_msg_pop_best_effort: "pop_best_effort q = (r, q') \<Longrightarrow> holds_msg q' m \<Longrightarrow> holds_msg q m"
  using pop_best_effort_frame [of q r q'] by (auto simp: holds_msg_def)

lemma holds_msg_push_critical:
  "push_critical q x = (r, q') \<Longrightarrow> holds_msg q' m \<Longrightarrow> m = x \<or> holds_msg q m"
proof -
  assume p: "push_critical q x = (r, q')" and m: "holds_msg q' m"
  have app: "holds_msg (q1\<lparr>q_critical := q_critical q1 @ [x]\<rparr>) m \<Longrightarrow> m = x \<or> holds_msg q1 m" for q1
    by (auto simp: holds_msg_def)
  have ex: "holds_msg (q\<lparr>q_critical_capacity_exhausted := True\<rparr>) m \<Longrightarrow> holds_msg q m"
    by (simp add: holds_msg_def)
  from p m show ?thesis
    by (auto simp: push_critical_def Let_def split: if_splits prod.splits option.splits
        dest!: app ex dest: holds_msg_evict holds_msg_pop_best_effort)
qed

lemma holds_msg_push_latest:
  "push_latest q x = Some (r, q') \<Longrightarrow> holds_msg q' m \<Longrightarrow> m = x \<or> holds_msg q m"
proof -
  assume p: "push_latest q x = Some (r, q')" and m: "holds_msg q' m"
  have rep: "holds_msg (q\<lparr>q_latest := bt_insert key x (q_latest q), q_latest_order := ks\<rparr>) m
      \<Longrightarrow> m = x \<or> holds_msg q m" for key ks
    by (auto simp: holds_msg_def bt_get_insert split: if_splits)
  from p m show ?thesis
    by (auto simp: push_latest_def split: if_splits prod.splits option.splits
        dest!: rep holds_msg_insert_latest dest: holds_msg_evict holds_msg_pop_best_effort)
qed

lemma push_lanes:
  assumes "push q m = Some (r, q')"
  shows "q_critical q' =
       q_critical q @ (if is_critical (om_delivery m) \<and> r \<noteq> Inr CriticalCapacityExhausted then [m] else [])
     \<and> q_critical_capacity_exhausted q' =
         (q_critical_capacity_exhausted q \<or> r = Inr CriticalCapacityExhausted)
     \<and> q_config q' = q_config q"
  using assms
  by (auto simp: push_def split: if_splits prod.splits
      dest: push_critical_lanes push_latest_lanes push_best_effort_lanes)

lemma push_contents:
  assumes "queue_inv q" and "push q x = Some (r, q')"
  shows "set (contents q') \<subseteq> insert x (set (contents q))"
proof
  fix m assume m: "m \<in> set (contents q')"
  have "queue_inv q'" using push_total [OF assms(1), of x] assms(2) by auto
  then have "holds_msg q' m" using m by (simp add: queue_inv_def contents_iff holds_msg_def)
  then have "m = x \<or> holds_msg q m"
    using assms(2) holds_msg_push_critical [of q x _ q' m] holds_msg_push_latest [of q x r q' m]
    by (auto simp: push_def push_best_effort_def holds_msg_def split: if_splits prod.splits)
  then show "m \<in> insert x (set (contents q))"
    using assms(1) by (simp add: queue_inv_def contents_iff holds_msg_def)
qed

section \<open>The queue implements the interface\<close>

interpretation outbound: message_queue queue_inv contents "\<lambda>q. total_capacity (q_config q)"
    push "\<lambda>P q. snd (purge P q)" drain
proof unfold_locales
  fix q :: OutboundQueue and m P r q'
  assume inv: "queue_inv q"
  then show "length (contents q) \<le> total_capacity (q_config q)"
    by (simp add: queue_inv_def lanes_bounded_def flip: queue_len_contents)
  show "\<exists>r q'. push q m = Some (r, q') \<and> queue_inv q'" using inv by (rule push_total)
  show "queue_inv (snd (purge P q))" using inv by (rule purge_inv)
  show "contents (snd (purge P q)) = filter (\<lambda>m. \<not> P m) (contents q)"
    using inv by (simp add: queue_inv_def purge_contents)
  show "fst (drain q) = contents q" and "contents (snd (drain q)) = [] \<and> queue_inv (snd (drain q))"
    using inv by (simp_all add: drain_refines)
next
  fix q :: OutboundQueue and m r q'
  assume "queue_inv q" and "push q m = Some (r, q')"
  then show "set (contents q') \<subseteq> insert m (set (contents q))" by (rule push_contents)
next
  fix q :: OutboundQueue and m r q'
  assume "push q m = Some (r, q')"
  then show "total_capacity (q_config q') = total_capacity (q_config q)" by (simp add: push_lanes)
next
  fix q :: OutboundQueue and P
  show "total_capacity (q_config (snd (purge P q))) = total_capacity (q_config q)"
    by (simp add: purge_def Let_def)
qed


section \<open>Runs of the queue\<close>

datatype QueueOp =
    DoPush OutboundMessage
  | DoPop
  | DoPurge "OutboundMessage \<Rightarrow> bool"
  | DoDrain
  | DoDrainMatching "OutboundMessage \<Rightarrow> bool"

fun queue_step :: "QueueOp \<Rightarrow> OutboundQueue \<Rightarrow> OutboundQueue option" where
  "queue_step (DoPush m) q = map_option snd (push q m)"
| "queue_step DoPop q = Some (snd (pop q))"
| "queue_step (DoPurge P) q = Some (snd (purge P q))"
| "queue_step DoDrain q = Some (snd (drain q))"
| "queue_step (DoDrainMatching P) q = map_option snd (drain_matching P q)"

lemma pop_frame: "q_config (snd (pop q)) = q_config q"
  by (auto simp: pop_def pop_best_effort_def split: list.split)

lemma drain_frame: "q_config (snd (drain q)) = q_config q"
proof (induction q rule: drain.induct)
  case (1 q)
  obtain r q' where p: "pop q = (r, q')" by fastforce
  then have "q_config q' = q_config q" using pop_frame [of q] by simp
  then show ?case
    using "1.IH" [OF p [symmetric]] p by (subst drain.simps) (auto split: option.split prod.split)
qed

lemma queue_step_total:
  assumes "queue_inv q"
  shows "\<exists>q'. queue_step op q = Some q' \<and> queue_inv q' \<and> q_config q' = q_config q"
proof (cases op)
  case (DoPush m)
  from push_total [OF assms, of m] obtain r q' where p: "push q m = Some (r, q')" "queue_inv q'"
    by blast
  with DoPush push_lanes [OF p(1)] show ?thesis by simp
next
  case DoPop
  obtain r q' where p: "pop q = (r, q')" by fastforce
  with pop_refines [OF assms p] pop_frame [of q] DoPop show ?thesis by simp
next
  case (DoPurge P)
  with purge_inv [OF assms] show ?thesis by (simp add: purge_def Let_def)
next
  case DoDrain
  with drain_refines [OF assms] show ?thesis by (simp add: drain_frame)
next
  case (DoDrainMatching P)
  from assms have "lanes_synchronised q" by (simp add: queue_inv_def)
  with DoDrainMatching purge_inv [OF assms] show ?thesis
    by (simp add: drain_matching_state) (simp add: purge_def Let_def)
qed

lemma queue_run_total:
  "queue_inv q \<Longrightarrow>
     \<exists>q'. fold_option queue_step ops q = Some q' \<and> queue_inv q' \<and> q_config q' = q_config q"
proof (induction ops arbitrary: q)
  case (Cons op ops)
  from queue_step_total [OF Cons.prems] obtain q1 where
    "queue_step op q = Some q1" "queue_inv q1" "q_config q1 = q_config q" by blast
  with Cons.IH [of q1] show ?case by auto
qed simp

subsection \<open>Coalescing\<close>








section \<open>Properties of the outbound queue\<close>

text \<open>C22. Whatever sequence of pushes, pops, purges and drains runs on a freshly created queue, no
  operation panics, the lanes stay synchronised and typed, and the number of queued messages never
  exceeds the configured total capacity.\<close>

theorem queue_run_safe:
  assumes "new_queue cfg = Inr q0"
  shows "\<exists>q. fold_option queue_step ops q0 = Some q \<and> queue_inv q
     \<and> length (contents q) \<le> total_capacity cfg"
proof -
  from new_queue_inv [OF assms] have "queue_inv q0" by simp
  moreover have "q_config q0 = cfg"
    using assms by (auto simp: new_queue_def validate_queue_config_def split: if_splits)
  ultimately show ?thesis
    using queue_run_total [of q0 ops] outbound.bounded by metis
qed

definition sample_config :: OutboundQueueConfig where
  "sample_config =
     \<lparr>total_capacity = 2, critical_capacity = 1, latest_capacity = 1, best_effort_capacity = 1\<rparr>"

definition sample_queue :: OutboundQueue where
  "sample_queue =
     \<lparr>q_config = sample_config, q_critical = [], q_latest_order = [], q_latest = bt_empty,
      q_best_effort = [], q_critical_capacity_exhausted = False\<rparr>"

definition sample_message :: "DeliveryClass \<Rightarrow> u64 \<Rightarrow> OutboundMessage" where
  "sample_message d n =
     \<lparr>om_namespace = 1, om_session = 1, om_space = 1, om_space_epoch = 1, om_entity = Some 1,
      om_channel = 1, om_sequence = n, om_delivery = d, om_persistence = Ephemeral,
      om_coalesce_key = Some (CoalesceKey 1 (Some 1) 0), om_routing_position = None,
      om_payload = []\<rparr>"

lemma sample_queue_new: "new_queue sample_config = Inr sample_queue"
  by (simp add: new_queue_def validate_queue_config_def sample_config_def sample_queue_def)

lemma sample_queue_inv: "queue_inv sample_queue"
  using new_queue_inv [OF sample_queue_new] by simp

text \<open>A queue after a latest value and a critical message were pushed, in that order.\<close>

definition busy_queue :: OutboundQueue where
  "busy_queue =
     \<lparr>q_config = sample_config, q_critical = [sample_message ReliableOrdered 2],
      q_latest_order = [ScopedCoalesceKey 1 1 1 1 (CoalesceKey 1 (Some 1) 0)],
      q_latest = bt_insert (ScopedCoalesceKey 1 1 1 1 (CoalesceKey 1 (Some 1) 0))
        (sample_message LatestValue 1) bt_empty,
      q_best_effort = [], q_critical_capacity_exhausted = False\<rparr>"

lemma busy_queue_inv: "queue_inv busy_queue"
  by (auto simp: queue_inv_defs busy_queue_def sample_config_def sample_message_def
      validate_queue_config_def queue_len_def bt_len_insert bt_get_insert is_critical_def
      is_replaceable_def scoped_coalesce_key_def split: if_splits)

lemma busy_queue_lanes:
  "q_critical busy_queue = [sample_message ReliableOrdered 2]"
  "latest_lane busy_queue = [sample_message LatestValue 1]"
  "q_best_effort busy_queue = []"
  by (simp_all add: busy_queue_def latest_lane_def)

theorem queue_run_safe_witness:
  "new_queue sample_config = Inr sample_queue
   \<and> (\<exists>q. fold_option queue_step [DoPush (sample_message LatestValue 1), DoPop] sample_queue = Some q
        \<and> queue_inv q \<and> length (contents q) \<le> total_capacity sample_config)"
  using sample_queue_new queue_run_safe [OF sample_queue_new] by blast

text \<open>C21. A critical message is never dropped or evicted: a push leaves the critical lane as it is
  or appends the critical message to it. It is refused in exactly one case, the critical lane being
  full, and then the queue is marked as belonging to a slow consumer.\<close>

theorem critical_never_lost:
  assumes "queue_inv q" and "push q m = Some (r, q')"
  shows "q_critical q' = q_critical q @
       (if is_critical (om_delivery m) \<and> r \<noteq> Inr CriticalCapacityExhausted then [m] else [])
     \<and> (r = Inr CriticalCapacityExhausted \<longleftrightarrow>
          is_critical (om_delivery m) \<and> length (q_critical q) = critical_capacity (q_config q))
     \<and> is_slow_consumer q' = (is_slow_consumer q \<or> r = Inr CriticalCapacityExhausted)"
proof -
  have "r = Inr CriticalCapacityExhausted \<longleftrightarrow>
      is_critical (om_delivery m) \<and> length (q_critical q) = critical_capacity (q_config q)"
  proof (cases "is_critical (om_delivery m)")
    case True
    then obtain r' where "push_critical q m = (r', q')" "r = Inr r'"
      using assms(2) by (auto simp: push_def split: prod.splits)
    moreover have "r' = CriticalCapacityExhausted \<longleftrightarrow>
        length (q_critical q) = critical_capacity (q_config q)"
      using calculation(1) by (auto simp: push_critical_def Let_def split: if_splits prod.splits option.splits)
    ultimately show ?thesis using True by simp
  next
    case False
    with assms(2) show ?thesis
      by (auto simp: push_def split: if_splits prod.splits
          dest: push_latest_lanes push_best_effort_lanes)
  qed
  with push_lanes [OF assms(2)] show ?thesis by (simp add: is_slow_consumer_def)
qed

theorem critical_never_lost_witness:
  "\<exists>r q'. push sample_queue (sample_message ReliableOrdered 1) = Some (r, q')
     \<and> q_critical q' = [sample_message ReliableOrdered 1]"
proof -
  obtain r q' where p: "push sample_queue (sample_message ReliableOrdered 1) = Some (r, q')"
    using push_total [OF sample_queue_inv] by blast
  from critical_never_lost [OF sample_queue_inv p] p show ?thesis
    by (auto simp: sample_queue_def sample_message_def sample_config_def is_critical_def)
qed



text \<open>C30. Draining hands out every queued message once, critical messages first, then latest values
  in the order of their last update, then best-effort messages, and leaves the queue empty.\<close>

theorem drain_in_priority_order:
  assumes "queue_inv q"
  shows "fst (drain q) = q_critical q @ latest_lane q @ q_best_effort q
     \<and> contents (snd (drain q)) = []"
  using drain_refines [OF assms] by (simp add: contents_def)

theorem drain_in_priority_order_witness:
  "queue_inv busy_queue
   \<and> fst (drain busy_queue) = [sample_message ReliableOrdered 2, sample_message LatestValue 1]
   \<and> contents (snd (drain busy_queue)) = []"
  using drain_in_priority_order [OF busy_queue_inv] busy_queue_inv
  by (simp add: busy_queue_lanes)

text \<open>C31. Selective draining by rotation is a stable partition: it never panics, hands out exactly
  the eligible messages in queue order, and leaves exactly the deferred ones, in their order.\<close>

theorem drain_matching_partitions:
  assumes "queue_inv q"
  shows "\<exists>q'. drain_matching e q = Some (filter e (contents q), q') \<and> queue_inv q'
     \<and> contents q' = filter (\<lambda>m. \<not> e m) (contents q)"
  using assms drain_matching_state [of q e] purge_inv [OF assms, of e]
  by (auto simp: queue_inv_def purge_contents)

theorem drain_matching_partitions_witness:
  "queue_inv busy_queue
   \<and> (\<exists>q'. drain_matching (\<lambda>m. om_sequence m = 1) busy_queue = Some ([sample_message LatestValue 1], q')
        \<and> contents q' = [sample_message ReliableOrdered 2])"
  using drain_matching_partitions [OF busy_queue_inv, of "\<lambda>m. om_sequence m = 1"] busy_queue_inv
  by (auto simp: busy_queue_lanes contents_def) (auto simp: sample_message_def)

end
