(* ===== verification/Cache.thy ===== *)
theory Cache
  imports Model
begin

text \<open>
  The store of \<open>Stateful\<close> channel state with per-entry inactivity TTL (\<open>cache.rs\<close>,
  \<open>InMemoryCacheService\<close>). Reads that hide expired entries, raw reads for capacity accounting,
  writes, eviction, and the sweep that reclaims what has expired.
\<close>

section \<open>Keys and entries\<close>

datatype CacheKey =
  CacheKey (cak_space: SpaceId) (cak_space_epoch: SpaceEpoch) (cak_entity: "EntityId option")
    (cak_channel: ChannelId) (cak_component: u64)

definition cache_key_tuple :: "CacheKey \<Rightarrow> u64 \<times> u64 \<times> u64 option \<times> u64 \<times> u64" where
  "cache_key_tuple k =
     (cak_space k, cak_space_epoch k, cak_entity k, cak_channel k, cak_component k)"

instantiation CacheKey :: linorder
begin

definition less_eq_CacheKey :: "CacheKey \<Rightarrow> CacheKey \<Rightarrow> bool" where
  "less_eq_CacheKey a b \<longleftrightarrow> cache_key_tuple a \<le> cache_key_tuple b"

definition less_CacheKey :: "CacheKey \<Rightarrow> CacheKey \<Rightarrow> bool" where
  "less_CacheKey a b \<longleftrightarrow> cache_key_tuple a < cache_key_tuple b"

instance
  by standard
    (auto simp: less_eq_CacheKey_def less_CacheKey_def cache_key_tuple_def intro: CacheKey.expand)

end

record CacheEntry =
  ce_sequence :: u64
  ce_payload :: "u8 list"

record StoredEntry =
  se_entry :: CacheEntry
  se_ttl :: "Duration option"
  se_last_touched :: Instant

record InMemoryCacheService =
  cache_entries :: "(CacheKey, StoredEntry) btree_map"

section \<open>Operations\<close>

definition cache_new :: InMemoryCacheService where
  "cache_new = \<lparr>cache_entries = bt_empty\<rparr>"

definition is_expired :: "StoredEntry \<Rightarrow> Instant \<Rightarrow> bool" where
  "is_expired stored now =
     (case se_ttl stored of
        None \<Rightarrow> False
      | Some ttl \<Rightarrow> ttl \<le> saturating_duration_since now (se_last_touched stored))"

definition get_fresh :: "InMemoryCacheService \<Rightarrow> CacheKey \<Rightarrow> Instant \<Rightarrow> CacheEntry option" where
  "get_fresh c key now =
     (case bt_get (cache_entries c) key of
        None \<Rightarrow> None
      | Some stored \<Rightarrow> if is_expired stored now then None else Some (se_entry stored))"

definition cache_get :: "InMemoryCacheService \<Rightarrow> CacheKey \<Rightarrow> CacheEntry option" where
  "cache_get c key = map_option se_entry (bt_get (cache_entries c) key)"

definition cache_len :: "InMemoryCacheService \<Rightarrow> usize" where
  "cache_len c = bt_len (cache_entries c)"

definition cache_is_empty :: "InMemoryCacheService \<Rightarrow> bool" where
  "cache_is_empty c = bt_is_empty (cache_entries c)"

definition cache_put ::
  "InMemoryCacheService \<Rightarrow> CacheKey \<Rightarrow> CacheEntry \<Rightarrow> Duration option \<Rightarrow> Instant
   \<Rightarrow> CacheEntry option \<times> InMemoryCacheService" where
  "cache_put c key entry ttl now =
     (map_option se_entry (bt_get (cache_entries c) key),
      c\<lparr>cache_entries :=
          bt_insert key \<lparr>se_entry = entry, se_ttl = ttl, se_last_touched = now\<rparr> (cache_entries c)\<rparr>)"

definition cache_evict ::
  "InMemoryCacheService \<Rightarrow> CacheKey \<Rightarrow> CacheEntry option \<times> InMemoryCacheService" where
  "cache_evict c key =
     (map_option se_entry (bt_get (cache_entries c) key),
      c\<lparr>cache_entries := bt_remove key (cache_entries c)\<rparr>)"

definition sweep_expired ::
  "InMemoryCacheService \<Rightarrow> Instant \<Rightarrow> usize \<times> InMemoryCacheService" where
  "sweep_expired c now =
     (let entries' = bt_retain (\<lambda>_ stored. \<not> is_expired stored now) (cache_entries c)
      in (bt_len (cache_entries c) - bt_len entries', c\<lparr>cache_entries := entries'\<rparr>))"

definition byte_len :: "InMemoryCacheService \<Rightarrow> usize" where
  "byte_len c = bt_sum (\<lambda>_ stored. length (ce_payload (se_entry stored))) (cache_entries c)"

definition cache_iter :: "InMemoryCacheService \<Rightarrow> (CacheKey \<times> CacheEntry) list" where
  "cache_iter c = map (\<lambda>(key, stored). (key, se_entry stored)) (bt_entries (cache_entries c))"

definition cache_retain ::
  "(CacheKey \<Rightarrow> bool) \<Rightarrow> InMemoryCacheService \<Rightarrow> InMemoryCacheService" where
  "cache_retain keep c = c\<lparr>cache_entries := bt_retain (\<lambda>key _. keep key) (cache_entries c)\<rparr>"

text \<open>The asynchronous service contract, with the clock reading as an argument.\<close>

definition service_get :: "Instant \<Rightarrow> InMemoryCacheService \<Rightarrow> CacheKey \<Rightarrow> CacheEntry option" where
  "service_get now c key = get_fresh c key now"

definition service_set ::
  "Instant \<Rightarrow> InMemoryCacheService \<Rightarrow> CacheKey \<Rightarrow> CacheEntry \<Rightarrow> Duration option
   \<Rightarrow> InMemoryCacheService" where
  "service_set now c key entry ttl = snd (cache_put c key entry ttl now)"

definition service_remove :: "InMemoryCacheService \<Rightarrow> CacheKey \<Rightarrow> InMemoryCacheService" where
  "service_remove c key = snd (cache_evict c key)"

section \<open>Laws\<close>

lemma is_expired_mono: "is_expired s t \<Longrightarrow> t \<le> t' \<Longrightarrow> is_expired s t'"
  by (auto simp: is_expired_def saturating_duration_since_def split: option.splits)

lemma get_fresh_put:
  "get_fresh (snd (cache_put c k e ttl now)) k' t =
     (if k' = k
      then (if is_expired \<lparr>se_entry = e, se_ttl = ttl, se_last_touched = now\<rparr> t then None else Some e)
      else get_fresh c k' t)"
  by (simp add: get_fresh_def cache_put_def bt_get_insert)

lemma sweep_expired_invisible:
  "now \<le> t \<Longrightarrow> get_fresh (snd (sweep_expired c now)) k t = get_fresh c k t"
  by (auto simp: get_fresh_def sweep_expired_def Let_def bt_get_retain
      dest: is_expired_mono split: option.split)

lemma sweep_expired_get:
  "cache_get (snd (sweep_expired c now)) k = get_fresh c k now"
  by (auto simp: get_fresh_def cache_get_def sweep_expired_def Let_def bt_get_retain split: option.split)

lemma byte_len_new [simp]: "byte_len cache_new = 0"
  by (simp add: byte_len_def cache_new_def)

lemma byte_len_put:
  assumes "cache_put c k e ttl now = (prev, c')"
  shows "byte_len c' + (case prev of None \<Rightarrow> 0 | Some p \<Rightarrow> length (ce_payload p)) =
     byte_len c + length (ce_payload e)"
  using assms bt_sum_insert_add [of "\<lambda>_ s. length (ce_payload (se_entry s))" k
      "\<lparr>se_entry = e, se_ttl = ttl, se_last_touched = now\<rparr>" "cache_entries c"]
  by (auto simp: cache_put_def byte_len_def split: option.splits)

lemma cache_len_put:
  "cache_put c k e ttl now = (prev, c') \<Longrightarrow>
     cache_len c' = (if prev = None then Suc (cache_len c) else cache_len c)"
  by (auto simp: cache_put_def cache_len_def bt_len_insert)

lemma cache_get_put:
  "cache_put c k e ttl now = (prev, c') \<Longrightarrow>
     prev = cache_get c k \<and> cache_get c' k' = (if k' = k then Some e else cache_get c k')"
  by (auto simp: cache_put_def cache_get_def bt_get_insert)

lemma cache_get_retain:
  "cache_get (cache_retain keep c) k = (if keep k then cache_get c k else None)"
  by (auto simp: cache_get_def cache_retain_def bt_get_retain split: option.split)

lemma cache_iter_iff: "(k, e) \<in> set (cache_iter c) \<longleftrightarrow> cache_get c k = Some e"
  by (force simp: cache_iter_def cache_get_def bt_entries_iff)

section \<open>Interface\<close>

text \<open>What a user of an expiring store relies on: a write is read back until its lifetime is
  over, writes to other keys do not interfere, and a sweep is invisible to fresh reads.\<close>

locale expiring_store =
  fixes fetch :: "'c \<Rightarrow> 'k \<Rightarrow> Instant \<Rightarrow> 'v option"
    and store :: "'c \<Rightarrow> 'k \<Rightarrow> 'v \<Rightarrow> Duration option \<Rightarrow> Instant \<Rightarrow> 'c"
    and sweep :: "'c \<Rightarrow> Instant \<Rightarrow> 'c"
  assumes read_own_write:
      "fetch (store c k v ttl now) k t =
         (case ttl of None \<Rightarrow> Some v | Some d \<Rightarrow> if d \<le> t - now then None else Some v)"
    and read_other_write: "k' \<noteq> k \<Longrightarrow> fetch (store c k v ttl now) k' t = fetch c k' t"
    and sweep_invisible: "now \<le> t \<Longrightarrow> fetch (sweep c now) k t = fetch c k t"
begin

lemma sweeps_invisible:
  "\<forall>n \<in> set ns. n \<le> t \<Longrightarrow> fetch (fold (\<lambda>n c. sweep c n) ns c) k t = fetch c k t"
  by (induction ns arbitrary: c) (simp_all add: sweep_invisible)

text \<open>A value written at \<open>now\<close> survives any later sweeps for its whole lifetime.\<close>

lemma write_survives_sweeps:
  assumes "\<forall>n \<in> set ns. n \<le> t" and "t - now < d"
  shows "fetch (fold (\<lambda>n c. sweep c n) ns (store c k v (Some d) now)) k t = Some v"
  using assms by (simp add: sweeps_invisible read_own_write)

end

interpretation state_cache:
  expiring_store get_fresh "\<lambda>c k e ttl now. snd (cache_put c k e ttl now)"
    "\<lambda>c now. snd (sweep_expired c now)"
  by unfold_locales
    (auto simp: get_fresh_put sweep_expired_invisible is_expired_def saturating_duration_since_def
      split: option.split)

end
