(* ===== verification/Journal.thy ===== *)
theory Journal
  imports Model Buffer_Interface
begin

text \<open>
  The bounded journal outbox (\<open>journal.rs\<close>): durable messages wait here for the persistence
  worker. A push on a full outbox fails and changes nothing. The sink itself is outside the core.
\<close>

record JournalRecord =
  jr_message :: OutboundMessage

datatype JournalOutboxError = JournalFull

record JournalOutbox =
  jo_capacity :: usize
  jo_records :: "JournalRecord list"

definition new_outbox :: "usize \<Rightarrow> JournalOutbox" where
  "new_outbox capacity = \<lparr>jo_capacity = capacity, jo_records = []\<rparr>"

definition outbox_push ::
  "JournalOutbox \<Rightarrow> JournalRecord \<Rightarrow> (JournalOutboxError + unit) \<times> JournalOutbox" where
  "outbox_push j r =
     (if length (jo_records j) = jo_capacity j then (Inl JournalFull, j)
      else (Inr (), j\<lparr>jo_records := jo_records j @ [r]\<rparr>))"

definition outbox_pop :: "JournalOutbox \<Rightarrow> JournalRecord option \<times> JournalOutbox" where
  "outbox_pop j =
     (case jo_records j of
        [] \<Rightarrow> (None, j)
      | r # rest \<Rightarrow> (Some r, j\<lparr>jo_records := rest\<rparr>))"

definition outbox_len :: "JournalOutbox \<Rightarrow> usize" where
  "outbox_len j = length (jo_records j)"

definition remaining_capacity :: "JournalOutbox \<Rightarrow> usize" where
  "remaining_capacity j = jo_capacity j - length (jo_records j)"

definition outbox_inv :: "JournalOutbox \<Rightarrow> bool" where
  "outbox_inv j \<longleftrightarrow> length (jo_records j) \<le> jo_capacity j"

lemma outbox_new_inv: "outbox_inv (new_outbox n)"
  by (simp add: outbox_inv_def new_outbox_def)

lemma outbox_push_inv: "outbox_inv j \<Longrightarrow> outbox_inv (snd (outbox_push j r))"
  by (auto simp: outbox_inv_def outbox_push_def)

lemma outbox_pop_inv: "outbox_inv j \<Longrightarrow> outbox_inv (snd (outbox_pop j))"
  by (auto simp: outbox_inv_def outbox_pop_def split: list.split)

lemma outbox_push_room:
  "0 < remaining_capacity j \<Longrightarrow>
     outbox_push j r = (Inr (), j\<lparr>jo_records := jo_records j @ [r]\<rparr>)"
  by (simp add: remaining_capacity_def outbox_push_def)

interpretation journal: bounded_buffer outbox_inv jo_records jo_capacity
  by unfold_locales (simp add: outbox_inv_def)

end
