(* ===== verification/Auth.thy ===== *)
theory Auth
  imports Model "HOL-Library.Char_ord" "HOL-Library.List_Lexorder"
begin

text \<open>
  Credentials, grants and the development authenticator (\<open>auth.rs\<close>). A grant is recorded
  separately for namespaces, sessions, spaces and channels; an absent grant denies.
\<close>

record Credentials =
  cr_token :: string

datatype AccessGrant = Read | Write | ReadWrite

definition permits_read :: "AccessGrant \<Rightarrow> bool" where
  "permits_read g \<longleftrightarrow> g = Read \<or> g = ReadWrite"

definition permits_write :: "AccessGrant \<Rightarrow> bool" where
  "permits_write g \<longleftrightarrow> g = Write \<or> g = ReadWrite"

datatype ChannelScope = ChannelScope (cs_session: SessionKey) (cs_channel: ChannelId)

definition channel_scope_tuple :: "ChannelScope \<Rightarrow> SessionKey \<times> u64" where
  "channel_scope_tuple k = (cs_session k, cs_channel k)"

instantiation ChannelScope :: linorder
begin

definition less_eq_ChannelScope :: "ChannelScope \<Rightarrow> ChannelScope \<Rightarrow> bool" where
  "less_eq_ChannelScope a b \<longleftrightarrow> channel_scope_tuple a \<le> channel_scope_tuple b"

definition less_ChannelScope :: "ChannelScope \<Rightarrow> ChannelScope \<Rightarrow> bool" where
  "less_ChannelScope a b \<longleftrightarrow> channel_scope_tuple a < channel_scope_tuple b"

instance
  by standard
    (auto simp: less_eq_ChannelScope_def less_ChannelScope_def channel_scope_tuple_def
      intro: ChannelScope.expand)

end

record AuthorizationGrants =
  ag_namespaces :: "(NamespaceId, AccessGrant) btree_map"
  ag_sessions :: "(SessionKey, AccessGrant) btree_map"
  ag_spaces :: "(SpaceKey, AccessGrant) btree_map"
  ag_channels :: "(ChannelScope, AccessGrant) btree_map"

definition new_grants :: AuthorizationGrants where
  "new_grants =
     \<lparr>ag_namespaces = bt_empty, ag_sessions = bt_empty, ag_spaces = bt_empty,
      ag_channels = bt_empty\<rparr>"

definition grant_namespace ::
  "NamespaceId \<Rightarrow> AccessGrant \<Rightarrow> AuthorizationGrants \<Rightarrow> AuthorizationGrants" where
  "grant_namespace n a g = g\<lparr>ag_namespaces := bt_insert n a (ag_namespaces g)\<rparr>"

definition grant_session ::
  "SessionKey \<Rightarrow> AccessGrant \<Rightarrow> AuthorizationGrants \<Rightarrow> AuthorizationGrants" where
  "grant_session s a g = g\<lparr>ag_sessions := bt_insert s a (ag_sessions g)\<rparr>"

definition grant_space ::
  "SpaceKey \<Rightarrow> AccessGrant \<Rightarrow> AuthorizationGrants \<Rightarrow> AuthorizationGrants" where
  "grant_space s a g = g\<lparr>ag_spaces := bt_insert s a (ag_spaces g)\<rparr>"

definition grant_channel ::
  "ChannelScope \<Rightarrow> AccessGrant \<Rightarrow> AuthorizationGrants \<Rightarrow> AuthorizationGrants" where
  "grant_channel c a g = g\<lparr>ag_channels := bt_insert c a (ag_channels g)\<rparr>"

definition some_and :: "('a \<Rightarrow> bool) \<Rightarrow> 'a option \<Rightarrow> bool" where
  "some_and P x = (case x of None \<Rightarrow> False | Some a \<Rightarrow> P a)"

definition can_read_namespace :: "AuthorizationGrants \<Rightarrow> NamespaceId \<Rightarrow> bool" where
  "can_read_namespace g n = some_and permits_read (bt_get (ag_namespaces g) n)"

definition can_write_namespace :: "AuthorizationGrants \<Rightarrow> NamespaceId \<Rightarrow> bool" where
  "can_write_namespace g n = some_and permits_write (bt_get (ag_namespaces g) n)"

definition can_read_session :: "AuthorizationGrants \<Rightarrow> SessionKey \<Rightarrow> bool" where
  "can_read_session g s = some_and permits_read (bt_get (ag_sessions g) s)"

definition can_write_session :: "AuthorizationGrants \<Rightarrow> SessionKey \<Rightarrow> bool" where
  "can_write_session g s = some_and permits_write (bt_get (ag_sessions g) s)"

definition can_read_space :: "AuthorizationGrants \<Rightarrow> SpaceKey \<Rightarrow> bool" where
  "can_read_space g s = some_and permits_read (bt_get (ag_spaces g) s)"

definition can_write_space :: "AuthorizationGrants \<Rightarrow> SpaceKey \<Rightarrow> bool" where
  "can_write_space g s = some_and permits_write (bt_get (ag_spaces g) s)"

definition can_read_channel :: "AuthorizationGrants \<Rightarrow> ChannelScope \<Rightarrow> bool" where
  "can_read_channel g c = some_and permits_read (bt_get (ag_channels g) c)"

definition can_write_channel :: "AuthorizationGrants \<Rightarrow> ChannelScope \<Rightarrow> bool" where
  "can_write_channel g c = some_and permits_write (bt_get (ag_channels g) c)"

record AuthenticatedPrincipal =
  ap_principal_id :: PrincipalId
  ap_grants :: AuthorizationGrants

datatype AuthError = InvalidCredentials

datatype DevAuthenticatorError = ZeroCapacity | CapacityReached

record DevAuthenticator =
  da_max_identities :: usize
  da_identities :: "(string, AuthenticatedPrincipal) btree_map"

definition dev_new :: DevAuthenticator where
  "dev_new = \<lparr>da_max_identities = 64, da_identities = bt_empty\<rparr>"

definition dev_with_capacity :: "usize \<Rightarrow> DevAuthenticatorError + DevAuthenticator" where
  "dev_with_capacity n =
     (if n = 0 then Inl ZeroCapacity
      else Inr \<lparr>da_max_identities = n, da_identities = bt_empty\<rparr>)"

definition dev_insert ::
  "DevAuthenticator \<Rightarrow> string \<Rightarrow> AuthenticatedPrincipal
   \<Rightarrow> (DevAuthenticatorError + AuthenticatedPrincipal option) \<times> DevAuthenticator" where
  "dev_insert d token p =
     (if \<not> bt_contains (da_identities d) token \<and> bt_len (da_identities d) = da_max_identities d
      then (Inl CapacityReached, d)
      else (Inr (bt_get (da_identities d) token),
            d\<lparr>da_identities := bt_insert token p (da_identities d)\<rparr>))"

definition dev_authenticate ::
  "DevAuthenticator \<Rightarrow> Credentials \<Rightarrow> AuthError + AuthenticatedPrincipal" where
  "dev_authenticate d c = ok_or (bt_get (da_identities d) (cr_token c)) InvalidCredentials"

section \<open>Properties\<close>

lemma some_and_simps [simp]: "some_and P None = False" "some_and P (Some a) = P a"
  by (simp_all add: some_and_def)

lemma grants_start_empty:
  "\<not> can_read_namespace new_grants n" "\<not> can_write_namespace new_grants n"
  "\<not> can_read_session new_grants s" "\<not> can_write_session new_grants s"
  "\<not> can_read_space new_grants sp" "\<not> can_write_space new_grants sp"
  "\<not> can_read_channel new_grants c" "\<not> can_write_channel new_grants c"
  by (simp_all add: new_grants_def can_read_namespace_def can_write_namespace_def
      can_read_session_def can_write_session_def can_read_space_def can_write_space_def
      can_read_channel_def can_write_channel_def)

definition dev_inv :: "DevAuthenticator \<Rightarrow> bool" where
  "dev_inv d \<longleftrightarrow> bt_len (da_identities d) \<le> da_max_identities d"

lemma dev_insert_inv: "dev_inv d \<Longrightarrow> dev_inv (snd (dev_insert d t p))"
  by (auto simp: dev_inv_def dev_insert_def bt_len_insert)

end
