(* ===== verification/Authority.thy ===== *)
theory Authority
  imports Auth
begin

text \<open>
  Channel authority (\<open>authority.rs\<close>): the policy a channel evaluates on every proposed message,
  and the default policy \<open>RelayOwned\<close>. A policy object (\<open>Arc<dyn AuthorityPolicy>\<close>) is the function
  it evaluates.
\<close>

record AuthorityContext =
  ac_connection :: ConnectionId
  ac_principal :: PrincipalId
  ac_is_session_member :: bool
  ac_is_space_subscriber :: bool
  ac_entity_owner :: "ConnectionId option"

record ProposedMessage =
  pm_space :: SpaceId
  pm_space_epoch :: SpaceEpoch
  pm_entity :: "EntityId option"
  pm_channel :: ChannelId
  pm_sequence :: u64
  pm_delivery :: DeliveryClass
  pm_persistence :: PersistenceClass
  pm_coalesce_key :: "CoalesceKey option"
  pm_payload :: "u8 list"

record AuthorityTransform =
  at_coalesce_key :: "CoalesceKey option"
  at_payload :: "u8 list"

record AuthorityEmission =
  ae_space :: SpaceId
  ae_space_epoch :: SpaceEpoch
  ae_entity :: "EntityId option"
  ae_channel :: ChannelId
  ae_sequence :: u64
  ae_delivery :: DeliveryClass
  ae_persistence :: PersistenceClass
  ae_coalesce_key :: "CoalesceKey option"
  ae_payload :: "u8 list"

datatype AuthorityRejection =
    AuthenticationRequiredR
  | SessionMembershipRequiredR
  | SpaceSubscriptionRequiredR
  | EntityRequiredR
  | EntityNotOwnedR
  | PolicyDenied

datatype AuthorityOutcome =
    Accept
  | Reject AuthorityRejection
  | Transform AuthorityTransform
  | Emit "AuthorityEmission list"

type_synonym AuthorityPolicy = "AuthorityContext \<Rightarrow> ProposedMessage \<Rightarrow> AuthorityOutcome"

definition relay_owned_evaluate :: AuthorityPolicy where
  "relay_owned_evaluate ctx proposed =
     (if \<not> ac_is_session_member ctx then Reject SessionMembershipRequiredR
      else if \<not> ac_is_space_subscriber ctx then Reject SpaceSubscriptionRequiredR
      else if pm_entity proposed = None then Reject EntityRequiredR
      else if ac_entity_owner ctx \<noteq> Some (ac_connection ctx) then Reject EntityNotOwnedR
      else Accept)"

record ChannelDefinition =
  cd_id :: ChannelId
  cd_delivery :: DeliveryClass
  cd_persistence :: PersistenceClass
  cd_max_payload_bytes :: usize
  cd_authority :: AuthorityPolicy

definition with_authority ::
  "ChannelId \<Rightarrow> DeliveryClass \<Rightarrow> PersistenceClass \<Rightarrow> usize \<Rightarrow> AuthorityPolicy \<Rightarrow> ChannelDefinition" where
  "with_authority i d p n a =
     \<lparr>cd_id = i, cd_delivery = d, cd_persistence = p, cd_max_payload_bytes = n, cd_authority = a\<rparr>"

definition relay_owned :: "ChannelId \<Rightarrow> DeliveryClass \<Rightarrow> PersistenceClass \<Rightarrow> usize \<Rightarrow> ChannelDefinition" where
  "relay_owned i d p n =
     \<lparr>cd_id = i, cd_delivery = d, cd_persistence = p, cd_max_payload_bytes = n,
      cd_authority = relay_owned_evaluate\<rparr>"

definition new_channel :: "ChannelId \<Rightarrow> DeliveryClass \<Rightarrow> PersistenceClass \<Rightarrow> usize \<Rightarrow> ChannelDefinition" where
  "new_channel i d p n = relay_owned i d p n"

section \<open>Interface\<close>

text \<open>An ownership policy never lets a message through, changed or not, unless it names an entity
  the connection owns.\<close>

locale ownership_policy =
  fixes evaluate :: AuthorityPolicy
  assumes only_owner: "(case evaluate ctx p of Reject _ \<Rightarrow> False | _ \<Rightarrow> True) \<Longrightarrow>
      pm_entity p \<noteq> None \<and> ac_entity_owner ctx = Some (ac_connection ctx)"
begin

lemma foreign_entity_rejected:
  "ac_entity_owner ctx \<noteq> Some (ac_connection ctx) \<Longrightarrow> \<exists>r. evaluate ctx p = Reject r"
  using only_owner [of ctx p] by (cases "evaluate ctx p") auto

end

interpretation relay: ownership_policy relay_owned_evaluate
  by unfold_locales (auto simp: relay_owned_evaluate_def split: if_splits)

end
