(* ===== verification/Usage.thy ===== *)
theory Usage
  imports Model
begin

text \<open>
  Usage accounting (\<open>usage.rs\<close>): the per-session counters the admission controller drives, the
  window snapshot, and the in-memory and spooling sinks. The atomics of the source are read and
  written by one owner in the model; \<open>fetch_add\<close> wraps.
\<close>

section \<open>Counters\<close>

record AdmissionMetadata =
  am_node_id :: NodeId
  am_session :: SessionKey

record UsageMetrics =
  um_join_attempts :: u64
  um_immediate_admissions :: u64
  um_queued_joins :: u64
  um_queue_full_rejections :: u64
  um_paused_rejections :: u64
  um_auth_rejections :: u64
  um_reconnect_reservations :: u64
  um_successful_resumes :: u64
  um_promoted_players :: u64
  um_expired_tickets :: u64
  um_cancelled_tickets :: u64
  um_abandoned_offers :: u64
  um_events_received :: u64
  um_events_delivered :: u64
  um_events_dropped :: u64
  um_bytes_received :: u64
  um_bytes_delivered :: u64
  um_persistence_reads :: u64
  um_persistence_writes :: u64
  um_inference_requests :: u64
  um_capacity_allocations :: u64
  um_active_ccu :: u32
  um_peak_ccu :: u32
  um_queue_depth :: u32
  um_peak_queue_depth :: u32
  um_connection_seconds :: u64

definition zero_metrics :: UsageMetrics where
  "zero_metrics =
     \<lparr>um_join_attempts = 0, um_immediate_admissions = 0, um_queued_joins = 0,
      um_queue_full_rejections = 0, um_paused_rejections = 0, um_auth_rejections = 0,
      um_reconnect_reservations = 0, um_successful_resumes = 0, um_promoted_players = 0,
      um_expired_tickets = 0, um_cancelled_tickets = 0, um_abandoned_offers = 0,
      um_events_received = 0, um_events_delivered = 0, um_events_dropped = 0,
      um_bytes_received = 0, um_bytes_delivered = 0, um_persistence_reads = 0,
      um_persistence_writes = 0, um_inference_requests = 0, um_capacity_allocations = 0,
      um_active_ccu = 0, um_peak_ccu = 0, um_queue_depth = 0, um_peak_queue_depth = 0,
      um_connection_seconds = 0\<rparr>"

type_synonym ConnectionHandle = u64

record ActiveConnection =
  acn_handle :: ConnectionHandle
  acn_principal :: PrincipalId
  acn_started :: Instant

text \<open>The counters and gauges of \<open>UsageCounters\<close> are one \<open>UsageMetrics\<close> record.\<close>

record UsageCounters =
  uc_metadata :: AdmissionMetadata
  uc_next_handle :: u64
  uc_metrics :: UsageMetrics
  uc_active :: "ActiveConnection list"

definition new_counters :: "AdmissionMetadata \<Rightarrow> UsageCounters" where
  "new_counters md =
     \<lparr>uc_metadata = md, uc_next_handle = 1, uc_metrics = zero_metrics, uc_active = []\<rparr>"

definition start_connection ::
  "PrincipalId \<Rightarrow> Instant \<Rightarrow> UsageCounters \<Rightarrow> ConnectionHandle \<times> UsageCounters" where
  "start_connection prin now u =
     (uc_next_handle u,
      u\<lparr>uc_next_handle := uc_next_handle u + 1,
        uc_active := uc_active u @
          [\<lparr>acn_handle = uc_next_handle u, acn_principal = prin, acn_started = now\<rparr>]\<rparr>)"

definition swap_remove :: "nat \<Rightarrow> 'a list \<Rightarrow> 'a list" where
  "swap_remove i xs = (if Suc i = length xs then butlast xs else (butlast xs)[i := last xs])"

fun position_of :: "('a \<Rightarrow> bool) \<Rightarrow> 'a list \<Rightarrow> nat option" where
  "position_of P [] = None"
| "position_of P (x # xs) = (if P x then Some 0 else map_option Suc (position_of P xs))"

definition end_connection :: "ConnectionHandle \<Rightarrow> Instant \<Rightarrow> UsageCounters \<Rightarrow> UsageCounters" where
  "end_connection handle now u =
     (case position_of (\<lambda>c. acn_handle c = handle) (uc_active u) of
        None \<Rightarrow> u
      | Some i \<Rightarrow>
          let conn = uc_active u ! i;
              seconds = as_secs (saturating_duration_since now (acn_started conn))
          in u\<lparr>uc_active := swap_remove i (uc_active u),
               uc_metrics := (uc_metrics u)\<lparr>um_connection_seconds :=
                 um_connection_seconds (uc_metrics u) + of_nat seconds\<rparr>\<rparr>)"

definition bump :: "(UsageMetrics \<Rightarrow> UsageMetrics) \<Rightarrow> UsageCounters \<Rightarrow> UsageCounters" where
  "bump f u = u\<lparr>uc_metrics := f (uc_metrics u)\<rparr>"

definition increment_join_attempts :: "UsageCounters \<Rightarrow> UsageCounters" where
  "increment_join_attempts = bump (\<lambda>m. m\<lparr>um_join_attempts := um_join_attempts m + 1\<rparr>)"

definition increment_immediate_admissions :: "UsageCounters \<Rightarrow> UsageCounters" where
  "increment_immediate_admissions =
     bump (\<lambda>m. m\<lparr>um_immediate_admissions := um_immediate_admissions m + 1\<rparr>)"

definition increment_queued_joins :: "UsageCounters \<Rightarrow> UsageCounters" where
  "increment_queued_joins = bump (\<lambda>m. m\<lparr>um_queued_joins := um_queued_joins m + 1\<rparr>)"

definition increment_queue_full_rejections :: "UsageCounters \<Rightarrow> UsageCounters" where
  "increment_queue_full_rejections =
     bump (\<lambda>m. m\<lparr>um_queue_full_rejections := um_queue_full_rejections m + 1\<rparr>)"

definition increment_paused_rejections :: "UsageCounters \<Rightarrow> UsageCounters" where
  "increment_paused_rejections =
     bump (\<lambda>m. m\<lparr>um_paused_rejections := um_paused_rejections m + 1\<rparr>)"

definition increment_auth_rejections :: "UsageCounters \<Rightarrow> UsageCounters" where
  "increment_auth_rejections = bump (\<lambda>m. m\<lparr>um_auth_rejections := um_auth_rejections m + 1\<rparr>)"

definition increment_reconnect_reservations :: "UsageCounters \<Rightarrow> UsageCounters" where
  "increment_reconnect_reservations =
     bump (\<lambda>m. m\<lparr>um_reconnect_reservations := um_reconnect_reservations m + 1\<rparr>)"

definition increment_successful_resumes :: "UsageCounters \<Rightarrow> UsageCounters" where
  "increment_successful_resumes =
     bump (\<lambda>m. m\<lparr>um_successful_resumes := um_successful_resumes m + 1\<rparr>)"

definition increment_promoted_players :: "UsageCounters \<Rightarrow> UsageCounters" where
  "increment_promoted_players = bump (\<lambda>m. m\<lparr>um_promoted_players := um_promoted_players m + 1\<rparr>)"

definition increment_expired_tickets_by :: "u32 \<Rightarrow> UsageCounters \<Rightarrow> UsageCounters" where
  "increment_expired_tickets_by n =
     bump (\<lambda>m. m\<lparr>um_expired_tickets := um_expired_tickets m + ucast n\<rparr>)"

definition increment_cancelled_tickets :: "UsageCounters \<Rightarrow> UsageCounters" where
  "increment_cancelled_tickets =
     bump (\<lambda>m. m\<lparr>um_cancelled_tickets := um_cancelled_tickets m + 1\<rparr>)"

definition increment_abandoned_offers_by :: "u32 \<Rightarrow> UsageCounters \<Rightarrow> UsageCounters" where
  "increment_abandoned_offers_by n =
     bump (\<lambda>m. m\<lparr>um_abandoned_offers := um_abandoned_offers m + ucast n\<rparr>)"

definition increment_capacity_allocations :: "UsageCounters \<Rightarrow> UsageCounters" where
  "increment_capacity_allocations =
     bump (\<lambda>m. m\<lparr>um_capacity_allocations := um_capacity_allocations m + 1\<rparr>)"

definition set_active_ccu :: "u32 \<Rightarrow> UsageCounters \<Rightarrow> UsageCounters" where
  "set_active_ccu v =
     bump (\<lambda>m. m\<lparr>um_active_ccu := v, um_peak_ccu := max (um_peak_ccu m) v\<rparr>)"

definition set_queue_depth :: "usize \<Rightarrow> UsageCounters \<Rightarrow> UsageCounters" where
  "set_queue_depth v =
     (let bounded = of_nat (min v (2 ^ 32 - 1))
      in bump (\<lambda>m. m\<lparr>um_queue_depth := bounded, um_peak_queue_depth := max (um_peak_queue_depth m) bounded\<rparr>))"

text \<open>The window snapshot: counters and peaks start again from zero, gauges stay, and running
  connections are charged up to the end of the window.\<close>

definition snapshot_and_reset :: "Instant \<Rightarrow> UsageCounters \<Rightarrow> UsageMetrics \<times> UsageCounters" where
  "snapshot_and_reset window_end u =
     (let m = uc_metrics u;
          seconds = fold (\<lambda>c s. s + of_nat (as_secs (saturating_duration_since window_end (acn_started c))))
                      (uc_active u) (um_connection_seconds m)
      in (m\<lparr>um_connection_seconds := seconds\<rparr>,
          u\<lparr>uc_metrics := zero_metrics\<lparr>um_active_ccu := um_active_ccu m, um_queue_depth := um_queue_depth m\<rparr>,
            uc_active := map (\<lambda>c. c\<lparr>acn_started := window_end\<rparr>) (uc_active u)\<rparr>))"

section \<open>Windows and sinks\<close>

record UsageWindow =
  uw_schema_version :: u16
  uw_node_id :: NodeId
  uw_session :: SessionKey
  uw_window_start :: nat
  uw_window_end :: nat
  uw_sequence :: u64
  uw_capacity_revision :: u64
  uw_allocated_ccu :: u32
  uw_metrics :: UsageMetrics

record UsageSinkError =
  use_message :: string
  use_retryable :: bool

record MemoryUsageSink =
  ms_capacity :: usize
  ms_windows :: "UsageWindow list"

definition memory_append ::
  "MemoryUsageSink \<Rightarrow> UsageWindow \<Rightarrow> (UsageSinkError + unit) \<times> MemoryUsageSink" where
  "memory_append s w =
     (let ws = (if length (ms_windows s) = ms_capacity s then tl (ms_windows s) else ms_windows s)
      in (Inr (), s\<lparr>ms_windows := ws @ [w]\<rparr>))"

datatype SinkHealth = Healthy | Degraded

text \<open>The spooling sink wraps any sink, given by its state and its \<open>append\<close>.\<close>

record 'i SpoolingUsageSink =
  sp_inner :: 'i
  sp_capacity :: usize
  sp_spool :: "UsageWindow list"
  sp_health :: SinkHealth
  sp_dropped_windows :: u64

definition push_to_spool :: "UsageWindow \<Rightarrow> 'i SpoolingUsageSink \<Rightarrow> 'i SpoolingUsageSink" where
  "push_to_spool w s =
     (let s1 = (if length (sp_spool s) = sp_capacity s
                then s\<lparr>sp_spool := tl (sp_spool s),
                       sp_dropped_windows := sp_dropped_windows s + 1,
                       sp_health := Degraded\<rparr>
                else s)
      in s1\<lparr>sp_spool := sp_spool s1 @ [w]\<rparr>)"

function spool_append ::
  "('i \<Rightarrow> UsageWindow \<Rightarrow> (UsageSinkError + unit) \<times> 'i) \<Rightarrow> 'i SpoolingUsageSink \<Rightarrow> UsageWindow
   \<Rightarrow> (UsageSinkError + unit) \<times> 'i SpoolingUsageSink" where
  "spool_append inner s w =
     (case sp_spool s of
        pending # rest \<Rightarrow>
          (case inner (sp_inner s) pending of
             (Inr _, i) \<Rightarrow> spool_append inner (s\<lparr>sp_spool := rest, sp_inner := i\<rparr>) w
           | (Inl err, i) \<Rightarrow>
               if use_retryable err
               then (Inl err, push_to_spool w (s\<lparr>sp_spool := rest, sp_inner := i\<rparr>))
               else spool_append inner (s\<lparr>sp_spool := rest, sp_inner := i, sp_health := Degraded\<rparr>) w)
      | [] \<Rightarrow>
          (case inner (sp_inner s) w of
             (Inr _, i) \<Rightarrow> (Inr (), s\<lparr>sp_inner := i, sp_health := Healthy\<rparr>)
           | (Inl err, i) \<Rightarrow>
               if use_retryable err then (Inl err, push_to_spool w (s\<lparr>sp_inner := i\<rparr>))
               else (Inl err, s\<lparr>sp_inner := i\<rparr>)))"
  by pat_completeness auto
termination
  by (relation "measure (\<lambda>(_, s, _). length (sp_spool s))") auto

declare spool_append.simps [simp del]

section \<open>Facts\<close>

lemma position_of_Some: "position_of P xs = Some i \<Longrightarrow> i < length xs \<and> P (xs ! i)"
  by (induction xs arbitrary: i) (auto split: if_splits)

lemma spool_append_bounded:
  "length (sp_spool s) \<le> sp_capacity s \<Longrightarrow> 0 < sp_capacity s \<Longrightarrow>
   length (sp_spool (snd (spool_append inner s w))) \<le> sp_capacity s"
proof (induction inner s w rule: spool_append.induct)
  case (1 inner s w)
  show ?case
  proof (cases "sp_spool s")
    case Nil
    then show ?thesis
      using "1.prems"
      by (subst spool_append.simps) (auto simp: push_to_spool_def Let_def split: sum.split prod.split)
  next
    case (Cons p rest)
    obtain r i where r: "inner (sp_inner s) p = (r, i)" by fastforce
    show ?thesis
      using "1.prems" Cons r "1.IH"(1) [OF Cons r [symmetric]] "1.IH"(2) [OF Cons r [symmetric]]
      by (subst spool_append.simps) (auto simp: push_to_spool_def Let_def split: sum.split)
  qed
qed

text \<open>While the inner sink accepts, the spool is delivered in order, then the new window.\<close>

lemma spool_append_delivers:
  assumes "\<And>i v. fst (inner i v) = Inr ()"
  shows "spool_append inner s w =
     (Inr (), s\<lparr>sp_spool := [],
                sp_inner := fold (\<lambda>v i. snd (inner i v)) (sp_spool s @ [w]) (sp_inner s),
                sp_health := Healthy\<rparr>)"
proof (induction "sp_spool s" arbitrary: s)
  case Nil
  then show ?case
    using assms [of "sp_inner s" w]
    by (subst spool_append.simps) (auto split: prod.split)
next
  case (Cons p rest)
  obtain i where r: "inner (sp_inner s) p = (Inr (), i)"
    using assms [of "sp_inner s" p] by (metis prod.collapse)
  have "spool_append inner s w = spool_append inner (s\<lparr>sp_spool := rest, sp_inner := i\<rparr>) w"
    using r by (subst spool_append.simps) (simp flip: Cons.hyps(2))
  also have "\<dots> = (Inr (), s\<lparr>sp_spool := [],
                sp_inner := fold (\<lambda>v i. snd (inner i v)) (rest @ [w]) i, sp_health := Healthy\<rparr>)"
    by (subst Cons.hyps(1)) simp_all
  finally show ?case using r by (simp flip: Cons.hyps(2))
qed

end
