(* ===== verification/Admission.thy ===== *)
theory Admission
  imports Usage "HOL-Library.Char_ord" "HOL-Library.List_Lexorder"
begin

text \<open>
  The admission controller of one capacity-managed session (\<open>admission.rs\<close>): leases, reconnect
  reservations, the waiting queue with its offers, expiry, bounded terminal history and capacity
  changes. Every operation first expires what is due, as the source does.
\<close>

section \<open>Data\<close>

definition count_u32 :: "usize \<Rightarrow> u32" where
  "count_u32 n = of_nat (min n (2 ^ 32 - 1))"

type_synonym IdempotencyKey = string

definition new_idempotency_key :: "string \<Rightarrow> IdempotencyKey option" where
  "new_idempotency_key key = (if length key > 256 then None else Some key)"

record QueuePolicy =
  qp_enabled :: bool
  qp_max_depth :: usize
  qp_ticket_ttl :: Duration
  qp_offer_ttl :: Duration
  qp_heartbeat_timeout :: Duration
  qp_reconnect_grace :: Duration

definition default_queue_policy :: QueuePolicy where
  "default_queue_policy =
     \<lparr>qp_enabled = True, qp_max_depth = 1024, qp_ticket_ttl = from_secs (15 * 60),
      qp_offer_ttl = from_secs 30, qp_heartbeat_timeout = from_secs 30,
      qp_reconnect_grace = from_secs 20\<rparr>"

record CapacityUpdate =
  cu_allocated_ccu :: u32
  cu_revision :: u64

datatype RejectionReason =
    ServerPaused
  | QueueFull
  | QueueDisabled
  | AlreadyQueued
  | InvalidIdempotencyKey

type_synonym QueueTicketId = u64
type_synonym ResumeToken = u64

record QueueTicket =
  qt_id :: QueueTicketId
  qt_session :: SessionKey
  qt_principal :: PrincipalId
  qt_idempotency_key :: IdempotencyKey

record AdmissionLease =
  al_id :: u64
  al_session :: SessionKey
  al_principal :: PrincipalId
  al_resume_token :: ResumeToken

datatype JoinDecision =
    Admitted AdmissionLease
  | QueuedJoin QueueTicket
  | Paused
  | Rejected RejectionReason

datatype QueueStatus =
    StatusWaiting usize
  | StatusOffered
  | StatusAdmitted
  | StatusExpired
  | StatusCancelled
  | StatusMissing

datatype QueueOperation = OpStatus | OpHeartbeat | OpClaim | OpCancel

datatype CancelResult =
    CancelledOk
  | CancelMissing
  | AlreadyAdmitted
  | AlreadyExpired
  | AlreadyOffered

datatype ClaimError =
    NotOffered
  | ClaimMissing
  | ClaimExpired
  | ClaimCancelled
  | ClaimAlreadyAdmitted

datatype ReleaseReason = Intentional | Unexpected

record AdmissionSnapshot =
  as_allocated_ccu :: u32
  as_active_ccu :: u32
  as_reconnect_reservations :: u32
  as_offered_slots :: u32
  as_available_slots :: u32
  as_queue_depth :: usize
  as_pending_target :: "u32 option"
  as_capacity_revision :: u64

datatype TicketState =
    Waiting
  | Offered Instant
  | Expired
  | Cancelled
  | AdmittedT u64

record TicketEntry =
  te_ticket :: QueueTicket
  te_created :: Instant
  te_last_heartbeat :: Instant
  te_state :: TicketState
  te_terminal_at :: "Instant option"

record Reservation =
  rv_principal :: PrincipalId
  rv_expires :: Instant

record ActiveLease =
  le_principal :: PrincipalId
  le_started :: Instant
  le_usage_handle :: ConnectionHandle

record AdmissionController =
  ctl_metadata :: AdmissionMetadata
  ctl_policy :: QueuePolicy
  ctl_allocated_ccu :: u32
  ctl_pending_target :: "u32 option"
  ctl_revision :: u64
  ctl_next_ticket :: u64
  ctl_next_lease :: u64
  ctl_active :: "(u64, ActiveLease) btree_map"
  ctl_reservations :: "(u64, Reservation) btree_map"
  ctl_tickets :: "(QueueTicketId, TicketEntry) btree_map"
  ctl_waiting :: "QueueTicketId list"
  ctl_idempotency_index :: "(PrincipalId \<times> IdempotencyKey, QueueTicketId) btree_map"
  ctl_counters :: UsageCounters

record JoinRequest =
  jq_principal :: PrincipalId
  jq_idempotency_key :: "IdempotencyKey option"

section \<open>Operations\<close>

definition new_controller ::
  "AdmissionMetadata \<Rightarrow> QueuePolicy \<Rightarrow> CapacityUpdate \<Rightarrow> UsageCounters \<Rightarrow> AdmissionController" where
  "new_controller metadata policy capacity counters =
     \<lparr>ctl_metadata = metadata, ctl_policy = policy,
      ctl_allocated_ccu = cu_allocated_ccu capacity, ctl_pending_target = None,
      ctl_revision = cu_revision capacity, ctl_next_ticket = 1, ctl_next_lease = 1,
      ctl_active = bt_empty, ctl_reservations = bt_empty, ctl_tickets = bt_empty,
      ctl_waiting = [], ctl_idempotency_index = bt_empty, ctl_counters = counters\<rparr>"

definition count_by :: "(UsageCounters \<Rightarrow> UsageCounters) \<Rightarrow> AdmissionController \<Rightarrow> AdmissionController" where
  "count_by f c = c\<lparr>ctl_counters := f (ctl_counters c)\<rparr>"

fun is_offered :: "TicketState \<Rightarrow> bool" where
  "is_offered (Offered _) = True"
| "is_offered _ = False"

definition is_live :: "TicketState \<Rightarrow> bool" where
  "is_live s \<longleftrightarrow> s = Waiting \<or> is_offered s"

definition offered_count :: "AdmissionController \<Rightarrow> usize" where
  "offered_count c = bt_count (\<lambda>e. is_offered (te_state e)) (ctl_tickets c)"

definition occupied :: "AdmissionController \<Rightarrow> u32" where
  "occupied c =
     count_u32 (bt_len (ctl_active c)) + count_u32 (bt_len (ctl_reservations c))
       + count_u32 (offered_count c)"

definition has_queued_principal :: "AdmissionController \<Rightarrow> PrincipalId \<Rightarrow> bool" where
  "has_queued_principal c p \<longleftrightarrow>
     (\<exists>e \<in> set (bt_values (ctl_tickets c)). qt_principal (te_ticket e) = p \<and> is_live (te_state e))"

definition ticket_is_waiting :: "AdmissionController \<Rightarrow> QueueTicketId \<Rightarrow> bool" where
  "ticket_is_waiting c i = (map_option te_state (bt_get (ctl_tickets c) i) = Some Waiting)"

definition queue_depth :: "AdmissionController \<Rightarrow> usize" where
  "queue_depth c = length (filter (ticket_is_waiting c) (ctl_waiting c))"

definition ticket_status :: "AdmissionController \<Rightarrow> QueueTicketId \<Rightarrow> QueueStatus" where
  "ticket_status c i =
     (case bt_get (ctl_tickets c) i of
        None \<Rightarrow> StatusMissing
      | Some entry \<Rightarrow>
          (case te_state entry of
             Waiting \<Rightarrow>
               StatusWaiting
                 (case position_of (\<lambda>j. j = i) (filter (ticket_is_waiting c) (ctl_waiting c)) of
                    None \<Rightarrow> 0
                  | Some p \<Rightarrow> p + 1)
           | Offered _ \<Rightarrow> StatusOffered
           | AdmittedT _ \<Rightarrow> StatusAdmitted
           | Expired \<Rightarrow> StatusExpired
           | Cancelled \<Rightarrow> StatusCancelled))"

definition admission_limit :: "AdmissionController \<Rightarrow> u32" where
  "admission_limit c =
     (case ctl_pending_target c of Some t \<Rightarrow> t | None \<Rightarrow> ctl_allocated_ccu c)"

definition apply_pending :: "AdmissionController \<Rightarrow> AdmissionController" where
  "apply_pending c =
     (case ctl_pending_target c of
        None \<Rightarrow> c
      | Some target \<Rightarrow>
          if occupied c \<le> target
          then c\<lparr>ctl_allocated_ccu := target, ctl_pending_target := None\<rparr>
          else c)"

definition offer_expiry :: "AdmissionController \<Rightarrow> Instant \<Rightarrow> Instant" where
  "offer_expiry c now =
     (case instant_checked_add now (qp_offer_ttl (ctl_policy c)) of None \<Rightarrow> now | Some t \<Rightarrow> t)"

function promote_loop :: "Instant \<Rightarrow> AdmissionController \<Rightarrow> AdmissionController" where
  "promote_loop now c =
     (if 0 < admission_limit c \<and> occupied c < admission_limit c
      then (case ctl_waiting c of
              [] \<Rightarrow> c
            | i # rest \<Rightarrow>
                (case bt_get (ctl_tickets c) i of
                   None \<Rightarrow> promote_loop now (c\<lparr>ctl_waiting := rest\<rparr>)
                 | Some entry \<Rightarrow>
                     if te_state entry = Waiting
                     then promote_loop now
                            (c\<lparr>ctl_waiting := rest,
                               ctl_tickets := bt_insert i
                                 (entry\<lparr>te_state := Offered (offer_expiry c now)\<rparr>) (ctl_tickets c)\<rparr>)
                     else promote_loop now (c\<lparr>ctl_waiting := rest\<rparr>)))
      else c)"
  by pat_completeness auto
termination
  by (relation "measure (\<lambda>(_, c). length (ctl_waiting c))") auto

declare promote_loop.simps [simp del]

definition promote_at :: "Instant \<Rightarrow> AdmissionController \<Rightarrow> AdmissionController" where
  "promote_at now c =
     (let c1 = promote_loop now c in count_by (set_queue_depth (queue_depth c1)) c1)"

text \<open>Terminal tickets are kept for a minute, and at most 1024 of them: the oldest go first.\<close>

definition prune_terminal_at :: "Instant \<Rightarrow> AdmissionController \<Rightarrow> AdmissionController" where
  "prune_terminal_at now c =
     (let tickets1 = bt_retain (\<lambda>_ e. case te_terminal_at e of
                        None \<Rightarrow> True
                      | Some t \<Rightarrow> saturating_duration_since now t < from_secs 60) (ctl_tickets c);
          terminal = sort (List.map_filter
                        (\<lambda>(i, e). map_option (\<lambda>t. (t, i)) (te_terminal_at e)) (bt_entries tickets1));
          excess = length terminal - 1024;
          tickets2 = fold (\<lambda>(_, i). bt_remove i) (take excess terminal) tickets1
      in c\<lparr>ctl_tickets := tickets2,
           ctl_idempotency_index := bt_retain (\<lambda>_ i. bt_contains tickets2 i) (ctl_idempotency_index c)\<rparr>)"

definition waiting_overdue :: "QueuePolicy \<Rightarrow> Instant \<Rightarrow> TicketEntry \<Rightarrow> bool" where
  "waiting_overdue policy now e \<longleftrightarrow>
     te_state e = Waiting
   \<and> (qp_ticket_ttl policy \<le> saturating_duration_since now (te_created e)
      \<or> qp_heartbeat_timeout policy \<le> saturating_duration_since now (te_last_heartbeat e))"

definition offer_overdue :: "Instant \<Rightarrow> TicketEntry \<Rightarrow> bool" where
  "offer_overdue now e \<longleftrightarrow> (case te_state e of Offered expires \<Rightarrow> expires \<le> now | _ \<Rightarrow> False)"

definition expires_now :: "QueuePolicy \<Rightarrow> Instant \<Rightarrow> TicketEntry \<Rightarrow> bool" where
  "expires_now policy now e \<longleftrightarrow> waiting_overdue policy now e \<or> offer_overdue now e"

definition expire_entry :: "QueuePolicy \<Rightarrow> Instant \<Rightarrow> TicketEntry \<Rightarrow> TicketEntry" where
  "expire_entry policy now e =
     (if expires_now policy now e then e\<lparr>te_state := Expired, te_terminal_at := Some now\<rparr> else e)"

definition index_key :: "TicketEntry \<Rightarrow> PrincipalId \<times> IdempotencyKey" where
  "index_key e = (qt_principal (te_ticket e), qt_idempotency_key (te_ticket e))"

definition expire_reservations :: "Instant \<Rightarrow> AdmissionController \<Rightarrow> AdmissionController" where
  "expire_reservations now c =
     (let kept = bt_retain (\<lambda>_ r. now < rv_expires r) (ctl_reservations c);
          expired = bt_len (ctl_reservations c) - bt_len kept;
          c1 = c\<lparr>ctl_reservations := kept\<rparr>
      in if 0 < expired then count_by (increment_expired_tickets_by (of_nat expired)) c1 else c1)"

definition expire_tickets :: "Instant \<Rightarrow> AdmissionController \<Rightarrow> AdmissionController" where
  "expire_tickets now c =
     (let policy = ctl_policy c;
          entries = bt_values (ctl_tickets c);
          expired = length (filter (waiting_overdue policy now) entries);
          abandoned = length (filter (offer_overdue now) entries);
          c1 = c\<lparr>ctl_tickets := bt_map (\<lambda>_. expire_entry policy now) (ctl_tickets c),
                 ctl_idempotency_index :=
                   fold bt_remove (map index_key (filter (expires_now policy now) entries))
                     (ctl_idempotency_index c)\<rparr>;
          c2 = (if 0 < expired then count_by (increment_expired_tickets_by (of_nat expired)) c1 else c1)
      in if 0 < abandoned then count_by (increment_abandoned_offers_by (of_nat abandoned)) c2 else c2)"

definition retain_waiting :: "AdmissionController \<Rightarrow> AdmissionController" where
  "retain_waiting c = c\<lparr>ctl_waiting := filter (ticket_is_waiting c) (ctl_waiting c)\<rparr>"

definition expire_at :: "Instant \<Rightarrow> AdmissionController \<Rightarrow> AdmissionController" where
  "expire_at now c =
     (let c1 = expire_reservations now c;
          c2 = expire_tickets now c1;
          c3 = retain_waiting c2;
          c4 = prune_terminal_at now c3;
          c5 = count_by (set_queue_depth (queue_depth c4)) c4;
          c6 = apply_pending c5
      in promote_at now c6)"

definition maintain_at :: "Instant \<Rightarrow> AdmissionController \<Rightarrow> AdmissionController" where
  "maintain_at now c = expire_at now c"

definition make_lease :: "AdmissionController \<Rightarrow> u64 \<Rightarrow> PrincipalId \<Rightarrow> AdmissionLease" where
  "make_lease c i p =
     \<lparr>al_id = i, al_session = am_session (ctl_metadata c), al_principal = p, al_resume_token = i\<rparr>"

definition activate :: "u64 \<Rightarrow> PrincipalId \<Rightarrow> Instant \<Rightarrow> AdmissionController \<Rightarrow> AdmissionController" where
  "activate i p now c =
     (let (handle, counters) = start_connection p now (ctl_counters c);
          active = bt_insert i \<lparr>le_principal = p, le_started = now, le_usage_handle = handle\<rparr> (ctl_active c)
      in c\<lparr>ctl_active := active,
           ctl_counters := set_active_ccu (count_u32 (bt_len active)) counters\<rparr>)"

definition admit :: "PrincipalId \<Rightarrow> Instant \<Rightarrow> AdmissionController \<Rightarrow> AdmissionLease \<times> AdmissionController" where
  "admit p now c =
     (let i = ctl_next_lease c
      in (make_lease c i p, activate i p now (c\<lparr>ctl_next_lease := i + 1\<rparr>)))"

definition enqueue ::
  "IdempotencyKey \<Rightarrow> PrincipalId \<Rightarrow> Instant \<Rightarrow> AdmissionController \<Rightarrow> QueueTicket \<times> AdmissionController" where
  "enqueue key p now c =
     (let i = ctl_next_ticket c;
          ticket = \<lparr>qt_id = i, qt_session = am_session (ctl_metadata c), qt_principal = p,
                    qt_idempotency_key = key\<rparr>
      in (ticket,
          c\<lparr>ctl_next_ticket := i + 1,
            ctl_tickets := bt_insert i
              \<lparr>te_ticket = ticket, te_created = now, te_last_heartbeat = now, te_state = Waiting,
               te_terminal_at = None\<rparr> (ctl_tickets c),
            ctl_idempotency_index := bt_insert (p, key) i (ctl_idempotency_index c),
            ctl_waiting := ctl_waiting c @ [i]\<rparr>))"

definition existing_ticket :: "AdmissionController \<Rightarrow> PrincipalId \<Rightarrow> IdempotencyKey \<Rightarrow> QueueTicket option" where
  "existing_ticket c p key =
     (case bt_get (ctl_idempotency_index c) (p, key) of
        None \<Rightarrow> None
      | Some i \<Rightarrow>
          (case bt_get (ctl_tickets c) i of
             None \<Rightarrow> None
           | Some entry \<Rightarrow> if is_live (te_state entry) then Some (te_ticket entry) else None))"

definition live_count :: "AdmissionController \<Rightarrow> usize" where
  "live_count c = bt_count (\<lambda>e. te_terminal_at e = None) (ctl_tickets c)"

definition request_join_at ::
  "JoinRequest \<Rightarrow> Instant \<Rightarrow> AdmissionController \<Rightarrow> JoinDecision \<times> AdmissionController" where
  "request_join_at request now c0 =
     (let c = expire_at now (count_by increment_join_attempts c0); p = jq_principal request
      in case jq_idempotency_key request of
           None \<Rightarrow> (Rejected InvalidIdempotencyKey, count_by increment_auth_rejections c)
         | Some key \<Rightarrow>
             if ctl_next_lease c = u64_max then (Rejected QueueFull, c)
             else if admission_limit c = 0 then (Paused, count_by increment_paused_rejections c)
             else (case existing_ticket c p key of
                     Some ticket \<Rightarrow> (QueuedJoin ticket, c)
                   | None \<Rightarrow>
                       if has_queued_principal c p
                       then (Rejected AlreadyQueued, count_by increment_queue_full_rejections c)
                       else if occupied c < admission_limit c
                       then (case admit p now (count_by increment_immediate_admissions c) of
                               (lease, c') \<Rightarrow> (Admitted lease, c'))
                       else if \<not> qp_enabled (ctl_policy c)
                       then (Rejected QueueDisabled, count_by increment_queue_full_rejections c)
                       else if qp_max_depth (ctl_policy c) \<le> live_count c
                               \<or> ctl_next_ticket c = u64_max \<or> ctl_next_lease c = u64_max
                       then (Rejected QueueFull, count_by increment_queue_full_rejections c)
                       else (case enqueue key p now
                                    (count_by (set_queue_depth (queue_depth c + 1))
                                      (count_by increment_queued_joins c)) of
                               (ticket, c') \<Rightarrow> (QueuedJoin ticket, c'))))"

definition queue_status_at ::
  "QueueTicketId \<Rightarrow> Instant \<Rightarrow> AdmissionController \<Rightarrow> QueueStatus \<times> AdmissionController" where
  "queue_status_at i now c = (let c1 = expire_at now c in (ticket_status c1 i, c1))"

definition heartbeat_at ::
  "QueueTicketId \<Rightarrow> Instant \<Rightarrow> AdmissionController \<Rightarrow> QueueStatus \<times> AdmissionController" where
  "heartbeat_at i now c =
     (let c1 = expire_at now c;
          c2 = (case bt_get (ctl_tickets c1) i of
                  None \<Rightarrow> c1
                | Some entry \<Rightarrow>
                    if te_state entry = Waiting
                    then c1\<lparr>ctl_tickets := bt_insert i (entry\<lparr>te_last_heartbeat := now\<rparr>) (ctl_tickets c1)\<rparr>
                    else c1)
      in (ticket_status c2 i, c2))"

definition cancel_at ::
  "QueueTicketId \<Rightarrow> Instant \<Rightarrow> AdmissionController \<Rightarrow> CancelResult \<times> AdmissionController" where
  "cancel_at i now c0 =
     (let c = expire_at now c0
      in case bt_get (ctl_tickets c) i of
           None \<Rightarrow> (CancelMissing, c)
         | Some entry \<Rightarrow>
             if is_live (te_state entry)
             then let c1 = c\<lparr>ctl_tickets := bt_insert i
                               (entry\<lparr>te_state := Cancelled, te_terminal_at := Some now\<rparr>) (ctl_tickets c),
                             ctl_idempotency_index := bt_remove (index_key entry) (ctl_idempotency_index c),
                             ctl_waiting := filter (\<lambda>j. j \<noteq> i) (ctl_waiting c)\<rparr>
                  in (CancelledOk,
                      promote_at now (apply_pending (prune_terminal_at now
                        (count_by increment_cancelled_tickets c1))))
             else (case te_state entry of
                     AdmittedT _ \<Rightarrow> (AlreadyAdmitted, c)
                   | _ \<Rightarrow> (AlreadyExpired, c)))"

definition claim_offer_at ::
  "QueueTicketId \<Rightarrow> Instant \<Rightarrow> AdmissionController
   \<Rightarrow> (ClaimError + AdmissionLease) \<times> AdmissionController" where
  "claim_offer_at i now c0 =
     (let c = expire_at now c0
      in case bt_get (ctl_tickets c) i of
           None \<Rightarrow> (Inl ClaimMissing, c)
         | Some entry \<Rightarrow>
             (case te_state entry of
                Offered _ \<Rightarrow>
                  let c1 = c\<lparr>ctl_tickets := bt_insert i
                               (entry\<lparr>te_state := AdmittedT (ctl_next_lease c),
                                      te_terminal_at := Some now\<rparr>) (ctl_tickets c),
                             ctl_idempotency_index := bt_remove (index_key entry) (ctl_idempotency_index c)\<rparr>;
                      c2 = prune_terminal_at now (count_by increment_promoted_players c1)
                  in (case admit (qt_principal (te_ticket entry)) now c2 of (lease, c3) \<Rightarrow> (Inr lease, c3))
              | Waiting \<Rightarrow> (Inl NotOffered, c)
              | Expired \<Rightarrow> (Inl ClaimExpired, c)
              | Cancelled \<Rightarrow> (Inl ClaimCancelled, c)
              | AdmittedT _ \<Rightarrow> (Inl ClaimAlreadyAdmitted, c)))"

definition has_active_lease :: "AdmissionController \<Rightarrow> AdmissionLease \<Rightarrow> bool" where
  "has_active_lease c lease \<longleftrightarrow>
     al_session lease = am_session (ctl_metadata c)
   \<and> (case bt_get (ctl_active c) (al_id lease) of
        None \<Rightarrow> False
      | Some active \<Rightarrow> le_principal active = al_principal lease)"

definition release_at ::
  "AdmissionLease \<Rightarrow> ReleaseReason \<Rightarrow> Instant \<Rightarrow> AdmissionController \<Rightarrow> AdmissionController" where
  "release_at lease reason now c =
     (if al_session lease \<noteq> am_session (ctl_metadata c) then c
      else case bt_get (ctl_active c) (al_id lease) of
             None \<Rightarrow> c
           | Some removed \<Rightarrow>
               if le_principal removed \<noteq> al_principal lease then c
               else
                 let active = bt_remove (al_id lease) (ctl_active c);
                     c1 = c\<lparr>ctl_active := active,
                            ctl_counters := set_active_ccu (count_u32 (bt_len active))
                              (end_connection (le_usage_handle removed) now (ctl_counters c))\<rparr>;
                     c2 = (if reason = Unexpected \<and> qp_reconnect_grace (ctl_policy c) \<noteq> 0
                           then count_by increment_reconnect_reservations
                                  (c1\<lparr>ctl_reservations := bt_insert (al_id lease)
                                        \<lparr>rv_principal = al_principal lease,
                                         rv_expires =
                                           (case instant_checked_add now (qp_reconnect_grace (ctl_policy c)) of
                                              None \<Rightarrow> now | Some t \<Rightarrow> t)\<rparr>
                                        (ctl_reservations c1)\<rparr>)
                           else c1)
                 in promote_at now (apply_pending c2))"

definition rollback_claim_at ::
  "QueueTicketId \<Rightarrow> AdmissionLease \<Rightarrow> Instant \<Rightarrow> AdmissionController \<Rightarrow> AdmissionController" where
  "rollback_claim_at ticket lease now c =
     (if \<not> has_active_lease c lease then c
      else case bt_get (ctl_tickets c) ticket of
             None \<Rightarrow> release_at lease Intentional now c
           | Some entry \<Rightarrow>
               if qt_principal (te_ticket entry) \<noteq> al_principal lease
                  \<or> te_state entry \<noteq> AdmittedT (al_id lease)
               then c
               else release_at lease Intentional now
                      (c\<lparr>ctl_tickets := bt_remove ticket (ctl_tickets c),
                         ctl_idempotency_index :=
                           (if bt_get (ctl_idempotency_index c) (index_key entry) = Some ticket
                            then bt_remove (index_key entry) (ctl_idempotency_index c)
                            else ctl_idempotency_index c)\<rparr>))"

definition resume_at ::
  "ResumeToken \<Rightarrow> PrincipalId \<Rightarrow> Instant \<Rightarrow> AdmissionController
   \<Rightarrow> AdmissionLease option \<times> AdmissionController" where
  "resume_at token p now c0 =
     (let c = expire_at now c0
      in case bt_get (ctl_reservations c) token of
           None \<Rightarrow> (None, c)
         | Some reservation \<Rightarrow>
             if rv_principal reservation \<noteq> p then (None, c)
             else let c1 = c\<lparr>ctl_reservations := bt_remove token (ctl_reservations c)\<rparr>
                  in (Some (make_lease c token p),
                      activate token p now (count_by increment_successful_resumes c1)))"

definition controller_snapshot :: "AdmissionController \<Rightarrow> AdmissionSnapshot" where
  "controller_snapshot c =
     \<lparr>as_allocated_ccu = ctl_allocated_ccu c,
      as_active_ccu = count_u32 (bt_len (ctl_active c)),
      as_reconnect_reservations = count_u32 (bt_len (ctl_reservations c)),
      as_offered_slots = count_u32 (offered_count c),
      as_available_slots =
        (if occupied c \<le> admission_limit c then admission_limit c - occupied c else 0),
      as_queue_depth = queue_depth c,
      as_pending_target = ctl_pending_target c,
      as_capacity_revision = ctl_revision c\<rparr>"

definition apply_capacity_at ::
  "CapacityUpdate \<Rightarrow> Instant \<Rightarrow> AdmissionController \<Rightarrow> AdmissionSnapshot \<times> AdmissionController" where
  "apply_capacity_at upd now c =
     (if cu_revision upd \<le> ctl_revision c then (controller_snapshot c, c)
      else
        let c1 = count_by increment_capacity_allocations (c\<lparr>ctl_revision := cu_revision upd\<rparr>);
            c2 = (if cu_allocated_ccu upd < occupied c1
                  then c1\<lparr>ctl_pending_target := Some (cu_allocated_ccu upd)\<rparr>
                  else promote_at now
                         (c1\<lparr>ctl_allocated_ccu := cu_allocated_ccu upd, ctl_pending_target := None\<rparr>))
        in (controller_snapshot c2, c2))"

definition ticket_owned_by :: "AdmissionController \<Rightarrow> QueueTicketId \<Rightarrow> PrincipalId \<Rightarrow> bool" where
  "ticket_owned_by c i p =
     (case bt_get (ctl_tickets c) i of
        None \<Rightarrow> False
      | Some entry \<Rightarrow> qt_principal (te_ticket entry) = p)"

definition has_ticket :: "AdmissionController \<Rightarrow> QueueTicketId \<Rightarrow> bool" where
  "has_ticket c i = bt_contains (ctl_tickets c) i"

definition cancel_principal_at ::
  "PrincipalId \<Rightarrow> Instant \<Rightarrow> AdmissionController \<Rightarrow> AdmissionController" where
  "cancel_principal_at p now c =
     (let ids = map fst (filter (\<lambda>(_, e). qt_principal (te_ticket e) = p \<and> te_terminal_at e = None)
                  (bt_entries (ctl_tickets c)))
      in fold (\<lambda>i c. snd (cancel_at i now c)) ids c)"

end
