(* ===== verification/Core_State.thy ===== *)
theory Core_State
  imports Outbound_Queue Cache Journal Authority Admission
begin

text \<open>
  The state of the woven core (\<open>core.rs\<close>): configuration, errors, rate limiters, connections,
  sessions, and the core record itself, with the managed-scope state of \<open>managed.rs\<close> that the core
  carries. Functions that read the state return \<open>CoreError + 'a\<close>; functions that change it also
  return the state, on errors too.
\<close>

section \<open>Configuration\<close>

record PublishRateLimit =
  prl_max_publishes :: usize
  prl_window :: Duration

definition default_rate_limit :: PublishRateLimit where
  "default_rate_limit = \<lparr>prl_max_publishes = 256, prl_window = from_secs 1\<rparr>"

record CoreConfig =
  cfg_outbound_queue :: OutboundQueueConfig
  cfg_publish_rate_limit :: PublishRateLimit
  cfg_max_connections :: usize
  cfg_max_sessions :: usize
  cfg_max_channels :: usize
  cfg_max_memberships_per_connection :: usize
  cfg_max_subscriptions_per_connection :: usize
  cfg_max_owned_entities_per_connection :: usize
  cfg_max_payload_bytes :: usize
  cfg_max_spaces_per_session :: usize
  cfg_max_space_epoch_tombstones_per_session :: usize
  cfg_max_entities_per_session :: usize
  cfg_max_state_entries_per_session :: usize
  cfg_max_state_bytes_per_session :: usize
  cfg_max_sequence_keys_per_session :: usize
  cfg_max_authority_emissions :: usize
  cfg_journal_outbox_capacity :: usize

definition default_core_config :: CoreConfig where
  "default_core_config =
     \<lparr>cfg_outbound_queue = default_queue_config,
      cfg_publish_rate_limit = default_rate_limit,
      cfg_max_connections = 4096,
      cfg_max_sessions = 1024,
      cfg_max_channels = 1024,
      cfg_max_memberships_per_connection = 32,
      cfg_max_subscriptions_per_connection = 128,
      cfg_max_owned_entities_per_connection = 256,
      cfg_max_payload_bytes = 64 * 1024,
      cfg_max_spaces_per_session = 1024,
      cfg_max_space_epoch_tombstones_per_session = 4096,
      cfg_max_entities_per_session = 16384,
      cfg_max_state_entries_per_session = 65536,
      cfg_max_state_bytes_per_session = 64 * 1024 * 1024,
      cfg_max_sequence_keys_per_session = 131072,
      cfg_max_authority_emissions = 16,
      cfg_journal_outbox_capacity = 1024\<rparr>"

section \<open>Errors\<close>

datatype IdKind =
    KindNamespace | KindSession | KindSpace | KindEntity
  | KindConnection | KindPrincipal | KindChannel | KindSpaceEpoch

datatype CoreError =
    InvalidConfiguration
  | InvalidQueueConfig QueueConfigError
  | ReservedZeroId IdKind
  | AuthenticationFailed AuthError
  | AuthenticationRequired
  | AlreadyAuthenticated
  | UnknownConnection ConnectionId
  | ConnectionLimitReached
  | NamespaceReadAccessDenied NamespaceId
  | NamespaceWriteAccessDenied NamespaceId
  | SessionReadAccessDenied SessionKey
  | SessionWriteAccessDenied SessionKey
  | SpaceReadAccessDenied SpaceKey
  | SpaceWriteAccessDenied SpaceKey
  | ChannelWriteAccessDenied ChannelScope
  | UnknownChannel ChannelId
  | ChannelAlreadyRegistered ChannelId
  | ChannelLimitReached
  | InvalidChannelLimit ChannelId
  | ChannelPolicyMismatch ChannelId DeliveryClass DeliveryClass PersistenceClass PersistenceClass
  | SessionNotFound SessionKey
  | SessionAlreadyProvisioned SessionKey
  | SessionLimitReached
  | SessionMembershipRequired SessionKey
  | MembershipLimitReached
  | SpaceNotFound SpaceKey
  | SpaceAlreadyExists SpaceKey
  | SpaceLimitReached
  | SpaceIdHistoryLimitReached
  | InvalidSpace SpaceValidationError
  | ParentSpaceNotFound SpaceId
  | ParentAnchorNotFound EntityId
  | ParentAnchorInWrongSpace EntityId SpaceId
  | EpochDidNotAdvance SpaceEpoch SpaceEpoch
  | SpaceEpochMismatch SpaceEpoch SpaceEpoch
  | SubscriptionRequired SpaceKey
  | SubscriptionLimitReached
  | EntityLimitReached
  | OwnedEntityLimitReached
  | EntityNotFound EntityId
  | EntityNotOwned EntityId
  | EntitySpaceMismatch EntityId
  | InvalidEntityPosition PositionValidationError
  | SpatialCellOutOfRange
  | StateEntryLimitReached
  | StateByteLimitReached
  | SequenceKeyLimitReached
  | PayloadTooLarge usize usize
  | MissingCoalesceKey
  | InvalidCoalesceKey
  | StaleSequence u64 u64
  | PublishRateLimited Duration
  | RateLimitClockRegressed
  | AuthorityRejected AuthorityRejection
  | AuthorityEmissionLimitExceeded
  | JournalOutboxSaturated
  | IdExhausted
  | AdmissionRateLimited Duration
  | AdmissionAlreadyConfigured SessionKey
  | AdmissionLeaseRequired SessionKey
  | InvalidAdmissionLease SessionKey
  | CoreQueue QueueError

definition validate_rate_limit :: "PublishRateLimit \<Rightarrow> CoreError + PublishRateLimit" where
  "validate_rate_limit p =
     (if prl_max_publishes p = 0 \<or> prl_window p = 0 then Inl InvalidConfiguration else Inr p)"

definition validate_core_config :: "CoreConfig \<Rightarrow> CoreError + CoreConfig" where
  "validate_core_config c =
     and_then (map_err InvalidQueueConfig (validate_queue_config (cfg_outbound_queue c))) (\<lambda>_.
     and_then (validate_rate_limit (cfg_publish_rate_limit c)) (\<lambda>_.
       if cfg_max_connections c = 0
          \<or> cfg_max_sessions c = 0
          \<or> cfg_max_channels c = 0
          \<or> cfg_max_memberships_per_connection c = 0
          \<or> cfg_max_subscriptions_per_connection c = 0
          \<or> cfg_max_owned_entities_per_connection c = 0
          \<or> cfg_max_payload_bytes c = 0
          \<or> cfg_max_spaces_per_session c = 0
          \<or> cfg_max_space_epoch_tombstones_per_session c = 0
          \<or> cfg_max_entities_per_session c = 0
          \<or> cfg_max_state_entries_per_session c = 0
          \<or> cfg_max_state_bytes_per_session c = 0
          \<or> cfg_max_sequence_keys_per_session c = 0
          \<or> cfg_max_authority_emissions c = 0
          \<or> cfg_max_space_epoch_tombstones_per_session c < cfg_max_spaces_per_session c
       then Inl InvalidConfiguration
       else Inr c))"

section \<open>Requests and summaries\<close>

record PublishRequest =
  rq_connection :: ConnectionId
  rq_session :: SessionKey
  rq_space :: SpaceId
  rq_space_epoch :: SpaceEpoch
  rq_entity :: "EntityId option"
  rq_channel :: ChannelId
  rq_sequence :: u64
  rq_delivery :: DeliveryClass
  rq_persistence :: PersistenceClass
  rq_coalesce_key :: "CoalesceKey option"
  rq_routing_position :: "EntityPosition option"
  rq_payload :: "u8 list"

record QueueActivity =
  qa_queued :: usize
  qa_critical_evictions :: usize
  qa_replaced_latest :: usize
  qa_evicted_latest :: usize
  qa_dropped_latest :: usize
  qa_dropped_best_effort :: usize
  qa_critical_capacity_exhausted :: usize

definition zero_activity :: QueueActivity where
  "zero_activity =
     \<lparr>qa_queued = 0, qa_critical_evictions = 0, qa_replaced_latest = 0, qa_evicted_latest = 0,
      qa_dropped_latest = 0, qa_dropped_best_effort = 0, qa_critical_capacity_exhausted = 0\<rparr>"

record PublishOutcome =
  po_authorized_messages :: usize
  po_recipient_attempts :: usize
  po_queues :: QueueActivity
  po_disconnected_slow_consumers :: "ConnectionId list"

record RemovedEntity =
  re_entity :: EntityId
  re_session :: SessionKey
  re_space :: SpaceId
  re_space_epoch :: SpaceEpoch

record EntityTransitionRequest =
  tr_connection :: ConnectionId
  tr_session :: SessionKey
  tr_entity :: EntityId
  tr_source_space :: SpaceId
  tr_source_epoch :: SpaceEpoch
  tr_destination_space :: SpaceId
  tr_destination_epoch :: SpaceEpoch

record EntityTransition =
  et_entity :: EntityId
  et_session :: SessionKey
  et_source_space :: SpaceId
  et_source_epoch :: SpaceEpoch
  et_destination_space :: SpaceId
  et_destination_epoch :: SpaceEpoch

record CleanupSummary =
  cs_memberships_removed :: usize
  cs_subscriptions_removed :: usize
  cs_entities_removed :: usize
  cs_spaces_removed :: usize
  cs_queued_messages_discarded :: usize
  cs_removed_entities :: "RemovedEntity list"

definition empty_summary :: CleanupSummary where
  "empty_summary =
     \<lparr>cs_memberships_removed = 0, cs_subscriptions_removed = 0, cs_entities_removed = 0,
      cs_spaces_removed = 0, cs_queued_messages_discarded = 0, cs_removed_entities = []\<rparr>"

definition summary_add :: "CleanupSummary \<Rightarrow> CleanupSummary \<Rightarrow> CleanupSummary" where
  "summary_add a b =
     \<lparr>cs_memberships_removed = cs_memberships_removed a + cs_memberships_removed b,
      cs_subscriptions_removed = cs_subscriptions_removed a + cs_subscriptions_removed b,
      cs_entities_removed = cs_entities_removed a + cs_entities_removed b,
      cs_spaces_removed = cs_spaces_removed a + cs_spaces_removed b,
      cs_queued_messages_discarded = cs_queued_messages_discarded a + cs_queued_messages_discarded b,
      cs_removed_entities = cs_removed_entities a @ cs_removed_entities b\<rparr>"

section \<open>Rate limiters\<close>

record ConnectionRateLimiter =
  rl_window_started :: "Instant option"
  rl_publishes :: usize

definition new_rate_limiter :: ConnectionRateLimiter where
  "new_rate_limiter = \<lparr>rl_window_started = None, rl_publishes = 0\<rparr>"

definition policy_window :: "PublishRateLimit option \<Rightarrow> Duration" where
  "policy_window policy = (case policy of None \<Rightarrow> from_secs 1 | Some p \<Rightarrow> prl_window p)"

definition admit_optional ::
  "PublishRateLimit option \<Rightarrow> Instant \<Rightarrow> ConnectionRateLimiter
   \<Rightarrow> (CoreError + unit) \<times> ConnectionRateLimiter" where
  "admit_optional policy now l =
     (let window = policy_window policy
      in case rl_window_started l of
           None \<Rightarrow> (Inr (), \<lparr>rl_window_started = Some now, rl_publishes = 1\<rparr>)
         | Some started \<Rightarrow>
             (case checked_duration_since now started of
                None \<Rightarrow> (Inl RateLimitClockRegressed, l)
              | Some elapsed \<Rightarrow>
                  if window \<le> elapsed
                  then (Inr (), \<lparr>rl_window_started = Some now, rl_publishes = 1\<rparr>)
                  else if (case policy of None \<Rightarrow> False | Some p \<Rightarrow> prl_max_publishes p \<le> rl_publishes l)
                  then (Inl (PublishRateLimited (window - elapsed)), l)
                  else (Inr (), l\<lparr>rl_publishes := usize_sat_add (rl_publishes l) 1\<rparr>)))"

definition rate_admit ::
  "PublishRateLimit \<Rightarrow> Instant \<Rightarrow> ConnectionRateLimiter
   \<Rightarrow> (CoreError + unit) \<times> ConnectionRateLimiter" where
  "rate_admit policy now l = admit_optional (Some policy) now l"

record SessionRateLimiter =
  srl_limiter :: ConnectionRateLimiter
  srl_retain_after_leave :: bool
  srl_window :: Duration

definition new_session_limiter :: "PublishRateLimit option \<Rightarrow> SessionRateLimiter" where
  "new_session_limiter policy =
     \<lparr>srl_limiter = new_rate_limiter, srl_retain_after_leave = (policy \<noteq> None),
      srl_window = policy_window policy\<rparr>"

definition configure_limiter ::
  "PublishRateLimit option \<Rightarrow> SessionRateLimiter \<Rightarrow> SessionRateLimiter" where
  "configure_limiter policy s =
     (case policy of
        None \<Rightarrow> s
      | Some p \<Rightarrow> s\<lparr>srl_retain_after_leave := True, srl_window := prl_window p\<rparr>)"

definition limiter_expired_at :: "SessionRateLimiter \<Rightarrow> Instant \<Rightarrow> bool" where
  "limiter_expired_at s now =
     (case rl_window_started (srl_limiter s) of
        None \<Rightarrow> True
      | Some started \<Rightarrow>
          (case checked_duration_since now started of
             None \<Rightarrow> False
           | Some elapsed \<Rightarrow> srl_window s \<le> elapsed))"

definition session_admit ::
  "PublishRateLimit option \<Rightarrow> Instant \<Rightarrow> SessionRateLimiter
   \<Rightarrow> (CoreError + unit) \<times> SessionRateLimiter" where
  "session_admit policy now s0 =
     (let s = configure_limiter policy s0
      in case admit_optional policy now (srl_limiter s) of
           (Inl e, l) \<Rightarrow> (Inl e, s\<lparr>srl_limiter := l\<rparr>)
         | (Inr _, l) \<Rightarrow> (Inr (), s\<lparr>srl_limiter := l, srl_window := policy_window policy\<rparr>))"

section \<open>Connections, entities and sessions\<close>

record ConnectionState =
  cn_authenticated :: "AuthenticatedPrincipal option"
  cn_memberships :: "SessionKey btree_set"
  cn_subscriptions :: "SpaceKey btree_set"
  cn_owned_entities :: usize
  cn_rate_limiter :: ConnectionRateLimiter
  cn_session_rate_limiters :: "(SessionKey, SessionRateLimiter) btree_map"
  cn_outbound :: OutboundQueue

definition prune_session_rate_limiters_at :: "Instant \<Rightarrow> ConnectionState \<Rightarrow> ConnectionState" where
  "prune_session_rate_limiters_at now c =
     c\<lparr>cn_session_rate_limiters :=
         bt_retain (\<lambda>session limiter. bs_member session (cn_memberships c) \<or> \<not> limiter_expired_at limiter now)
           (cn_session_rate_limiters c)\<rparr>"

record EntityRecord =
  er_id :: EntityId
  er_owner_connection :: ConnectionId
  er_owner_principal :: PrincipalId
  er_space :: SpaceId
  er_space_epoch :: SpaceEpoch
  er_position :: "EntityPosition option"

datatype SpatialCell = Cell2D int int | Cell3D int int int

fun spatial_cell_tuple :: "SpatialCell \<Rightarrow> nat \<times> int \<times> int \<times> int" where
  "spatial_cell_tuple (Cell2D x y) = (0, x, y, 0)"
| "spatial_cell_tuple (Cell3D x y z) = (1, x, y, z)"

lemma spatial_cell_tuple_inj: "spatial_cell_tuple a = spatial_cell_tuple b \<Longrightarrow> a = b"
  by (cases a; cases b) auto

instantiation SpatialCell :: linorder
begin

definition less_eq_SpatialCell :: "SpatialCell \<Rightarrow> SpatialCell \<Rightarrow> bool" where
  "less_eq_SpatialCell a b \<longleftrightarrow> spatial_cell_tuple a \<le> spatial_cell_tuple b"

definition less_SpatialCell :: "SpatialCell \<Rightarrow> SpatialCell \<Rightarrow> bool" where
  "less_SpatialCell a b \<longleftrightarrow> spatial_cell_tuple a < spatial_cell_tuple b"

instance
proof
  fix a b c :: SpatialCell
  show "a < b \<longleftrightarrow> a \<le> b \<and> \<not> b \<le> a"
    unfolding less_eq_SpatialCell_def less_SpatialCell_def by (rule less_le_not_le)
  show "a \<le> a" unfolding less_eq_SpatialCell_def by (rule order_refl)
  show "a \<le> b \<Longrightarrow> b \<le> c \<Longrightarrow> a \<le> c" unfolding less_eq_SpatialCell_def by (rule order_trans)
  show "a \<le> b \<Longrightarrow> b \<le> a \<Longrightarrow> a = b"
    unfolding less_eq_SpatialCell_def by (rule spatial_cell_tuple_inj) (rule order_antisym)
  show "a \<le> b \<or> b \<le> a" unfolding less_eq_SpatialCell_def by (rule linear)
qed

end

datatype SpatialCellKey =
  SpatialCellKey (sck_cell_space: SpaceId) (sck_cell_epoch: SpaceEpoch) (sck_cell: SpatialCell)

definition cell_key_tuple :: "SpatialCellKey \<Rightarrow> u64 \<times> u64 \<times> SpatialCell" where
  "cell_key_tuple k = (sck_cell_space k, sck_cell_epoch k, sck_cell k)"

instantiation SpatialCellKey :: linorder
begin

definition less_eq_SpatialCellKey :: "SpatialCellKey \<Rightarrow> SpatialCellKey \<Rightarrow> bool" where
  "less_eq_SpatialCellKey a b \<longleftrightarrow> cell_key_tuple a \<le> cell_key_tuple b"

definition less_SpatialCellKey :: "SpatialCellKey \<Rightarrow> SpatialCellKey \<Rightarrow> bool" where
  "less_SpatialCellKey a b \<longleftrightarrow> cell_key_tuple a < cell_key_tuple b"

instance
  by standard
    (auto simp: less_eq_SpatialCellKey_def less_SpatialCellKey_def cell_key_tuple_def
      intro: SpatialCellKey.expand)

end

datatype SequenceKey =
  SequenceKey (sqk_connection: ConnectionId) (sqk_space: SpaceId) (sqk_space_epoch: SpaceEpoch)
    (sqk_entity: "EntityId option") (sqk_channel: ChannelId) (sqk_component: u64)

definition sequence_key_tuple :: "SequenceKey \<Rightarrow> u64 \<times> u64 \<times> u64 \<times> u64 option \<times> u64 \<times> u64" where
  "sequence_key_tuple k =
     (sqk_connection k, sqk_space k, sqk_space_epoch k, sqk_entity k, sqk_channel k, sqk_component k)"

instantiation SequenceKey :: linorder
begin

definition less_eq_SequenceKey :: "SequenceKey \<Rightarrow> SequenceKey \<Rightarrow> bool" where
  "less_eq_SequenceKey a b \<longleftrightarrow> sequence_key_tuple a \<le> sequence_key_tuple b"

definition less_SequenceKey :: "SequenceKey \<Rightarrow> SequenceKey \<Rightarrow> bool" where
  "less_SequenceKey a b \<longleftrightarrow> sequence_key_tuple a < sequence_key_tuple b"

instance
  by standard
    (auto simp: less_eq_SequenceKey_def less_SequenceKey_def sequence_key_tuple_def
      intro: SequenceKey.expand)

end

record SessionState =
  ses_members :: "ConnectionId btree_set"
  ses_publish_rate_limit :: "PublishRateLimit option"
  ses_spaces :: "(SpaceId, SpaceDescriptor) btree_map"
  ses_space_epoch_tombstones :: "(SpaceId, SpaceEpoch) btree_map"
  ses_subscribers :: "(SpaceId, ConnectionId btree_set) btree_map"
  ses_entities :: "(EntityId, EntityRecord) btree_map"
  ses_entity_cells :: "(EntityId, SpatialCellKey) btree_map"
  ses_cell_entities :: "(SpatialCellKey, EntityId btree_set) btree_map"
  ses_sequences :: "(SequenceKey, u64) btree_map"
  ses_state :: InMemoryCacheService
  ses_state_bytes :: usize

definition new_session :: SessionState where
  "new_session =
     \<lparr>ses_members = bt_empty, ses_publish_rate_limit = None, ses_spaces = bt_empty,
      ses_space_epoch_tombstones = bt_empty, ses_subscribers = bt_empty, ses_entities = bt_empty,
      ses_entity_cells = bt_empty, ses_cell_entities = bt_empty, ses_sequences = bt_empty,
      ses_state = cache_new, ses_state_bytes = 0\<rparr>"

definition recompute_state_bytes :: "SessionState \<Rightarrow> SessionState" where
  "recompute_state_bytes s = s\<lparr>ses_state_bytes := byte_len (ses_state s)\<rparr>"

definition remove_entity_from_cell :: "EntityId \<Rightarrow> SessionState \<Rightarrow> SessionState" where
  "remove_entity_from_cell entity s =
     (case bt_get (ses_entity_cells s) entity of
        None \<Rightarrow> s
      | Some cell \<Rightarrow>
          let s1 = s\<lparr>ses_entity_cells := bt_remove entity (ses_entity_cells s)\<rparr>
          in case bt_get (ses_cell_entities s) cell of
               None \<Rightarrow> s1
             | Some entities \<Rightarrow>
                 let entities' = bs_remove entity entities
                 in if bt_is_empty entities'
                    then s1\<lparr>ses_cell_entities := bt_remove cell (ses_cell_entities s)\<rparr>
                    else s1\<lparr>ses_cell_entities := bt_insert cell entities' (ses_cell_entities s)\<rparr>)"

definition insert_entity_into_cell :: "EntityId \<Rightarrow> SpatialCellKey \<Rightarrow> SessionState \<Rightarrow> SessionState" where
  "insert_entity_into_cell entity cell s =
     s\<lparr>ses_entity_cells := bt_insert entity cell (ses_entity_cells s),
       ses_cell_entities :=
         bt_insert cell
           (bs_insert entity (case bt_get (ses_cell_entities s) cell of None \<Rightarrow> bt_empty | Some e \<Rightarrow> e))
           (ses_cell_entities s)\<rparr>"

record AuthorizedMessage =
  au_space :: SpaceId
  au_space_epoch :: SpaceEpoch
  au_entity :: "EntityId option"
  au_channel :: ChannelId
  au_sequence :: u64
  au_delivery :: DeliveryClass
  au_persistence :: PersistenceClass
  au_coalesce_key :: "CoalesceKey option"
  au_routing_position :: "EntityPosition option"
  au_payload :: "u8 list"

definition from_request :: "PublishRequest \<Rightarrow> AuthorizedMessage" where
  "from_request r =
     \<lparr>au_space = rq_space r, au_space_epoch = rq_space_epoch r, au_entity = rq_entity r,
      au_channel = rq_channel r, au_sequence = rq_sequence r, au_delivery = rq_delivery r,
      au_persistence = rq_persistence r, au_coalesce_key = rq_coalesce_key r,
      au_routing_position = rq_routing_position r, au_payload = rq_payload r\<rparr>"

definition from_emission :: "AuthorityEmission \<Rightarrow> AuthorizedMessage" where
  "from_emission e =
     \<lparr>au_space = ae_space e, au_space_epoch = ae_space_epoch e, au_entity = ae_entity e,
      au_channel = ae_channel e, au_sequence = ae_sequence e, au_delivery = ae_delivery e,
      au_persistence = ae_persistence e, au_coalesce_key = ae_coalesce_key e,
      au_routing_position = None, au_payload = ae_payload e\<rparr>"

definition to_outbound :: "SessionKey \<Rightarrow> AuthorizedMessage \<Rightarrow> OutboundMessage" where
  "to_outbound session m =
     \<lparr>om_namespace = sk_namespace session, om_session = sk_session session, om_space = au_space m,
      om_space_epoch = au_space_epoch m, om_entity = au_entity m, om_channel = au_channel m,
      om_sequence = au_sequence m, om_delivery = au_delivery m, om_persistence = au_persistence m,
      om_coalesce_key = au_coalesce_key m, om_routing_position = au_routing_position m,
      om_payload = au_payload m\<rparr>"

section \<open>Managed scopes (managed.rs, managed\_checkpoint.rs)\<close>

datatype ManagedMutation =
    MutationBaseline
  | MutationProvision
  | MutationConfiguration u32 "u32 option"
  | MutationSpace SpaceId

record Scope =
  sc_verifier :: "u8 list"
  sc_revision :: u64
  sc_last_mutation :: ManagedMutation
  sc_allocated_ccu :: u32
  sc_tick_rate_hz :: "u32 option"
  sc_spatial_spaces :: "(SpaceId, SpaceDescriptor) btree_map"
  sc_retired :: bool

record ManagedMigrationBaseline =
  mb_version :: u32
  mb_migration_id :: string
  mb_previous_lineage :: string
  mb_closed_scope_through :: u64
  mb_unknown_retired_verifier_history :: bool

record ManagedState =
  ms_admin_verifier :: "u8 list"
  ms_migration_baseline :: "ManagedMigrationBaseline option"
  ms_scopes :: "(SessionKey, Scope) btree_map"
  ms_connections :: "(ConnectionId, SessionKey) btree_map"
  ms_operations :: "(ConnectionId, Instant \<times> u8) btree_map"

section \<open>The core\<close>

record WovenCore =
  wc_managed :: "ManagedState option"
  wc_authenticator :: "Credentials \<Rightarrow> AuthError + AuthenticatedPrincipal"
  wc_config :: CoreConfig
  wc_next_connection_id :: u64
  wc_next_entity_id :: u64
  wc_connections :: "(ConnectionId, ConnectionState) btree_map"
  wc_sessions :: "(SessionKey, SessionState) btree_map"
  wc_channels :: "(ChannelId, ChannelDefinition) btree_map"
  wc_admissions :: "(SessionKey, AdmissionController) btree_map"
  wc_pending_admissions :: "(ConnectionId \<times> SessionKey, AdmissionLease) btree_map"
  wc_admission_tickets :: "(ConnectionId \<times> SessionKey, QueueTicket) btree_map"
  wc_admission_leases :: "(ConnectionId \<times> SessionKey, AdmissionLease) btree_map"
  wc_journal_outbox :: JournalOutbox

definition core_new ::
  "(Credentials \<Rightarrow> AuthError + AuthenticatedPrincipal) \<Rightarrow> CoreConfig \<Rightarrow> CoreError + WovenCore" where
  "core_new authenticator config0 =
     and_then (validate_core_config config0) (\<lambda>config.
       Inr \<lparr>wc_managed = None, wc_authenticator = authenticator, wc_config = config,
            wc_next_connection_id = 1, wc_next_entity_id = 1, wc_connections = bt_empty,
            wc_sessions = bt_empty, wc_channels = bt_empty, wc_admissions = bt_empty,
            wc_pending_admissions = bt_empty, wc_admission_tickets = bt_empty,
            wc_admission_leases = bt_empty,
            wc_journal_outbox = new_outbox (cfg_journal_outbox_capacity config)\<rparr>)"

section \<open>Validation\<close>

definition require_nonzero :: "u64 \<Rightarrow> IdKind \<Rightarrow> CoreError + unit" where
  "require_nonzero v kind = (if v = 0 then Inl (ReservedZeroId kind) else Inr ())"

definition validate_session_key :: "SessionKey \<Rightarrow> CoreError + unit" where
  "validate_session_key key =
     and_then (require_nonzero (sk_namespace key) KindNamespace) (\<lambda>_.
       require_nonzero (sk_session key) KindSession)"

definition validate_space_key :: "SpaceKey \<Rightarrow> CoreError + unit" where
  "validate_space_key key =
     and_then (validate_session_key (spk_session key)) (\<lambda>_. require_nonzero (spk_space key) KindSpace)"

definition validate_connection_id :: "ConnectionId \<Rightarrow> CoreError + unit" where
  "validate_connection_id c = require_nonzero c KindConnection"

definition require_nonzero_opt :: "u64 option \<Rightarrow> IdKind \<Rightarrow> CoreError + unit" where
  "require_nonzero_opt x kind = (case x of None \<Rightarrow> Inr () | Some v \<Rightarrow> require_nonzero v kind)"

definition validate_key_ids :: "CoalesceKey option \<Rightarrow> CoreError + unit" where
  "validate_key_ids k =
     (case k of
        None \<Rightarrow> Inr ()
      | Some key \<Rightarrow>
          and_then (require_nonzero (ck_channel key) KindChannel) (\<lambda>_.
            require_nonzero_opt (ck_entity key) KindEntity))"

definition validate_publish_request_ids :: "PublishRequest \<Rightarrow> CoreError + unit" where
  "validate_publish_request_ids r =
     and_then (validate_session_key (rq_session r)) (\<lambda>_.
     and_then (require_nonzero (rq_space r) KindSpace) (\<lambda>_.
     and_then (require_nonzero (rq_space_epoch r) KindSpaceEpoch) (\<lambda>_.
     and_then (require_nonzero (rq_channel r) KindChannel) (\<lambda>_.
     and_then (require_nonzero_opt (rq_entity r) KindEntity) (\<lambda>_.
       validate_key_ids (rq_coalesce_key r))))))"

definition validate_authorized_message_ids :: "AuthorizedMessage \<Rightarrow> CoreError + unit" where
  "validate_authorized_message_ids m =
     and_then (require_nonzero (au_space m) KindSpace) (\<lambda>_.
     and_then (require_nonzero (au_space_epoch m) KindSpaceEpoch) (\<lambda>_.
     and_then (require_nonzero (au_channel m) KindChannel) (\<lambda>_.
     and_then (require_nonzero_opt (au_entity m) KindEntity) (\<lambda>_.
       validate_key_ids (au_coalesce_key m)))))"

definition require_namespace_read :: "AuthenticatedPrincipal \<Rightarrow> NamespaceId \<Rightarrow> CoreError + unit" where
  "require_namespace_read p n = ensure (can_read_namespace (ap_grants p) n) (NamespaceReadAccessDenied n)"

definition require_namespace_write :: "AuthenticatedPrincipal \<Rightarrow> NamespaceId \<Rightarrow> CoreError + unit" where
  "require_namespace_write p n = ensure (can_write_namespace (ap_grants p) n) (NamespaceWriteAccessDenied n)"

definition require_session_read :: "AuthenticatedPrincipal \<Rightarrow> SessionKey \<Rightarrow> CoreError + unit" where
  "require_session_read p s = ensure (can_read_session (ap_grants p) s) (SessionReadAccessDenied s)"

definition require_session_write :: "AuthenticatedPrincipal \<Rightarrow> SessionKey \<Rightarrow> CoreError + unit" where
  "require_session_write p s = ensure (can_write_session (ap_grants p) s) (SessionWriteAccessDenied s)"

definition require_space_read :: "AuthenticatedPrincipal \<Rightarrow> SpaceKey \<Rightarrow> CoreError + unit" where
  "require_space_read p s = ensure (can_read_space (ap_grants p) s) (SpaceReadAccessDenied s)"

definition require_space_write :: "AuthenticatedPrincipal \<Rightarrow> SpaceKey \<Rightarrow> CoreError + unit" where
  "require_space_write p s = ensure (can_write_space (ap_grants p) s) (SpaceWriteAccessDenied s)"

definition can_receive :: "AuthenticatedPrincipal \<Rightarrow> SessionKey \<Rightarrow> SpaceId \<Rightarrow> ChannelId \<Rightarrow> bool" where
  "can_receive p session space channel \<longleftrightarrow>
     can_read_namespace (ap_grants p) (sk_namespace session)
   \<and> can_read_session (ap_grants p) session
   \<and> can_read_space (ap_grants p) (SpaceKey session space)
   \<and> can_read_channel (ap_grants p) (ChannelScope session channel)"

definition validate_channel_policy ::
  "ChannelDefinition \<Rightarrow> DeliveryClass \<Rightarrow> PersistenceClass \<Rightarrow> CoreError + unit" where
  "validate_channel_policy channel delivery persistence =
     (if cd_delivery channel = delivery \<and> same_kind (cd_persistence channel) persistence
      then Inr ()
      else Inl (ChannelPolicyMismatch (cd_id channel) (cd_delivery channel) delivery
                  (cd_persistence channel) persistence))"

definition validate_coalesce_key :: "AuthorizedMessage \<Rightarrow> CoreError + unit" where
  "validate_coalesce_key m =
     (if is_replaceable (au_delivery m)
      then and_then (ok_or (au_coalesce_key m) MissingCoalesceKey) (\<lambda>key.
             if ck_channel key \<noteq> au_channel m \<or> ck_entity key \<noteq> au_entity m
             then Inl InvalidCoalesceKey else Inr ())
      else (case au_coalesce_key m of
              None \<Rightarrow> Inr ()
            | Some key \<Rightarrow>
                if ck_channel key \<noteq> au_channel m \<or> ck_entity key \<noteq> au_entity m
                then Inl InvalidCoalesceKey else Inr ()))"

definition key_component :: "CoalesceKey option \<Rightarrow> u64" where
  "key_component k = (case k of None \<Rightarrow> 0 | Some key \<Rightarrow> ck_component key)"

definition sequence_key :: "ConnectionId \<Rightarrow> AuthorizedMessage \<Rightarrow> SequenceKey" where
  "sequence_key connection m =
     SequenceKey connection (au_space m) (au_space_epoch m) (au_entity m) (au_channel m)
       (key_component (au_coalesce_key m))"

definition state_key :: "AuthorizedMessage \<Rightarrow> CacheKey" where
  "state_key m =
     CacheKey (au_space m) (au_space_epoch m) (au_entity m) (au_channel m)
       (key_component (au_coalesce_key m))"

definition record_queue_result :: "QueuePush \<Rightarrow> QueueActivity \<Rightarrow> QueueActivity" where
  "record_queue_result result a =
     (case result of
        Queued \<Rightarrow> a\<lparr>qa_queued := qa_queued a + 1\<rparr>
      | QueuedCriticalAfterEviction eviction \<Rightarrow>
          (let b = a\<lparr>qa_queued := qa_queued a + 1, qa_critical_evictions := qa_critical_evictions a + 1\<rparr>
           in case eviction of
                EvictionLatest _ \<Rightarrow> b\<lparr>qa_evicted_latest := qa_evicted_latest b + 1\<rparr>
              | EvictionBestEffort \<Rightarrow> b\<lparr>qa_dropped_best_effort := qa_dropped_best_effort b + 1\<rparr>)
      | ReplacedLatest \<Rightarrow> a\<lparr>qa_replaced_latest := qa_replaced_latest a + 1\<rparr>
      | EvictedLatest _ \<Rightarrow> a\<lparr>qa_evicted_latest := qa_evicted_latest a + 1\<rparr>
      | EvictedBestEffortForLatest \<Rightarrow> a\<lparr>qa_dropped_best_effort := qa_dropped_best_effort a + 1\<rparr>
      | DroppedBestEffort \<Rightarrow> a\<lparr>qa_dropped_best_effort := qa_dropped_best_effort a + 1\<rparr>
      | DroppedLatest \<Rightarrow> a\<lparr>qa_dropped_latest := qa_dropped_latest a + 1\<rparr>
      | CriticalCapacityExhausted \<Rightarrow>
          a\<lparr>qa_critical_capacity_exhausted := qa_critical_capacity_exhausted a + 1\<rparr>)"

definition authenticated_principal :: "WovenCore \<Rightarrow> ConnectionId \<Rightarrow> CoreError + AuthenticatedPrincipal" where
  "authenticated_principal w connection =
     and_then (ok_or (bt_get (wc_connections w) connection) (UnknownConnection connection)) (\<lambda>state.
       ok_or (cn_authenticated state) AuthenticationRequired)"

definition require_membership :: "WovenCore \<Rightarrow> ConnectionId \<Rightarrow> SessionKey \<Rightarrow> CoreError + unit" where
  "require_membership w connection session =
     and_then (ok_or (bt_get (wc_connections w) connection) (UnknownConnection connection)) (\<lambda>state.
       ensure (bs_member session (cn_memberships state)) (SessionMembershipRequired session))"

definition require_subscription :: "WovenCore \<Rightarrow> ConnectionId \<Rightarrow> SpaceKey \<Rightarrow> CoreError + unit" where
  "require_subscription w connection space =
     and_then (ok_or (bt_get (wc_connections w) connection) (UnknownConnection connection)) (\<lambda>state.
       ensure (bs_member space (cn_subscriptions state)) (SubscriptionRequired space))"

end
