(* ===== verification/Routing.thy ===== *)
theory Routing
  imports Core_State
begin

text \<open>
  Interest management (\<open>core.rs\<close>): the grid cell of a position, the cells near a source, the exact
  distance test, and the recipients of a message among the subscribers of its space.
\<close>

section \<open>Operations\<close>

definition grid_coordinate :: "f64 \<Rightarrow> f64 \<Rightarrow> CoreError + int" where
  "grid_coordinate v cell_size =
     (let coordinate = f64_floor (f64_div v cell_size)
      in if \<not> f64_is_finite coordinate \<or> f64_lt coordinate (Fin (of_int i64_min))
            \<or> f64_le (f64_round (of_int i64_max)) coordinate
         then Inl SpatialCellOutOfRange
         else Inr (f64_to_i64 coordinate))"

definition spatial_cell_for ::
  "EntityPosition \<Rightarrow> SpaceDescriptor \<Rightarrow> SpaceEpoch \<Rightarrow> CoreError + SpatialCellKey option" where
  "spatial_cell_for position descriptor epoch =
     (let key = (\<lambda>cell. Inr (Some (SpatialCellKey (sd_id descriptor) epoch cell)))
      in case sd_routing descriptor of
           BroadcastAll \<Rightarrow> Inr None
         | TopicOnly \<Rightarrow> Inr None
         | SpatialGrid2D cell_size _ _ \<Rightarrow>
             (case position of
                PosCartesian2D x y \<Rightarrow>
                  and_then (grid_coordinate x cell_size) (\<lambda>cx.
                  and_then (grid_coordinate y cell_size) (\<lambda>cy. key (Cell2D cx cy)))
              | PosCartesian3D _ _ _ \<Rightarrow> Inl (InvalidEntityPosition DimensionMismatch))
         | SpatialGrid3D cell_size _ _ \<Rightarrow>
             (case position of
                PosCartesian3D x y z \<Rightarrow>
                  and_then (grid_coordinate x cell_size) (\<lambda>cx.
                  and_then (grid_coordinate y cell_size) (\<lambda>cy.
                  and_then (grid_coordinate z cell_size) (\<lambda>cz. key (Cell3D cx cy cz))))
              | PosCartesian2D _ _ \<Rightarrow> Inl (InvalidEntityPosition DimensionMismatch)))"

definition abs_diff :: "int \<Rightarrow> int \<Rightarrow> nat" where
  "abs_diff a b = nat \<bar>a - b\<bar>"

definition axis_near :: "int \<Rightarrow> int \<Rightarrow> f64 \<Rightarrow> bool" where
  "axis_near a b radius = f64_le (f64_of_nat (abs_diff a b)) radius"

fun cells_are_near :: "SpatialCell \<Rightarrow> SpatialCell \<Rightarrow> f64 \<Rightarrow> bool" where
  "cells_are_near (Cell2D x y) (Cell2D x' y') radius \<longleftrightarrow> axis_near x x' radius \<and> axis_near y y' radius"
| "cells_are_near (Cell3D x y z) (Cell3D x' y' z') radius \<longleftrightarrow>
     axis_near x x' radius \<and> axis_near y y' radius \<and> axis_near z z' radius"
| "cells_are_near _ _ _ \<longleftrightarrow> False"

fun distance_components :: "EntityPosition \<Rightarrow> EntityPosition \<Rightarrow> f64 list option" where
  "distance_components (PosCartesian2D x y) (PosCartesian2D x' y') = Some [f64_sub x x', f64_sub y y']"
| "distance_components (PosCartesian3D x y z) (PosCartesian3D x' y' z') =
     Some [f64_sub x x', f64_sub y y', f64_sub z z']"
| "distance_components _ _ = None"

text \<open>\<open>powi(2)\<close> is one multiplication; \<open>sum\<close> adds from the left, starting at zero.\<close>

definition f64_square :: "f64 \<Rightarrow> f64" where
  "f64_square x = f64_mul x x"

definition squared_distance_within :: "EntityPosition \<Rightarrow> EntityPosition \<Rightarrow> f64 \<Rightarrow> bool" where
  "squared_distance_within source candidate radius =
     (case distance_components source candidate of
        None \<Rightarrow> False
      | Some components \<Rightarrow>
          let scale = fold (\<lambda>component largest. f64_max largest (f64_abs component)) components radius
          in if \<not> f64_is_finite scale then False
             else f64_le
                    (fold (\<lambda>component total. f64_add total (f64_square (f64_div component scale)))
                       components (Fin 0))
                    (f64_square (f64_div radius scale)))"

fun grid_parameters :: "RoutingPolicy \<Rightarrow> (f64 \<times> f64 \<times> bool) option" where
  "grid_parameters (SpatialGrid2D cell radius exact) = Some (cell, radius, exact)"
| "grid_parameters (SpatialGrid3D cell radius exact) = Some (cell, radius, exact)"
| "grid_parameters BroadcastAll = None"
| "grid_parameters TopicOnly = None"

text \<open>One candidate entity of a near cell: its owner is added when it qualifies.\<close>

definition consider_candidate ::
  "SessionState \<Rightarrow> ConnectionId btree_set \<Rightarrow> EntityPosition \<Rightarrow> f64 \<Rightarrow> bool \<Rightarrow> EntityId
   \<Rightarrow> ConnectionId btree_set \<Rightarrow> ConnectionId btree_set" where
  "consider_candidate session subscribers source_position radius exact candidate_entity recipients =
     (case bt_get (ses_entities session) candidate_entity of
        None \<Rightarrow> recipients
      | Some candidate \<Rightarrow>
          (case er_position candidate of
             None \<Rightarrow> recipients
           | Some candidate_position \<Rightarrow>
               if exact \<and> \<not> squared_distance_within source_position candidate_position radius
               then recipients
               else if bs_member (er_owner_connection candidate) subscribers
               then bs_insert (er_owner_connection candidate) recipients
               else recipients))"

definition near_cell :: "OutboundMessage \<Rightarrow> SpatialCellKey \<Rightarrow> f64 \<Rightarrow> SpatialCellKey \<Rightarrow> bool" where
  "near_cell outbound source_cell radius_in_cells candidate_cell \<longleftrightarrow>
     sck_cell_space candidate_cell = om_space outbound
   \<and> sck_cell_epoch candidate_cell = om_space_epoch outbound
   \<and> cells_are_near (sck_cell source_cell) (sck_cell candidate_cell) radius_in_cells"

definition grid_recipients ::
  "SessionState \<Rightarrow> OutboundMessage \<Rightarrow> ConnectionId btree_set \<Rightarrow> EntityPosition \<Rightarrow> SpatialCellKey
   \<Rightarrow> f64 \<Rightarrow> f64 \<Rightarrow> bool \<Rightarrow> ConnectionId btree_set" where
  "grid_recipients session outbound subscribers source_position source_cell cell_size radius exact =
     fold (\<lambda>(candidate_cell, candidate_entities) recipients.
         if near_cell outbound source_cell (f64_ceil (f64_div radius cell_size)) candidate_cell
         then fold (consider_candidate session subscribers source_position radius exact)
                (bs_list candidate_entities) recipients
         else recipients)
       (bt_entries (ses_cell_entities session)) bt_empty"

definition routing_recipients :: "SessionState \<Rightarrow> OutboundMessage \<Rightarrow> ConnectionId btree_set" where
  "routing_recipients session outbound =
     (let subscribers =
            (case bt_get (ses_subscribers session) (om_space outbound) of None \<Rightarrow> bt_empty | Some s \<Rightarrow> s)
      in case bt_get (ses_spaces session) (om_space outbound) of
           None \<Rightarrow> bt_empty
         | Some descriptor \<Rightarrow>
             if is_critical (om_delivery outbound) then subscribers
             else (case grid_parameters (sd_routing descriptor) of
                     None \<Rightarrow> subscribers
                   | Some (cell_size, radius, exact) \<Rightarrow>
                       (case om_entity outbound of
                          None \<Rightarrow> bt_empty
                        | Some source_entity \<Rightarrow>
                            (case bt_get (ses_entities session) source_entity of
                               None \<Rightarrow> bt_empty
                             | Some source \<Rightarrow>
                                 (case er_position source of
                                    None \<Rightarrow> bt_empty
                                  | Some source_position \<Rightarrow>
                                      (case bt_get (ses_entity_cells session) source_entity of
                                         None \<Rightarrow> bt_empty
                                       | Some source_cell \<Rightarrow>
                                           if sck_cell_space source_cell \<noteq> om_space outbound
                                              \<or> sck_cell_epoch source_cell \<noteq> om_space_epoch outbound
                                           then bt_empty
                                           else grid_recipients session outbound subscribers source_position
                                                  source_cell cell_size radius exact))))))"

section \<open>The spatial index\<close>

text \<open>The cell an entity belongs to, read off its position and the policy of its space.\<close>

definition cell_of :: "SessionState \<Rightarrow> EntityId \<Rightarrow> SpatialCellKey option" where
  "cell_of s entity =
     (case bt_get (ses_entities s) entity of
        None \<Rightarrow> None
      | Some r \<Rightarrow>
          (case (er_position r, bt_get (ses_spaces s) (er_space r)) of
             (Some position, Some descriptor) \<Rightarrow>
               (case spatial_cell_for position descriptor (er_space_epoch r) of Inl _ \<Rightarrow> None | Inr cell \<Rightarrow> cell)
           | _ \<Rightarrow> None))"

text \<open>The two directions of the index agree, cells are never empty, and every entity is indexed exactly
  under the cell of its position.\<close>

definition index_inv :: "SessionState \<Rightarrow> bool" where
  "index_inv s \<longleftrightarrow>
     (\<forall>cell entities. bt_get (ses_cell_entities s) cell = Some entities \<longrightarrow> bs_set entities \<noteq> {})
   \<and> (\<forall>entity cell. bt_get (ses_entity_cells s) entity = Some cell \<longleftrightarrow>
        (\<exists>entities. bt_get (ses_cell_entities s) cell = Some entities \<and> entity \<in> bs_set entities))
   \<and> (\<forall>entity. bt_get (ses_entity_cells s) entity = cell_of s entity)"

end
