(* ===== verification/Core_Cleanup.thy ===== *)
theory Core_Cleanup
  imports Routing
begin

text \<open>
  Cleanup (\<open>core.rs\<close>): removing entities together with every space anchored on them and everything
  in those spaces, detaching a connection from a session, and losing a transport.

  The source reads the clock inside \<open>release_session_admission\<close> and \<open>transport_lost\<close>. The readings
  are an argument: \<open>now\<close> for one reading, \<open>clk n\<close> for the \<open>n\<close>-th of a loop.
\<close>

section \<open>The closure of removed entities and anchored spaces\<close>

definition anchored_on :: "EntityId btree_set \<Rightarrow> SpaceId btree_set \<Rightarrow> SpaceDescriptor \<Rightarrow> bool" where
  "anchored_on removed_entities removed_spaces descriptor =
     (case sd_parent descriptor of
        None \<Rightarrow> False
      | Some parent \<Rightarrow>
          bs_member (anchor_entity parent) removed_entities \<or> bs_member (parent_space parent) removed_spaces)"

definition spaces_pass ::
  "SpaceDescriptor list \<Rightarrow> EntityId btree_set \<Rightarrow> SpaceId btree_set \<Rightarrow> SpaceId btree_set" where
  "spaces_pass descriptors removed_entities =
     fold (\<lambda>d removed_spaces.
         if anchored_on removed_entities removed_spaces d then bs_insert (sd_id d) removed_spaces
         else removed_spaces) descriptors"

definition entities_pass ::
  "EntityRecord list \<Rightarrow> SpaceId btree_set \<Rightarrow> EntityId btree_set \<Rightarrow> EntityId btree_set" where
  "entities_pass records removed_spaces =
     fold (\<lambda>e removed_entities.
         if bs_member (er_space e) removed_spaces then bs_insert (er_id e) removed_entities
         else removed_entities) records"

lemma spaces_pass_bounds:
  "bs_set rs \<subseteq> bs_set (spaces_pass ds re rs) \<and> bs_set (spaces_pass ds re rs) \<subseteq> bs_set rs \<union> sd_id ` set ds"
  unfolding spaces_pass_def by (induction ds arbitrary: rs) (auto split: if_splits, (fastforce split: if_splits)+)

lemma entities_pass_set:
  "bs_set (entities_pass es rs re) = bs_set re \<union> er_id ` {e \<in> set es. er_space e \<in> bs_set rs}"
  unfolding entities_pass_def by (induction es arbitrary: re) auto

text \<open>What is still outside the two sets shrinks in every round but the last.\<close>

definition closure_measure ::
  "SpaceDescriptor list \<Rightarrow> EntityRecord list \<Rightarrow> EntityId btree_set \<Rightarrow> SpaceId btree_set \<Rightarrow> nat" where
  "closure_measure ds es re rs = card (sd_id ` set ds - bs_set rs) + card (er_id ` set es - bs_set re)"

lemma grow_shrinks:
  assumes "finite A" and "bs_set s \<subseteq> bs_set t" and "bs_set t \<subseteq> bs_set s \<union> A"
  shows "card (A - bs_set t) \<le> card (A - bs_set s)"
    and "bt_len s \<noteq> bt_len t \<Longrightarrow> card (A - bs_set t) < card (A - bs_set s)"
proof -
  show "card (A - bs_set t) \<le> card (A - bs_set s)"
    using assms by (intro card_mono) auto
  assume "bt_len s \<noteq> bt_len t"
  then have "bs_set s \<noteq> bs_set t" by (auto simp: bs_len_card)
  then have "A - bs_set t \<subset> A - bs_set s" using assms(2,3) by auto
  then show "card (A - bs_set t) < card (A - bs_set s)"
    using assms(1) by (intro psubset_card_mono) auto
qed

lemma closure_measure_decreases:
  assumes rs': "rs' = spaces_pass ds re rs" and re': "re' = entities_pass es rs' re"
    and grows: "\<not> (bt_len rs = bt_len rs' \<and> bt_len re = bt_len re')"
  shows "closure_measure ds es re' rs' < closure_measure ds es re rs"
proof -
  have s: "finite (sd_id ` set ds)" "bs_set rs \<subseteq> bs_set rs'" "bs_set rs' \<subseteq> bs_set rs \<union> sd_id ` set ds"
    using spaces_pass_bounds [of rs ds re] by (simp_all add: rs')
  have e: "finite (er_id ` set es)" "bs_set re \<subseteq> bs_set re'" "bs_set re' \<subseteq> bs_set re \<union> er_id ` set es"
    by (auto simp: re' entities_pass_set)
  show ?thesis
    unfolding closure_measure_def using grow_shrinks [OF s] grow_shrinks [OF e] grows by linarith
qed

function closure_loop ::
  "SpaceDescriptor list \<Rightarrow> EntityRecord list \<Rightarrow> EntityId btree_set \<Rightarrow> SpaceId btree_set
   \<Rightarrow> EntityId btree_set \<times> SpaceId btree_set" where
  "closure_loop descriptors records removed_entities removed_spaces =
     (let spaces' = spaces_pass descriptors removed_entities removed_spaces;
          entities' = entities_pass records spaces' removed_entities
      in if bt_len removed_spaces = bt_len spaces' \<and> bt_len removed_entities = bt_len entities'
         then (entities', spaces')
         else closure_loop descriptors records entities' spaces')"
  by pat_completeness auto
termination
  by (relation "measure (\<lambda>(ds, es, re, rs). closure_measure ds es re rs)")
    (use closure_measure_decreases in \<open>auto simp: Let_def\<close>)

declare closure_loop.simps [simp del]

section \<open>Operations\<close>

definition purge_all ::
  "(OutboundMessage \<Rightarrow> bool) \<Rightarrow> (ConnectionId, ConnectionState) btree_map
   \<Rightarrow> usize \<times> (ConnectionId, ConnectionState) btree_map" where
  "purge_all P connections =
     (sum_list (map (\<lambda>c. fst (purge P (cn_outbound c))) (bt_values connections)),
      bt_map (\<lambda>_ c. c\<lparr>cn_outbound := snd (purge P (cn_outbound c))\<rparr>) connections)"

definition count_owner :: "EntityRecord \<Rightarrow> (ConnectionId, usize) btree_map \<Rightarrow> (ConnectionId, usize) btree_map" where
  "count_owner e owners =
     bt_insert (er_owner_connection e)
       ((case bt_get owners (er_owner_connection e) of None \<Rightarrow> 0 | Some n \<Rightarrow> n) + 1) owners"

definition entity_is_removed :: "EntityId btree_set \<Rightarrow> EntityId option \<Rightarrow> bool" where
  "entity_is_removed removed e = (case e of None \<Rightarrow> False | Some i \<Rightarrow> bs_member i removed)"

text \<open>One removed space: its descriptor becomes an epoch tombstone, its subscriber set goes.\<close>

definition retire_space :: "SpaceId \<Rightarrow> usize \<times> SessionState \<Rightarrow> usize \<times> SessionState" where
  "retire_space space acc =
     (case acc of
        (n, s) \<Rightarrow>
          let s1 = (case bt_get (ses_spaces s) space of
                      None \<Rightarrow> s
                    | Some d \<Rightarrow>
                        s\<lparr>ses_spaces := bt_remove space (ses_spaces s),
                          ses_space_epoch_tombstones :=
                            bt_insert (sd_id d) (sd_epoch d) (ses_space_epoch_tombstones s)\<rparr>)
          in case bt_get (ses_subscribers s1) space of
               None \<Rightarrow> (n, s1)
             | Some subscribers \<Rightarrow>
                 (n + bt_len subscribers,
                  s1\<lparr>ses_subscribers := bt_remove space (ses_subscribers s1)\<rparr>))"

definition remove_from_session ::
  "SessionKey \<Rightarrow> EntityId btree_set \<Rightarrow> SpaceId btree_set \<Rightarrow> SessionState \<Rightarrow> CleanupSummary \<times> SessionState" where
  "remove_from_session session_key removed_entities removed_spaces s =
     (let removed = map (\<lambda>e. \<lparr>re_entity = er_id e, re_session = session_key, re_space = er_space e,
                              re_space_epoch = er_space_epoch e\<rparr>)
                      (filter (\<lambda>e. bs_member (er_id e) removed_entities) (bt_values (ses_entities s)));
          s1 = fold remove_entity_from_cell (bs_list removed_entities) s;
          s2 = s1\<lparr>ses_entities := bt_retain (\<lambda>i _. \<not> bs_member i removed_entities) (ses_entities s1)\<rparr>;
          (subscriptions, s3) = fold retire_space (bs_list removed_spaces) (0, s2);
          s4 = recompute_state_bytes
                 (s3\<lparr>ses_state := cache_retain (\<lambda>key. \<not> bs_member (cak_space key) removed_spaces
                        \<and> \<not> entity_is_removed removed_entities (cak_entity key)) (ses_state s3)\<rparr>);
          s5 = s4\<lparr>ses_sequences := bt_retain (\<lambda>key _. \<not> bs_member (sqk_space key) removed_spaces
                        \<and> \<not> entity_is_removed removed_entities (sqk_entity key)) (ses_sequences s4)\<rparr>
      in (\<lparr>cs_memberships_removed = 0, cs_subscriptions_removed = subscriptions,
           cs_entities_removed = length removed, cs_spaces_removed = bt_len removed_spaces,
           cs_queued_messages_discarded = 0, cs_removed_entities = removed\<rparr>, s5))"

definition message_removed ::
  "SessionKey \<Rightarrow> EntityId btree_set \<Rightarrow> SpaceId btree_set \<Rightarrow> OutboundMessage \<Rightarrow> bool" where
  "message_removed session_key removed_entities removed_spaces m \<longleftrightarrow>
     om_namespace m = sk_namespace session_key \<and> om_session m = sk_session session_key
   \<and> (bs_member (om_space m) removed_spaces \<or> entity_is_removed removed_entities (om_entity m))"

definition remove_entities_and_anchored_spaces ::
  "SessionKey \<Rightarrow> EntityId btree_set \<Rightarrow> WovenCore \<Rightarrow> CleanupSummary \<times> WovenCore" where
  "remove_entities_and_anchored_spaces session_key entities w =
     (let (removed_entities, removed_spaces) =
            (case bt_get (wc_sessions w) session_key of
               None \<Rightarrow> (entities, bt_empty)
             | Some s \<Rightarrow>
                 closure_loop (bt_values (ses_spaces s)) (bt_values (ses_entities s)) entities bt_empty);
          removed_owners =
            (case bt_get (wc_sessions w) session_key of
               None \<Rightarrow> bt_empty
             | Some s \<Rightarrow>
                 fold count_owner
                   (filter (\<lambda>e. bs_member (er_id e) removed_entities) (bt_values (ses_entities s))) bt_empty);
          (summary, sessions) =
            (case bt_get (wc_sessions w) session_key of
               None \<Rightarrow> (empty_summary, wc_sessions w)
             | Some s \<Rightarrow>
                 (case remove_from_session session_key removed_entities removed_spaces s of
                    (summary, s') \<Rightarrow> (summary, bt_insert session_key s' (wc_sessions w))));
          connections1 =
            fold (\<lambda>(owner, count). bt_update owner (\<lambda>c. c\<lparr>cn_owned_entities := cn_owned_entities c - count\<rparr>))
              (bt_entries removed_owners) (wc_connections w);
          connections2 =
            bt_map (\<lambda>_ c. c\<lparr>cn_subscriptions := bs_retain (\<lambda>space. spk_session space \<noteq> session_key
                              \<or> \<not> bs_member (spk_space space) removed_spaces) (cn_subscriptions c)\<rparr>)
              connections1;
          (discarded, connections3) =
            purge_all (message_removed session_key removed_entities removed_spaces) connections2
      in (summary\<lparr>cs_queued_messages_discarded := discarded\<rparr>,
          w\<lparr>wc_sessions := sessions, wc_connections := connections3\<rparr>))"

definition detach_connection_from_session ::
  "ConnectionId \<Rightarrow> SessionKey \<Rightarrow> WovenCore \<Rightarrow> CleanupSummary \<times> WovenCore" where
  "detach_connection_from_session connection key w =
     (let owned =
            (case bt_get (wc_sessions w) key of
               None \<Rightarrow> bt_empty
             | Some s \<Rightarrow>
                 bs_of_list (map er_id
                   (filter (\<lambda>e. er_owner_connection e = connection) (bt_values (ses_entities s)))));
          (summary, w1) = remove_entities_and_anchored_spaces key owned w;
          (summary2, w2) =
            (case bt_get (wc_sessions w1) key of
               None \<Rightarrow> (summary, w1)
             | Some s \<Rightarrow>
                 (summary\<lparr>cs_memberships_removed :=
                      cs_memberships_removed summary + of_bool (bs_member connection (ses_members s)),
                    cs_subscriptions_removed :=
                      cs_subscriptions_removed summary
                        + length (filter (bs_member connection) (bt_values (ses_subscribers s)))\<rparr>,
                  w1\<lparr>wc_sessions := bt_insert key
                      (s\<lparr>ses_members := bs_remove connection (ses_members s),
                         ses_subscribers := bt_map (\<lambda>_. bs_remove connection) (ses_subscribers s),
                         ses_sequences :=
                           bt_retain (\<lambda>k _. sqk_connection k \<noteq> connection) (ses_sequences s)\<rparr>)
                      (wc_sessions w1)\<rparr>))
      in case bt_get (wc_connections w2) connection of
           None \<Rightarrow> (summary2, w2)
         | Some state \<Rightarrow>
             (let limiters =
                    (case bt_get (cn_session_rate_limiters state) key of
                       None \<Rightarrow> cn_session_rate_limiters state
                     | Some limiter \<Rightarrow>
                         if \<not> srl_retain_after_leave limiter
                         then bt_remove key (cn_session_rate_limiters state)
                         else cn_session_rate_limiters state);
                  (discarded, outbound) =
                    purge (\<lambda>m. om_namespace m = sk_namespace key \<and> om_session m = sk_session key)
                      (cn_outbound state)
              in (summary2\<lparr>cs_queued_messages_discarded := cs_queued_messages_discarded summary2 + discarded\<rparr>,
                  w2\<lparr>wc_connections := bt_insert connection
                      (state\<lparr>cn_memberships := bs_remove key (cn_memberships state),
                             cn_session_rate_limiters := limiters,
                             cn_subscriptions := bs_retain (\<lambda>space. spk_session space \<noteq> key) (cn_subscriptions state),
                             cn_outbound := outbound\<rparr>) (wc_connections w2)\<rparr>)))"

definition release_session_admission ::
  "ConnectionId \<Rightarrow> SessionKey \<Rightarrow> ReleaseReason \<Rightarrow> Instant \<Rightarrow> WovenCore \<Rightarrow> WovenCore" where
  "release_session_admission connection session reason now w =
     (case bt_get (wc_admission_leases w) (connection, session) of
        None \<Rightarrow> w
      | Some lease \<Rightarrow>
          w\<lparr>wc_admission_leases := bt_remove (connection, session) (wc_admission_leases w),
            wc_admissions := bt_update session (release_at lease reason now) (wc_admissions w)\<rparr>)"

fun detach_memberships ::
  "(nat \<Rightarrow> Instant) \<Rightarrow> ConnectionId \<Rightarrow> nat \<Rightarrow> SessionKey list \<Rightarrow> CleanupSummary \<times> WovenCore
   \<Rightarrow> CleanupSummary \<times> WovenCore" where
  "detach_memberships clk connection n [] acc = acc"
| "detach_memberships clk connection n (key # keys) (summary, w) =
     (case detach_connection_from_session connection key
             (release_session_admission connection key Unexpected (clk n) w) of
        (other, w') \<Rightarrow> detach_memberships clk connection (n + 1) keys (summary_add summary other, w'))"

fun release_pending :: "(nat \<Rightarrow> Instant) \<Rightarrow> ConnectionId \<Rightarrow> nat \<Rightarrow> SessionKey list \<Rightarrow> WovenCore \<Rightarrow> WovenCore" where
  "release_pending clk connection n [] w = w"
| "release_pending clk connection n (session # rest) w =
     release_pending clk connection (n + 1) rest
       (case bt_get (wc_pending_admissions w) (connection, session) of
          None \<Rightarrow> w
        | Some lease \<Rightarrow>
            w\<lparr>wc_pending_admissions := bt_remove (connection, session) (wc_pending_admissions w),
              wc_admissions := bt_update session (release_at lease Intentional (clk n)) (wc_admissions w)\<rparr>)"

fun cancel_tickets ::
  "(nat \<Rightarrow> Instant) \<Rightarrow> nat \<Rightarrow> (SessionKey \<times> QueueTicket) list
   \<Rightarrow> (SessionKey, AdmissionController) btree_map \<Rightarrow> (SessionKey, AdmissionController) btree_map" where
  "cancel_tickets clk n [] admissions = admissions"
| "cancel_tickets clk n ((session, ticket) # rest) admissions =
     cancel_tickets clk (n + 1) rest
       (bt_update session (\<lambda>c. snd (cancel_at (qt_id ticket) (clk n) c)) admissions)"

definition pending_sessions :: "ConnectionId \<Rightarrow> WovenCore \<Rightarrow> SessionKey list" where
  "pending_sessions connection w =
     map snd (filter (\<lambda>(owner, _). owner = connection) (bt_keys (wc_pending_admissions w)))"

definition own_tickets :: "ConnectionId \<Rightarrow> WovenCore \<Rightarrow> (SessionKey \<times> QueueTicket) list" where
  "own_tickets connection w =
     map (\<lambda>((_, session), ticket). (session, ticket))
       (filter (\<lambda>((owner, _), _). owner = connection) (bt_entries (wc_admission_tickets w)))"

definition transport_lost ::
  "(nat \<Rightarrow> Instant) \<Rightarrow> ConnectionId \<Rightarrow> WovenCore \<Rightarrow> (CoreError + CleanupSummary) \<times> WovenCore" where
  "transport_lost clk connection w =
     try_in w (validate_connection_id connection) (\<lambda>_.
     try_in w (ok_or (bt_get (wc_connections w) connection) (UnknownConnection connection)) (\<lambda>state0.
       let memberships = bs_list (cn_memberships state0);
           (summary, w1) = detach_memberships clk connection 0 memberships (empty_summary, w);
           pending = pending_sessions connection w1;
           n1 = length memberships;
           w2 = release_pending clk connection n1 pending w1;
           tickets = own_tickets connection w2;
           w3 = w2\<lparr>wc_admission_tickets :=
                      bt_retain (\<lambda>(owner, _) _. owner \<noteq> connection) (wc_admission_tickets w2),
                    wc_admissions := cancel_tickets clk (n1 + length pending) tickets (wc_admissions w2)\<rparr>
       in try_in w3 (ok_or (bt_get (wc_connections w3) connection) (UnknownConnection connection)) (\<lambda>state.
            (Inr (summary\<lparr>cs_queued_messages_discarded :=
                    cs_queued_messages_discarded summary + queue_len (cn_outbound state)\<rparr>),
             w3\<lparr>wc_connections := bt_remove connection (wc_connections w3),
               wc_managed := map_option (\<lambda>m. m\<lparr>ms_connections := bt_remove connection (ms_connections m),
                                             ms_operations := bt_remove connection (ms_operations m)\<rparr>)
                               (wc_managed w3)\<rparr>))))"

end
