(* ===== verification/Core_Ops.thy ===== *)
theory Core_Ops
  imports Core_Cleanup
begin

text \<open>
  The operations of the core other than publishing (\<open>core.rs\<close>), and the parts of \<open>managed.rs\<close> that
  they call. An operation that changes the core returns its result and the new core; on an early
  return the core is what it was at that point.

  \<open>digest\<close> stands for SHA-256 of the \<open>ring\<close> crate. Where the source indexes
  \<open>connections[&connection]\<close> after \<open>authenticated_principal\<close> succeeded, the connection exists; the
  model looks it up with the same error that \<open>authenticated_principal\<close> would have raised.
\<close>

section \<open>Channels and sessions\<close>

definition register_channel :: "ChannelDefinition \<Rightarrow> WovenCore \<Rightarrow> (CoreError + unit) \<times> WovenCore" where
  "register_channel channel w =
     try_in w (require_nonzero (cd_id channel) KindChannel) (\<lambda>_.
       if cd_max_payload_bytes channel = 0 then (Inl (InvalidChannelLimit (cd_id channel)), w)
       else if bt_contains (wc_channels w) (cd_id channel)
       then (Inl (ChannelAlreadyRegistered (cd_id channel)), w)
       else if bt_len (wc_channels w) = cfg_max_channels (wc_config w) then (Inl ChannelLimitReached, w)
       else (Inr (), w\<lparr>wc_channels := bt_insert (cd_id channel) channel (wc_channels w)\<rparr>))"

definition channel_persistence ::
  "WovenCore \<Rightarrow> ConnectionId \<Rightarrow> SessionKey \<Rightarrow> ChannelId \<Rightarrow> CoreError + PersistenceClass" where
  "channel_persistence w connection session channel =
     and_then (validate_connection_id connection) (\<lambda>_.
     and_then (validate_session_key session) (\<lambda>_.
     and_then (require_nonzero channel KindChannel) (\<lambda>_.
     and_then (authenticated_principal w connection) (\<lambda>pr.
     and_then (require_namespace_write pr (sk_namespace session)) (\<lambda>_.
     and_then (require_session_write pr session) (\<lambda>_.
       if \<not> can_write_channel (ap_grants pr) (ChannelScope session channel)
       then Inl (ChannelWriteAccessDenied (ChannelScope session channel))
       else ok_or (map_option cd_persistence (bt_get (wc_channels w) channel)) (UnknownChannel channel)))))))"

definition provision_session :: "SessionKey \<Rightarrow> WovenCore \<Rightarrow> (CoreError + unit) \<times> WovenCore" where
  "provision_session key w =
     try_in w (validate_session_key key) (\<lambda>_.
       if bt_contains (wc_sessions w) key then (Inl (SessionAlreadyProvisioned key), w)
       else if bt_len (wc_sessions w) = cfg_max_sessions (wc_config w) then (Inl SessionLimitReached, w)
       else (Inr (), w\<lparr>wc_sessions := bt_insert key new_session (wc_sessions w)\<rparr>))"

definition validate_rate_policy :: "PublishRateLimit option \<Rightarrow> CoreError + PublishRateLimit option" where
  "validate_rate_policy policy =
     (case policy of None \<Rightarrow> Inr None | Some p \<Rightarrow> and_then (validate_rate_limit p) (\<lambda>p. Inr (Some p)))"

definition set_session_publish_rate_limit ::
  "SessionKey \<Rightarrow> PublishRateLimit option \<Rightarrow> WovenCore \<Rightarrow> (CoreError + unit) \<times> WovenCore" where
  "set_session_publish_rate_limit session policy0 w =
     try_in w (validate_session_key session) (\<lambda>_.
     try_in w (validate_rate_policy policy0) (\<lambda>policy.
     try_in w (ok_or (bt_get (wc_sessions w) session) (SessionNotFound session)) (\<lambda>s.
       (Inr (),
        w\<lparr>wc_sessions := bt_insert session (s\<lparr>ses_publish_rate_limit := policy\<rparr>) (wc_sessions w),
          wc_connections :=
            bt_map (\<lambda>_ c. c\<lparr>cn_session_rate_limiters :=
                bt_update session (configure_limiter policy) (cn_session_rate_limiters c)\<rparr>)
              (wc_connections w)\<rparr>))))"

section \<open>Admission\<close>

definition configure_session_admission ::
  "SessionKey \<Rightarrow> AdmissionMetadata \<Rightarrow> QueuePolicy \<Rightarrow> CapacityUpdate \<Rightarrow> WovenCore
   \<Rightarrow> (CoreError + unit) \<times> WovenCore" where
  "configure_session_admission session_key metadata policy capacity w =
     try_in w (validate_session_key session_key) (\<lambda>_.
       if \<not> bt_contains (wc_sessions w) session_key then (Inl (SessionNotFound session_key), w)
       else if am_session metadata \<noteq> session_key then (Inl (InvalidAdmissionLease session_key), w)
       else if bt_contains (wc_admissions w) session_key
       then (Inl (AdmissionAlreadyConfigured session_key), w)
       else (Inr (), w\<lparr>wc_admissions := bt_insert session_key
                         (new_controller metadata policy capacity (new_counters metadata)) (wc_admissions w)\<rparr>))"

definition apply_session_capacity_at ::
  "SessionKey \<Rightarrow> CapacityUpdate \<Rightarrow> Instant \<Rightarrow> WovenCore \<Rightarrow> (CoreError + AdmissionSnapshot) \<times> WovenCore" where
  "apply_session_capacity_at session_key upd now w =
     try_in w (validate_session_key session_key) (\<lambda>_.
     try_in w (ok_or (bt_get (wc_admissions w) session_key) (AdmissionLeaseRequired session_key)) (\<lambda>controller.
       case apply_capacity_at upd now controller of
         (snapshot, controller') \<Rightarrow>
           (Inr snapshot, w\<lparr>wc_admissions := bt_insert session_key controller' (wc_admissions w)\<rparr>)))"

text \<open>The operation budget of a managed connection: four queue operations a second.\<close>

definition check_managed_admission_rate_at ::
  "ConnectionId \<Rightarrow> Instant \<Rightarrow> WovenCore \<Rightarrow> (CoreError + unit) \<times> WovenCore" where
  "check_managed_admission_rate_at connection now w =
     (case wc_managed w of
        None \<Rightarrow> (Inr (), w)
      | Some m \<Rightarrow>
          (case bt_get (ms_operations m) connection of
             None \<Rightarrow> (Inr (), w)
           | Some (start0, count0) \<Rightarrow>
               let elapsed = saturating_duration_since now start0;
                   (start, count) = (if from_secs 1 \<le> elapsed then (now, 0) else (start0, count0));
                   store = (\<lambda>n. w\<lparr>wc_managed :=
                              Some (m\<lparr>ms_operations := bt_insert connection (start, n) (ms_operations m)\<rparr>)\<rparr>)
               in if 4 \<le> count
                  then (Inl (AdmissionRateLimited (from_secs 1 - elapsed)), store count)
                  else (Inr (), store (count + 1))))"

definition queued_admissions :: "ConnectionId \<Rightarrow> WovenCore \<Rightarrow> usize" where
  "queued_admissions connection w =
     length (filter (\<lambda>(i, _). i = connection) (bt_keys (wc_admission_tickets w)))
       + length (filter (\<lambda>(i, _). i = connection) (bt_keys (wc_pending_admissions w)))"

definition ticket_of_another_connection ::
  "ConnectionId \<Rightarrow> SessionKey \<Rightarrow> QueueTicketId \<Rightarrow> WovenCore \<Rightarrow> bool" where
  "ticket_of_another_connection connection session_key i w \<longleftrightarrow>
     (\<exists>((owner, scope), existing) \<in> set (bt_entries (wc_admission_tickets w)).
        owner \<noteq> connection \<and> scope = session_key \<and> qt_id existing = i)"

definition request_session_admission_at ::
  "ConnectionId \<Rightarrow> SessionKey \<Rightarrow> IdempotencyKey \<Rightarrow> Instant \<Rightarrow> WovenCore
   \<Rightarrow> (CoreError + JoinDecision) \<times> WovenCore" where
  "request_session_admission_at connection session_key key now w0 =
     (case check_managed_admission_rate_at connection now w0 of
        (rate, w) \<Rightarrow>
     try_in w rate (\<lambda>_.
     try_in w (validate_connection_id connection) (\<lambda>_.
     try_in w (validate_session_key session_key) (\<lambda>_.
     try_in w (authenticated_principal w connection) (\<lambda>pr.
     try_in w (require_namespace_read pr (sk_namespace session_key)) (\<lambda>_.
     try_in w (require_session_read pr session_key) (\<lambda>_.
     try_in w (ok_or (bt_get (wc_admissions w) session_key) (AdmissionLeaseRequired session_key)) (\<lambda>controller.
       case (case bt_get (wc_admission_leases w) (connection, session_key) of
               None \<Rightarrow> bt_get (wc_pending_admissions w) (connection, session_key)
             | Some lease \<Rightarrow> Some lease) of
         Some lease \<Rightarrow> (Inr (Admitted lease), w)
       | None \<Rightarrow>
           (case bt_get (wc_admission_tickets w) (connection, session_key) of
              Some ticket \<Rightarrow> (Inr (QueuedJoin ticket), w)
            | None \<Rightarrow>
                try_in w (ok_or (bt_get (wc_connections w) connection) (UnknownConnection connection)) (\<lambda>state.
                  if cfg_max_memberships_per_connection (wc_config w)
                       \<le> queued_admissions connection w + bt_len (cn_memberships state)
                  then (Inl (InvalidAdmissionLease session_key), w)
                  else
                    (case request_join_at \<lparr>jq_principal = ap_principal_id pr, jq_idempotency_key = Some key\<rparr>
                            now controller of
                       (decision, controller') \<Rightarrow>
                         let w1 = w\<lparr>wc_admissions := bt_insert session_key controller' (wc_admissions w)\<rparr>
                         in (case decision of
                               Admitted lease \<Rightarrow>
                                 (Inr (Admitted lease),
                                  w1\<lparr>wc_pending_admissions :=
                                       bt_insert (connection, session_key) lease (wc_pending_admissions w1)\<rparr>)
                             | QueuedJoin ticket \<Rightarrow>
                                 if ticket_of_another_connection connection session_key (qt_id ticket) w1
                                 then (Inl (InvalidAdmissionLease session_key), w1)
                                 else (Inr (QueuedJoin ticket),
                                       w1\<lparr>wc_admission_tickets :=
                                            bt_insert (connection, session_key) ticket (wc_admission_tickets w1)\<rparr>)
                             | _ \<Rightarrow> (Inr decision, w1)))))))))))))"

section \<open>Joining\<close>

definition join_session_unchecked_admission_at ::
  "ConnectionId \<Rightarrow> SessionKey \<Rightarrow> Instant \<Rightarrow> WovenCore \<Rightarrow> (CoreError + unit) \<times> WovenCore" where
  "join_session_unchecked_admission_at connection key now w =
     try_in w (validate_connection_id connection) (\<lambda>_.
     try_in w (validate_session_key key) (\<lambda>_.
     try_in w (authenticated_principal w connection) (\<lambda>pr.
     try_in w (require_namespace_read pr (sk_namespace key)) (\<lambda>_.
     try_in w (require_session_read pr key) (\<lambda>_.
     try_in w (ok_or (bt_get (wc_sessions w) key) (SessionNotFound key)) (\<lambda>session.
     try_in w (ok_or (bt_get (wc_connections w) connection) (UnknownConnection connection)) (\<lambda>state.
       if bs_member key (cn_memberships state) then (Inr (), w)
       else if bt_len (cn_memberships state) = cfg_max_memberships_per_connection (wc_config w)
       then (Inl MembershipLimitReached, w)
       else
         let state1 = prune_session_rate_limiters_at now state
         in if \<not> bt_contains (cn_session_rate_limiters state1) key
               \<and> cfg_max_memberships_per_connection (wc_config w) \<le> bt_len (cn_session_rate_limiters state1)
            then (Inl MembershipLimitReached,
                  w\<lparr>wc_connections := bt_insert connection state1 (wc_connections w)\<rparr>)
            else
              let limiters =
                    (if bt_contains (cn_session_rate_limiters state1) key then cn_session_rate_limiters state1
                     else bt_insert key (new_session_limiter (ses_publish_rate_limit session))
                            (cn_session_rate_limiters state1));
                  state2 = state1\<lparr>cn_session_rate_limiters := limiters,
                                  cn_memberships := bs_insert key (cn_memberships state1)\<rparr>
              in (Inr (),
                  w\<lparr>wc_connections := bt_insert connection state2 (wc_connections w),
                    wc_sessions := bt_insert key
                      (session\<lparr>ses_members := bs_insert connection (ses_members session)\<rparr>) (wc_sessions w)\<rparr>))))))))"

definition join_session_at ::
  "ConnectionId \<Rightarrow> SessionKey \<Rightarrow> Instant \<Rightarrow> WovenCore \<Rightarrow> (CoreError + unit) \<times> WovenCore" where
  "join_session_at connection key now w =
     (if bt_contains (wc_admissions w) key then (Inl (AdmissionLeaseRequired key), w)
      else join_session_unchecked_admission_at connection key now w)"

definition join_session_with_admission_at ::
  "ConnectionId \<Rightarrow> SessionKey \<Rightarrow> AdmissionLease \<Rightarrow> Instant \<Rightarrow> WovenCore \<Rightarrow> (CoreError + unit) \<times> WovenCore" where
  "join_session_with_admission_at connection key lease now w =
     try_in w (validate_connection_id connection) (\<lambda>_.
     try_in w (validate_session_key key) (\<lambda>_.
     try_in w (authenticated_principal w connection) (\<lambda>pr.
       if al_session lease \<noteq> key \<or> al_principal lease \<noteq> ap_principal_id pr
       then (Inl (InvalidAdmissionLease key), w)
       else (case bt_get (wc_admission_leases w) (connection, key) of
               Some bound \<Rightarrow> if bound = lease then (Inr (), w) else (Inl (InvalidAdmissionLease key), w)
             | None \<Rightarrow>
                 if bt_get (wc_pending_admissions w) (connection, key) \<noteq> Some lease
                 then (Inl (InvalidAdmissionLease key), w)
                 else
                   try_in w (ok_or (bt_get (wc_admissions w) key) (AdmissionLeaseRequired key)) (\<lambda>controller.
                     if \<not> has_active_lease controller lease
                        \<or> lease \<in> set (bt_values (wc_admission_leases w))
                     then (Inl (InvalidAdmissionLease key), w)
                     else (case join_session_unchecked_admission_at connection key now w of
                             (Inl e, w1) \<Rightarrow> (Inl e, w1)
                           | (Inr _, w1) \<Rightarrow>
                               (Inr (),
                                w1\<lparr>wc_pending_admissions := bt_remove (connection, key) (wc_pending_admissions w1),
                                   wc_admission_leases :=
                                     bt_insert (connection, key) lease (wc_admission_leases w1)\<rparr>)))))))"

definition update_admission :: "SessionKey \<Rightarrow> AdmissionController \<Rightarrow> WovenCore \<Rightarrow> WovenCore" where
  "update_admission session controller w = w\<lparr>wc_admissions := bt_insert session controller (wc_admissions w)\<rparr>"

definition session_queue_at ::
  "ConnectionId \<Rightarrow> SessionKey \<Rightarrow> QueueTicketId \<Rightarrow> QueueOperation \<Rightarrow> Instant \<Rightarrow> WovenCore
   \<Rightarrow> (CoreError + QueueStatus) \<times> WovenCore" where
  "session_queue_at connection session ticket operation now w0 =
     (case check_managed_admission_rate_at connection now w0 of
        (rate, w) \<Rightarrow>
     try_in w rate (\<lambda>_.
     try_in w (authenticated_principal w connection) (\<lambda>pr.
     try_in w (require_namespace_read pr (sk_namespace session)) (\<lambda>_.
     try_in w (require_session_read pr session) (\<lambda>_.
       if map_option qt_id (bt_get (wc_admission_tickets w) (connection, session)) \<noteq> Some ticket
       then (Inr StatusMissing, w)
       else
         try_in w (ok_or (bt_get (wc_admissions w) session) (AdmissionLeaseRequired session)) (\<lambda>controller.
           if \<not> ticket_owned_by controller ticket (ap_principal_id pr) then (Inr StatusMissing, w)
           else
             let status = (\<lambda>c w. case queue_status_at ticket now c of
                             (s, c') \<Rightarrow> (Inr s, update_admission session c' w))
             in (case operation of
                   OpStatus \<Rightarrow> status controller w
                 | OpHeartbeat \<Rightarrow>
                     (case heartbeat_at ticket now controller of
                        (s, c') \<Rightarrow> (Inr s, update_admission session c' w))
                 | OpCancel \<Rightarrow> status (snd (cancel_at ticket now controller)) w
                 | OpClaim \<Rightarrow>
                     (case claim_offer_at ticket now controller of
                        (Inl _, c') \<Rightarrow> status c' w
                      | (Inr lease, c') \<Rightarrow>
                          let w1 = (update_admission session c' w)
                                     \<lparr>wc_pending_admissions :=
                                        bt_insert (connection, session) lease (wc_pending_admissions w)\<rparr>
                          in (case join_session_with_admission_at connection session lease now w1 of
                                (Inl e, w2) \<Rightarrow>
                                  let w3 = w2\<lparr>wc_pending_admissions :=
                                                bt_remove (connection, session) (wc_pending_admissions w2),
                                              wc_admission_tickets :=
                                                bt_remove (connection, session) (wc_admission_tickets w2)\<rparr>
                                  in try_in w3 (ok_or (bt_get (wc_admissions w3) session) (AdmissionLeaseRequired session))
                                       (\<lambda>c. (Inl e, update_admission session (rollback_claim_at ticket lease now c) w3))
                              | (Inr _, w2) \<Rightarrow>
                                  try_in w2 (ok_or (bt_get (wc_admissions w2) session) (AdmissionLeaseRequired session))
                                    (\<lambda>c. status c w2))))))))))"

definition maintain_admission_at :: "Instant \<Rightarrow> WovenCore \<Rightarrow> WovenCore" where
  "maintain_admission_at now w = w\<lparr>wc_admissions := bt_map (\<lambda>_. maintain_at now) (wc_admissions w)\<rparr>"

definition admit_and_join_session_at ::
  "ConnectionId \<Rightarrow> SessionKey \<Rightarrow> IdempotencyKey \<Rightarrow> Instant \<Rightarrow> WovenCore
   \<Rightarrow> (CoreError + JoinDecision) \<times> WovenCore" where
  "admit_and_join_session_at connection session key now w =
     (case request_session_admission_at connection session key now w of
        (Inl e, w1) \<Rightarrow> (Inl e, w1)
      | (Inr decision, w1) \<Rightarrow>
          (case decision of
             Admitted lease \<Rightarrow>
               (case join_session_with_admission_at connection session lease now w1 of
                  (Inr _, w2) \<Rightarrow> (Inr decision, w2)
                | (Inl e, w2) \<Rightarrow>
                    (Inl e,
                     w2\<lparr>wc_pending_admissions := bt_remove (connection, session) (wc_pending_admissions w2),
                       wc_admissions := bt_update session (release_at lease Intentional now) (wc_admissions w2)\<rparr>))
           | _ \<Rightarrow> (Inr decision, w1)))"

section \<open>Spaces\<close>

definition validate_parent_anchor :: "SessionState \<Rightarrow> ParentAnchor \<Rightarrow> CoreError + unit" where
  "validate_parent_anchor session parent =
     (if \<not> bt_contains (ses_spaces session) (parent_space parent)
      then Inl (ParentSpaceNotFound (parent_space parent))
      else and_then (ok_or (bt_get (ses_entities session) (anchor_entity parent))
                       (ParentAnchorNotFound (anchor_entity parent))) (\<lambda>anchor.
             if er_space anchor \<noteq> parent_space parent
             then Inl (ParentAnchorInWrongSpace (anchor_entity parent) (parent_space parent))
             else Inr ()))"

definition install_space :: "SessionKey \<Rightarrow> SpaceDescriptor \<Rightarrow> WovenCore \<Rightarrow> (CoreError + unit) \<times> WovenCore" where
  "install_space session_key d w =
     try_in w (validate_session_key session_key) (\<lambda>_.
     try_in w (map_err InvalidSpace (validate_space d)) (\<lambda>_.
     try_in w (ok_or (bt_get (wc_sessions w) session_key) (SessionNotFound session_key)) (\<lambda>session.
       if bt_contains (ses_spaces session) (sd_id d)
       then (Inl (SpaceAlreadyExists (SpaceKey session_key (sd_id d))), w)
       else if bt_len (ses_spaces session) = cfg_max_spaces_per_session (wc_config w)
       then (Inl SpaceLimitReached, w)
       else
         try_in w
           (case bt_get (ses_space_epoch_tombstones session) (sd_id d) of
              Some previous_epoch \<Rightarrow>
                if sd_epoch d \<le> previous_epoch then Inl (EpochDidNotAdvance previous_epoch (sd_epoch d))
                else Inr ()
            | None \<Rightarrow>
                if bt_len (ses_spaces session) + bt_len (ses_space_epoch_tombstones session)
                     = cfg_max_space_epoch_tombstones_per_session (wc_config w)
                then Inl SpaceIdHistoryLimitReached
                else Inr ()) (\<lambda>_.
         try_in w (case sd_parent d of None \<Rightarrow> Inr () | Some p \<Rightarrow> validate_parent_anchor session p) (\<lambda>_.
           (Inr (),
            w\<lparr>wc_sessions := bt_insert session_key
                (session\<lparr>ses_space_epoch_tombstones := bt_remove (sd_id d) (ses_space_epoch_tombstones session),
                         ses_subscribers := bt_insert (sd_id d) bt_empty (ses_subscribers session),
                         ses_spaces := bt_insert (sd_id d) d (ses_spaces session)\<rparr>) (wc_sessions w)\<rparr>))))))"

definition advance_space_epoch ::
  "SessionKey \<Rightarrow> SpaceId \<Rightarrow> SpaceEpoch \<Rightarrow> WovenCore \<Rightarrow> (CoreError + CleanupSummary) \<times> WovenCore" where
  "advance_space_epoch session_key space proposed w =
     try_in w (validate_session_key session_key) (\<lambda>_.
     try_in w (require_nonzero space KindSpace) (\<lambda>_.
     try_in w (require_nonzero proposed KindSpaceEpoch) (\<lambda>_.
     try_in w (ok_or (bt_get (wc_sessions w) session_key) (SessionNotFound session_key)) (\<lambda>session.
     try_in w (ok_or (bt_get (ses_spaces session) space) (SpaceNotFound (SpaceKey session_key space))) (\<lambda>d.
       if proposed \<le> sd_epoch d then (Inl (EpochDidNotAdvance (sd_epoch d) proposed), w)
       else
         let entities = bs_of_list (map er_id (filter (\<lambda>e. er_space e = space) (bt_values (ses_entities session))));
             (summary, w1) = remove_entities_and_anchored_spaces session_key entities w;
             (discarded, connections) =
               purge_all (\<lambda>m. om_namespace m = sk_namespace session_key \<and> om_session m = sk_session session_key
                              \<and> om_space m = space) (wc_connections w1);
             summary2 = summary\<lparr>cs_queued_messages_discarded := cs_queued_messages_discarded summary + discarded\<rparr>;
             w2 = w1\<lparr>wc_connections := connections\<rparr>
         in try_in w2 (ok_or (bt_get (wc_sessions w2) session_key) (SessionNotFound session_key)) (\<lambda>session2.
            try_in w2 (ok_or (bt_get (ses_spaces session2) space) (SpaceNotFound (SpaceKey session_key space))) (\<lambda>d2.
              let s3 = recompute_state_bytes
                         (session2\<lparr>ses_spaces := bt_insert space (d2\<lparr>sd_epoch := proposed\<rparr>) (ses_spaces session2),
                                   ses_state := cache_retain (\<lambda>key. cak_space key \<noteq> space) (ses_state session2)\<rparr>);
                  s4 = s3\<lparr>ses_sequences := bt_retain (\<lambda>key _. sqk_space key \<noteq> space) (ses_sequences s3)\<rparr>
              in (Inr summary2, w2\<lparr>wc_sessions := bt_insert session_key s4 (wc_sessions w2)\<rparr>))))))))"

section \<open>Connections\<close>

definition transport_connected :: "WovenCore \<Rightarrow> (CoreError + ConnectionId) \<times> WovenCore" where
  "transport_connected w =
     (if bt_len (wc_connections w) = cfg_max_connections (wc_config w) then (Inl ConnectionLimitReached, w)
      else
        let i = wc_next_connection_id w
        in try_in w (ok_or (checked_add_u64 i 1) IdExhausted) (\<lambda>next.
             let w1 = w\<lparr>wc_next_connection_id := next\<rparr>
             in try_in w1 (map_err InvalidQueueConfig (new_queue (cfg_outbound_queue (wc_config w)))) (\<lambda>outbound.
                  (Inr i,
                   w1\<lparr>wc_connections := bt_insert i
                       \<lparr>cn_authenticated = None, cn_memberships = bt_empty, cn_subscriptions = bt_empty,
                        cn_owned_entities = 0, cn_rate_limiter = new_rate_limiter,
                        cn_session_rate_limiters = bt_empty, cn_outbound = outbound\<rparr> (wc_connections w1)\<rparr>))))"

datatype ManagedError =
    InvalidRequest
  | ScopeNotFound
  | RevisionConflict
  | ScopeRetired
  | TokenConflict
  | CapacityExhausted
  | SpaceCapacityExhausted
  | WorkerUnavailable

definition is_hex_digit :: "char \<Rightarrow> bool" where
  "is_hex_digit c \<longleftrightarrow> c \<in> set ''0123456789abcdef''"

definition client_digest :: "(string \<Rightarrow> u8 list) \<Rightarrow> Credentials \<Rightarrow> ManagedError + u8 list" where
  "client_digest digest credentials =
     (if length (cr_token credentials) \<noteq> 64 \<or> \<not> list_all is_hex_digit (cr_token credentials)
      then Inl InvalidRequest
      else Inr (digest (cr_token credentials)))"

definition managed_grants :: "SessionKey \<Rightarrow> SpaceId list \<Rightarrow> AuthorizationGrants" where
  "managed_grants session spatial =
     (let g1 = grant_session session ReadWrite (grant_namespace (sk_namespace session) ReadWrite new_grants);
          g2 = fold (\<lambda>i. grant_space (SpaceKey session i) ReadWrite) ([1, 2] @ spatial) g1
      in fold (\<lambda>i. grant_channel (ChannelScope session i) ReadWrite) [1, 4] g2)"

definition managed_authenticate ::
  "(string \<Rightarrow> u8 list) \<Rightarrow> ConnectionId \<Rightarrow> Credentials \<Rightarrow> Instant \<Rightarrow> ManagedState
   \<Rightarrow> (AuthError + AuthenticatedPrincipal) \<times> ManagedState" where
  "managed_authenticate digest connection credentials now m =
     try_in m (map_err (\<lambda>_. InvalidCredentials) (client_digest digest credentials)) (\<lambda>verifier.
     try_in m (ok_or (find (\<lambda>(_, scope). \<not> sc_retired scope \<and> sc_verifier scope = verifier)
                       (bt_entries (ms_scopes m))) InvalidCredentials) (\<lambda>(session, scope).
       (Inr \<lparr>ap_principal_id = connection,
             ap_grants = managed_grants session (bt_keys (sc_spatial_spaces scope))\<rparr>,
        m\<lparr>ms_connections := bt_insert connection session (ms_connections m),
          ms_operations := bt_insert connection (now, 0) (ms_operations m)\<rparr>)))"

definition authenticate ::
  "(string \<Rightarrow> u8 list) \<Rightarrow> ConnectionId \<Rightarrow> Credentials \<Rightarrow> Instant \<Rightarrow> WovenCore
   \<Rightarrow> (CoreError + PrincipalId) \<times> WovenCore" where
  "authenticate digest connection credentials now w =
     try_in w (validate_connection_id connection) (\<lambda>_.
     try_in w (ok_or (bt_get (wc_connections w) connection) (UnknownConnection connection)) (\<lambda>state.
       if cn_authenticated state \<noteq> None then (Inl AlreadyAuthenticated, w)
       else
         (case (case wc_managed w of
                  None \<Rightarrow> (wc_authenticator w credentials, w)
                | Some m \<Rightarrow>
                    (case managed_authenticate digest connection credentials now m of
                       (r, m') \<Rightarrow> (r, w\<lparr>wc_managed := Some m'\<rparr>))) of
            (r, w1) \<Rightarrow>
              try_in w1 (map_err AuthenticationFailed r) (\<lambda>pr.
              try_in w1 (require_nonzero (ap_principal_id pr) KindPrincipal) (\<lambda>_.
              try_in w1 (ok_or (bt_get (wc_connections w1) connection) (UnknownConnection connection)) (\<lambda>state1.
                (Inr (ap_principal_id pr),
                 w1\<lparr>wc_connections :=
                      bt_insert connection (state1\<lparr>cn_authenticated := Some pr\<rparr>) (wc_connections w1)\<rparr>)))))))"

definition leave_session ::
  "ConnectionId \<Rightarrow> SessionKey \<Rightarrow> Instant \<Rightarrow> WovenCore \<Rightarrow> (CoreError + CleanupSummary) \<times> WovenCore" where
  "leave_session connection key now w =
     try_in w (validate_connection_id connection) (\<lambda>_.
     try_in w (validate_session_key key) (\<lambda>_.
     try_in w (require_membership w connection key) (\<lambda>_.
       let w1 = release_session_admission connection key Intentional now w;
           w2 = w1\<lparr>wc_admission_tickets := bt_remove (connection, key) (wc_admission_tickets w1)\<rparr>
       in (case detach_connection_from_session connection key w2 of
             (summary, w3) \<Rightarrow> (Inr summary, w3)))))"

section \<open>Subscriptions\<close>

definition subscribe :: "ConnectionId \<Rightarrow> SpaceKey \<Rightarrow> WovenCore \<Rightarrow> (CoreError + unit) \<times> WovenCore" where
  "subscribe connection space_key w =
     try_in w (validate_connection_id connection) (\<lambda>_.
     try_in w (validate_space_key space_key) (\<lambda>_.
     try_in w (authenticated_principal w connection) (\<lambda>pr.
     try_in w (require_namespace_read pr (sk_namespace (spk_session space_key))) (\<lambda>_.
     try_in w (require_session_read pr (spk_session space_key)) (\<lambda>_.
     try_in w (require_space_read pr space_key) (\<lambda>_.
     try_in w (require_membership w connection (spk_session space_key)) (\<lambda>_.
     try_in w (ok_or (bt_get (wc_connections w) connection) (UnknownConnection connection)) (\<lambda>state.
       if bs_member space_key (cn_subscriptions state) then (Inr (), w)
       else if bt_len (cn_subscriptions state) = cfg_max_subscriptions_per_connection (wc_config w)
       then (Inl SubscriptionLimitReached, w)
       else
         try_in w (ok_or (bt_get (wc_sessions w) (spk_session space_key)) (SessionNotFound (spk_session space_key))) (\<lambda>session.
           if \<not> bt_contains (ses_spaces session) (spk_space space_key) then (Inl (SpaceNotFound space_key), w)
           else
             let w1 = w\<lparr>wc_connections := bt_insert connection
                          (state\<lparr>cn_subscriptions := bs_insert space_key (cn_subscriptions state)\<rparr>) (wc_connections w)\<rparr>
             in try_in w1 (ok_or (bt_get (ses_subscribers session) (spk_space space_key)) (SpaceNotFound space_key)) (\<lambda>subscribers.
                  (Inr (),
                   w1\<lparr>wc_sessions := bt_insert (spk_session space_key)
                        (session\<lparr>ses_subscribers :=
                           bt_insert (spk_space space_key) (bs_insert connection subscribers) (ses_subscribers session)\<rparr>)
                        (wc_sessions w1)\<rparr>))))))))))) "

definition unsubscribe ::
  "ConnectionId \<Rightarrow> SpaceKey \<Rightarrow> WovenCore \<Rightarrow> (CoreError + CleanupSummary) \<times> WovenCore" where
  "unsubscribe connection space_key w =
     try_in w (validate_connection_id connection) (\<lambda>_.
     try_in w (validate_space_key space_key) (\<lambda>_.
     try_in w (authenticated_principal w connection) (\<lambda>_.
     try_in w (ok_or (bt_get (wc_connections w) connection) (UnknownConnection connection)) (\<lambda>state.
       if \<not> bs_member space_key (cn_subscriptions state) then (Inr empty_summary, w)
       else
         let (discarded, outbound) =
               purge (\<lambda>m. om_namespace m = sk_namespace (spk_session space_key)
                          \<and> om_session m = sk_session (spk_session space_key)
                          \<and> om_space m = spk_space space_key) (cn_outbound state);
             sessions =
               bt_update (spk_session space_key)
                 (\<lambda>s. s\<lparr>ses_subscribers := bt_update (spk_space space_key) (bs_remove connection) (ses_subscribers s)\<rparr>)
                 (wc_sessions w)
         in (Inr (empty_summary\<lparr>cs_subscriptions_removed := 1, cs_queued_messages_discarded := discarded\<rparr>),
             w\<lparr>wc_sessions := sessions,
               wc_connections := bt_insert connection
                 (state\<lparr>cn_subscriptions := bs_remove space_key (cn_subscriptions state), cn_outbound := outbound\<rparr>)
                 (wc_connections w)\<rparr>)))))"

section \<open>Entities\<close>

definition spawn_entity ::
  "ConnectionId \<Rightarrow> SpaceKey \<Rightarrow> SpaceEpoch \<Rightarrow> WovenCore \<Rightarrow> (CoreError + EntityId) \<times> WovenCore" where
  "spawn_entity connection space_key epoch w =
     try_in w (validate_connection_id connection) (\<lambda>_.
     try_in w (validate_space_key space_key) (\<lambda>_.
     try_in w (require_nonzero epoch KindSpaceEpoch) (\<lambda>_.
     try_in w (authenticated_principal w connection) (\<lambda>pr.
     try_in w (require_namespace_write pr (sk_namespace (spk_session space_key))) (\<lambda>_.
     try_in w (require_session_write pr (spk_session space_key)) (\<lambda>_.
     try_in w (require_space_write pr space_key) (\<lambda>_.
     try_in w (require_membership w connection (spk_session space_key)) (\<lambda>_.
     try_in w (require_subscription w connection space_key) (\<lambda>_.
     try_in w (ok_or (bt_get (wc_connections w) connection) (UnknownConnection connection)) (\<lambda>state.
       if cn_owned_entities state = cfg_max_owned_entities_per_connection (wc_config w)
       then (Inl OwnedEntityLimitReached, w)
       else
     try_in w (ok_or (bt_get (wc_sessions w) (spk_session space_key)) (SessionNotFound (spk_session space_key))) (\<lambda>session.
     try_in w (ok_or (bt_get (ses_spaces session) (spk_space space_key)) (SpaceNotFound space_key)) (\<lambda>d.
       if sd_epoch d \<noteq> epoch then (Inl (SpaceEpochMismatch (sd_epoch d) epoch), w)
       else if bt_len (ses_entities session) = cfg_max_entities_per_session (wc_config w)
       then (Inl EntityLimitReached, w)
       else
         let i = wc_next_entity_id w
         in try_in w (ok_or (checked_add_u64 i 1) IdExhausted) (\<lambda>next.
              (Inr i,
               w\<lparr>wc_next_entity_id := next,
                 wc_sessions := bt_insert (spk_session space_key)
                   (session\<lparr>ses_entities := bt_insert i
                      \<lparr>er_id = i, er_owner_connection = connection, er_owner_principal = ap_principal_id pr,
                       er_space = spk_space space_key, er_space_epoch = epoch, er_position = None\<rparr>
                      (ses_entities session)\<rparr>) (wc_sessions w),
                 wc_connections := bt_insert connection
                   (state\<lparr>cn_owned_entities := cn_owned_entities state + 1\<rparr>) (wc_connections w)\<rparr>))))))))))))))"

text \<open>Moving an entity to its cell and storing its position, shared with publishing.\<close>

definition place_entity ::
  "EntityId \<Rightarrow> EntityPosition \<Rightarrow> SpatialCellKey option \<Rightarrow> SessionState \<Rightarrow> SessionState" where
  "place_entity entity position cell s =
     (let s1 = (if bt_get (ses_entity_cells s) entity \<noteq> cell
                then (let s0 = remove_entity_from_cell entity s
                      in case cell of None \<Rightarrow> s0 | Some c \<Rightarrow> insert_entity_into_cell entity c s0)
                else s)
      in s1\<lparr>ses_entities := bt_update entity (\<lambda>r. r\<lparr>er_position := Some position\<rparr>) (ses_entities s1)\<rparr>)"

definition update_entity_position ::
  "ConnectionId \<Rightarrow> SessionKey \<Rightarrow> EntityId \<Rightarrow> EntityPosition \<Rightarrow> WovenCore \<Rightarrow> (CoreError + unit) \<times> WovenCore" where
  "update_entity_position connection session_key entity position w =
     try_in w (validate_connection_id connection) (\<lambda>_.
     try_in w (validate_session_key session_key) (\<lambda>_.
     try_in w (require_nonzero entity KindEntity) (\<lambda>_.
     try_in w (authenticated_principal w connection) (\<lambda>pr.
     try_in w (require_namespace_write pr (sk_namespace session_key)) (\<lambda>_.
     try_in w (require_session_write pr session_key) (\<lambda>_.
     try_in w (require_membership w connection session_key) (\<lambda>_.
     try_in w (ok_or (bt_get (wc_sessions w) session_key) (SessionNotFound session_key)) (\<lambda>session.
     try_in w (ok_or (bt_get (ses_entities session) entity) (EntityNotFound entity)) (\<lambda>r.
       if er_owner_connection r \<noteq> connection then (Inl (EntityNotOwned entity), w)
       else
     try_in w (require_space_write pr (SpaceKey session_key (er_space r))) (\<lambda>_.
     try_in w (require_subscription w connection (SpaceKey session_key (er_space r))) (\<lambda>_.
     try_in w (ok_or (bt_get (ses_spaces session) (er_space r)) (SpaceNotFound (SpaceKey session_key (er_space r)))) (\<lambda>d.
     try_in w (map_err InvalidEntityPosition (validate_position d position)) (\<lambda>_.
     try_in w (spatial_cell_for position d (er_space_epoch r)) (\<lambda>cell.
       (Inr (), w\<lparr>wc_sessions := bt_insert session_key (place_entity entity position cell session) (wc_sessions w)\<rparr>)))))))))))))))"

definition remove_entity ::
  "ConnectionId \<Rightarrow> SessionKey \<Rightarrow> EntityId \<Rightarrow> WovenCore \<Rightarrow> (CoreError + CleanupSummary) \<times> WovenCore" where
  "remove_entity connection session_key entity w =
     try_in w (validate_connection_id connection) (\<lambda>_.
     try_in w (validate_session_key session_key) (\<lambda>_.
     try_in w (require_nonzero entity KindEntity) (\<lambda>_.
     try_in w (authenticated_principal w connection) (\<lambda>_.
     try_in w (require_membership w connection session_key) (\<lambda>_.
     try_in w (ok_or (case bt_get (wc_sessions w) session_key of
                        None \<Rightarrow> None | Some session \<Rightarrow> bt_get (ses_entities session) entity) (EntityNotFound entity)) (\<lambda>r.
       if er_owner_connection r \<noteq> connection then (Inl (EntityNotOwned entity), w)
       else (case remove_entities_and_anchored_spaces session_key (bs_of_list [entity]) w of
               (summary, w') \<Rightarrow> (Inr summary, w'))))))))"

definition transition_of :: "EntityTransitionRequest \<Rightarrow> EntityTransition" where
  "transition_of r =
     \<lparr>et_entity = tr_entity r, et_session = tr_session r, et_source_space = tr_source_space r,
      et_source_epoch = tr_source_epoch r, et_destination_space = tr_destination_space r,
      et_destination_epoch = tr_destination_epoch r\<rparr>"

definition move_entity :: "EntityTransitionRequest \<Rightarrow> EntityRecord \<Rightarrow> SessionState \<Rightarrow> SessionState" where
  "move_entity r rec session =
     (let s1 = remove_entity_from_cell (tr_entity r) session;
          s2 = s1\<lparr>ses_entities := bt_insert (tr_entity r)
                    (rec\<lparr>er_space := tr_destination_space r, er_space_epoch := tr_destination_epoch r,
                         er_position := None\<rparr>) (ses_entities s1)\<rparr>;
          s3 = recompute_state_bytes
                 (s2\<lparr>ses_state := cache_retain (\<lambda>key. cak_space key \<noteq> tr_source_space r
                       \<or> cak_space_epoch key \<noteq> tr_source_epoch r \<or> cak_entity key \<noteq> Some (tr_entity r)) (ses_state s2)\<rparr>)
      in s3\<lparr>ses_sequences := bt_retain (\<lambda>key _. sqk_space key \<noteq> tr_source_space r
              \<or> sqk_space_epoch key \<noteq> tr_source_epoch r \<or> sqk_entity key \<noteq> Some (tr_entity r)) (ses_sequences s3)\<rparr>)"

definition transition_entity ::
  "EntityTransitionRequest \<Rightarrow> WovenCore \<Rightarrow> (CoreError + EntityTransition) \<times> WovenCore" where
  "transition_entity r w =
     (let source = SpaceKey (tr_session r) (tr_source_space r);
          destination = SpaceKey (tr_session r) (tr_destination_space r)
      in
     try_in w (validate_connection_id (tr_connection r)) (\<lambda>_.
     try_in w (validate_session_key (tr_session r)) (\<lambda>_.
     try_in w (require_nonzero (tr_entity r) KindEntity) (\<lambda>_.
     try_in w (require_nonzero (tr_source_space r) KindSpace) (\<lambda>_.
     try_in w (require_nonzero (tr_source_epoch r) KindSpaceEpoch) (\<lambda>_.
     try_in w (require_nonzero (tr_destination_space r) KindSpace) (\<lambda>_.
     try_in w (require_nonzero (tr_destination_epoch r) KindSpaceEpoch) (\<lambda>_.
     try_in w (authenticated_principal w (tr_connection r)) (\<lambda>pr.
     try_in w (require_namespace_write pr (sk_namespace (tr_session r))) (\<lambda>_.
     try_in w (require_session_write pr (tr_session r)) (\<lambda>_.
     try_in w (require_space_write pr source) (\<lambda>_.
     try_in w (require_space_write pr destination) (\<lambda>_.
     try_in w (require_membership w (tr_connection r) (tr_session r)) (\<lambda>_.
     try_in w (require_subscription w (tr_connection r) source) (\<lambda>_.
     try_in w (require_subscription w (tr_connection r) destination) (\<lambda>_.
     try_in w (ok_or (bt_get (wc_sessions w) (tr_session r)) (SessionNotFound (tr_session r))) (\<lambda>session.
     try_in w (ok_or (bt_get (ses_spaces session) (tr_source_space r)) (SpaceNotFound source)) (\<lambda>sd.
       if sd_epoch sd \<noteq> tr_source_epoch r then (Inl (SpaceEpochMismatch (sd_epoch sd) (tr_source_epoch r)), w)
       else
     try_in w (ok_or (bt_get (ses_spaces session) (tr_destination_space r)) (SpaceNotFound destination)) (\<lambda>dd.
       if sd_epoch dd \<noteq> tr_destination_epoch r
       then (Inl (SpaceEpochMismatch (sd_epoch dd) (tr_destination_epoch r)), w)
       else
     try_in w (ok_or (bt_get (ses_entities session) (tr_entity r)) (EntityNotFound (tr_entity r))) (\<lambda>rec.
       if er_owner_connection rec \<noteq> tr_connection r then (Inl (EntityNotOwned (tr_entity r)), w)
       else if er_space rec \<noteq> tr_source_space r \<or> er_space_epoch rec \<noteq> tr_source_epoch r
       then (Inl (EntitySpaceMismatch (tr_entity r)), w)
       else if tr_source_space r = tr_destination_space r \<and> tr_source_epoch r = tr_destination_epoch r
       then (Inr (transition_of r), w)
       else
         (Inr (transition_of r),
          w\<lparr>wc_sessions := bt_insert (tr_session r) (move_entity r rec session) (wc_sessions w),
            wc_connections := snd (purge_all (\<lambda>m. om_namespace m = sk_namespace (tr_session r)
                 \<and> om_session m = sk_session (tr_session r) \<and> om_space m = tr_source_space r
                 \<and> om_space_epoch m = tr_source_epoch r \<and> om_entity m = Some (tr_entity r)) (wc_connections w))\<rparr>)))))))))))))))))))))"

section \<open>Reading, draining and sweeping\<close>

definition visible_spaces :: "AuthenticatedPrincipal \<Rightarrow> ConnectionState \<Rightarrow> SessionKey \<Rightarrow> SessionState \<Rightarrow> SpaceId btree_set" where
  "visible_spaces pr state key session =
     bs_of_list (map spk_space (filter (\<lambda>space. spk_session space = key \<and> can_read_space (ap_grants pr) space
       \<and> bt_contains (ses_spaces session) (spk_space space)) (bs_list (cn_subscriptions state))))"

definition hide_parent :: "SpaceId btree_set \<Rightarrow> SpaceDescriptor \<Rightarrow> SpaceDescriptor" where
  "hide_parent visible d =
     (case sd_parent d of
        None \<Rightarrow> d
      | Some p \<Rightarrow> if \<not> bs_member (parent_space p) visible then d\<lparr>sd_parent := None\<rparr> else d)"

definition snapshot_of :: "AuthenticatedPrincipal \<Rightarrow> ConnectionState \<Rightarrow> SessionKey \<Rightarrow> SessionState \<Rightarrow> SessionSnapshot" where
  "snapshot_of pr state key session =
     (let visible = visible_spaces pr state key session;
          records = map (\<lambda>(k, e). \<lparr>st_space = cak_space k, st_space_epoch = cak_space_epoch k,
                        st_entity = cak_entity k, st_channel = cak_channel k, st_component = cak_component k,
                        st_sequence = ce_sequence e, st_payload = ce_payload e\<rparr>)
                      (filter (\<lambda>(k, _). bs_member (cak_space k) visible
                          \<and> can_read_channel (ap_grants pr) (ChannelScope key (cak_channel k)))
                        (cache_iter (ses_state session)))
      in \<lparr>sn_key = key, sn_member_count = bt_len (ses_members session),
          sn_subscription_count =
            sum_list (map bt_len (List.map_filter (bt_get (ses_subscribers session)) (bs_list visible))),
          sn_state_bytes = sum_list (map (\<lambda>r. length (st_payload r)) records),
          sn_spaces = map (\<lambda>d. \<lparr>ss_descriptor = hide_parent visible d\<rparr>)
                        (List.map_filter (bt_get (ses_spaces session)) (bs_list visible)),
          sn_entities = map (\<lambda>e. \<lparr>es_id = er_id e, es_owner_connection = er_owner_connection e,
                           es_owner_principal = er_owner_principal e, es_space = er_space e,
                           es_space_epoch = er_space_epoch e\<rparr>)
                         (filter (\<lambda>e. bs_member (er_space e) visible) (bt_values (ses_entities session))),
          sn_state = records\<rparr>)"

definition snapshot :: "WovenCore \<Rightarrow> ConnectionId \<Rightarrow> SessionKey \<Rightarrow> CoreError + SessionSnapshot" where
  "snapshot w connection key =
     and_then (validate_connection_id connection) (\<lambda>_.
     and_then (validate_session_key key) (\<lambda>_.
     and_then (authenticated_principal w connection) (\<lambda>pr.
     and_then (require_namespace_read pr (sk_namespace key)) (\<lambda>_.
     and_then (require_session_read pr key) (\<lambda>_.
     and_then (require_membership w connection key) (\<lambda>_.
     and_then (ok_or (bt_get (wc_connections w) connection) (UnknownConnection connection)) (\<lambda>state.
     and_then (ok_or (bt_get (wc_sessions w) key) (SessionNotFound key)) (\<lambda>session.
       Inr (snapshot_of pr state key session)))))))))"

definition drain_outbound ::
  "ConnectionId \<Rightarrow> WovenCore \<Rightarrow> (CoreError + OutboundMessage list) \<times> WovenCore" where
  "drain_outbound connection w =
     try_in w (validate_connection_id connection) (\<lambda>_.
     try_in w (ok_or (bt_get (wc_connections w) connection) (UnknownConnection connection)) (\<lambda>state.
       case drain (cn_outbound state) of
         (messages, q) \<Rightarrow>
           (Inr messages,
            w\<lparr>wc_connections := bt_insert connection (state\<lparr>cn_outbound := q\<rparr>) (wc_connections w)\<rparr>)))"

text \<open>\<open>None\<close> is a panic of the rotation in \<open>drain_matching\<close>.\<close>

definition drain_outbound_for_spaces ::
  "ConnectionId \<Rightarrow> SpaceKey btree_set \<Rightarrow> WovenCore
   \<Rightarrow> ((CoreError + OutboundMessage list) \<times> WovenCore) option" where
  "drain_outbound_for_spaces connection spaces w =
     (case validate_connection_id connection of
        Inl e \<Rightarrow> Some (Inl e, w)
      | Inr _ \<Rightarrow>
          (case bt_get (wc_connections w) connection of
             None \<Rightarrow> Some (Inl (UnknownConnection connection), w)
           | Some state \<Rightarrow>
               if bt_is_empty spaces then Some (Inr [], w)
               else map_option (\<lambda>(messages, q).
                        (Inr messages,
                         w\<lparr>wc_connections := bt_insert connection (state\<lparr>cn_outbound := q\<rparr>) (wc_connections w)\<rparr>))
                      (drain_matching (\<lambda>m. bs_member (SpaceKey (SessionKey (om_namespace m) (om_session m)) (om_space m)) spaces)
                         (cn_outbound state))))"

definition pop_journal_record :: "WovenCore \<Rightarrow> JournalRecord option \<times> WovenCore" where
  "pop_journal_record w =
     (case outbox_pop (wc_journal_outbox w) of (r, j) \<Rightarrow> (r, w\<lparr>wc_journal_outbox := j\<rparr>))"

definition sweep_session :: "Instant \<Rightarrow> SessionState \<Rightarrow> usize \<times> SessionState" where
  "sweep_session now s =
     (case sweep_expired (ses_state s) now of
        (removed, cache) \<Rightarrow>
          let s1 = s\<lparr>ses_state := cache\<rparr>
          in (removed, if 0 < removed then recompute_state_bytes s1 else s1))"

definition sweep_expired_state :: "Instant \<Rightarrow> WovenCore \<Rightarrow> usize \<times> WovenCore" where
  "sweep_expired_state now w =
     (sum_list (map (\<lambda>s. fst (sweep_session now s)) (bt_values (wc_sessions w))),
      w\<lparr>wc_sessions := bt_map (\<lambda>_ s. snd (sweep_session now s)) (wc_sessions w)\<rparr>)"

definition session_memberships :: "WovenCore \<Rightarrow> ConnectionId \<Rightarrow> CoreError + SessionKey btree_set" where
  "session_memberships w connection =
     and_then (validate_connection_id connection) (\<lambda>_.
     and_then (ok_or (bt_get (wc_connections w) connection) (UnknownConnection connection)) (\<lambda>state.
       if cn_authenticated state = None then Inl AuthenticationRequired else Inr (cn_memberships state)))"

end
