(* ===== verification/Core_Publish.thy ===== *)
theory Core_Publish
  imports Core_Ops
begin

text \<open>
  Publishing (\<open>core.rs\<close>, \<open>publish_at\<close>): rate limits, authorization, authority evaluation, validation
  and planning of every message, then the commit (journal, position, sequences, state) and the
  fan-out to the recipients' queues, and the disconnection of slow consumers.

  The phases are the consecutive parts of the source function. \<open>None\<close> in the result of the fan-out is
  a panic of a queue operation; \<open>publish_at\<close> is \<open>None\<close> exactly when the source panics.
\<close>

section \<open>Validation\<close>

definition stale_against :: "u64 option \<Rightarrow> u64 option \<Rightarrow> u64 option" where
  "stale_against stored planned =
     (case (stored, planned) of
        (None, None) \<Rightarrow> None
      | (Some a, None) \<Rightarrow> Some a
      | (None, Some b) \<Rightarrow> Some b
      | (Some a, Some b) \<Rightarrow> Some (max a b))"

definition validate_message ::
  "WovenCore \<Rightarrow> ConnectionId \<Rightarrow> SessionKey \<Rightarrow> (SequenceKey, u64) btree_map option \<Rightarrow> AuthorizedMessage
   \<Rightarrow> CoreError + unit" where
  "validate_message w connection session_key planned m =
     and_then (validate_authorized_message_ids m) (\<lambda>_.
     and_then (ok_or (bt_get (wc_channels w) (au_channel m)) (UnknownChannel (au_channel m))) (\<lambda>channel.
     and_then (validate_channel_policy channel (au_delivery m) (au_persistence m)) (\<lambda>_.
       if au_routing_position m \<noteq> None \<and> \<not> is_replaceable (au_delivery m)
       then Inl (AuthorityRejected PolicyDenied)
       else
         let payload_limit = min (cfg_max_payload_bytes (wc_config w)) (cd_max_payload_bytes channel)
         in if payload_limit < length (au_payload m)
            then Inl (PayloadTooLarge (length (au_payload m)) payload_limit)
            else
     and_then (validate_coalesce_key m) (\<lambda>_.
     and_then (ok_or (bt_get (wc_sessions w) session_key) (SessionNotFound session_key)) (\<lambda>session.
     and_then (ok_or (bt_get (ses_spaces session) (au_space m)) (SpaceNotFound (SpaceKey session_key (au_space m)))) (\<lambda>d.
       if sd_epoch d \<noteq> au_space_epoch m then Inl (SpaceEpochMismatch (sd_epoch d) (au_space_epoch m))
       else
     and_then (case au_entity m of
                 None \<Rightarrow> Inr ()
               | Some entity_id \<Rightarrow>
                   and_then (ok_or (bt_get (ses_entities session) entity_id) (EntityNotFound entity_id)) (\<lambda>entity.
                     if er_space entity \<noteq> au_space m \<or> er_space_epoch entity \<noteq> au_space_epoch m
                     then Inl (EntitySpaceMismatch entity_id) else Inr ())) (\<lambda>_.
       let key = sequence_key connection m
       in case stale_against (bt_get (ses_sequences session) key)
                 (case planned of None \<Rightarrow> None | Some p \<Rightarrow> bt_get p key) of
            None \<Rightarrow> Inr ()
          | Some seen \<Rightarrow>
              if au_sequence m \<le> seen then Inl (StaleSequence (au_sequence m) seen) else Inr ())))))))"

definition validate_sequence_capacity ::
  "WovenCore \<Rightarrow> SessionKey \<Rightarrow> (SequenceKey, u64) btree_map \<Rightarrow> CoreError + unit" where
  "validate_sequence_capacity w session_key planned =
     and_then (ok_or (bt_get (wc_sessions w) session_key) (SessionNotFound session_key)) (\<lambda>session.
       let new_keys = length (filter (\<lambda>k. \<not> bt_contains (ses_sequences session) k) (bt_keys planned))
       in if cfg_max_sequence_keys_per_session (wc_config w)
               < usize_sat_add (bt_len (ses_sequences session)) new_keys
          then Inl SequenceKeyLimitReached else Inr ())"

text \<open>One message of the capacity projection: entries, bytes and the projected payload lengths.\<close>

definition project_state ::
  "InMemoryCacheService \<Rightarrow> AuthorizedMessage \<Rightarrow> usize \<times> usize \<times> (CacheKey, usize) btree_map
   \<Rightarrow> usize \<times> usize \<times> (CacheKey, usize) btree_map" where
  "project_state cache m acc =
     (case acc of
        (entries, bytes, projected) \<Rightarrow>
          let key = state_key m;
              previous_len =
                (case bt_get projected key of
                   Some n \<Rightarrow> Some n
                 | None \<Rightarrow> map_option (\<lambda>e. length (ce_payload e)) (cache_get cache key));
              (entries', bytes') =
                (case previous_len of Some n \<Rightarrow> (entries, bytes - n) | None \<Rightarrow> (entries + 1, bytes))
          in (entries', usize_sat_add bytes' (length (au_payload m)),
              bt_insert key (length (au_payload m)) projected))"

definition stateful_messages :: "AuthorizedMessage list \<Rightarrow> AuthorizedMessage list" where
  "stateful_messages ms = filter (\<lambda>m. is_stateful (au_persistence m)) ms"

definition validate_state_capacity ::
  "SessionKey \<Rightarrow> AuthorizedMessage list \<Rightarrow> Instant \<Rightarrow> WovenCore \<Rightarrow> (CoreError + unit) \<times> WovenCore" where
  "validate_state_capacity session_key messages now w =
     try_in w (ok_or (bt_get (wc_sessions w) session_key) (SessionNotFound session_key)) (\<lambda>session0.
       let session = snd (sweep_session now session0);
           w1 = w\<lparr>wc_sessions := bt_insert session_key session (wc_sessions w)\<rparr>
       in (case fold (project_state (ses_state session)) (stateful_messages messages)
                  (cache_len (ses_state session), ses_state_bytes session, bt_empty) of
             (entries, bytes, _) \<Rightarrow>
               if cfg_max_state_entries_per_session (wc_config w) < entries then (Inl StateEntryLimitReached, w1)
               else if cfg_max_state_bytes_per_session (wc_config w) < bytes then (Inl StateByteLimitReached, w1)
               else (Inr (), w1)))"

section \<open>Authorization\<close>

text \<open>From the start of \<open>publish_at\<close> to the session budget: the publisher may publish at all. The
  limiters are charged as they are reached.\<close>

definition charge_connection :: "ConnectionId \<Rightarrow> Instant \<Rightarrow> WovenCore \<Rightarrow> (CoreError + unit) \<times> WovenCore" where
  "charge_connection connection now w =
     try_in w (ok_or (bt_get (wc_connections w) connection) (UnknownConnection connection)) (\<lambda>state.
       case rate_admit (cfg_publish_rate_limit (wc_config w)) now (cn_rate_limiter state) of
         (r, l) \<Rightarrow>
           (r, w\<lparr>wc_connections := bt_insert connection (state\<lparr>cn_rate_limiter := l\<rparr>) (wc_connections w)\<rparr>))"

definition charge_session ::
  "ConnectionId \<Rightarrow> SessionKey \<Rightarrow> Instant \<Rightarrow> WovenCore \<Rightarrow> (CoreError + unit) \<times> WovenCore" where
  "charge_session connection session_key now w =
     try_in w (ok_or (bt_get (wc_sessions w) session_key) (SessionNotFound session_key)) (\<lambda>session.
     try_in w (ok_or (bt_get (wc_connections w) connection) (UnknownConnection connection)) (\<lambda>state.
     try_in w (ok_or (bt_get (cn_session_rate_limiters state) session_key) (SessionMembershipRequired session_key)) (\<lambda>limiter.
       case session_admit (ses_publish_rate_limit session) now limiter of
         (r, l) \<Rightarrow>
           (r, w\<lparr>wc_connections := bt_insert connection
                  (state\<lparr>cn_session_rate_limiters := bt_insert session_key l (cn_session_rate_limiters state)\<rparr>)
                  (wc_connections w)\<rparr>))))"

definition may_publish :: "WovenCore \<Rightarrow> PublishRequest \<Rightarrow> CoreError + AuthenticatedPrincipal" where
  "may_publish w r =
     (let target = SpaceKey (rq_session r) (rq_space r); scope = ChannelScope (rq_session r) (rq_channel r)
      in and_then (validate_publish_request_ids r) (\<lambda>_.
         and_then (authenticated_principal w (rq_connection r)) (\<lambda>pr.
         and_then (require_namespace_write pr (sk_namespace (rq_session r))) (\<lambda>_.
         and_then (require_session_write pr (rq_session r)) (\<lambda>_.
         and_then (require_space_write pr target) (\<lambda>_.
           if \<not> can_write_channel (ap_grants pr) scope then Inl (ChannelWriteAccessDenied scope)
           else
         and_then (require_membership w (rq_connection r) (rq_session r)) (\<lambda>_.
         and_then (require_subscription w (rq_connection r) target) (\<lambda>_. Inr pr))))))))"

definition publish_authorize ::
  "PublishRequest \<Rightarrow> Instant \<Rightarrow> WovenCore \<Rightarrow> (CoreError + AuthenticatedPrincipal) \<times> WovenCore" where
  "publish_authorize r now w =
     try_in w (validate_connection_id (rq_connection r)) (\<lambda>_.
     case charge_connection (rq_connection r) now w of
       (Inl e, w1) \<Rightarrow> (Inl e, w1)
     | (Inr _, w1) \<Rightarrow>
         try_in w1 (may_publish w1 r) (\<lambda>pr.
           case charge_session (rq_connection r) (rq_session r) now w1 of
             (Inl e, w2) \<Rightarrow> (Inl e, w2)
           | (Inr _, w2) \<Rightarrow> (Inr pr, w2)))"

section \<open>Planning\<close>

definition proposed_of :: "PublishRequest \<Rightarrow> ProposedMessage" where
  "proposed_of r =
     \<lparr>pm_space = rq_space r, pm_space_epoch = rq_space_epoch r, pm_entity = rq_entity r,
      pm_channel = rq_channel r, pm_sequence = rq_sequence r, pm_delivery = rq_delivery r,
      pm_persistence = rq_persistence r, pm_coalesce_key = rq_coalesce_key r, pm_payload = rq_payload r\<rparr>"

definition authority_context :: "PublishRequest \<Rightarrow> AuthenticatedPrincipal \<Rightarrow> SessionState \<Rightarrow> AuthorityContext" where
  "authority_context r pr session =
     \<lparr>ac_connection = rq_connection r, ac_principal = ap_principal_id pr, ac_is_session_member = True,
      ac_is_space_subscriber = True,
      ac_entity_owner = (case rq_entity r of
                           None \<Rightarrow> None
                         | Some i \<Rightarrow> map_option er_owner_connection (bt_get (ses_entities session) i))\<rparr>"

text \<open>What the authority lets through: the messages, and the sequence numbers planned so far.\<close>

definition authorized_messages ::
  "WovenCore \<Rightarrow> PublishRequest \<Rightarrow> AuthorityOutcome
   \<Rightarrow> CoreError + (AuthorizedMessage list \<times> (SequenceKey, u64) btree_map)" where
  "authorized_messages w r outcome =
     (case outcome of
        Accept \<Rightarrow> Inr ([from_request r], bt_empty)
      | Reject reason \<Rightarrow> Inl (AuthorityRejected reason)
      | Transform t \<Rightarrow>
          Inr ([(from_request r)\<lparr>au_coalesce_key := at_coalesce_key t, au_payload := at_payload t\<rparr>], bt_empty)
      | Emit emissions \<Rightarrow>
          if rq_routing_position r \<noteq> None then Inl (AuthorityRejected PolicyDenied)
          else if cfg_max_authority_emissions (wc_config w) < length emissions
          then Inl AuthorityEmissionLimitExceeded
          else Inr (map from_emission emissions,
                    bt_insert (sequence_key (rq_connection r) (from_request r)) (rq_sequence r) bt_empty))"

fun plan_sequences ::
  "WovenCore \<Rightarrow> ConnectionId \<Rightarrow> SessionKey \<Rightarrow> AuthorizedMessage list \<Rightarrow> (SequenceKey, u64) btree_map
   \<Rightarrow> CoreError + (SequenceKey, u64) btree_map" where
  "plan_sequences w connection session_key [] planned = Inr planned"
| "plan_sequences w connection session_key (m # ms) planned =
     and_then (validate_message w connection session_key (Some planned) m) (\<lambda>_.
       plan_sequences w connection session_key ms
         (bt_insert (sequence_key connection m) (au_sequence m) planned))"

type_synonym PlannedPosition = "(EntityId \<times> EntityPosition \<times> SpatialCellKey option) option"

fun is_position_3d :: "EntityPosition \<Rightarrow> bool" where
  "is_position_3d (PosCartesian3D _ _ _) = True"
| "is_position_3d _ = False"

definition plan_position :: "WovenCore \<Rightarrow> PublishRequest \<Rightarrow> CoreError + PlannedPosition" where
  "plan_position w r =
     (case rq_routing_position r of
        None \<Rightarrow> Inr None
      | Some position \<Rightarrow>
          if \<not> is_position_3d position then Inl (InvalidEntityPosition DimensionMismatch)
          else
            and_then (ok_or (rq_entity r) (AuthorityRejected EntityRequiredR)) (\<lambda>entity.
            and_then (ok_or (bt_get (wc_sessions w) (rq_session r)) (SessionNotFound (rq_session r))) (\<lambda>session.
            and_then (ok_or (bt_get (ses_entities session) entity) (EntityNotFound entity)) (\<lambda>rec.
              if er_owner_connection rec \<noteq> rq_connection r then Inl (EntityNotOwned entity)
              else
            and_then (ok_or (bt_get (ses_spaces session) (rq_space r))
                        (SpaceNotFound (SpaceKey (rq_session r) (rq_space r)))) (\<lambda>d.
            and_then (map_err InvalidEntityPosition (validate_position d position)) (\<lambda>_.
            and_then (spatial_cell_for position d (rq_space_epoch r)) (\<lambda>cell.
              Inr (Some (entity, position, cell)))))))))"

text \<open>What a publish is about to do. Nothing but expired state has changed when a plan exists.\<close>

record PublishPlan =
  pl_messages :: "AuthorizedMessage list"
  pl_sequences :: "(SequenceKey, u64) btree_map"
  pl_position :: PlannedPosition

definition publish_evaluate ::
  "PublishRequest \<Rightarrow> AuthenticatedPrincipal \<Rightarrow> WovenCore
   \<Rightarrow> CoreError + (AuthorizedMessage list \<times> (SequenceKey, u64) btree_map)" where
  "publish_evaluate r pr w =
     and_then (ok_or (bt_get (wc_channels w) (rq_channel r)) (UnknownChannel (rq_channel r))) (\<lambda>channel.
     and_then (validate_channel_policy channel (rq_delivery r) (rq_persistence r)) (\<lambda>_.
     and_then (ok_or (bt_get (wc_sessions w) (rq_session r)) (SessionNotFound (rq_session r))) (\<lambda>session.
     and_then (validate_message w (rq_connection r) (rq_session r) None (from_request r)) (\<lambda>_.
     and_then (authorized_messages w r (cd_authority channel (authority_context r pr session) (proposed_of r)))
       (\<lambda>(messages, planned0).
     and_then (plan_sequences w (rq_connection r) (rq_session r) messages planned0) (\<lambda>planned.
     and_then (validate_sequence_capacity w (rq_session r) planned) (\<lambda>_.
       Inr (messages, planned))))))))"

definition durable_messages :: "AuthorizedMessage list \<Rightarrow> AuthorizedMessage list" where
  "durable_messages ms = filter (\<lambda>m. au_persistence m = Durable) ms"

definition publish_plan ::
  "PublishRequest \<Rightarrow> AuthenticatedPrincipal \<Rightarrow> Instant \<Rightarrow> WovenCore \<Rightarrow> (CoreError + PublishPlan) \<times> WovenCore" where
  "publish_plan r pr now w =
     try_in w (publish_evaluate r pr w) (\<lambda>(messages, planned).
     case validate_state_capacity (rq_session r) messages now w of
       (Inl e, w1) \<Rightarrow> (Inl e, w1)
     | (Inr _, w1) \<Rightarrow>
         try_in w1 (plan_position w1 r) (\<lambda>position.
           if remaining_capacity (wc_journal_outbox w1) < length (durable_messages messages)
           then (Inl JournalOutboxSaturated, w1)
           else (Inr \<lparr>pl_messages = messages, pl_sequences = planned, pl_position = position\<rparr>, w1)))"

section \<open>Commit\<close>

fun journal_all :: "OutboundMessage list \<Rightarrow> JournalOutbox \<Rightarrow> (CoreError + unit) \<times> JournalOutbox" where
  "journal_all [] j = (Inr (), j)"
| "journal_all (m # ms) j =
     (case outbox_push j \<lparr>jr_message = m\<rparr> of
        (Inl _, j') \<Rightarrow> (Inl JournalOutboxSaturated, j')
      | (Inr _, j') \<Rightarrow> journal_all ms j')"

definition channel_ttl :: "WovenCore \<Rightarrow> ChannelId \<Rightarrow> Duration option" where
  "channel_ttl w channel =
     (case bt_get (wc_channels w) channel of
        None \<Rightarrow> None
      | Some c \<Rightarrow> (case cd_persistence c of Stateful ttl \<Rightarrow> ttl | _ \<Rightarrow> None))"

definition store_state :: "WovenCore \<Rightarrow> Instant \<Rightarrow> AuthorizedMessage \<Rightarrow> SessionState \<Rightarrow> SessionState" where
  "store_state w now m s =
     (case cache_put (ses_state s) (state_key m)
             \<lparr>ce_sequence = au_sequence m, ce_payload = au_payload m\<rparr> (channel_ttl w (au_channel m)) now of
        (previous, cache) \<Rightarrow>
          let bytes = (case previous of
                         None \<Rightarrow> ses_state_bytes s
                       | Some p \<Rightarrow> ses_state_bytes s - length (ce_payload p))
          in s\<lparr>ses_state := cache, ses_state_bytes := bytes + length (au_payload m)\<rparr>)"

definition commit_session :: "WovenCore \<Rightarrow> PublishPlan \<Rightarrow> Instant \<Rightarrow> SessionState \<Rightarrow> SessionState" where
  "commit_session w plan now s =
     (let s1 = (case pl_position plan of
                  None \<Rightarrow> s
                | Some (entity, position, cell) \<Rightarrow> place_entity entity position cell s);
          s2 = s1\<lparr>ses_sequences := fold (\<lambda>(k, v). bt_insert k v) (bt_entries (pl_sequences plan)) (ses_sequences s1)\<rparr>
      in fold (store_state w now) (stateful_messages (pl_messages plan)) s2)"

definition publish_commit ::
  "PublishRequest \<Rightarrow> PublishPlan \<Rightarrow> Instant \<Rightarrow> WovenCore \<Rightarrow> (CoreError + unit) \<times> WovenCore" where
  "publish_commit r plan now w =
     (case journal_all (map (to_outbound (rq_session r)) (durable_messages (pl_messages plan))) (wc_journal_outbox w) of
        (res, j) \<Rightarrow>
          let w1 = w\<lparr>wc_journal_outbox := j\<rparr>
          in try_in w1 res (\<lambda>_.
             try_in w1 (ok_or (bt_get (wc_sessions w1) (rq_session r)) (SessionNotFound (rq_session r))) (\<lambda>s.
               (Inr (), w1\<lparr>wc_sessions := bt_insert (rq_session r) (commit_session w1 plan now s) (wc_sessions w1)\<rparr>))))"

section \<open>Fan-out\<close>

record Fanout =
  fo_outcome :: PublishOutcome
  fo_disconnected :: "ConnectionId btree_set"
  fo_connections :: "(ConnectionId, ConnectionState) btree_map"

definition deliver_one ::
  "SessionKey \<Rightarrow> OutboundMessage \<Rightarrow> ConnectionId \<Rightarrow> Fanout \<Rightarrow> ((CoreError + unit) \<times> Fanout) option" where
  "deliver_one session outbound recipient f =
     (if bs_member recipient (fo_disconnected f) then Some (Inr (), f)
      else case bt_get (fo_connections f) recipient of
             None \<Rightarrow> Some (Inr (), f)
           | Some connection \<Rightarrow>
               (case cn_authenticated connection of
                  None \<Rightarrow> Some (Inr (), f)
                | Some pr \<Rightarrow>
                    if \<not> can_receive pr session (om_space outbound) (om_channel outbound) then Some (Inr (), f)
                    else
                      let o1 = (fo_outcome f)\<lparr>po_recipient_attempts := po_recipient_attempts (fo_outcome f) + 1\<rparr>
                      in map_option (\<lambda>(res, q).
                           let f1 = f\<lparr>fo_outcome := o1,
                                      fo_connections := bt_insert recipient (connection\<lparr>cn_outbound := q\<rparr>) (fo_connections f)\<rparr>
                           in case res of
                                Inl e \<Rightarrow> (Inl (CoreQueue e), f1)
                              | Inr result \<Rightarrow>
                                  (Inr (),
                                   f1\<lparr>fo_outcome := o1\<lparr>po_queues := record_queue_result result (po_queues o1)\<rparr>,
                                      fo_disconnected :=
                                        (if result = CriticalCapacityExhausted
                                         then bs_insert recipient (fo_disconnected f)
                                         else fo_disconnected f)\<rparr>))
                         (push (cn_outbound connection) outbound)))"

fun deliver_all ::
  "SessionKey \<Rightarrow> OutboundMessage \<Rightarrow> ConnectionId list \<Rightarrow> Fanout \<Rightarrow> ((CoreError + unit) \<times> Fanout) option" where
  "deliver_all session outbound [] f = Some (Inr (), f)"
| "deliver_all session outbound (c # cs) f =
     (case deliver_one session outbound c f of
        None \<Rightarrow> None
      | Some (Inl e, f') \<Rightarrow> Some (Inl e, f')
      | Some (Inr _, f') \<Rightarrow> deliver_all session outbound cs f')"

definition recipients_of :: "WovenCore \<Rightarrow> SessionKey \<Rightarrow> OutboundMessage \<Rightarrow> ConnectionId list" where
  "recipients_of w session outbound =
     bs_list (case bt_get (wc_sessions w) session of None \<Rightarrow> bt_empty | Some s \<Rightarrow> routing_recipients s outbound)"

fun fan_out ::
  "WovenCore \<Rightarrow> SessionKey \<Rightarrow> OutboundMessage list \<Rightarrow> Fanout \<Rightarrow> ((CoreError + unit) \<times> Fanout) option" where
  "fan_out w session [] f = Some (Inr (), f)"
| "fan_out w session (m # ms) f =
     (case deliver_all session m (recipients_of w session m) f of
        None \<Rightarrow> None
      | Some (Inl e, f') \<Rightarrow> Some (Inl e, f')
      | Some (Inr _, f') \<Rightarrow> fan_out w session ms f')"

fun drop_slow_consumers ::
  "(ConnectionId \<Rightarrow> nat \<Rightarrow> Instant) \<Rightarrow> ConnectionId list \<Rightarrow> PublishOutcome \<Rightarrow> WovenCore
   \<Rightarrow> (CoreError + PublishOutcome) \<times> WovenCore" where
  "drop_slow_consumers clk [] outcome w = (Inr outcome, w)"
| "drop_slow_consumers clk (c # cs) outcome w =
     (if bt_contains (wc_connections w) c
      then (case transport_lost (clk c) c w of
              (Inl e, w1) \<Rightarrow> (Inl e, w1)
            | (Inr _, w1) \<Rightarrow>
                drop_slow_consumers clk cs
                  (outcome\<lparr>po_disconnected_slow_consumers := po_disconnected_slow_consumers outcome @ [c]\<rparr>) w1)
      else drop_slow_consumers clk cs outcome w)"

definition publish_deliver ::
  "(ConnectionId \<Rightarrow> nat \<Rightarrow> Instant) \<Rightarrow> PublishRequest \<Rightarrow> PublishPlan \<Rightarrow> WovenCore
   \<Rightarrow> ((CoreError + PublishOutcome) \<times> WovenCore) option" where
  "publish_deliver clk r plan w =
     (let outcome0 = \<lparr>po_authorized_messages = length (pl_messages plan), po_recipient_attempts = 0,
                      po_queues = zero_activity, po_disconnected_slow_consumers = []\<rparr>
      in map_option (\<lambda>(res, f).
           let w1 = w\<lparr>wc_connections := fo_connections f\<rparr>
           in try_in w1 res (\<lambda>_. drop_slow_consumers clk (bs_list (fo_disconnected f)) (fo_outcome f) w1))
         (fan_out w (rq_session r) (map (to_outbound (rq_session r)) (pl_messages plan))
            \<lparr>fo_outcome = outcome0, fo_disconnected = bt_empty, fo_connections = wc_connections w\<rparr>))"

definition publish_at ::
  "(ConnectionId \<Rightarrow> nat \<Rightarrow> Instant) \<Rightarrow> PublishRequest \<Rightarrow> Instant \<Rightarrow> WovenCore
   \<Rightarrow> ((CoreError + PublishOutcome) \<times> WovenCore) option" where
  "publish_at clk r now w =
     (case publish_authorize r now w of
        (Inl e, w1) \<Rightarrow> Some (Inl e, w1)
      | (Inr pr, w1) \<Rightarrow>
          (case publish_plan r pr now w1 of
             (Inl e, w2) \<Rightarrow> Some (Inl e, w2)
           | (Inr plan, w2) \<Rightarrow>
               (case publish_commit r plan now w2 of
                  (Inl e, w3) \<Rightarrow> Some (Inl e, w3)
                | (Inr _, w3) \<Rightarrow> publish_deliver clk r plan w3)))"

end
