(* ===== verification/Admission_Inv.thy ===== *)
theory Admission_Inv
  imports Admission "HOL-Library.Code_Target_Nat"
begin

text \<open>
  Correctness of the admission controller (\<open>admission.rs\<close>): the structural invariant of the ticket
  queue, the occupancy bound, what promotion and expiry do, that every operation keeps the invariant,
  and the properties of whole runs. \<open>Code_Target_Nat\<close> lets the sample runs be evaluated with binary
  naturals.
\<close>

section \<open>The structure of the ticket queue\<close>

definition queue_struct ::
  "u64 \<Rightarrow> (QueueTicketId, TicketEntry) btree_map \<Rightarrow> QueueTicketId list
   \<Rightarrow> (PrincipalId \<times> IdempotencyKey, QueueTicketId) btree_map \<Rightarrow> bool" where
  "queue_struct n T W I \<longleftrightarrow>
     (\<forall>i e. bt_get T i = Some e \<longrightarrow>
        i < n \<and> qt_id (te_ticket e) = i \<and> (te_terminal_at e = None \<longleftrightarrow> is_live (te_state e)))
   \<and> sorted_wrt (<) W
   \<and> (\<forall>i. i \<in> set W \<longleftrightarrow> (\<exists>e. bt_get T i = Some e \<and> te_state e = Waiting))
   \<and> (\<forall>k i. bt_get I k = Some i \<longleftrightarrow>
        (\<exists>e. bt_get T i = Some e \<and> is_live (te_state e) \<and> index_key e = k))
   \<and> (\<forall>i j e f. bt_get T i = Some e \<and> bt_get T j = Some f \<and> is_live (te_state e) \<and> is_live (te_state f)
        \<and> qt_principal (te_ticket e) = qt_principal (te_ticket f) \<longrightarrow> i = j)"

lemma is_live_simps [simp]:
  "is_live Waiting" "is_live (Offered t)" "\<not> is_live Expired" "\<not> is_live Cancelled"
  "\<not> is_live (AdmittedT l)"
  by (simp_all add: is_live_def)

lemma queue_struct_empty: "queue_struct n bt_empty [] bt_empty"
  by (simp add: queue_struct_def)

lemma struct_ticket:
  assumes "queue_struct n T W I" and "bt_get T i = Some e"
  shows "i < n" and "qt_id (te_ticket e) = i" and "te_terminal_at e = None \<longleftrightarrow> is_live (te_state e)"
  using assms by (auto simp: queue_struct_def)

lemma struct_waiting:
  assumes "queue_struct n T W I"
  shows "sorted_wrt (<) W" and "i \<in> set W \<longleftrightarrow> (\<exists>e. bt_get T i = Some e \<and> te_state e = Waiting)"
  using assms by (auto simp: queue_struct_def)

lemma struct_index:
  assumes "queue_struct n T W I"
  shows "bt_get I k = Some i \<longleftrightarrow> (\<exists>e. bt_get T i = Some e \<and> is_live (te_state e) \<and> index_key e = k)"
  using assms unfolding queue_struct_def by blast

lemma struct_principal:
  assumes "queue_struct n T W I" and "bt_get T i = Some e" and "bt_get T j = Some f"
    and "is_live (te_state e)" and "is_live (te_state f)"
    and "qt_principal (te_ticket e) = qt_principal (te_ticket f)"
  shows "i = j"
  using assms unfolding queue_struct_def by blast

lemma queue_structI:
  assumes "\<And>i e. bt_get T i = Some e \<Longrightarrow>
      i < n \<and> qt_id (te_ticket e) = i \<and> (te_terminal_at e = None \<longleftrightarrow> is_live (te_state e))"
    and "sorted_wrt (<) W"
    and "\<And>i. i \<in> set W \<longleftrightarrow> (\<exists>e. bt_get T i = Some e \<and> te_state e = Waiting)"
    and "\<And>k i. bt_get I k = Some i \<longleftrightarrow>
        (\<exists>e. bt_get T i = Some e \<and> is_live (te_state e) \<and> index_key e = k)"
    and "\<And>i j e f. bt_get T i = Some e \<Longrightarrow> bt_get T j = Some f \<Longrightarrow> is_live (te_state e) \<Longrightarrow>
        is_live (te_state f) \<Longrightarrow> qt_principal (te_ticket e) = qt_principal (te_ticket f) \<Longrightarrow> i = j"
  shows "queue_struct n T W I"
  using assms unfolding queue_struct_def by blast

text \<open>A live ticket changes its state but stays live.\<close>

lemma struct_update_live:
  assumes s: "queue_struct n T W I" and e: "bt_get T i = Some e" and live: "is_live (te_state e)"
    and e': "te_ticket e' = te_ticket e" "is_live (te_state e')" "te_terminal_at e' = None"
    and W': "sorted_wrt (<) W'"
      "\<And>j. j \<in> set W' \<longleftrightarrow> (if j = i then te_state e' = Waiting else j \<in> set W)"
  shows "queue_struct n (bt_insert i e' T) W' I"
proof (rule queue_structI)
  fix k j
  have key: "index_key e' = index_key e" using e' by (simp add: index_key_def)
  show "bt_get I k = Some j \<longleftrightarrow>
      (\<exists>f. bt_get (bt_insert i e' T) j = Some f \<and> is_live (te_state f) \<and> index_key f = k)"
    using struct_index [OF s, of k j] e live e'(2) key by (auto simp: bt_get_insert)
next
  fix j f assume "bt_get (bt_insert i e' T) j = Some f"
  then show "j < n \<and> qt_id (te_ticket f) = j \<and> (te_terminal_at f = None \<longleftrightarrow> is_live (te_state f))"
    using struct_ticket [OF s] e e' by (auto simp: bt_get_insert split: if_splits)
next
  fix j k f g
  assume a: "bt_get (bt_insert i e' T) j = Some f" "bt_get (bt_insert i e' T) k = Some g"
    "is_live (te_state f)" "is_live (te_state g)"
    "qt_principal (te_ticket f) = qt_principal (te_ticket g)"
  show "j = k"
    using a struct_principal [OF s, of j _ k] e live e'
    by (auto simp: bt_get_insert split: if_splits dest: struct_principal [OF s])
next
  fix j
  show "j \<in> set W' \<longleftrightarrow> (\<exists>f. bt_get (bt_insert i e' T) j = Some f \<and> te_state f = Waiting)"
    using struct_waiting(2) [OF s, of j] W'(2) [of j] by (auto simp: bt_get_insert)
qed (rule W'(1))

text \<open>A live ticket becomes terminal: it leaves the waiting list and the index.\<close>

lemma struct_retire:
  assumes s: "queue_struct n T W I" and e: "bt_get T i = Some e" and live: "is_live (te_state e)"
    and e': "te_ticket e' = te_ticket e" "\<not> is_live (te_state e')" "te_terminal_at e' \<noteq> None"
  shows "queue_struct n (bt_insert i e' T) (filter (\<lambda>j. j \<noteq> i) W) (bt_remove (index_key e) I)"
proof (rule queue_structI)
  fix k j
  have "bt_get I (index_key e) = Some i" using struct_index [OF s] e live by blast
  then show "bt_get (bt_remove (index_key e) I) k = Some j \<longleftrightarrow>
      (\<exists>f. bt_get (bt_insert i e' T) j = Some f \<and> is_live (te_state f) \<and> index_key f = k)"
    using struct_index [OF s, of k j] e e'(2) by (auto simp: bt_get_insert bt_get_remove)
next
  fix j f assume "bt_get (bt_insert i e' T) j = Some f"
  then show "j < n \<and> qt_id (te_ticket f) = j \<and> (te_terminal_at f = None \<longleftrightarrow> is_live (te_state f))"
    using struct_ticket [OF s] e e' by (auto simp: bt_get_insert split: if_splits)
next
  fix j k f g
  assume "bt_get (bt_insert i e' T) j = Some f" "bt_get (bt_insert i e' T) k = Some g"
    "is_live (te_state f)" "is_live (te_state g)"
    "qt_principal (te_ticket f) = qt_principal (te_ticket g)"
  with e'(2) show "j = k"
    by (auto simp: bt_get_insert split: if_splits dest: struct_principal [OF s])
next
  fix j
  show "j \<in> set (filter (\<lambda>j. j \<noteq> i) W) \<longleftrightarrow>
      (\<exists>f. bt_get (bt_insert i e' T) j = Some f \<and> te_state f = Waiting)"
    using struct_waiting(2) [OF s, of j] e'(2) by (auto simp: bt_get_insert)
next
  show "sorted_wrt (<) (filter (\<lambda>j. j \<noteq> i) W)"
    using struct_waiting(1) [OF s] by (rule sorted_wrt_filter)
qed

text \<open>Terminal tickets may be forgotten.\<close>

lemma struct_forget:
  assumes s: "queue_struct n T W I"
    and sub: "\<And>i e. bt_get T' i = Some e \<Longrightarrow> bt_get T i = Some e"
    and keep: "\<And>i e. bt_get T i = Some e \<Longrightarrow> is_live (te_state e) \<Longrightarrow> bt_get T' i = Some e"
  shows "queue_struct n T' W I"
proof (rule queue_structI)
  fix k i
  show "bt_get I k = Some i \<longleftrightarrow> (\<exists>e. bt_get T' i = Some e \<and> is_live (te_state e) \<and> index_key e = k)"
    using struct_index [OF s, of k i] sub keep by blast
next
  fix i
  have "is_live (te_state e)" if "te_state e = Waiting" for e using that by simp
  then show "i \<in> set W \<longleftrightarrow> (\<exists>e. bt_get T' i = Some e \<and> te_state e = Waiting)"
    using struct_waiting(2) [OF s, of i] sub keep by blast
qed (use struct_ticket [OF s] struct_principal [OF s] struct_waiting(1) [OF s] sub in \<open>blast+\<close>)

text \<open>A new waiting ticket of a principal that has none.\<close>

lemma struct_enqueue:
  assumes s: "queue_struct n T W I" and n: "n \<noteq> u64_max"
    and free: "\<And>i e. bt_get T i = Some e \<Longrightarrow> is_live (te_state e) \<Longrightarrow> qt_principal (te_ticket e) \<noteq> p"
    and e: "qt_id (te_ticket e) = n" "qt_principal (te_ticket e) = p" "te_state e = Waiting"
      "te_terminal_at e = None"
  shows "queue_struct (n + 1) (bt_insert n e T) (W @ [n]) (bt_insert (index_key e) n I)"
proof -
  have new: "bt_get T n = None" using struct_ticket(1) [OF s] by fastforce
  have lt: "i < n \<Longrightarrow> i < n + 1" for i using u64_less_succ [OF n] by (rule less_trans [rotated])
  have none: "bt_get I (index_key e) = None"
  proof (rule ccontr)
    assume "bt_get I (index_key e) \<noteq> None"
    then obtain i f where "bt_get T i = Some f" "is_live (te_state f)" "index_key f = index_key e"
      using struct_index [OF s] by blast
    with free e(2) show False by (auto simp: index_key_def)
  qed
  show ?thesis
  proof (rule queue_structI)
    fix k i
    show "bt_get (bt_insert (index_key e) n I) k = Some i \<longleftrightarrow>
        (\<exists>f. bt_get (bt_insert n e T) i = Some f \<and> is_live (te_state f) \<and> index_key f = k)"
      using struct_index [OF s, of k i] new none e(3) by (auto simp: bt_get_insert)
  next
    fix i f assume "bt_get (bt_insert n e T) i = Some f"
    then show "i < n + 1 \<and> qt_id (te_ticket f) = i \<and> (te_terminal_at f = None \<longleftrightarrow> is_live (te_state f))"
      using struct_ticket [OF s] e lt u64_less_succ [OF n] by (auto simp: bt_get_insert split: if_splits)
  next
    fix i j f g
    assume "bt_get (bt_insert n e T) i = Some f" "bt_get (bt_insert n e T) j = Some g"
      "is_live (te_state f)" "is_live (te_state g)"
      "qt_principal (te_ticket f) = qt_principal (te_ticket g)"
    then show "i = j"
      using free e(2) by (auto simp: bt_get_insert split: if_splits dest: struct_principal [OF s])
  next
    fix i
    show "i \<in> set (W @ [n]) \<longleftrightarrow> (\<exists>f. bt_get (bt_insert n e T) i = Some f \<and> te_state f = Waiting)"
      using struct_waiting(2) [OF s, of i] new e(3) by (auto simp: bt_get_insert)
  next
    show "sorted_wrt (<) (W @ [n])"
      using struct_waiting [OF s] struct_ticket(1) [OF s] by (auto simp: sorted_wrt_append)
  qed
qed

text \<open>Expiry retires every overdue ticket at once.\<close>

lemma struct_expire:
  assumes s: "queue_struct n T W I"
  shows "queue_struct n (bt_map (\<lambda>_. expire_entry pol now) T)
     (filter (\<lambda>i. map_option te_state (bt_get (bt_map (\<lambda>_. expire_entry pol now) T) i) = Some Waiting) W)
     (fold bt_remove (map index_key (filter (expires_now pol now) (bt_values T))) I)"
    (is "queue_struct n ?T ?W ?I")
proof (rule queue_structI)
  have due_live: "is_live (te_state e)" if "expires_now pol now e" for e
    using that by (auto simp: expires_now_def waiting_overdue_def offer_overdue_def split: TicketState.splits)
  have exp: "te_ticket (expire_entry pol now e) = te_ticket e"
    "is_live (te_state (expire_entry pol now e)) \<longleftrightarrow> is_live (te_state e) \<and> \<not> expires_now pol now e"
    "te_terminal_at (expire_entry pol now e) = (if expires_now pol now e then Some now else te_terminal_at e)"
    "te_state (expire_entry pol now e) = Waiting \<longleftrightarrow> te_state e = Waiting \<and> \<not> expires_now pol now e"
    for e by (simp_all add: expire_entry_def)
  have key: "index_key (expire_entry pol now e) = index_key e" for e by (simp add: exp index_key_def)
  {
    fix k i
    have "bt_get ?I k = Some i \<longleftrightarrow>
        bt_get I k = Some i \<and> \<not> (\<exists>j e. bt_get T j = Some e \<and> expires_now pol now e \<and> index_key e = k)"
      by (auto simp: bt_get_fold_remove)
    also have "\<dots> \<longleftrightarrow> (\<exists>e. bt_get ?T i = Some e \<and> is_live (te_state e) \<and> index_key e = k)"
    proof (rule iffI)
      assume a: "bt_get I k = Some i \<and> \<not> (\<exists>j e. bt_get T j = Some e \<and> expires_now pol now e \<and> index_key e = k)"
      then obtain e where e: "bt_get T i = Some e" "is_live (te_state e)" "index_key e = k"
        using struct_index [OF s] by blast
      with a have "\<not> expires_now pol now e" by blast
      with e show "\<exists>e. bt_get ?T i = Some e \<and> is_live (te_state e) \<and> index_key e = k"
        by (intro exI [of _ "expire_entry pol now e"]) (simp add: exp key)
    next
      assume "\<exists>e. bt_get ?T i = Some e \<and> is_live (te_state e) \<and> index_key e = k"
      then obtain e where e: "bt_get T i = Some e" "is_live (te_state e)" "\<not> expires_now pol now e" "index_key e = k"
        by (auto simp: exp key)
      then have I: "bt_get I k = Some i" using struct_index [OF s] by blast
      have False if "bt_get T j = Some f" "expires_now pol now f" "index_key f = k" for j f
      proof -
        have "bt_get I k = Some j" using struct_index [OF s] due_live that by blast
        with I e that show False by simp
      qed
      with I show "bt_get I k = Some i \<and> \<not> (\<exists>j e. bt_get T j = Some e \<and> expires_now pol now e \<and> index_key e = k)"
        by blast
    qed
    finally show "bt_get ?I k = Some i \<longleftrightarrow>
        (\<exists>e. bt_get ?T i = Some e \<and> is_live (te_state e) \<and> index_key e = k)" .
  next
    fix i e assume "bt_get ?T i = Some e"
    then show "i < n \<and> qt_id (te_ticket e) = i \<and> (te_terminal_at e = None \<longleftrightarrow> is_live (te_state e))"
      using struct_ticket [OF s] due_live by (auto simp: exp split: if_splits)
  next
    fix i j e f
    assume "bt_get ?T i = Some e" "bt_get ?T j = Some f" "is_live (te_state e)" "is_live (te_state f)"
      "qt_principal (te_ticket e) = qt_principal (te_ticket f)"
    then show "i = j" by (auto simp: exp dest: struct_principal [OF s])
  next
    fix i
    show "i \<in> set ?W \<longleftrightarrow> (\<exists>e. bt_get ?T i = Some e \<and> te_state e = Waiting)"
      using struct_waiting(2) [OF s, of i] by (auto simp: exp)
  next
    show "sorted_wrt (<) ?W" using struct_waiting(1) [OF s] by (rule sorted_wrt_filter)
  }
qed

section \<open>Occupancy\<close>

definition occ :: "AdmissionController \<Rightarrow> nat" where
  "occ c = bt_len (ctl_active c) + bt_len (ctl_reservations c) + offered_count c"

definition capacity_ok :: "AdmissionController \<Rightarrow> bool" where
  "capacity_ok c \<longleftrightarrow> occ c \<le> unat (ctl_allocated_ccu c) \<and> admission_limit c \<le> ctl_allocated_ccu c"

definition ctl_struct :: "AdmissionController \<Rightarrow> bool" where
  "ctl_struct c \<longleftrightarrow>
     queue_struct (ctl_next_ticket c) (ctl_tickets c) (ctl_waiting c) (ctl_idempotency_index c)"

definition terminal_count :: "AdmissionController \<Rightarrow> nat" where
  "terminal_count c = bt_count (\<lambda>e. te_terminal_at e \<noteq> None) (ctl_tickets c)"

definition bounded_ok :: "AdmissionController \<Rightarrow> bool" where
  "bounded_ok c \<longleftrightarrow> live_count c \<le> qp_max_depth (ctl_policy c) \<and> terminal_count c \<le> 1024"

lemma count_by_simps [simp]:
  "ctl_metadata (count_by f c) = ctl_metadata c" "ctl_policy (count_by f c) = ctl_policy c"
  "ctl_allocated_ccu (count_by f c) = ctl_allocated_ccu c"
  "ctl_pending_target (count_by f c) = ctl_pending_target c"
  "ctl_revision (count_by f c) = ctl_revision c"
  "ctl_next_ticket (count_by f c) = ctl_next_ticket c" "ctl_next_lease (count_by f c) = ctl_next_lease c"
  "ctl_active (count_by f c) = ctl_active c" "ctl_reservations (count_by f c) = ctl_reservations c"
  "ctl_tickets (count_by f c) = ctl_tickets c" "ctl_waiting (count_by f c) = ctl_waiting c"
  "ctl_idempotency_index (count_by f c) = ctl_idempotency_index c"
  by (simp_all add: count_by_def)

lemmas view_defs =
  occ_def capacity_ok_def ctl_struct_def terminal_count_def bounded_ok_def live_count_def
  offered_count_def admission_limit_def occupied_def

lemma count_by_waiting [simp]: "ticket_is_waiting (count_by f c) = ticket_is_waiting c"
  by (simp add: ticket_is_waiting_def fun_eq_iff)

lemma admission_limit_cong:
  "ctl_pending_target c = ctl_pending_target d \<Longrightarrow> ctl_allocated_ccu c = ctl_allocated_ccu d \<Longrightarrow>
   admission_limit c = admission_limit d"
  by (simp add: admission_limit_def split: option.split)

lemma count_by_views [simp]:
  "occ (count_by f c) = occ c" "occupied (count_by f c) = occupied c"
  "admission_limit (count_by f c) = admission_limit c" "capacity_ok (count_by f c) = capacity_ok c"
  "ctl_struct (count_by f c) = ctl_struct c" "bounded_ok (count_by f c) = bounded_ok c"
  "live_count (count_by f c) = live_count c" "terminal_count (count_by f c) = terminal_count c"
  "queue_depth (count_by f c) = queue_depth c"
  by (simp_all add: view_defs queue_depth_def split: option.split)

text \<open>The 32-bit occupancy of the code never wraps on a controller within its capacity.\<close>

lemma unat_u32: "unat (w :: u32) < 2 ^ 32"
proof -
  have "unat w < 2 ^ LENGTH(32)" by (rule unsigned_less)
  then show ?thesis by simp
qed

lemma unat_count_u32: "n < 2 ^ 32 \<Longrightarrow> unat (count_u32 n) = n"
  by (simp add: count_u32_def unat_of_nat take_bit_nat_eq_self)

lemma occupied_occ:
  assumes "occ c < 2 ^ 32"
  shows "unat (occupied c) = occ c"
proof -
  have le: "bt_len (ctl_active c) < 2 ^ 32" "bt_len (ctl_reservations c) < 2 ^ 32" "offered_count c < 2 ^ 32"
    using assms by (simp_all add: occ_def)
  have "occupied c = of_nat (occ c)"
    using le by (simp add: occupied_def occ_def count_u32_def)
  then show ?thesis using assms by (simp add: unat_of_nat take_bit_nat_eq_self)
qed

lemma capacity_occ: "capacity_ok c \<Longrightarrow> occ c < 2 ^ 32"
  using unat_u32 [of "ctl_allocated_ccu c"] by (simp add: capacity_ok_def)

lemma occupied_less: "occ c < 2 ^ 32 \<Longrightarrow> occupied c < n \<longleftrightarrow> occ c < unat n"
  by (simp add: word_less_nat_alt occupied_occ)

lemma occupied_le: "occ c < 2 ^ 32 \<Longrightarrow> occupied c \<le> n \<longleftrightarrow> occ c \<le> unat n"
  by (simp add: word_le_nat_alt occupied_occ)

section \<open>Promotion\<close>

definition offer_to :: "Instant \<Rightarrow> QueueTicketId \<Rightarrow> (QueueTicketId, TicketEntry) btree_map
    \<Rightarrow> (QueueTicketId, TicketEntry) btree_map" where
  "offer_to t i T = bt_update i (\<lambda>e. e\<lparr>te_state := Offered t\<rparr>) T"

definition free_slots :: "AdmissionController \<Rightarrow> nat" where
  "free_slots c = unat (admission_limit c) - occ c"

lemma fold_offer_get:
  "bt_get (fold (offer_to t) is T) i =
     (if i \<in> set is then map_option (\<lambda>e. e\<lparr>te_state := Offered t\<rparr>) (bt_get T i) else bt_get T i)"
proof (induction "is" arbitrary: T)
  case (Cons j js)
  then show ?case by (cases "bt_get T j") (auto simp: offer_to_def bt_get_update option.map_comp comp_def)
qed simp

lemma struct_offer:
  assumes s: "queue_struct n T (i # W) I"
  shows "queue_struct n (offer_to t i T) W I"
proof -
  obtain e where e: "bt_get T i = Some e" "te_state e = Waiting" 
    using struct_waiting(2) [OF s, of i] by auto
  then have ter: "te_terminal_at e = None" using struct_ticket(3) [OF s] by simp
  have sorted: "sorted_wrt (<) W" "i \<notin> set W" using struct_waiting(1) [OF s] by auto
  show ?thesis
    unfolding offer_to_def bt_update_def using e ter sorted
    by (auto intro!: struct_update_live [OF s e(1)] split: if_splits)
qed

text \<open>The loop offers the free slots to the head of the waiting list, and nothing else.\<close>

lemma promote_loop_eq:
  assumes "ctl_struct c" and "occ c < 2 ^ 32"
  shows "promote_loop now c =
    (let k = min (length (ctl_waiting c)) (free_slots c) in
     c\<lparr>ctl_waiting := drop k (ctl_waiting c),
       ctl_tickets := fold (offer_to (offer_expiry c now)) (take k (ctl_waiting c)) (ctl_tickets c)\<rparr>)"
  using assms
proof (induction "ctl_waiting c" arbitrary: c)
  case Nil
  then show ?case by (subst promote_loop.simps) simp
next
  case (Cons i rest)
  note W = Cons.hyps(2) [symmetric]
  show ?case
  proof (cases "occupied c < admission_limit c")
    case False
    then have "free_slots c = 0" using Cons.prems occupied_less by (simp add: free_slots_def)
    with False show ?thesis by (subst promote_loop.simps) simp
  next
    case True
    obtain e where e: "bt_get (ctl_tickets c) i = Some e" "te_state e = Waiting"
      using Cons.prems(1) struct_waiting(2) [of _ "ctl_tickets c" "ctl_waiting c" _ i] W
      unfolding ctl_struct_def by auto
    define c1 where "c1 = c\<lparr>ctl_waiting := rest,
       ctl_tickets := offer_to (offer_expiry c now) i (ctl_tickets c)\<rparr>"
    have step: "promote_loop now c = promote_loop now c1"
      using True e W unfolding c1_def offer_to_def bt_update_def
      by (subst promote_loop.simps) (auto simp: word_gt_0 simp del: promote_loop.simps)
    have s1: "ctl_struct c1"
      using Cons.prems(1) W struct_offer unfolding c1_def ctl_struct_def by auto
    have occ1: "occ c1 = occ c + 1"
      using bt_count_insert [of "\<lambda>e. is_offered (te_state e)" i "e\<lparr>te_state := Offered (offer_expiry c now)\<rparr>" "ctl_tickets c"] e
      by (simp add: c1_def occ_def offered_count_def offer_to_def bt_update_def)
    have lt: "occ c < unat (admission_limit c)" using True occupied_less Cons.prems(2) by simp
    have lim: "admission_limit c1 = admission_limit c" by (rule admission_limit_cong) (simp_all add: c1_def)
    have free: "free_slots c = Suc (free_slots c1)" using lt by (simp add: free_slots_def occ1 lim)
    have "occ c1 < 2 ^ 32" using lt occ1  unat_u32 [of "admission_limit c"] by simp
    then have "promote_loop now c1 =
       (let k = min (length (ctl_waiting c1)) (free_slots c1) in
        c1\<lparr>ctl_waiting := drop k (ctl_waiting c1),
          ctl_tickets := fold (offer_to (offer_expiry c1 now)) (take k (ctl_waiting c1)) (ctl_tickets c1)\<rparr>)"
      using Cons.hyps(1) [of c1] s1 by (simp add: c1_def)
    moreover have "offer_expiry c1 now = offer_expiry c now" by (simp add: c1_def offer_expiry_def)
    ultimately show ?thesis
      unfolding step using W free by (simp add: c1_def Let_def)
  qed
qed

lemma bt_count_cong:
  assumes "\<And>k. (\<exists>v. bt_get m k = Some v \<and> P v) \<longleftrightarrow> (\<exists>v. bt_get n k = Some v \<and> Q v)"
  shows "bt_count P m = bt_count Q n"
  using assms by (simp add: bt_count_card)

lemma fold_offer_count:
  assumes "distinct is"
    and "\<And>i. i \<in> set is \<Longrightarrow> \<exists>e. bt_get T i = Some e \<and> te_state e = Waiting"
  shows "bt_count (\<lambda>e. is_offered (te_state e)) (fold (offer_to t) is T) =
         bt_count (\<lambda>e. is_offered (te_state e)) T + length is"
  using assms
proof (induction "is" arbitrary: T)
  case (Cons i js)
  obtain e where e: "bt_get T i = Some e" "te_state e = Waiting" using Cons.prems(2) by force
  have "bt_count (\<lambda>e. is_offered (te_state e)) (offer_to t i T) =
        Suc (bt_count (\<lambda>e. is_offered (te_state e)) T)"
    using bt_count_insert [of "\<lambda>e. is_offered (te_state e)" i "e\<lparr>te_state := Offered t\<rparr>" T] e
    by (simp add: offer_to_def bt_update_def)
  moreover have "\<exists>f. bt_get (offer_to t i T) j = Some f \<and> te_state f = Waiting" if "j \<in> set js" for j
    using Cons.prems that by (force simp: offer_to_def bt_get_update)
  ultimately show ?case using Cons by simp
qed simp

lemma fold_offer_terminal:
  "bt_count (\<lambda>e. P (te_terminal_at e)) (fold (offer_to t) is T) = bt_count (\<lambda>e. P (te_terminal_at e)) T"
proof (rule bt_count_cong)
  fix k
  show "(\<exists>v. bt_get (fold (offer_to t) is T) k = Some v \<and> P (te_terminal_at v)) \<longleftrightarrow>
        (\<exists>v. bt_get T k = Some v \<and> P (te_terminal_at v))"
    by (cases "bt_get T k") (auto simp: fold_offer_get)
qed

lemma struct_offers:
  assumes "queue_struct n T (is @ W) I"
  shows "queue_struct n (fold (offer_to t) is T) W I"
  using assms by (induction "is" arbitrary: T) (auto dest: struct_offer)

text \<open>A controller within its capacity and with a well-formed queue.\<close>

definition sound :: "AdmissionController \<Rightarrow> bool" where
  "sound c \<longleftrightarrow> ctl_struct c \<and> capacity_ok c"

lemma sound_occ: "sound c \<Longrightarrow> occ c < 2 ^ 32"
  unfolding sound_def using capacity_occ by blast

definition promoted :: "AdmissionController \<Rightarrow> nat" where
  "promoted c = min (length (ctl_waiting c)) (free_slots c)"

lemma promote_at_eq:
  assumes "sound c"
  obtains counters where "promote_at now c =
     c\<lparr>ctl_waiting := drop (promoted c) (ctl_waiting c),
       ctl_tickets := fold (offer_to (offer_expiry c now)) (take (promoted c) (ctl_waiting c)) (ctl_tickets c),
       ctl_counters := counters\<rparr>"
  using promote_loop_eq [of c now] assms sound_occ [OF assms]
  by (auto simp: promote_at_def sound_def promoted_def Let_def count_by_def)

lemma waiting_entry:
  assumes "ctl_struct c" and "i \<in> set (ctl_waiting c)"
  shows "\<exists>e. bt_get (ctl_tickets c) i = Some e \<and> te_state e = Waiting"
  using assms struct_waiting(2) unfolding ctl_struct_def by blast

lemma waiting_distinct: "ctl_struct c \<Longrightarrow> distinct (ctl_waiting c)"
  using struct_waiting(1) strict_sorted_iff unfolding ctl_struct_def by blast

lemma promote_at_fields [simp]:
  assumes "sound c"
  shows "ctl_metadata (promote_at now c) = ctl_metadata c" "ctl_policy (promote_at now c) = ctl_policy c"
    "ctl_allocated_ccu (promote_at now c) = ctl_allocated_ccu c"
    "ctl_pending_target (promote_at now c) = ctl_pending_target c"
    "ctl_revision (promote_at now c) = ctl_revision c"
    "ctl_next_ticket (promote_at now c) = ctl_next_ticket c"
    "ctl_next_lease (promote_at now c) = ctl_next_lease c"
    "ctl_active (promote_at now c) = ctl_active c"
    "ctl_reservations (promote_at now c) = ctl_reservations c"
    "ctl_idempotency_index (promote_at now c) = ctl_idempotency_index c"
    "ctl_waiting (promote_at now c) = drop (promoted c) (ctl_waiting c)"
    "ctl_tickets (promote_at now c) =
       fold (offer_to (offer_expiry c now)) (take (promoted c) (ctl_waiting c)) (ctl_tickets c)"
  by (rule promote_at_eq [OF assms, of now]; simp)+

lemma promote_at_limit [simp]: "sound c \<Longrightarrow> admission_limit (promote_at now c) = admission_limit c"
  by (rule admission_limit_cong) simp_all

lemma promote_at_occ:
  assumes "sound c"
  shows "occ (promote_at now c) = occ c + promoted c"
proof -
  have s: "ctl_struct c" using assms by (simp add: sound_def)
  have "distinct (take (promoted c) (ctl_waiting c))" using waiting_distinct [OF s] by simp
  moreover have "\<exists>e. bt_get (ctl_tickets c) i = Some e \<and> te_state e = Waiting"
    if "i \<in> set (take (promoted c) (ctl_waiting c))" for i
    using waiting_entry [OF s] set_take_subset that by fast
  moreover have "promoted c \<le> length (ctl_waiting c)" by (simp add: promoted_def)
  ultimately show ?thesis using assms by (simp add: occ_def offered_count_def fold_offer_count)
qed

lemma promote_at_sound:
  assumes "sound c"
  shows "sound (promote_at now c)"
proof -
  have "occ c + promoted c \<le> unat (ctl_allocated_ccu c)"
    using assms by (auto simp: sound_def capacity_ok_def promoted_def free_slots_def word_le_nat_alt)
  then have "capacity_ok (promote_at now c)"
    using assms promote_at_occ [OF assms] by (simp add: capacity_ok_def sound_def)
  moreover have "ctl_struct (promote_at now c)"
    using assms struct_offers [of _ _ "take (promoted c) (ctl_waiting c)" "drop (promoted c) (ctl_waiting c)"]
    by (simp add: ctl_struct_def sound_def)
  ultimately show ?thesis by (simp add: sound_def)
qed

lemma promote_at_counts:
  assumes "sound c"
  shows "live_count (promote_at now c) = live_count c"
    and "terminal_count (promote_at now c) = terminal_count c"
  using assms fold_offer_terminal [of "\<lambda>t. t = None"] fold_offer_terminal [of "\<lambda>t. t \<noteq> None"]
  by (simp_all add: live_count_def terminal_count_def)

lemma promote_at_conserving:
  assumes "sound c" and "ctl_waiting (promote_at now c) \<noteq> []"
  shows "unat (admission_limit c) \<le> occ (promote_at now c)"
  using assms by (auto simp: promote_at_occ promoted_def free_slots_def)

section \<open>Expiry\<close>

text \<open>Terminal history is bounded by 1024 tickets; no live ticket is forgotten.\<close>

definition terminal_ids :: "(QueueTicketId, TicketEntry) btree_map \<Rightarrow> (Instant \<times> QueueTicketId) list" where
  "terminal_ids T = sort (List.map_filter (\<lambda>(i, e). map_option (\<lambda>t. (t, i)) (te_terminal_at e)) (bt_entries T))"

lemma set_terminal_ids:
  "(t, i) \<in> set (terminal_ids T) \<longleftrightarrow> (\<exists>e. bt_get T i = Some e \<and> te_terminal_at e = Some t)"
  unfolding terminal_ids_def set_sort map_filter_def
  by (auto simp: bt_entries_iff image_iff split: prod.splits)
    (metis option.map(2) option.sel)

lemma fold_remove_get:
  "bt_get (fold (\<lambda>(_, i). bt_remove i) ps T) i = (if i \<in> snd ` set ps then None else bt_get T i)"
  by (induction ps arbitrary: T) (auto simp: bt_get_remove)

lemma prune_tickets:
  obtains T1 ps where "ctl_tickets (prune_terminal_at now c) = fold (\<lambda>(_, i). bt_remove i) ps T1"
    and "T1 = bt_retain (\<lambda>_ e. case te_terminal_at e of None \<Rightarrow> True
               | Some t \<Rightarrow> saturating_duration_since now t < from_secs 60) (ctl_tickets c)"
    and "ps = take (length (terminal_ids T1) - 1024) (terminal_ids T1)"
  by (simp add: prune_terminal_at_def Let_def terminal_ids_def)

lemma prune_sub:
  assumes "bt_get (ctl_tickets (prune_terminal_at now c)) i = Some e"
  shows "bt_get (ctl_tickets c) i = Some e"
  using assms by (rule_tac prune_tickets [of now c])
    (auto simp: fold_remove_get bt_get_retain split: if_splits option.splits)

lemma prune_keep:
  assumes "bt_get (ctl_tickets c) i = Some e" and "te_terminal_at e = None"
  shows "bt_get (ctl_tickets (prune_terminal_at now c)) i = Some e"
proof (rule prune_tickets [of now c])
  fix T1 ps
  assume T1: "T1 = bt_retain (\<lambda>_ e. case te_terminal_at e of None \<Rightarrow> True
               | Some t \<Rightarrow> saturating_duration_since now t < from_secs 60) (ctl_tickets c)"
    and ps: "ps = take (length (terminal_ids T1) - 1024) (terminal_ids T1)"
    and T: "ctl_tickets (prune_terminal_at now c) = fold (\<lambda>(_, i). bt_remove i) ps T1"
  have get: "bt_get T1 i = Some e" using assms by (simp add: T1 bt_get_retain)
  have "i \<notin> snd ` set ps"
  proof
    assume "i \<in> snd ` set ps"
    then obtain t where "(t, i) \<in> set (terminal_ids T1)" unfolding ps by (force dest: in_set_takeD)
    with get assms(2) show False by (auto simp: set_terminal_ids)
  qed
  with get show ?thesis by (simp add: T fold_remove_get)
qed

lemma prune_terminal_count: "terminal_count (prune_terminal_at now c) \<le> 1024"
proof (rule prune_tickets [of now c])
  fix T1 ps
  assume ps: "ps = take (length (terminal_ids T1) - 1024) (terminal_ids T1)"
    and T: "ctl_tickets (prune_terminal_at now c) = fold (\<lambda>(_, i). bt_remove i) ps T1"
  define rest where "rest = drop (length (terminal_ids T1) - 1024) (terminal_ids T1)"
  have split: "set (terminal_ids T1) = set ps \<union> set rest"
    unfolding ps rest_def by (metis append_take_drop_id set_append)
  have "{i. \<exists>e. bt_get (ctl_tickets (prune_terminal_at now c)) i = Some e \<and> te_terminal_at e \<noteq> None}
      \<subseteq> snd ` set rest"
  proof safe
    fix i e t
    assume "bt_get (ctl_tickets (prune_terminal_at now c)) i = Some e" and t: "te_terminal_at e = Some t"
    then have i: "i \<notin> snd ` set ps" and "bt_get T1 i = Some e"
      by (auto simp: T fold_remove_get split: if_splits)
    with t have "(t, i) \<in> set (terminal_ids T1)" by (auto simp: set_terminal_ids)
    with i show "i \<in> snd ` set rest" unfolding split by force
  qed
  then have "terminal_count (prune_terminal_at now c) \<le> card (snd ` set rest)"
    unfolding terminal_count_def bt_count_card by (intro card_mono) auto
  also have "\<dots> \<le> length rest" using card_image_le [of "set rest" snd] card_length [of rest] by simp
  also have "\<dots> \<le> 1024" by (simp add: rest_def)
  finally show ?thesis .
qed

lemma prune_fields [simp]:
  "ctl_metadata (prune_terminal_at now c) = ctl_metadata c"
  "ctl_policy (prune_terminal_at now c) = ctl_policy c"
  "ctl_allocated_ccu (prune_terminal_at now c) = ctl_allocated_ccu c"
  "ctl_pending_target (prune_terminal_at now c) = ctl_pending_target c"
  "ctl_revision (prune_terminal_at now c) = ctl_revision c"
  "ctl_next_ticket (prune_terminal_at now c) = ctl_next_ticket c"
  "ctl_next_lease (prune_terminal_at now c) = ctl_next_lease c"
  "ctl_active (prune_terminal_at now c) = ctl_active c"
  "ctl_reservations (prune_terminal_at now c) = ctl_reservations c"
  "ctl_waiting (prune_terminal_at now c) = ctl_waiting c"
  by (simp_all add: prune_terminal_at_def Let_def)

lemma prune_limit [simp]: "admission_limit (prune_terminal_at now c) = admission_limit c"
  by (rule admission_limit_cong) simp_all

lemma prune_index:
  assumes "ctl_struct c"
  shows "ctl_idempotency_index (prune_terminal_at now c) = ctl_idempotency_index c"
proof (rule bt_eqI)
  fix k
  have "bt_contains (ctl_tickets (prune_terminal_at now c)) i"
    if k: "bt_get (ctl_idempotency_index c) k = Some i" for i
  proof -
    obtain e where e: "bt_get (ctl_tickets c) i = Some e" "is_live (te_state e)"
      using struct_index [THEN iffD1, OF _ k] assms unfolding ctl_struct_def by blast
    then have "te_terminal_at e = None" using assms struct_ticket(3) unfolding ctl_struct_def by blast
    with e show ?thesis by (simp add: bt_contains_def prune_keep)
  qed
  moreover have "ctl_idempotency_index (prune_terminal_at now c) =
     bt_retain (\<lambda>_ i. bt_contains (ctl_tickets (prune_terminal_at now c)) i) (ctl_idempotency_index c)"
    by (simp add: prune_terminal_at_def Let_def)
  ultimately show "bt_get (ctl_idempotency_index (prune_terminal_at now c)) k = bt_get (ctl_idempotency_index c) k"
    by (cases "bt_get (ctl_idempotency_index c) k") (simp_all add: bt_get_retain)
qed

lemma prune_struct:
  assumes "ctl_struct c"
  shows "ctl_struct (prune_terminal_at now c)"
proof -
  have "bt_get (ctl_tickets (prune_terminal_at now c)) i = Some e"
    if "bt_get (ctl_tickets c) i = Some e" "is_live (te_state e)" for i e
    using that assms struct_ticket(3) prune_keep unfolding ctl_struct_def by metis
  then show ?thesis
    using assms unfolding ctl_struct_def
    by (simp add: prune_index [OF assms] struct_forget [OF _ prune_sub])
qed

lemma prune_live: "live_count (prune_terminal_at now c) = live_count c"
  unfolding live_count_def by (rule bt_count_cong) (auto dest: prune_sub prune_keep)

lemma prune_occ:
  assumes "ctl_struct c"
  shows "occ (prune_terminal_at now c) = occ c"
proof -
  have "offered_count (prune_terminal_at now c) = offered_count c"
    unfolding offered_count_def
  proof (rule bt_count_cong)
    fix i
    have "te_terminal_at e = None" if "bt_get (ctl_tickets c) i = Some e" "is_offered (te_state e)" for e
      using assms that struct_ticket(3) unfolding ctl_struct_def is_live_def by blast
    then show "(\<exists>e. bt_get (ctl_tickets (prune_terminal_at now c)) i = Some e \<and> is_offered (te_state e)) \<longleftrightarrow>
      (\<exists>e. bt_get (ctl_tickets c) i = Some e \<and> is_offered (te_state e))"
      using prune_sub prune_keep by blast
  qed
  then show ?thesis by (simp add: occ_def)
qed

lemma prune_sound: "sound c \<Longrightarrow> sound (prune_terminal_at now c)"
  by (simp add: sound_def prune_struct capacity_ok_def prune_occ)

text \<open>A pending capacity cut takes effect once the occupancy has drained below it.\<close>

lemma apply_pending_fields [simp]:
  "ctl_metadata (apply_pending c) = ctl_metadata c" "ctl_policy (apply_pending c) = ctl_policy c"
  "ctl_revision (apply_pending c) = ctl_revision c"
  "ctl_next_ticket (apply_pending c) = ctl_next_ticket c"
  "ctl_next_lease (apply_pending c) = ctl_next_lease c"
  "ctl_active (apply_pending c) = ctl_active c"
  "ctl_reservations (apply_pending c) = ctl_reservations c"
  "ctl_tickets (apply_pending c) = ctl_tickets c"
  "ctl_waiting (apply_pending c) = ctl_waiting c"
  "ctl_idempotency_index (apply_pending c) = ctl_idempotency_index c"
  by (simp_all add: apply_pending_def split: option.split)

lemma apply_pending_limit [simp]: "admission_limit (apply_pending c) = admission_limit c"
  by (simp add: apply_pending_def admission_limit_def split: option.split)

lemma apply_pending_views [simp]:
  "occ (apply_pending c) = occ c" "live_count (apply_pending c) = live_count c"
  "terminal_count (apply_pending c) = terminal_count c" "ctl_struct (apply_pending c) = ctl_struct c"
  by (simp_all add: view_defs)

lemma apply_pending_sound:
  assumes "sound c"
  shows "sound (apply_pending c)"
proof (cases "\<exists>t. ctl_pending_target c = Some t \<and> occupied c \<le> t")
  case True
  then obtain t where t: "apply_pending c = c\<lparr>ctl_allocated_ccu := t, ctl_pending_target := None\<rparr>" "occupied c \<le> t"
    by (auto simp: apply_pending_def)
  have "occ (apply_pending c) \<le> unat t" using occupied_le [OF sound_occ [OF assms]] t(2) by simp
  moreover have "ctl_struct (apply_pending c)" using assms by (simp add: sound_def)
  ultimately show ?thesis by (simp add: sound_def capacity_ok_def t(1) admission_limit_def)
next
  case False
  then have "apply_pending c = c" by (auto simp: apply_pending_def split: option.split)
  with assms show ?thesis by simp
qed

text \<open>Reservations and tickets that are due expire together.\<close>

definition expired_stage :: "Instant \<Rightarrow> AdmissionController \<Rightarrow> AdmissionController" where
  "expired_stage now c = retain_waiting (expire_tickets now (expire_reservations now c))"

lemma count_if: "(if b then count_by f c else c) = count_by (if b then f else id) c"
  by (simp add: count_by_def)

lemma expire_reservations_eq:
  obtains counters where "expire_reservations now c =
     c\<lparr>ctl_reservations := bt_retain (\<lambda>_ r. now < rv_expires r) (ctl_reservations c), ctl_counters := counters\<rparr>"
  by (rule that [of "ctl_counters (expire_reservations now c)"], rule AdmissionController.equality)
    (simp_all add: expire_reservations_def Let_def)

definition remaining_index ::
  "QueuePolicy \<Rightarrow> Instant \<Rightarrow> (QueueTicketId, TicketEntry) btree_map
   \<Rightarrow> (PrincipalId \<times> IdempotencyKey, QueueTicketId) btree_map
   \<Rightarrow> (PrincipalId \<times> IdempotencyKey, QueueTicketId) btree_map" where
  "remaining_index pol now T I = fold bt_remove (map index_key (filter (expires_now pol now) (bt_values T))) I"

definition expired_tickets ::
  "QueuePolicy \<Rightarrow> Instant \<Rightarrow> (QueueTicketId, TicketEntry) btree_map \<Rightarrow> (QueueTicketId, TicketEntry) btree_map" where
  "expired_tickets pol now T = bt_map (\<lambda>_. expire_entry pol now) T"

lemma bt_get_expired_tickets [simp]:
  "bt_get (expired_tickets pol now T) i = map_option (expire_entry pol now) (bt_get T i)"
  by (simp add: expired_tickets_def)

lemma expire_tickets_eq:
  obtains counters where "expire_tickets now c =
     c\<lparr>ctl_tickets := expired_tickets (ctl_policy c) now (ctl_tickets c),
       ctl_idempotency_index := remaining_index (ctl_policy c) now (ctl_tickets c) (ctl_idempotency_index c),
       ctl_counters := counters\<rparr>"
proof -
  obtain f g where "expire_tickets now c = count_by g (count_by f
     (c\<lparr>ctl_tickets := expired_tickets (ctl_policy c) now (ctl_tickets c),
       ctl_idempotency_index := remaining_index (ctl_policy c) now (ctl_tickets c) (ctl_idempotency_index c)\<rparr>))"
    unfolding expire_tickets_def Let_def count_if expired_tickets_def remaining_index_def by blast
  then show ?thesis using that by (simp add: count_by_def)
qed

lemma expired_stage_eq:
  obtains counters where "expired_stage now c =
     c\<lparr>ctl_reservations := bt_retain (\<lambda>_ r. now < rv_expires r) (ctl_reservations c),
       ctl_tickets := expired_tickets (ctl_policy c) now (ctl_tickets c),
       ctl_idempotency_index := remaining_index (ctl_policy c) now (ctl_tickets c) (ctl_idempotency_index c),
       ctl_waiting := filter (\<lambda>i. map_option te_state
         (bt_get (expired_tickets (ctl_policy c) now (ctl_tickets c)) i) = Some Waiting) (ctl_waiting c),
       ctl_counters := counters\<rparr>"
proof -
  obtain k1 where r: "expire_reservations now c =
     c\<lparr>ctl_reservations := bt_retain (\<lambda>_ r. now < rv_expires r) (ctl_reservations c), ctl_counters := k1\<rparr>"
    by (rule expire_reservations_eq)
  define d where "d = c\<lparr>ctl_reservations := bt_retain (\<lambda>_ r. now < rv_expires r) (ctl_reservations c), ctl_counters := k1\<rparr>"
  obtain k2 where "expire_tickets now d =
     d\<lparr>ctl_tickets := expired_tickets (ctl_policy d) now (ctl_tickets d),
       ctl_idempotency_index := remaining_index (ctl_policy d) now (ctl_tickets d) (ctl_idempotency_index d),
       ctl_counters := k2\<rparr>"
    by (rule expire_tickets_eq)
  then show ?thesis
    using that [of k2] unfolding expired_stage_def retain_waiting_def ticket_is_waiting_def r d_def [symmetric]
    by (simp add: d_def)
qed

lemma expired_stage_fields [simp]:
  "ctl_metadata (expired_stage now c) = ctl_metadata c"
  "ctl_policy (expired_stage now c) = ctl_policy c"
  "ctl_allocated_ccu (expired_stage now c) = ctl_allocated_ccu c"
  "ctl_pending_target (expired_stage now c) = ctl_pending_target c"
  "ctl_revision (expired_stage now c) = ctl_revision c"
  "ctl_next_ticket (expired_stage now c) = ctl_next_ticket c"
  "ctl_next_lease (expired_stage now c) = ctl_next_lease c"
  "ctl_active (expired_stage now c) = ctl_active c"
  "ctl_reservations (expired_stage now c) = bt_retain (\<lambda>_ r. now < rv_expires r) (ctl_reservations c)"
  "ctl_tickets (expired_stage now c) = expired_tickets (ctl_policy c) now (ctl_tickets c)"
  "ctl_idempotency_index (expired_stage now c) =
     remaining_index (ctl_policy c) now (ctl_tickets c) (ctl_idempotency_index c)"
  "ctl_waiting (expired_stage now c) =
     filter (\<lambda>i. map_option te_state
        (bt_get (expired_tickets (ctl_policy c) now (ctl_tickets c)) i) = Some Waiting) (ctl_waiting c)"
  by (rule expired_stage_eq [of now c]; simp)+

lemma expired_stage_limit [simp]: "admission_limit (expired_stage now c) = admission_limit c"
  by (rule admission_limit_cong) simp_all

lemma expired_stage_struct: "ctl_struct c \<Longrightarrow> ctl_struct (expired_stage now c)"
  unfolding ctl_struct_def expired_stage_fields expired_tickets_def remaining_index_def by (rule struct_expire)

lemma expire_entry_state:
  "is_offered (te_state (expire_entry pol now e)) \<Longrightarrow> is_offered (te_state e)"
  "te_terminal_at (expire_entry pol now e) = None \<Longrightarrow> te_terminal_at e = None"
  by (simp_all add: expire_entry_def split: if_splits)

lemma expired_stage_occ: "occ (expired_stage now c) \<le> occ c"
proof -
  have "offered_count (expired_stage now c) \<le> offered_count c"
    unfolding offered_count_def by (rule bt_count_mono) (auto dest: expire_entry_state)
  then show ?thesis
    using bt_len_retain [of "\<lambda>_ r. now < rv_expires r" "ctl_reservations c"] by (simp add: occ_def)
qed

lemma expired_stage_live: "live_count (expired_stage now c) \<le> live_count c"
  unfolding live_count_def by (rule bt_count_mono) (auto dest: expire_entry_state)

lemma expired_stage_sound: "sound c \<Longrightarrow> sound (expired_stage now c)"
  using expired_stage_occ [of now c] by (simp add: sound_def expired_stage_struct capacity_ok_def)

definition ready :: "Instant \<Rightarrow> AdmissionController \<Rightarrow> AdmissionController" where
  "ready now c = apply_pending (count_by (set_queue_depth (queue_depth (prune_terminal_at now (expired_stage now c))))
     (prune_terminal_at now (expired_stage now c)))"

lemma expire_at_ready: "expire_at now c = promote_at now (ready now c)"
  by (simp add: expire_at_def ready_def expired_stage_def Let_def)

lemma count_by_sound [simp]: "sound (count_by f c) = sound c"
  by (simp add: sound_def)

lemma ready_sound: "sound c \<Longrightarrow> sound (ready now c)"
  unfolding ready_def by (intro apply_pending_sound count_by_sound [THEN iffD2] prune_sound expired_stage_sound)

lemma expire_at_sound: "sound c \<Longrightarrow> sound (expire_at now c)"
  unfolding expire_at_ready by (intro promote_at_sound ready_sound)

lemma ready_fields [simp]:
  "ctl_metadata (ready now c) = ctl_metadata c" "ctl_policy (ready now c) = ctl_policy c"
  "ctl_revision (ready now c) = ctl_revision c"
  "ctl_next_ticket (ready now c) = ctl_next_ticket c" "ctl_next_lease (ready now c) = ctl_next_lease c"
  "ctl_active (ready now c) = ctl_active c"
  "ctl_reservations (ready now c) = bt_retain (\<lambda>_ r. now < rv_expires r) (ctl_reservations c)"
  "admission_limit (ready now c) = admission_limit c"
  "ctl_tickets (ready now c) = ctl_tickets (prune_terminal_at now (expired_stage now c))"
  "ctl_waiting (ready now c) = ctl_waiting (expired_stage now c)"
  by (simp_all add: ready_def)

lemma expire_at_fields [simp]:
  assumes "sound c"
  shows "ctl_metadata (expire_at now c) = ctl_metadata c" "ctl_policy (expire_at now c) = ctl_policy c"
    "ctl_revision (expire_at now c) = ctl_revision c"
    "ctl_next_ticket (expire_at now c) = ctl_next_ticket c"
    "ctl_next_lease (expire_at now c) = ctl_next_lease c"
    "ctl_active (expire_at now c) = ctl_active c"
    "ctl_reservations (expire_at now c) = bt_retain (\<lambda>_ r. now < rv_expires r) (ctl_reservations c)"
    "admission_limit (expire_at now c) = admission_limit c"
  using ready_sound [OF assms] by (simp_all add: expire_at_ready)

lemma expire_at_bounded:
  assumes "sound c" and "live_count c \<le> qp_max_depth (ctl_policy c)"
  shows "bounded_ok (expire_at now c)"
proof -
  have "live_count (ready now c) \<le> live_count c"
    using expired_stage_live [of now c] by (simp add: ready_def prune_live)
  moreover have "terminal_count (ready now c) \<le> 1024" by (simp add: ready_def prune_terminal_count)
  ultimately show ?thesis
    using assms ready_sound [OF assms(1), of now]
    by (simp add: bounded_ok_def) (simp add: expire_at_ready promote_at_counts)
qed

lemma expire_at_conserving:
  assumes "sound c" and "ctl_waiting (expire_at now c) \<noteq> []"
  shows "unat (admission_limit c) \<le> occ (expire_at now c)"
  using promote_at_conserving [OF ready_sound [OF assms(1), of now], of now] assms(2)
  by (simp add: expire_at_ready)

section \<open>Every operation keeps the invariant\<close>

definition controller_inv :: "AdmissionController \<Rightarrow> bool" where
  "controller_inv c \<longleftrightarrow> sound c \<and> bounded_ok c"

lemma inv_sound: "controller_inv c \<Longrightarrow> sound c"
  by (simp add: controller_inv_def)

lemma count_by_inv [simp]: "controller_inv (count_by f c) = controller_inv c"
  by (simp add: controller_inv_def)

lemma controller_inv_new: "controller_inv (new_controller metadata policy capacity counters)"
  by (simp add: controller_inv_def sound_def view_defs new_controller_def queue_struct_empty)

lemma expire_at_inv: "controller_inv c \<Longrightarrow> controller_inv (expire_at now c)"
  using expire_at_sound expire_at_bounded by (simp add: controller_inv_def) (simp add: bounded_ok_def)

lemma promote_at_inv: "controller_inv c \<Longrightarrow> controller_inv (promote_at now c)"
  by (simp add: controller_inv_def promote_at_sound bounded_ok_def promote_at_counts)

lemma apply_pending_inv: "controller_inv c \<Longrightarrow> controller_inv (apply_pending c)"
  by (simp add: controller_inv_def apply_pending_sound bounded_ok_def)

lemma inv_frame:
  assumes "controller_inv c"
    and "ctl_tickets d = ctl_tickets c" "ctl_waiting d = ctl_waiting c"
      "ctl_idempotency_index d = ctl_idempotency_index c" "ctl_next_ticket d = ctl_next_ticket c"
      "ctl_policy d = ctl_policy c" "ctl_allocated_ccu d = ctl_allocated_ccu c"
      "ctl_pending_target d = ctl_pending_target c"
    and "occ d \<le> unat (ctl_allocated_ccu d)"
  shows "controller_inv d"
proof -
  have "admission_limit d = admission_limit c" using assms by (intro admission_limit_cong) simp_all
  then show ?thesis
    using assms by (simp add: controller_inv_def sound_def capacity_ok_def ctl_struct_def bounded_ok_def
        live_count_def terminal_count_def)
qed

lemma inv_capacity: "controller_inv c \<Longrightarrow> occ c \<le> unat (ctl_allocated_ccu c)"
  by (simp add: controller_inv_def sound_def capacity_ok_def)

lemma activate_fields [simp]:
  "ctl_metadata (activate i p now c) = ctl_metadata c" "ctl_policy (activate i p now c) = ctl_policy c"
  "ctl_allocated_ccu (activate i p now c) = ctl_allocated_ccu c"
  "ctl_pending_target (activate i p now c) = ctl_pending_target c"
  "ctl_revision (activate i p now c) = ctl_revision c"
  "ctl_next_ticket (activate i p now c) = ctl_next_ticket c"
  "ctl_next_lease (activate i p now c) = ctl_next_lease c"
  "ctl_reservations (activate i p now c) = ctl_reservations c"
  "ctl_tickets (activate i p now c) = ctl_tickets c" "ctl_waiting (activate i p now c) = ctl_waiting c"
  "ctl_idempotency_index (activate i p now c) = ctl_idempotency_index c"
  by (simp_all add: activate_def Let_def split: prod.split)

lemma activate_active:
  obtains h where "ctl_active (activate i p now c) =
     bt_insert i \<lparr>le_principal = p, le_started = now, le_usage_handle = h\<rparr> (ctl_active c)"
  by (cases "start_connection p now (ctl_counters c)") (simp add: activate_def Let_def)

lemma activate_occ: "occ (activate i p now c) \<le> occ c + 1"
  by (rule activate_active [of i p now c]) (auto simp: occ_def offered_count_def bt_len_insert)

lemma admit_inv:
  assumes inv: "controller_inv c" and room: "occ c < unat (ctl_allocated_ccu c)"
  shows "controller_inv (snd (admit p now c))"
proof (rule inv_frame [OF inv])
  let ?d = "c\<lparr>ctl_next_lease := ctl_next_lease c + 1\<rparr>"
  have "occ ?d = occ c" by (simp add: occ_def offered_count_def)
  then show "occ (snd (admit p now c)) \<le> unat (ctl_allocated_ccu (snd (admit p now c)))"
    using activate_occ [of "ctl_next_lease c" p now ?d] room by (simp add: admit_def Let_def)
qed (simp_all add: admit_def Let_def)

lemma no_live_principal:
  assumes "\<not> has_queued_principal c p" "bt_get (ctl_tickets c) i = Some e" "is_live (te_state e)"
  shows "qt_principal (te_ticket e) \<noteq> p"
  using assms by (auto simp: has_queued_principal_def)

lemma enqueue_ticket_inv:
  assumes inv: "controller_inv c" and free: "\<not> has_queued_principal c p"
    and room: "live_count c < qp_max_depth (ctl_policy c)" and n: "ctl_next_ticket c \<noteq> u64_max"
  shows "controller_inv (snd (enqueue key p now c))"
proof -
  let ?n = "ctl_next_ticket c" and ?d = "snd (enqueue key p now c)"
  define ticket where "ticket = \<lparr>qt_id = ?n, qt_session = am_session (ctl_metadata c), qt_principal = p,
                    qt_idempotency_key = key\<rparr>"
  define e where "e = \<lparr>te_ticket = ticket, te_created = now, te_last_heartbeat = now, te_state = Waiting,
               te_terminal_at = None\<rparr>"
  have d: "?d = c\<lparr>ctl_next_ticket := ?n + 1, ctl_tickets := bt_insert ?n e (ctl_tickets c),
            ctl_idempotency_index := bt_insert (index_key e) ?n (ctl_idempotency_index c),
            ctl_waiting := ctl_waiting c @ [?n]\<rparr>"
    by (simp add: enqueue_def Let_def e_def ticket_def index_key_def)
  have s: "ctl_struct c" and cap: "capacity_ok c" and b: "bounded_ok c"
    using inv by (simp_all add: controller_inv_def sound_def)
  have new: "bt_get (ctl_tickets c) ?n = None"
    using s struct_ticket(1) [of ?n "ctl_tickets c" _ _ ?n] unfolding ctl_struct_def by (cases "bt_get (ctl_tickets c) ?n") auto
  have "ctl_struct ?d"
    unfolding d ctl_struct_def using struct_enqueue [OF s [unfolded ctl_struct_def] n no_live_principal [OF free]]
    by (simp add: e_def ticket_def)
  moreover have "occ ?d = occ c"
    using bt_count_insert [of "\<lambda>e. is_offered (te_state e)" ?n e "ctl_tickets c"] new
    by (simp add: d occ_def offered_count_def e_def)
  then have "capacity_ok ?d"
    using cap admission_limit_cong [of ?d c] by (simp add: capacity_ok_def d)
  moreover have "live_count ?d = Suc (live_count c)" "terminal_count ?d = terminal_count c"
    using bt_count_insert [of "\<lambda>e. te_terminal_at e = None" ?n e "ctl_tickets c"]
      bt_count_insert [of "\<lambda>e. te_terminal_at e \<noteq> None" ?n e "ctl_tickets c"] new
    by (simp_all add: d live_count_def terminal_count_def e_def)
  then have "bounded_ok ?d" using b room by (simp add: bounded_ok_def) (simp add: d)
  ultimately show ?thesis by (simp add: controller_inv_def sound_def)
qed

lemma request_join_inv:
  assumes "controller_inv c0"
  shows "controller_inv (snd (request_join_at request now c0))"
proof -
  define c where "c = expire_at now (count_by increment_join_attempts c0)"
  have inv: "controller_inv c" unfolding c_def using assms by (simp add: expire_at_inv)
  then have lim: "admission_limit c \<le> ctl_allocated_ccu c" and occ: "occ c < 2 ^ 32"
    using capacity_occ by (auto simp: controller_inv_def sound_def capacity_ok_def)
  have room: "occ (count_by f c) < unat (ctl_allocated_ccu (count_by f c))" if "occupied c < admission_limit c" for f
    using that lim occupied_less [OF occ] by (simp add: word_le_nat_alt word_less_nat_alt)
  have queued: "has_queued_principal (count_by f d) = has_queued_principal d" for f d
    by (simp add: has_queued_principal_def fun_eq_iff)
  have adm: "controller_inv (snd (admit p now (count_by f c)))" if "occupied c < admission_limit c" for p f
    using admit_inv [OF _ room [OF that]] inv by simp
  have enq: "controller_inv (snd (enqueue key p now (count_by f (count_by g c))))"
    if "\<not> has_queued_principal c p" "live_count c < qp_max_depth (ctl_policy c)" "ctl_next_ticket c \<noteq> u64_max"
    for key p f g
    by (rule enqueue_ticket_inv) (use that inv in \<open>simp_all add: queued\<close>)
  show ?thesis
    unfolding request_join_at_def Let_def c_def [symmetric]
    using inv adm enq by (simp add: case_prod_beta not_le split: option.split)
qed

lemma heartbeat_inv:
  assumes "controller_inv c0"
  shows "controller_inv (snd (heartbeat_at i now c0))"
proof -
  define c where "c = expire_at now c0"
  have inv: "controller_inv c" unfolding c_def using assms by (rule expire_at_inv)
  then have s: "ctl_struct c" by (simp add: controller_inv_def sound_def)
  have "controller_inv (c\<lparr>ctl_tickets := bt_insert i (e\<lparr>te_last_heartbeat := now\<rparr>) (ctl_tickets c)\<rparr>)" (is "controller_inv ?d")
    if e: "bt_get (ctl_tickets c) i = Some e" "te_state e = Waiting" for e
  proof -
    have "te_terminal_at e = None" and "i \<in> set (ctl_waiting c)"
      using s e struct_ticket(3) struct_waiting(2) unfolding ctl_struct_def by (fastforce, blast)
    then have "ctl_struct ?d"
      using struct_update_live [OF s [unfolded ctl_struct_def] e(1), of "e\<lparr>te_last_heartbeat := now\<rparr>" "ctl_waiting c"]
        struct_waiting(1) [OF s [unfolded ctl_struct_def]] e(2) by (simp add: ctl_struct_def)
    moreover have "bt_count P (ctl_tickets ?d) = bt_count P (ctl_tickets c)"
      if "P (e\<lparr>te_last_heartbeat := now\<rparr>) = P e" for P
      using bt_count_insert [of P i "e\<lparr>te_last_heartbeat := now\<rparr>" "ctl_tickets c"] e(1) that by simp
    then have "occ ?d = occ c" "live_count ?d = live_count c" "terminal_count ?d = terminal_count c"
      by (simp_all add: occ_def offered_count_def live_count_def terminal_count_def)
    moreover have "admission_limit ?d = admission_limit c" by (rule admission_limit_cong) simp_all
    ultimately show ?thesis using inv
      by (simp add: controller_inv_def sound_def capacity_ok_def bounded_ok_def)
  qed
  then show ?thesis
    unfolding heartbeat_at_def Let_def c_def [symmetric] using inv by (auto split: option.split)
qed

text \<open>Retiring a live ticket frees whatever slot it was offered.\<close>

lemma retire_sound:
  assumes s: "sound c" and e: "bt_get (ctl_tickets c) i = Some e" "is_live (te_state e)"
    and e': "te_ticket e' = te_ticket e" "\<not> is_live (te_state e')" "te_terminal_at e' \<noteq> None"
    and d: "ctl_tickets d = bt_insert i e' (ctl_tickets c)"
      "ctl_idempotency_index d = bt_remove (index_key e) (ctl_idempotency_index c)"
      "ctl_waiting d = filter (\<lambda>j. j \<noteq> i) (ctl_waiting c)"
      "ctl_next_ticket d = ctl_next_ticket c" "ctl_allocated_ccu d = ctl_allocated_ccu c"
      "ctl_pending_target d = ctl_pending_target c" "ctl_active d = ctl_active c"
      "ctl_reservations d = ctl_reservations c"
  shows "sound d" and "live_count d < live_count c"
    and "occ d + of_bool (is_offered (te_state e)) = occ c"
proof -
  have st: "ctl_struct c" using s by (simp add: sound_def)
  have ter: "te_terminal_at e = None" using st e struct_ticket(3) unfolding ctl_struct_def by blast
  have off: "\<not> is_offered (te_state e')" using e'(2) by (simp add: is_live_def)
  show occ: "occ d + of_bool (is_offered (te_state e)) = occ c"
    using bt_count_insert [of "\<lambda>e. is_offered (te_state e)" i e' "ctl_tickets c"] e off
    by (simp add: occ_def offered_count_def d)
  show "live_count d < live_count c"
    using bt_count_insert [of "\<lambda>e. te_terminal_at e = None" i e' "ctl_tickets c"] e e' ter
    by (simp add: live_count_def d)
  have "ctl_struct d"
    unfolding ctl_struct_def d using struct_retire [OF st [unfolded ctl_struct_def] e e'] .
  moreover have "admission_limit d = admission_limit c" using d by (intro admission_limit_cong) simp_all
  ultimately show "sound d" using s occ by (simp add: sound_def capacity_ok_def d)
qed

lemma prune_inv:
  assumes "sound c" and "live_count c \<le> qp_max_depth (ctl_policy c)"
  shows "controller_inv (prune_terminal_at now c)"
  using assms by (simp add: controller_inv_def prune_sound bounded_ok_def prune_live prune_terminal_count)

lemma inv_live: "controller_inv c \<Longrightarrow> live_count c \<le> qp_max_depth (ctl_policy c)"
  by (simp add: controller_inv_def bounded_ok_def)

lemma cancel_inv:
  assumes "controller_inv c0"
  shows "controller_inv (snd (cancel_at i now c0))"
proof -
  define c where "c = expire_at now c0"
  have inv: "controller_inv c" unfolding c_def using assms by (rule expire_at_inv)
  have "controller_inv (promote_at now (apply_pending (prune_terminal_at now (count_by increment_cancelled_tickets
     (c\<lparr>ctl_tickets := bt_insert i (e\<lparr>te_state := Cancelled, te_terminal_at := Some now\<rparr>) (ctl_tickets c),
        ctl_idempotency_index := bt_remove (index_key e) (ctl_idempotency_index c),
        ctl_waiting := filter (\<lambda>j. j \<noteq> i) (ctl_waiting c)\<rparr>)))))" (is "controller_inv (promote_at now (apply_pending (prune_terminal_at now (count_by _ ?d))))")
    if e: "bt_get (ctl_tickets c) i = Some e" "is_live (te_state e)" for e
  proof -
    have "sound ?d" "live_count ?d < live_count c"
      by (rule retire_sound [OF inv_sound [OF inv] e, of "e\<lparr>te_state := Cancelled, te_terminal_at := Some now\<rparr>"]; simp)+
    then have "controller_inv (prune_terminal_at now (count_by increment_cancelled_tickets ?d))"
      using inv_live [OF inv] by (intro prune_inv) simp_all
    then show ?thesis by (intro promote_at_inv apply_pending_inv)
  qed
  then show ?thesis
    unfolding cancel_at_def Let_def c_def [symmetric]
    using inv by (auto split: option.split TicketState.split)
qed

lemma claim_inv:
  assumes "controller_inv c0"
  shows "controller_inv (snd (claim_offer_at i now c0))"
proof -
  define c where "c = expire_at now c0"
  have inv: "controller_inv c" unfolding c_def using assms by (rule expire_at_inv)
  have "controller_inv (snd (admit p now (prune_terminal_at now (count_by increment_promoted_players
     (c\<lparr>ctl_tickets := bt_insert i (e\<lparr>te_state := AdmittedT (ctl_next_lease c), te_terminal_at := Some now\<rparr>) (ctl_tickets c),
        ctl_idempotency_index := bt_remove (index_key e) (ctl_idempotency_index c)\<rparr>)))))"
       (is "controller_inv (snd (admit p now (prune_terminal_at now (count_by _ ?d))))")
    if e: "bt_get (ctl_tickets c) i = Some e" "te_state e = Offered t" for e t p
  proof -
    have s: "ctl_struct c" using inv by (simp add: controller_inv_def sound_def)
    have "i \<notin> set (ctl_waiting c)"
      using s e struct_waiting(2) unfolding ctl_struct_def by (metis TicketState.distinct(1) option.inject)
    then have W: "filter (\<lambda>j. j \<noteq> i) (ctl_waiting c) = ctl_waiting c" by (auto simp: filter_id_conv)
    have live: "is_live (te_state e)" by (simp add: e)
    have d: "sound ?d" "live_count ?d < live_count c" "occ ?d + of_bool (is_offered (te_state e)) = occ c"
      by (rule retire_sound [OF inv_sound [OF inv] e(1) live,
            of "e\<lparr>te_state := AdmittedT (ctl_next_lease c), te_terminal_at := Some now\<rparr>"]; simp add: W)+
    then have "controller_inv (prune_terminal_at now (count_by increment_promoted_players ?d))"
      using inv_live [OF inv] by (intro prune_inv) simp_all
    moreover have "occ (prune_terminal_at now (count_by increment_promoted_players ?d)) < unat (ctl_allocated_ccu c)"
      using d inv_capacity [OF inv] e(2) by (simp add: prune_occ sound_def)
    ultimately show ?thesis by (intro admit_inv) simp_all
  qed
  then show ?thesis
    unfolding claim_offer_at_def Let_def c_def [symmetric]
    using inv by (simp add: case_prod_beta split: option.split TicketState.split)
qed

text \<open>Releasing a lease moves at most its slot to a reservation.\<close>

lemma slots_frame:
  assumes inv: "controller_inv c"
    and f: "ctl_tickets d = ctl_tickets c" "ctl_waiting d = ctl_waiting c"
      "ctl_idempotency_index d = ctl_idempotency_index c" "ctl_next_ticket d = ctl_next_ticket c"
      "ctl_policy d = ctl_policy c" "ctl_allocated_ccu d = ctl_allocated_ccu c"
      "ctl_pending_target d = ctl_pending_target c"
    and len: "bt_len (ctl_active d) + bt_len (ctl_reservations d) \<le> bt_len (ctl_active c) + bt_len (ctl_reservations c)"
  shows "controller_inv d"
  using inv_capacity [OF inv] len by (intro inv_frame [OF inv f]) (simp_all add: f occ_def offered_count_def)

lemma release_at_cases:
  assumes inv: "controller_inv c"
  obtains (foreign) "\<not> has_active_lease c lease" "release_at lease reason now c = c"
  | (released) c2 where "has_active_lease c lease" "release_at lease reason now c = promote_at now (apply_pending c2)"
      "controller_inv c2" "ctl_metadata c2 = ctl_metadata c" "ctl_policy c2 = ctl_policy c"
      "ctl_active c2 = bt_remove (al_id lease) (ctl_active c)"
      "ctl_reservations c2 = (if reason = Unexpected \<and> qp_reconnect_grace (ctl_policy c) \<noteq> 0
         then bt_insert (al_id lease) \<lparr>rv_principal = al_principal lease,
                rv_expires = (case instant_checked_add now (qp_reconnect_grace (ctl_policy c)) of
                                None \<Rightarrow> now | Some t \<Rightarrow> t)\<rparr> (ctl_reservations c)
         else ctl_reservations c)"
proof (cases "has_active_lease c lease")
  case False
  then show ?thesis
    using foreign by (auto simp: has_active_lease_def release_at_def split: option.splits)
next
  case True
  then obtain l where l: "bt_get (ctl_active c) (al_id lease) = Some l" "le_principal l = al_principal lease"
    and session: "al_session lease = am_session (ctl_metadata c)"
    by (auto simp: has_active_lease_def split: option.splits)
  define c1 where "c1 = c\<lparr>ctl_active := bt_remove (al_id lease) (ctl_active c),
     ctl_counters := set_active_ccu (count_u32 (bt_len (bt_remove (al_id lease) (ctl_active c))))
        (end_connection (le_usage_handle l) now (ctl_counters c))\<rparr>"
  define c2 where "c2 = (if reason = Unexpected \<and> qp_reconnect_grace (ctl_policy c) \<noteq> 0
       then count_by increment_reconnect_reservations (c1\<lparr>ctl_reservations :=
              bt_insert (al_id lease) \<lparr>rv_principal = al_principal lease,
                rv_expires = (case instant_checked_add now (qp_reconnect_grace (ctl_policy c)) of
                                None \<Rightarrow> now | Some t \<Rightarrow> t)\<rparr> (ctl_reservations c1)\<rparr>)
       else c1)"
  have "controller_inv c2"
    by (rule slots_frame [OF inv])
      (use l bt_len_pos [OF l(1)] in \<open>simp_all add: c2_def c1_def bt_len_insert bt_len_remove\<close>)
  then show ?thesis
    using True l session by (intro released [of c2]) (simp_all add: release_at_def c1_def c2_def Let_def)
qed

lemma release_inv: "controller_inv c \<Longrightarrow> controller_inv (release_at lease reason now c)"
  by (rule release_at_cases [of c lease reason now]) (simp_all add: promote_at_inv apply_pending_inv)

lemma rollback_inv:
  assumes inv: "controller_inv c"
  shows "controller_inv (rollback_claim_at ticket lease now c)"
proof -
  have s: "ctl_struct c" using inv by (simp add: controller_inv_def sound_def)
  have forget: "controller_inv (c\<lparr>ctl_tickets := bt_remove ticket (ctl_tickets c),
      ctl_idempotency_index := (if bt_get (ctl_idempotency_index c) (index_key e) = Some ticket
          then bt_remove (index_key e) (ctl_idempotency_index c) else ctl_idempotency_index c)\<rparr>)" (is "controller_inv ?d")
    if e: "bt_get (ctl_tickets c) ticket = Some e" "te_state e = AdmittedT l" for e l
  proof -
    have "bt_get (ctl_idempotency_index c) (index_key e) \<noteq> Some ticket"
      using struct_index [OF s [unfolded ctl_struct_def]] e by auto
    then have d: "?d = c\<lparr>ctl_tickets := bt_remove ticket (ctl_tickets c)\<rparr>" by simp
    have "ctl_struct ?d"
      unfolding d ctl_struct_def using e
      by (auto intro!: struct_forget [OF s [unfolded ctl_struct_def]] simp: bt_get_remove split: if_splits)
    moreover have mono: "bt_count P (ctl_tickets ?d) \<le> bt_count P (ctl_tickets c)" for P
      unfolding d by (rule bt_count_mono) (auto simp: bt_get_remove split: if_splits)
    have "occ ?d \<le> occ c" "live_count ?d \<le> live_count c" "terminal_count ?d \<le> terminal_count c"
      using mono by (simp_all add: occ_def offered_count_def live_count_def terminal_count_def)
    moreover have "admission_limit ?d = admission_limit c" by (rule admission_limit_cong) simp_all
    ultimately show ?thesis using inv
      by (simp add: controller_inv_def sound_def capacity_ok_def bounded_ok_def)
  qed
  show ?thesis
    unfolding rollback_claim_at_def using inv
    by (simp add: release_inv forget split: option.split del: if_split cong: if_cong)
qed

lemma resume_inv:
  assumes "controller_inv c0"
  shows "controller_inv (snd (resume_at token p now c0))"
proof -
  define c where "c = expire_at now c0"
  have inv: "controller_inv c" unfolding c_def using assms by (rule expire_at_inv)
  have "controller_inv (activate token p now (count_by increment_successful_resumes
      (c\<lparr>ctl_reservations := bt_remove token (ctl_reservations c)\<rparr>)))" (is "controller_inv (activate token p now ?d)")
    if r: "bt_get (ctl_reservations c) token = Some r" for r
  proof (rule inv_frame [OF inv])
    have "occ ?d + 1 = occ c"
      using r bt_len_pos [OF r] by (simp add: occ_def offered_count_def bt_len_remove)
    then show "occ (activate token p now ?d) \<le> unat (ctl_allocated_ccu (activate token p now ?d))"
      using activate_occ [of token p now ?d] inv_capacity [OF inv] by simp
  qed simp_all
  then show ?thesis
    unfolding resume_at_def Let_def c_def [symmetric] using inv by (auto split: option.split)
qed

lemma apply_capacity_inv:
  assumes inv: "controller_inv c"
  shows "controller_inv (snd (apply_capacity_at upd now c))"
proof -
  define c1 where "c1 = count_by increment_capacity_allocations (c\<lparr>ctl_revision := cu_revision upd\<rparr>)"
  have occ1: "occ c1 = occ c" by (simp add: c1_def occ_def offered_count_def)
  have inv1: "controller_inv c1"
    by (rule inv_frame [OF inv]) (use inv_capacity [OF inv] occ1 in \<open>simp_all add: c1_def\<close>)
  have occ: "occ c1 < 2 ^ 32" by (rule sound_occ [OF inv_sound [OF inv1]])
  have parts: "ctl_struct c1" "bounded_ok c1" "occ c1 \<le> unat (ctl_allocated_ccu c1)"
    using inv1 by (simp_all add: controller_inv_def sound_def capacity_ok_def)
  have raise: "controller_inv (c1\<lparr>ctl_allocated_ccu := n, ctl_pending_target := None\<rparr>)" if "\<not> n < occupied c1" for n
  proof -
    have "occ c1 \<le> unat n" using that occupied_le [OF occ] by (simp add: not_less)
    then show ?thesis using parts
      by (simp add: controller_inv_def sound_def capacity_ok_def ctl_struct_def bounded_ok_def live_count_def
          terminal_count_def occ_def offered_count_def admission_limit_def)
  qed
  have cut: "controller_inv (c1\<lparr>ctl_pending_target := Some n\<rparr>)" if "n < occupied c1" for n
  proof -
    have "n \<le> ctl_allocated_ccu c1"
      using that occupied_le [OF occ, of "ctl_allocated_ccu c1"] parts(3) by simp
    then show ?thesis using parts
      by (simp add: controller_inv_def sound_def capacity_ok_def ctl_struct_def bounded_ok_def live_count_def
          terminal_count_def occ_def offered_count_def admission_limit_def)
  qed
  show ?thesis
    unfolding apply_capacity_at_def Let_def c1_def [symmetric]
    using inv raise cut promote_at_inv by simp
qed

lemma cancel_principal_inv: "controller_inv c \<Longrightarrow> controller_inv (cancel_principal_at p now c)"
proof -
  have "controller_inv c \<Longrightarrow> controller_inv (fold (\<lambda>i c. snd (cancel_at i now c)) is c)" for "is"
    by (induction "is" arbitrary: c) (simp_all add: cancel_inv)
  then show "controller_inv c \<Longrightarrow> controller_inv (cancel_principal_at p now c)"
    by (simp add: cancel_principal_at_def Let_def)
qed

section \<open>Runs of the controller\<close>

text \<open>
  A system whose operations keep an invariant that bounds what is in use by what is allocated. The
  client's fact is about every sequence of operations.
\<close>

locale capacity_controlled =
  fixes step :: "'op \<Rightarrow> 's \<Rightarrow> 's"
    and inv :: "'s \<Rightarrow> bool"
    and used :: "'s \<Rightarrow> nat"
    and allocated :: "'s \<Rightarrow> nat"
  assumes step_inv: "inv s \<Longrightarrow> inv (step x s)"
    and within: "inv s \<Longrightarrow> used s \<le> allocated s"
begin

lemma run_inv: "inv s \<Longrightarrow> inv (fold step xs s)"
  by (induction xs arbitrary: s) (simp_all add: step_inv)

lemma run_within: "inv s \<Longrightarrow> used (fold step xs s) \<le> allocated (fold step xs s)"
  by (rule within [OF run_inv])

end

datatype AdmissionOp =
    DoJoin JoinRequest
  | DoStatus QueueTicketId
  | DoHeartbeat QueueTicketId
  | DoCancel QueueTicketId
  | DoCancelPrincipal PrincipalId
  | DoClaim QueueTicketId
  | DoRollback QueueTicketId AdmissionLease
  | DoRelease AdmissionLease ReleaseReason
  | DoResume ResumeToken PrincipalId
  | DoCapacity CapacityUpdate
  | DoMaintain

fun admission_step :: "AdmissionOp \<times> Instant \<Rightarrow> AdmissionController \<Rightarrow> AdmissionController" where
  "admission_step (DoJoin r, now) c = snd (request_join_at r now c)"
| "admission_step (DoStatus i, now) c = snd (queue_status_at i now c)"
| "admission_step (DoHeartbeat i, now) c = snd (heartbeat_at i now c)"
| "admission_step (DoCancel i, now) c = snd (cancel_at i now c)"
| "admission_step (DoCancelPrincipal p, now) c = cancel_principal_at p now c"
| "admission_step (DoClaim i, now) c = snd (claim_offer_at i now c)"
| "admission_step (DoRollback i l, now) c = rollback_claim_at i l now c"
| "admission_step (DoRelease l r, now) c = release_at l r now c"
| "admission_step (DoResume t p, now) c = snd (resume_at t p now c)"
| "admission_step (DoCapacity u, now) c = snd (apply_capacity_at u now c)"
| "admission_step (DoMaintain, now) c = maintain_at now c"

lemma admission_step_inv: "controller_inv c \<Longrightarrow> controller_inv (admission_step x c)"
  by (cases "(x, c)" rule: admission_step.cases)
    (simp_all add: request_join_inv heartbeat_inv cancel_inv cancel_principal_inv claim_inv rollback_inv
      release_inv resume_inv apply_capacity_inv queue_status_at_def expire_at_inv maintain_at_def Let_def)

interpretation admission: capacity_controlled admission_step controller_inv occ "\<lambda>c. unat (ctl_allocated_ccu c)"
  by unfold_locales (simp_all add: admission_step_inv inv_capacity)

definition admission_run ::
  "AdmissionMetadata \<Rightarrow> QueuePolicy \<Rightarrow> CapacityUpdate \<Rightarrow> (AdmissionOp \<times> Instant) list \<Rightarrow> AdmissionController" where
  "admission_run md pol cap ops = fold admission_step ops (new_controller md pol cap (new_counters md))"

lemma admission_run_inv: "controller_inv (admission_run md pol cap ops)"
  unfolding admission_run_def by (rule admission.run_inv [OF controller_inv_new])

section \<open>What expiry does to one ticket\<close>





section \<open>Properties\<close>

text \<open>C20. Over every sequence of controller operations, active leases, reconnect reservations and
  outstanding offers together never exceed the allocated capacity, and the 32-bit occupancy the code
  computes is exactly their number (it does not wrap).\<close>

theorem admission_never_overcommits:
  "bt_len (ctl_active (admission_run md pol cap ops)) + bt_len (ctl_reservations (admission_run md pol cap ops))
      + offered_count (admission_run md pol cap ops) \<le> unat (ctl_allocated_ccu (admission_run md pol cap ops))
   \<and> unat (occupied (admission_run md pol cap ops)) =
      bt_len (ctl_active (admission_run md pol cap ops)) + bt_len (ctl_reservations (admission_run md pol cap ops))
      + offered_count (admission_run md pol cap ops)"
  using inv_capacity [OF admission_run_inv] occupied_occ [OF sound_occ [OF inv_sound [OF admission_run_inv]]]
  by (simp add: occ_def)

lemma bt_count_le_1:
  assumes "\<And>i j e f. bt_get m i = Some e \<Longrightarrow> bt_get m j = Some f \<Longrightarrow> P e \<Longrightarrow> P f \<Longrightarrow> i = j"
  shows "bt_count P m \<le> 1"
proof -
  have "card {k. \<exists>v. bt_get m k = Some v \<and> P v} \<le> 1"
    using assms by (auto intro!: card_le_Suc0_iff_eq [THEN iffD2] finite_subset [OF _ finite_dom_bt_get [of m]])
  then show ?thesis by (simp add: bt_count_card)
qed

text \<open>C23. Over every sequence of operations a principal has at most one live ticket, the live tickets
  stay within the configured queue depth, and the history of terminal tickets within 1024.\<close>

theorem admission_queue_bounded:
  "bt_count (\<lambda>e. qt_principal (te_ticket e) = p \<and> is_live (te_state e)) (ctl_tickets (admission_run md pol cap ops)) \<le> 1
   \<and> live_count (admission_run md pol cap ops) \<le> qp_max_depth (ctl_policy (admission_run md pol cap ops))
   \<and> bt_count (\<lambda>e. te_terminal_at e \<noteq> None) (ctl_tickets (admission_run md pol cap ops)) \<le> 1024"
proof -
  let ?c = "admission_run md pol cap ops"
  have inv: "sound ?c" "bounded_ok ?c" using admission_run_inv by (simp_all add: controller_inv_def)
  have "bt_count (\<lambda>e. qt_principal (te_ticket e) = p \<and> is_live (te_state e)) (ctl_tickets ?c) \<le> 1"
    using inv(1) struct_principal unfolding sound_def ctl_struct_def by (intro bt_count_le_1) blast
  with inv(2) show ?thesis by (simp add: bounded_ok_def terminal_count_def)
qed

definition sample_metadata :: AdmissionMetadata where
  "sample_metadata = \<lparr>am_node_id = 1, am_session = SessionKey 1 1\<rparr>"

definition empty_controller :: AdmissionController where
  "empty_controller = new_controller sample_metadata default_queue_policy
     \<lparr>cu_allocated_ccu = 1, cu_revision = 1\<rparr> (new_counters sample_metadata)"

definition queued_controller :: AdmissionController where
  "queued_controller = snd (enqueue ''b'' 2 0 empty_controller)"

definition joined_controller :: AdmissionController where
  "joined_controller = snd (admit 7 0 empty_controller)"

definition sample_lease :: AdmissionLease where
  "sample_lease = fst (admit 7 0 empty_controller)"

lemma empty_controller_inv: "controller_inv empty_controller"
  unfolding empty_controller_def by (rule controller_inv_new)

lemma queued_controller_inv: "controller_inv queued_controller"
  unfolding queued_controller_def
  by (rule enqueue_ticket_inv [OF empty_controller_inv])
    (simp_all add: empty_controller_def new_controller_def has_queued_principal_def Ball_def live_count_def
      default_queue_policy_def)

lemma joined_controller_inv: "controller_inv joined_controller"
  unfolding joined_controller_def
  by (rule admit_inv [OF empty_controller_inv])
    (simp add: empty_controller_def new_controller_def occ_def offered_count_def)

text \<open>C24. Promotion is first in, first out and work-conserving: it offers exactly the free slots, to the
  longest waiting tickets in their order, touches no other ticket, and leaves no slot free while a
  ticket waits.\<close>

theorem promotion_is_fifo:
  assumes "controller_inv c"
  defines "k \<equiv> min (length (ctl_waiting c)) (unat (admission_limit c - occupied c) * of_bool (occupied c < admission_limit c))"
  shows "ctl_waiting (promote_at now c) = drop k (ctl_waiting c)
    \<and> bt_get (ctl_tickets (promote_at now c)) i =
       (if i \<in> set (take k (ctl_waiting c))
        then map_option (\<lambda>e. e\<lparr>te_state := Offered (offer_expiry c now)\<rparr>) (bt_get (ctl_tickets c) i)
        else bt_get (ctl_tickets c) i)
    \<and> sorted_wrt (<) (ctl_waiting c)
    \<and> (ctl_waiting (promote_at now c) = [] \<or> admission_limit c \<le> occupied (promote_at now c))"
proof -
  have s: "sound c" using assms(1) by (rule inv_sound)
  have o: "occ c < 2 ^ 32" "occ (promote_at now c) < 2 ^ 32"
    using s promote_at_sound sound_occ by blast+
  have "k = promoted c"
    using o(1) unat_sub [of "occupied c" "admission_limit c"]
    by (auto simp: k_def promoted_def free_slots_def occupied_less occupied_occ word_less_nat_alt word_le_nat_alt)
  moreover have "ctl_waiting (promote_at now c) = [] \<or> unat (admission_limit c) \<le> occ (promote_at now c)"
    using promote_at_conserving [OF s] by blast
  ultimately show ?thesis
    using s o struct_waiting(1) by (auto simp: fold_offer_get sound_def ctl_struct_def word_le_nat_alt occupied_occ)
qed

theorem promotion_is_fifo_witness:
  "controller_inv queued_controller \<and> ctl_waiting queued_controller = [1]
   \<and> ctl_waiting (promote_at 0 queued_controller) = []
   \<and> map_option te_state (bt_get (ctl_tickets (promote_at 0 queued_controller)) 1) = Some (Offered 30000000000)"
proof -
  have q: "ctl_waiting queued_controller = [1]" "occupied queued_controller = 0" "admission_limit queued_controller = 1"
    "offer_expiry queued_controller 0 = 30000000000"
    "map_option te_state (bt_get (ctl_tickets queued_controller) 1) = Some Waiting"
    by code_simp+
  show ?thesis
    using promotion_is_fifo [OF queued_controller_inv, of 0 1] queued_controller_inv q by auto
qed

text \<open>C25. No barging: a join is admitted at once only when nobody is waiting for a slot.\<close>

theorem no_barging:
  assumes "controller_inv c" and "request_join_at request now c = (Admitted lease, c')"
  shows "bt_count (\<lambda>e. te_state e = Waiting) (ctl_tickets c') = 0 \<and> occupied c' \<le> admission_limit c'"
proof -
  define d where "d = expire_at now (count_by increment_join_attempts c)"
  have inv: "controller_inv d" unfolding d_def using assms(1) by (simp add: expire_at_inv)
  then have s: "ctl_struct d" by (simp add: controller_inv_def sound_def)
  have room: "occupied d < admission_limit d"
    and c': "c' = snd (admit (jq_principal request) now (count_by increment_immediate_admissions d))"
    using assms(2) unfolding request_join_at_def Let_def d_def [symmetric]
    by (auto split: option.splits if_splits prod.splits)
  have o: "occ d < unat (admission_limit d)"
    using room occupied_less sound_occ [OF inv_sound [OF inv]] by blast
  have sc: "sound (count_by increment_join_attempts c)" using assms(1) by (simp add: controller_inv_def)
  have "ctl_waiting d = []"
    using expire_at_conserving [OF sc, of now] o expire_at_fields(8) [OF sc, of now] unfolding d_def by fastforce
  moreover have tickets: "ctl_tickets c' = ctl_tickets d" and lim: "admission_limit c' = admission_limit d"
    unfolding c' by (simp_all add: admit_def Let_def) (rule admission_limit_cong, simp_all)
  ultimately have none: "bt_count (\<lambda>e. te_state e = Waiting) (ctl_tickets c') = 0"
    using struct_waiting(2) [OF s [unfolded ctl_struct_def]] by (simp add: bt_count_card)
  have "occ c' \<le> unat (admission_limit d)"
    using activate_occ [of "ctl_next_lease d" "jq_principal request" now
        "(count_by increment_immediate_admissions d)\<lparr>ctl_next_lease := ctl_next_lease d + 1\<rparr>"] o
    unfolding c' by (simp add: admit_def Let_def) (simp add: occ_def offered_count_def)
  with none show ?thesis
    using unat_u32 [of "admission_limit d"] by (simp add: lim occupied_le)
qed

theorem no_barging_witness:
  "\<exists>lease c'. controller_inv empty_controller
     \<and> request_join_at \<lparr>jq_principal = 1, jq_idempotency_key = Some ''a''\<rparr> 5 empty_controller = (Admitted lease, c')
     \<and> bt_count (\<lambda>e. te_state e = Waiting) (ctl_tickets c') = 0"
proof -
  let ?r = "request_join_at \<lparr>jq_principal = 1, jq_idempotency_key = Some ''a''\<rparr> 5 empty_controller"
  have "case fst ?r of Admitted _ \<Rightarrow> True | _ \<Rightarrow> False" by code_simp
  then obtain lease c' where r: "?r = (Admitted lease, c')" by (cases "?r") (auto split: JoinDecision.splits)
  from no_barging [OF empty_controller_inv r] r empty_controller_inv show ?thesis by blast
qed



text \<open>C27. A dropped connection can be resumed: after an unexpected release, within the reconnect grace,
  the principal of the lease gets the same lease back with its resume token, and nobody else does.\<close>

theorem resume_after_loss:
  assumes "controller_inv c" and "has_active_lease c lease" and "al_resume_token lease = al_id lease"
    and "instant_checked_add t0 (qp_reconnect_grace (ctl_policy c)) = Some deadline" and "t0 < deadline"
    and "t1 < deadline"
  shows "fst (resume_at (al_resume_token lease) p t1 (release_at lease Unexpected t0 c)) =
     (if p = al_principal lease then Some lease else None)"
proof -
  obtain l where l: "bt_get (ctl_active c) (al_id lease) = Some l" "le_principal l = al_principal lease"
    and session: "al_session lease = am_session (ctl_metadata c)"
    using assms(2) by (auto simp: has_active_lease_def split: option.splits)
  have grace: "qp_reconnect_grace (ctl_policy c) \<noteq> 0"
    using assms(4,5) by (auto simp: instant_checked_add_def split: if_splits)
  define d where "d = release_at lease Unexpected t0 c"
  have inv: "controller_inv d" unfolding d_def by (rule release_inv [OF assms(1)])
  have d: "bt_get (ctl_reservations d) (al_id lease) = Some \<lparr>rv_principal = al_principal lease, rv_expires = deadline\<rparr>"
    and md: "ctl_metadata d = ctl_metadata c"
    unfolding d_def
    by (rule release_at_cases [OF assms(1), of lease Unexpected t0];
        use assms(2,4) grace in \<open>simp add: apply_pending_sound inv_sound\<close>)+
  have s: "sound d" using inv by (rule inv_sound)
  show ?thesis
    using assms(3,6) d s unfolding resume_at_def Let_def d_def [symmetric]
    by (auto simp: bt_get_retain make_lease_def md session [symmetric])
qed

theorem resume_after_loss_witness:
  "has_active_lease joined_controller sample_lease
   \<and> fst (resume_at (al_resume_token sample_lease) 7 4 (release_at sample_lease Unexpected 3 joined_controller)) = Some sample_lease
   \<and> fst (resume_at (al_resume_token sample_lease) 8 4 (release_at sample_lease Unexpected 3 joined_controller)) = None"
proof -
  have h: "has_active_lease joined_controller sample_lease" "al_resume_token sample_lease = al_id sample_lease"
    "instant_checked_add 3 (qp_reconnect_grace (ctl_policy joined_controller)) = Some 20000000003"
    "al_principal sample_lease = 7"
    by code_simp+
  have "fst (resume_at (al_resume_token sample_lease) p 4 (release_at sample_lease Unexpected 3 joined_controller)) =
     (if p = 7 then Some sample_lease else None)" for p
    using resume_after_loss [OF joined_controller_inv h(1-3), of 4 p] h(4) by simp
  with h show ?thesis by simp
qed



end
