(* ===== verification/Core_Links.thy ===== *)
theory Core_Links
  imports Core_Publish Admission_Inv
begin

text \<open>
  Connections and sessions record memberships, subscriptions and ownership from both sides. This
  theory states that the two sides agree, as the relation \<open>linked\<close>, and shows that the closure loop
  of a removal computes the least pair of sets closed under anchoring.
\<close>

section \<open>Views of the sessions\<close>

type_synonym Sessions = "(SessionKey, SessionState) btree_map"
type_synonym Connections = "(ConnectionId, ConnectionState) btree_map"

definition member_of :: "Sessions \<Rightarrow> SessionKey \<Rightarrow> ConnectionId \<Rightarrow> bool" where
  "member_of ss k c \<longleftrightarrow> (\<exists>s. bt_get ss k = Some s \<and> c \<in> bs_set (ses_members s))"

definition subscribed_in :: "SessionState \<Rightarrow> SpaceId \<Rightarrow> ConnectionId \<Rightarrow> bool" where
  "subscribed_in s sp c \<longleftrightarrow> (\<exists>subs. bt_get (ses_subscribers s) sp = Some subs \<and> c \<in> bs_set subs)"

definition subscriber_of :: "Sessions \<Rightarrow> SessionKey \<Rightarrow> SpaceId \<Rightarrow> ConnectionId \<Rightarrow> bool" where
  "subscriber_of ss k sp c \<longleftrightarrow> (\<exists>s. bt_get ss k = Some s \<and> subscribed_in s sp c)"

definition owned_in :: "SessionState \<Rightarrow> ConnectionId \<Rightarrow> nat" where
  "owned_in s c = bt_count (\<lambda>r. er_owner_connection r = c) (ses_entities s)"

definition owned_total :: "Sessions \<Rightarrow> ConnectionId \<Rightarrow> nat" where
  "owned_total ss c = bt_sum (\<lambda>_ s. owned_in s c) ss"

definition owns_in :: "Sessions \<Rightarrow> SessionKey \<Rightarrow> ConnectionId \<Rightarrow> bool" where
  "owns_in ss k c \<longleftrightarrow> (\<exists>s. bt_get ss k = Some s \<and> owned_in s c \<noteq> 0)"

lemma views_insert [simp]:
  "member_of (bt_insert k s ss) k' c \<longleftrightarrow> (if k' = k then c \<in> bs_set (ses_members s) else member_of ss k' c)"
  "subscriber_of (bt_insert k s ss) k' sp c \<longleftrightarrow> (if k' = k then subscribed_in s sp c else subscriber_of ss k' sp c)"
  "owns_in (bt_insert k s ss) k' c \<longleftrightarrow> (if k' = k then owned_in s c \<noteq> 0 else owns_in ss k' c)"
  by (auto simp: member_of_def subscriber_of_def owns_in_def bt_get_insert)

lemma views_get:
  assumes "bt_get ss k = Some s"
  shows "member_of ss k c \<longleftrightarrow> c \<in> bs_set (ses_members s)"
    and "subscriber_of ss k sp c \<longleftrightarrow> subscribed_in s sp c"
    and "owns_in ss k c \<longleftrightarrow> owned_in s c \<noteq> 0"
  using assms by (simp_all add: member_of_def subscriber_of_def owns_in_def)

lemma owned_total_insert:
  assumes "bt_get ss k = Some s"
  shows "owned_total (bt_insert k s' ss) c + owned_in s c = owned_total ss c + owned_in s' c"
  using bt_sum_insert_add [of "\<lambda>_ s. owned_in s c" k s' ss] assms by (simp add: owned_total_def)

lemma owned_total_insert_new:
  assumes "bt_get ss k = None"
  shows "owned_total (bt_insert k s' ss) c = owned_total ss c + owned_in s' c"
  using bt_sum_insert_add [of "\<lambda>_ s. owned_in s c" k s' ss] assms by (simp add: owned_total_def)

lemma owned_in_pos: "owned_in s c \<noteq> 0 \<longleftrightarrow> (\<exists>i r. bt_get (ses_entities s) i = Some r \<and> er_owner_connection r = c)"
proof -
  have fin: "finite {i. \<exists>r. bt_get (ses_entities s) i = Some r \<and> er_owner_connection r = c}"
    by (rule finite_subset [OF _ finite_dom_bt_get [of "ses_entities s"]]) auto
  show ?thesis
    unfolding owned_in_def bt_count_card card_0_eq [OF fin] by blast
qed

section \<open>The two sides of a membership\<close>

text \<open>Connections and sessions record memberships, subscriptions and ownership from both sides; the
  sides agree, every member is connected, and only members subscribe and own.\<close>

definition linked :: "Connections \<Rightarrow> Sessions \<Rightarrow> bool" where
  "linked cs ss \<longleftrightarrow>
     (\<forall>c st. bt_get cs c = Some st \<longrightarrow>
        (\<forall>k. k \<in> bs_set (cn_memberships st) \<longleftrightarrow> member_of ss k c)
      \<and> (\<forall>k sp. SpaceKey k sp \<in> bs_set (cn_subscriptions st) \<longleftrightarrow> subscriber_of ss k sp c)
      \<and> cn_owned_entities st = owned_total ss c)
   \<and> (\<forall>k c. member_of ss k c \<longrightarrow> bt_get cs c \<noteq> None)
   \<and> (\<forall>k sp c. subscriber_of ss k sp c \<longrightarrow> member_of ss k c)
   \<and> (\<forall>k c. owns_in ss k c \<longrightarrow> member_of ss k c)"

lemma linkedI:
  assumes "\<And>c st k. bt_get cs c = Some st \<Longrightarrow> k \<in> bs_set (cn_memberships st) \<longleftrightarrow> member_of ss k c"
    and "\<And>c st k sp. bt_get cs c = Some st \<Longrightarrow> SpaceKey k sp \<in> bs_set (cn_subscriptions st) \<longleftrightarrow> subscriber_of ss k sp c"
    and "\<And>c st. bt_get cs c = Some st \<Longrightarrow> cn_owned_entities st = owned_total ss c"
    and "\<And>k c. member_of ss k c \<Longrightarrow> bt_get cs c \<noteq> None"
    and "\<And>k sp c. subscriber_of ss k sp c \<Longrightarrow> member_of ss k c"
    and "\<And>k c. owns_in ss k c \<Longrightarrow> member_of ss k c"
  shows "linked cs ss"
  using assms unfolding linked_def by blast

lemma linkedD:
  assumes "linked cs ss"
  shows "bt_get cs c = Some st \<Longrightarrow> k \<in> bs_set (cn_memberships st) \<longleftrightarrow> member_of ss k c"
    and "bt_get cs c = Some st \<Longrightarrow> SpaceKey k sp \<in> bs_set (cn_subscriptions st) \<longleftrightarrow> subscriber_of ss k sp c"
    and "bt_get cs c = Some st \<Longrightarrow> cn_owned_entities st = owned_total ss c"
    and "member_of ss k c \<Longrightarrow> bt_get cs c \<noteq> None"
    and "subscriber_of ss k sp c \<Longrightarrow> member_of ss k c"
    and "owns_in ss k c \<Longrightarrow> member_of ss k c"
  using assms unfolding linked_def by blast+

text \<open>Only the link fields of a connection and the views of the sessions matter.\<close>

definition same_links :: "ConnectionState \<Rightarrow> ConnectionState \<Rightarrow> bool" where
  "same_links a b \<longleftrightarrow> cn_memberships a = cn_memberships b \<and> cn_subscriptions a = cn_subscriptions b
     \<and> cn_owned_entities a = cn_owned_entities b"

lemma linked_cong:
  assumes "linked cs ss"
    and conns: "\<And>c. rel_option same_links (bt_get cs' c) (bt_get cs c)"
    and "\<And>k c. member_of ss' k c = member_of ss k c"
    and "\<And>k sp c. subscriber_of ss' k sp c = subscriber_of ss k sp c"
    and "\<And>c. owned_total ss' c = owned_total ss c"
    and "\<And>k c. owns_in ss' k c = owns_in ss k c"
  shows "linked cs' ss'"
proof -
  have dom: "bt_get cs' c \<noteq> None \<longleftrightarrow> bt_get cs c \<noteq> None" for c
    using conns [of c] by (auto simp: option.rel_sel)
  have same: "\<exists>st. bt_get cs c = Some st \<and> same_links st' st" if "bt_get cs' c = Some st'" for c st'
    using conns [of c] that by (auto simp: option.rel_sel)
  show ?thesis
  proof (rule linkedI)
    fix k c assume "member_of ss' k c"
    then show "bt_get cs' c \<noteq> None" using assms dom linkedD(4) [OF assms(1)] by simp
  next
    fix c st' k assume "bt_get cs' c = Some st'"
    then obtain st where "bt_get cs c = Some st" "same_links st' st" using same by blast
    then show "k \<in> bs_set (cn_memberships st') \<longleftrightarrow> member_of ss' k c"
      and "SpaceKey k sp \<in> bs_set (cn_subscriptions st') \<longleftrightarrow> subscriber_of ss' k sp c"
      and "cn_owned_entities st' = owned_total ss' c" for sp
      using assms linkedD(1-3) [OF assms(1)] by (simp_all add: same_links_def)
  next
    fix k sp c assume "subscriber_of ss' k sp c"
    then show "member_of ss' k c" using assms linkedD(5) [OF assms(1)] by simp
  next
    fix k c assume "owns_in ss' k c"
    then show "member_of ss' k c" using assms linkedD(6) [OF assms(1)] by simp
  qed
qed

lemma same_links_refl [simp]: "same_links a a"
  by (simp add: same_links_def)

lemma rel_same_refl [simp]: "rel_option same_links x x"
  by (cases x) auto

lemma linked_conns:
  assumes "linked cs ss" and "\<And>c. rel_option same_links (bt_get cs' c) (bt_get cs c)"
  shows "linked cs' ss"
  using assms by (rule linked_cong) simp_all

lemma linked_session:
  assumes "linked cs ss" and "bt_get ss k = Some s"
    and "ses_members s' = ses_members s" and "\<And>sp c. subscribed_in s' sp c = subscribed_in s sp c"
    and "\<And>c. owned_in s' c = owned_in s c"
  shows "linked cs (bt_insert k s' ss)"
  using assms(1)
proof (rule linked_cong)
  show "owned_total (bt_insert k s' ss) c = owned_total ss c" for c
    using owned_total_insert [OF assms(2), of s' c] assms(5) by simp
qed (use views_get [OF assms(2)] assms(3-5) in auto)

section \<open>The closure of a removal\<close>

text \<open>A pair of sets is closed when it contains the spaces anchored on it and the entities in those
  spaces.\<close>

definition closed :: "SpaceDescriptor list \<Rightarrow> EntityRecord list \<Rightarrow> EntityId set \<Rightarrow> SpaceId set \<Rightarrow> bool" where
  "closed ds es E S \<longleftrightarrow>
     (\<forall>d \<in> set ds. \<forall>p. sd_parent d = Some p \<and> (anchor_entity p \<in> E \<or> parent_space p \<in> S) \<longrightarrow> sd_id d \<in> S)
   \<and> (\<forall>e \<in> set es. er_space e \<in> S \<longrightarrow> er_id e \<in> E)"

lemma anchored_on_iff:
  "anchored_on re rs d \<longleftrightarrow> (\<exists>p. sd_parent d = Some p \<and> (anchor_entity p \<in> bs_set re \<or> parent_space p \<in> bs_set rs))"
  by (simp add: anchored_on_def split: option.split)

lemma anchored_on_mono:
  "anchored_on re rs d \<Longrightarrow> bs_set re \<subseteq> bs_set re' \<Longrightarrow> bs_set rs \<subseteq> bs_set rs' \<Longrightarrow> anchored_on re' rs' d"
  by (auto simp: anchored_on_iff)

lemma spaces_pass_Cons:
  "spaces_pass (d # ds) re rs = spaces_pass ds re (if anchored_on re rs d then bs_insert (sd_id d) rs else rs)"
  by (simp add: spaces_pass_def)

lemma spaces_pass_hits:
  "d \<in> set ds \<Longrightarrow> anchored_on re rs d \<Longrightarrow> sd_id d \<in> bs_set (spaces_pass ds re rs)"
proof (induction ds arbitrary: rs)
  case (Cons d' ds)
  show ?case
  proof (cases "d' = d")
    case True
    with Cons.prems show ?thesis
      using spaces_pass_bounds [of "bs_insert (sd_id d) rs" ds re] by (auto simp: spaces_pass_Cons)
  next
    case False
    then have "anchored_on re (if anchored_on re rs d' then bs_insert (sd_id d') rs else rs) d"
      using Cons.prems(2) by (auto intro: anchored_on_mono)
    with Cons False show ?thesis by (simp add: spaces_pass_Cons)
  qed
qed simp

lemma spaces_pass_least:
  assumes "closed ds' es E S" "set ds \<subseteq> set ds'" "bs_set re \<subseteq> E" "bs_set rs \<subseteq> S"
  shows "bs_set (spaces_pass ds re rs) \<subseteq> S"
  using assms(2,4)
proof (induction ds arbitrary: rs)
  case (Cons d ds)
  have "sd_id d \<in> S" if "anchored_on re rs d"
    using that assms(1,3) Cons.prems by (auto simp: anchored_on_iff closed_def)
  with Cons show ?case by (simp add: spaces_pass_Cons)
qed (simp add: spaces_pass_def)

lemma closure_loop_spec:
  assumes "closure_loop ds es re rs = (re', rs')"
  shows "bs_set re \<subseteq> bs_set re' \<and> bs_set rs \<subseteq> bs_set rs' \<and> bs_set rs' \<subseteq> bs_set rs \<union> sd_id ` set ds
    \<and> bs_set re' \<subseteq> bs_set re \<union> er_id ` set es \<and> closed ds es (bs_set re') (bs_set rs')
    \<and> (\<forall>E S. closed ds es E S \<and> bs_set re \<subseteq> E \<and> bs_set rs \<subseteq> S \<longrightarrow> bs_set re' \<subseteq> E \<and> bs_set rs' \<subseteq> S)"
  using assms
proof (induction ds es re rs arbitrary: re' rs' rule: closure_loop.induct)
  case (1 ds es re rs)
  define rs1 where "rs1 = spaces_pass ds re rs"
  define re1 where "re1 = entities_pass es rs1 re"
  have rs1: "bs_set rs \<subseteq> bs_set rs1" "bs_set rs1 \<subseteq> bs_set rs \<union> sd_id ` set ds"
    using spaces_pass_bounds [of rs ds re] by (simp_all add: rs1_def)
  have re1: "bs_set re1 = bs_set re \<union> er_id ` {e \<in> set es. er_space e \<in> bs_set rs1}"
    by (simp add: re1_def entities_pass_set)
  have least: "bs_set re1 \<subseteq> E \<and> bs_set rs1 \<subseteq> S" if "closed ds es E S" "bs_set re \<subseteq> E" "bs_set rs \<subseteq> S" for E S
  proof -
    have S: "bs_set rs1 \<subseteq> S" unfolding rs1_def using spaces_pass_least [OF that(1) _ that(2,3)] by simp
    with that show ?thesis unfolding re1 closed_def by blast
  qed
  show ?case
  proof (cases "bt_len rs = bt_len rs1 \<and> bt_len re = bt_len re1")
    case True
    then have eq: "re' = re1" "rs' = rs1"
      using "1.prems" by (simp_all add: closure_loop.simps [of ds es re rs] Let_def rs1_def [symmetric] re1_def [symmetric])
    have same: "bs_set rs1 = bs_set rs" "bs_set re1 = bs_set re"
      using True rs1(1) re1 card_subset_eq [of "bs_set rs1" "bs_set rs"] card_subset_eq [of "bs_set re1" "bs_set re"]
      by (auto simp: bs_len_card)
    have "sd_id d \<in> bs_set rs1" if "d \<in> set ds" "anchored_on re1 rs1 d" for d
    proof -
      have "anchored_on re rs d" using that(2) same by (simp add: anchored_on_iff)
      then show ?thesis unfolding rs1_def using spaces_pass_hits that(1) by blast
    qed
    then have "closed ds es (bs_set re1) (bs_set rs1)"
      using re1 unfolding closed_def anchored_on_iff by blast
    with eq rs1 re1 least show ?thesis by blast
  next
    case False
    have loop: "closure_loop ds es re1 rs1 = (re', rs')"
      using "1.prems" False by (simp add: closure_loop.simps [of ds es re rs] Let_def rs1_def [symmetric] re1_def [symmetric])
    note IH = "1.IH" [OF rs1_def re1_def False loop]
    have "bs_set re \<subseteq> bs_set re1" using re1 by blast
    moreover have "bs_set re1 \<subseteq> bs_set re \<union> er_id ` set es" using re1 by blast
    ultimately show ?thesis using IH rs1 least by (meson le_sup_iff order_trans subset_trans sup.mono sup_ge2)
  qed
qed

end
