(* ===== verification/Session_Inv.thy ===== *)
theory Session_Inv
  imports Core_Links
begin

text \<open>
  What a well-formed session is: descriptors and records under their own ids, entities in live
  spaces of the current epoch, a spatial index that is a bijection with the located entities, exact
  byte accounting and the configured limits; and that removing a closed pair of sets keeps it.
\<close>

section \<open>Well-formed sessions\<close>

definition structure_ok :: "SessionState \<Rightarrow> bool" where
  "structure_ok s \<longleftrightarrow>
     (\<forall>i d. bt_get (ses_spaces s) i = Some d \<longrightarrow> sd_id d = i \<and> i \<noteq> 0 \<and> sd_epoch d \<noteq> 0)
   \<and> (\<forall>i r. bt_get (ses_entities s) i = Some r \<longrightarrow> er_id r = i
        \<and> (\<exists>d. bt_get (ses_spaces s) (er_space r) = Some d \<and> sd_epoch d = er_space_epoch r))
   \<and> (\<forall>i. bt_get (ses_subscribers s) i = None \<longleftrightarrow> bt_get (ses_spaces s) i = None)
   \<and> (\<forall>i. bt_get (ses_space_epoch_tombstones s) i \<noteq> None \<longrightarrow> bt_get (ses_spaces s) i = None)"

definition accounting_ok :: "SessionState \<Rightarrow> bool" where
  "accounting_ok s \<longleftrightarrow> ses_state_bytes s = byte_len (ses_state s)"

definition within_limits :: "CoreConfig \<Rightarrow> SessionState \<Rightarrow> bool" where
  "within_limits cfg s \<longleftrightarrow>
     bt_len (ses_spaces s) \<le> cfg_max_spaces_per_session cfg
   \<and> bt_len (ses_spaces s) + bt_len (ses_space_epoch_tombstones s) \<le> cfg_max_space_epoch_tombstones_per_session cfg
   \<and> bt_len (ses_entities s) \<le> cfg_max_entities_per_session cfg
   \<and> cache_len (ses_state s) \<le> cfg_max_state_entries_per_session cfg
   \<and> byte_len (ses_state s) \<le> cfg_max_state_bytes_per_session cfg
   \<and> bt_len (ses_sequences s) \<le> cfg_max_sequence_keys_per_session cfg"

definition session_wf :: "CoreConfig \<Rightarrow> SessionState \<Rightarrow> bool" where
  "session_wf cfg s \<longleftrightarrow> structure_ok s \<and> index_inv s \<and> accounting_ok s \<and> within_limits cfg s"

lemma structure_okD:
  assumes "structure_ok s"
  shows "bt_get (ses_spaces s) i = Some d \<Longrightarrow> sd_id d = i \<and> i \<noteq> 0 \<and> sd_epoch d \<noteq> 0"
    and "bt_get (ses_entities s) j = Some r \<Longrightarrow> er_id r = j"
    and "bt_get (ses_entities s) j = Some r \<Longrightarrow> \<exists>d. bt_get (ses_spaces s) (er_space r) = Some d \<and> sd_epoch d = er_space_epoch r"
    and "bt_get (ses_subscribers s) i = None \<longleftrightarrow> bt_get (ses_spaces s) i = None"
    and "bt_get (ses_space_epoch_tombstones s) i \<noteq> None \<Longrightarrow> bt_get (ses_spaces s) i = None"
  using assms unfolding structure_ok_def by blast+

text \<open>The index as a relation between its two maps, and what it says of the entities.\<close>

definition index_pair :: "SessionState \<Rightarrow> bool" where
  "index_pair s \<longleftrightarrow>
     (\<forall>cell entities. bt_get (ses_cell_entities s) cell = Some entities \<longrightarrow> bs_set entities \<noteq> {})
   \<and> (\<forall>entity cell. bt_get (ses_entity_cells s) entity = Some cell \<longleftrightarrow>
        (\<exists>entities. bt_get (ses_cell_entities s) cell = Some entities \<and> entity \<in> bs_set entities))"

definition located :: "SessionState \<Rightarrow> bool" where
  "located s \<longleftrightarrow> (\<forall>entity. bt_get (ses_entity_cells s) entity = cell_of s entity)"

lemma cell_of_cong:
  "ses_entities s = ses_entities t \<Longrightarrow> ses_spaces s = ses_spaces t \<Longrightarrow> cell_of s i = cell_of t i"
  by (simp add: cell_of_def cong: option.case_cong)

lemma cell_of_frame [simp]:
  "cell_of (s\<lparr>ses_members := a\<rparr>) i = cell_of s i"
  "cell_of (s\<lparr>ses_publish_rate_limit := b\<rparr>) i = cell_of s i"
  "cell_of (s\<lparr>ses_space_epoch_tombstones := c\<rparr>) i = cell_of s i"
  "cell_of (s\<lparr>ses_subscribers := d\<rparr>) i = cell_of s i"
  "cell_of (s\<lparr>ses_sequences := e\<rparr>) i = cell_of s i"
  "cell_of (s\<lparr>ses_state := f\<rparr>) i = cell_of s i"
  "cell_of (s\<lparr>ses_state_bytes := g\<rparr>) i = cell_of s i"
  by (rule cell_of_cong; simp)+

lemma cell_of_absent: "bt_get (ses_entities s) i = None \<Longrightarrow> cell_of s i = None"
  by (simp add: cell_of_def)

lemma index_inv_split: "index_inv s \<longleftrightarrow> index_pair s \<and> located s"
  unfolding index_inv_def index_pair_def located_def by blast

lemma index_pair_cong:
  "ses_entity_cells s = ses_entity_cells t \<Longrightarrow> ses_cell_entities s = ses_cell_entities t \<Longrightarrow> index_pair s = index_pair t"
  by (simp add: index_pair_def)

lemma index_inv_cong:
  assumes "ses_entity_cells s = ses_entity_cells t" and "ses_cell_entities s = ses_cell_entities t"
    and "\<And>i. cell_of s i = cell_of t i"
  shows "index_inv s = index_inv t"
  unfolding index_inv_split located_def assms(1,3) using index_pair_cong [OF assms(1,2)] by simp

lemma index_inv_frame [simp]:
  "index_inv (s\<lparr>ses_members := a\<rparr>) = index_inv s"
  "index_inv (s\<lparr>ses_publish_rate_limit := b\<rparr>) = index_inv s"
  "index_inv (s\<lparr>ses_space_epoch_tombstones := c\<rparr>) = index_inv s"
  "index_inv (s\<lparr>ses_subscribers := d\<rparr>) = index_inv s"
  "index_inv (s\<lparr>ses_sequences := e\<rparr>) = index_inv s"
  "index_inv (s\<lparr>ses_state := f\<rparr>) = index_inv s"
  "index_inv (s\<lparr>ses_state_bytes := g\<rparr>) = index_inv s"
  by (rule index_inv_cong; simp)+

lemma remove_from_cell_fields [simp]:
  "ses_members (remove_entity_from_cell i s) = ses_members s"
  "ses_publish_rate_limit (remove_entity_from_cell i s) = ses_publish_rate_limit s"
  "ses_spaces (remove_entity_from_cell i s) = ses_spaces s"
  "ses_space_epoch_tombstones (remove_entity_from_cell i s) = ses_space_epoch_tombstones s"
  "ses_subscribers (remove_entity_from_cell i s) = ses_subscribers s"
  "ses_entities (remove_entity_from_cell i s) = ses_entities s"
  "ses_sequences (remove_entity_from_cell i s) = ses_sequences s"
  "ses_state (remove_entity_from_cell i s) = ses_state s"
  "ses_state_bytes (remove_entity_from_cell i s) = ses_state_bytes s"
  by (simp_all add: remove_entity_from_cell_def Let_def split: option.split)

lemma remove_from_cell_cells [simp]:
  "ses_entity_cells (remove_entity_from_cell i s) = bt_remove i (ses_entity_cells s)"
  by (simp add: remove_entity_from_cell_def Let_def bt_remove_absent split: option.split)

lemma remove_from_cell_pair:
  assumes "index_pair s"
  shows "index_pair (remove_entity_from_cell i s)"
proof (cases "bt_get (ses_entity_cells s) i")
  case None
  with assms show ?thesis by (simp add: remove_entity_from_cell_def)
next
  case (Some cell)
  obtain es where es: "bt_get (ses_cell_entities s) cell = Some es" "i \<in> bs_set es"
    using assms Some unfolding index_pair_def by blast
  have other: "i \<notin> bs_set es'" if "bt_get (ses_cell_entities s) c = Some es'" "c \<noteq> cell" for c es'
    using assms Some that unfolding index_pair_def by (metis option.inject)
  have step: "ses_cell_entities (remove_entity_from_cell i s) =
     (if bs_set es = {i} then bt_remove cell (ses_cell_entities s)
      else bt_insert cell (bs_remove i es) (ses_cell_entities s))"
    using Some es bs_empty_iff [of "bs_remove i es"]
    by (auto simp: remove_entity_from_cell_def Let_def bt_is_empty_def)
  show ?thesis
    unfolding index_pair_def step remove_from_cell_cells
    using assms es other unfolding index_pair_def
    by (auto simp: bt_get_remove bt_get_insert split: if_splits)
qed

lemma insert_into_cell_fields [simp]:
  "ses_members (insert_entity_into_cell i c s) = ses_members s"
  "ses_publish_rate_limit (insert_entity_into_cell i c s) = ses_publish_rate_limit s"
  "ses_spaces (insert_entity_into_cell i c s) = ses_spaces s"
  "ses_space_epoch_tombstones (insert_entity_into_cell i c s) = ses_space_epoch_tombstones s"
  "ses_subscribers (insert_entity_into_cell i c s) = ses_subscribers s"
  "ses_entities (insert_entity_into_cell i c s) = ses_entities s"
  "ses_sequences (insert_entity_into_cell i c s) = ses_sequences s"
  "ses_state (insert_entity_into_cell i c s) = ses_state s"
  "ses_state_bytes (insert_entity_into_cell i c s) = ses_state_bytes s"
  "ses_entity_cells (insert_entity_into_cell i c s) = bt_insert i c (ses_entity_cells s)"
  by (simp_all add: insert_entity_into_cell_def)

lemma insert_into_cell_pair:
  assumes "index_pair s" and "bt_get (ses_entity_cells s) i = None"
  shows "index_pair (insert_entity_into_cell i c s)"
proof -
  have "i \<notin> bs_set es" if "bt_get (ses_cell_entities s) c' = Some es" for c' es
    using assms that unfolding index_pair_def by (metis option.distinct(1))
  then show ?thesis
    using assms unfolding index_pair_def
    by (auto simp: insert_entity_into_cell_def bt_get_insert split: option.splits if_splits)
qed

lemma fold_remove_cells:
  assumes "index_pair s"
  shows "index_pair (fold remove_entity_from_cell is s)"
    and "bt_get (ses_entity_cells (fold remove_entity_from_cell is s)) j =
         (if j \<in> set is then None else bt_get (ses_entity_cells s) j)"
proof -
  show "index_pair (fold remove_entity_from_cell is s)"
    using assms by (induction "is" arbitrary: s) (simp_all add: remove_from_cell_pair)
  show "bt_get (ses_entity_cells (fold remove_entity_from_cell is s)) j =
         (if j \<in> set is then None else bt_get (ses_entity_cells s) j)"
    by (induction "is" arbitrary: s) (simp_all add: bt_get_remove)
qed

lemma fold_remove_fields [simp]:
  "ses_members (fold remove_entity_from_cell is s) = ses_members s"
  "ses_publish_rate_limit (fold remove_entity_from_cell is s) = ses_publish_rate_limit s"
  "ses_spaces (fold remove_entity_from_cell is s) = ses_spaces s"
  "ses_space_epoch_tombstones (fold remove_entity_from_cell is s) = ses_space_epoch_tombstones s"
  "ses_subscribers (fold remove_entity_from_cell is s) = ses_subscribers s"
  "ses_entities (fold remove_entity_from_cell is s) = ses_entities s"
  "ses_sequences (fold remove_entity_from_cell is s) = ses_sequences s"
  "ses_state (fold remove_entity_from_cell is s) = ses_state s"
  "ses_state_bytes (fold remove_entity_from_cell is s) = ses_state_bytes s"
  by (induction "is" arbitrary: s; simp)+

lemma retire_space_eq:
  "snd (retire_space sp (n, s)) =
     s\<lparr>ses_spaces := bt_remove sp (ses_spaces s),
       ses_space_epoch_tombstones :=
         (case bt_get (ses_spaces s) sp of
            None \<Rightarrow> ses_space_epoch_tombstones s
          | Some d \<Rightarrow> bt_insert (sd_id d) (sd_epoch d) (ses_space_epoch_tombstones s)),
       ses_subscribers := bt_remove sp (ses_subscribers s)\<rparr>"
  by (simp add: retire_space_def Let_def bt_remove_absent split: option.split)

lemma retire_fold_fields:
  "ses_members (snd (fold retire_space sps acc)) = ses_members (snd acc)"
  "ses_publish_rate_limit (snd (fold retire_space sps acc)) = ses_publish_rate_limit (snd acc)"
  "ses_entities (snd (fold retire_space sps acc)) = ses_entities (snd acc)"
  "ses_entity_cells (snd (fold retire_space sps acc)) = ses_entity_cells (snd acc)"
  "ses_cell_entities (snd (fold retire_space sps acc)) = ses_cell_entities (snd acc)"
  "ses_sequences (snd (fold retire_space sps acc)) = ses_sequences (snd acc)"
  "ses_state (snd (fold retire_space sps acc)) = ses_state (snd acc)"
  "ses_state_bytes (snd (fold retire_space sps acc)) = ses_state_bytes (snd acc)"
  "bt_get (ses_spaces (snd (fold retire_space sps acc))) i = (if i \<in> set sps then None else bt_get (ses_spaces (snd acc)) i)"
  "bt_get (ses_subscribers (snd (fold retire_space sps acc))) i =
     (if i \<in> set sps then None else bt_get (ses_subscribers (snd acc)) i)"
proof -
  have step: "P (snd (fold retire_space sps acc)) (snd acc) sps"
    if "\<And>s. P s s []" "\<And>n s t sp sps. P t (snd (retire_space sp (n, s))) sps \<Longrightarrow> P t s (sp # sps)"
    for P :: "SessionState \<Rightarrow> SessionState \<Rightarrow> SpaceId list \<Rightarrow> bool"
    using that by (induction sps arbitrary: acc) (simp, metis fold_simps(2) prod.collapse)
  show "ses_members (snd (fold retire_space sps acc)) = ses_members (snd acc)"
    by (rule step) (simp_all add: retire_space_eq)
  show "ses_publish_rate_limit (snd (fold retire_space sps acc)) = ses_publish_rate_limit (snd acc)"
    by (rule step) (simp_all add: retire_space_eq)
  show "ses_entities (snd (fold retire_space sps acc)) = ses_entities (snd acc)"
    by (rule step) (simp_all add: retire_space_eq)
  show "ses_entity_cells (snd (fold retire_space sps acc)) = ses_entity_cells (snd acc)"
    by (rule step) (simp_all add: retire_space_eq)
  show "ses_cell_entities (snd (fold retire_space sps acc)) = ses_cell_entities (snd acc)"
    by (rule step) (simp_all add: retire_space_eq)
  show "ses_sequences (snd (fold retire_space sps acc)) = ses_sequences (snd acc)"
    by (rule step) (simp_all add: retire_space_eq)
  show "ses_state (snd (fold retire_space sps acc)) = ses_state (snd acc)"
    by (rule step) (simp_all add: retire_space_eq)
  show "ses_state_bytes (snd (fold retire_space sps acc)) = ses_state_bytes (snd acc)"
    by (rule step) (simp_all add: retire_space_eq)
  show "bt_get (ses_spaces (snd (fold retire_space sps acc))) i =
      (if i \<in> set sps then None else bt_get (ses_spaces (snd acc)) i)"
    by (rule step) (simp_all add: retire_space_eq bt_get_remove)
  show "bt_get (ses_subscribers (snd (fold retire_space sps acc))) i =
      (if i \<in> set sps then None else bt_get (ses_subscribers (snd acc)) i)"
    by (rule step) (simp_all add: retire_space_eq bt_get_remove)
qed

text \<open>Every retired space leaves its epoch behind, so the history of space ids only moves.\<close>

definition ids_ok :: "SessionState \<Rightarrow> bool" where
  "ids_ok s \<longleftrightarrow> (\<forall>i d. bt_get (ses_spaces s) i = Some d \<longrightarrow> sd_id d = i \<and> bt_get (ses_space_epoch_tombstones s) i = None)"

definition history_len :: "SessionState \<Rightarrow> nat" where
  "history_len s = bt_len (ses_spaces s) + bt_len (ses_space_epoch_tombstones s)"

lemma retire_history:
  assumes "ids_ok s"
  shows "ids_ok (snd (retire_space sp (n, s)))" and "history_len (snd (retire_space sp (n, s))) = history_len s"
    and "bt_len (ses_spaces (snd (retire_space sp (n, s)))) \<le> bt_len (ses_spaces s)"
    and "bt_get (ses_space_epoch_tombstones (snd (retire_space sp (n, s)))) i =
       (if i = sp \<and> bt_get (ses_spaces s) sp \<noteq> None then map_option sd_epoch (bt_get (ses_spaces s) sp)
        else bt_get (ses_space_epoch_tombstones s) i)"
proof -
  have "ids_ok (snd (retire_space sp (n, s))) \<and> history_len (snd (retire_space sp (n, s))) = history_len s
    \<and> bt_len (ses_spaces (snd (retire_space sp (n, s)))) \<le> bt_len (ses_spaces s)
    \<and> bt_get (ses_space_epoch_tombstones (snd (retire_space sp (n, s)))) i =
       (if i = sp \<and> bt_get (ses_spaces s) sp \<noteq> None then map_option sd_epoch (bt_get (ses_spaces s) sp)
        else bt_get (ses_space_epoch_tombstones s) i)"
  proof (cases "bt_get (ses_spaces s) sp")
    case None
    then show ?thesis
      using assms by (simp add: retire_space_eq ids_ok_def history_len_def bt_remove_absent)
  next
    case (Some d)
    then have d: "sd_id d = sp" "bt_get (ses_space_epoch_tombstones s) sp = None"
      using assms by (auto simp: ids_ok_def)
    show ?thesis
      using assms Some d bt_len_pos [OF Some]
      by (auto simp: retire_space_eq ids_ok_def history_len_def bt_len_remove bt_len_insert bt_get_remove
          bt_get_insert split: if_splits)
  qed
  then show "ids_ok (snd (retire_space sp (n, s)))" "history_len (snd (retire_space sp (n, s))) = history_len s"
    "bt_len (ses_spaces (snd (retire_space sp (n, s)))) \<le> bt_len (ses_spaces s)"
    "bt_get (ses_space_epoch_tombstones (snd (retire_space sp (n, s)))) i =
       (if i = sp \<and> bt_get (ses_spaces s) sp \<noteq> None then map_option sd_epoch (bt_get (ses_spaces s) sp)
        else bt_get (ses_space_epoch_tombstones s) i)"
    by blast+
qed

lemma retire_fold_history:
  assumes "ids_ok (snd acc)" and "distinct sps"
  shows "ids_ok (snd (fold retire_space sps acc)) \<and> history_len (snd (fold retire_space sps acc)) = history_len (snd acc)
    \<and> bt_len (ses_spaces (snd (fold retire_space sps acc))) \<le> bt_len (ses_spaces (snd acc))
    \<and> bt_get (ses_space_epoch_tombstones (snd (fold retire_space sps acc))) i =
       (if i \<in> set sps \<and> bt_get (ses_spaces (snd acc)) i \<noteq> None then map_option sd_epoch (bt_get (ses_spaces (snd acc)) i)
        else bt_get (ses_space_epoch_tombstones (snd acc)) i)"
  using assms
proof (induction sps arbitrary: acc)
  case (Cons sp sps)
  obtain n s where acc: "acc = (n, s)" by fastforce
  have h: "ids_ok s" using Cons.prems acc by simp
  note r = retire_history [OF h, of sp n]
  have "bt_get (ses_spaces (snd (retire_space sp (n, s)))) j = (if j = sp then None else bt_get (ses_spaces s) j)" for j
    by (simp add: retire_space_eq bt_get_remove)
  with Cons.IH [of "retire_space sp acc"] Cons.prems r acc show ?case by auto
qed simp

section \<open>Removing entities and spaces from a session\<close>

lemma remove_from_session_fields:
  "ses_members (snd (remove_from_session k re rs s)) = ses_members s"
  "ses_publish_rate_limit (snd (remove_from_session k re rs s)) = ses_publish_rate_limit s"
  "ses_entities (snd (remove_from_session k re rs s)) = bt_retain (\<lambda>i _. i \<notin> bs_set re) (ses_entities s)"
  "ses_entity_cells (snd (remove_from_session k re rs s)) =
     ses_entity_cells (fold remove_entity_from_cell (bs_list re) s)"
  "ses_cell_entities (snd (remove_from_session k re rs s)) =
     ses_cell_entities (fold remove_entity_from_cell (bs_list re) s)"
  "bt_get (ses_spaces (snd (remove_from_session k re rs s))) i = (if i \<in> bs_set rs then None else bt_get (ses_spaces s) i)"
  "bt_get (ses_subscribers (snd (remove_from_session k re rs s))) i =
     (if i \<in> bs_set rs then None else bt_get (ses_subscribers s) i)"
  "ses_sequences (snd (remove_from_session k re rs s)) =
     bt_retain (\<lambda>key _. sqk_space key \<notin> bs_set rs \<and> \<not> entity_is_removed re (sqk_entity key)) (ses_sequences s)"
  "ses_state (snd (remove_from_session k re rs s)) =
     cache_retain (\<lambda>key. cak_space key \<notin> bs_set rs \<and> \<not> entity_is_removed re (cak_entity key)) (ses_state s)"
  "ses_state_bytes (snd (remove_from_session k re rs s)) = byte_len (ses_state (snd (remove_from_session k re rs s)))"
  by (simp_all add: remove_from_session_def Let_def case_prod_beta recompute_state_bytes_def retire_fold_fields)

lemma remove_from_session_history:
  assumes "ids_ok s"
  shows "ids_ok (snd (remove_from_session k re rs s))"
    and "history_len (snd (remove_from_session k re rs s)) = history_len s"
    and "bt_len (ses_spaces (snd (remove_from_session k re rs s))) \<le> bt_len (ses_spaces s)"
    and "bt_get (ses_space_epoch_tombstones (snd (remove_from_session k re rs s))) i =
       (if i \<in> bs_set rs \<and> bt_get (ses_spaces s) i \<noteq> None then map_option sd_epoch (bt_get (ses_spaces s) i)
        else bt_get (ses_space_epoch_tombstones s) i)"
proof -
  define s2 where "s2 = (fold remove_entity_from_cell (bs_list re) s)
     \<lparr>ses_entities := bt_retain (\<lambda>i _. \<not> bs_member i re) (ses_entities (fold remove_entity_from_cell (bs_list re) s))\<rparr>"
  define t where "t = snd (fold retire_space (bs_list rs) (0, s2))"
  have eq: "ses_spaces (snd (remove_from_session k re rs s)) = ses_spaces t"
    "ses_space_epoch_tombstones (snd (remove_from_session k re rs s)) = ses_space_epoch_tombstones t"
    by (simp_all add: remove_from_session_def Let_def case_prod_beta recompute_state_bytes_def t_def s2_def)
  have s2: "ses_spaces s2 = ses_spaces s" "ses_space_epoch_tombstones s2 = ses_space_epoch_tombstones s"
    by (simp_all add: s2_def)
  have ids2: "ids_ok s2" using assms by (simp add: ids_ok_def s2)
  have "distinct (bs_list rs)" by simp
  then have h: "ids_ok t \<and> history_len t = history_len s2 \<and> bt_len (ses_spaces t) \<le> bt_len (ses_spaces s2)
    \<and> bt_get (ses_space_epoch_tombstones t) i =
       (if i \<in> bs_set rs \<and> bt_get (ses_spaces s2) i \<noteq> None then map_option sd_epoch (bt_get (ses_spaces s2) i)
        else bt_get (ses_space_epoch_tombstones s2) i)"
    using retire_fold_history [of "(0, s2)" "bs_list rs" i] ids2 by (simp add: t_def cong: if_cong)
  show "ids_ok (snd (remove_from_session k re rs s))"
    using h by (simp add: ids_ok_def eq)
  show "history_len (snd (remove_from_session k re rs s)) = history_len s"
    using h by (simp add: history_len_def eq s2)
  show "bt_len (ses_spaces (snd (remove_from_session k re rs s))) \<le> bt_len (ses_spaces s)"
    using h by (simp add: eq s2)
  show "bt_get (ses_space_epoch_tombstones (snd (remove_from_session k re rs s))) i =
       (if i \<in> bs_set rs \<and> bt_get (ses_spaces s) i \<noteq> None then map_option sd_epoch (bt_get (ses_spaces s) i)
        else bt_get (ses_space_epoch_tombstones s) i)"
    using h by (simp add: eq s2 cong: if_cong)
qed

lemma structure_ids: "structure_ok s \<Longrightarrow> ids_ok s"
  using structure_okD(1,5) unfolding ids_ok_def by (metis option.distinct(1))

lemma cache_retain_bounds:
  "cache_len (cache_retain P c) \<le> cache_len c" "byte_len (cache_retain P c) \<le> byte_len c"
proof -
  show "cache_len (cache_retain P c) \<le> cache_len c"
    by (simp add: cache_len_def cache_retain_def bt_len_retain)
  show "byte_len (cache_retain P c) \<le> byte_len c"
    unfolding byte_len_def cache_retain_def by (simp add: bt_sum_retain_le)
qed

lemma within_limits_mono:
  assumes "within_limits cfg s"
    and "bt_len (ses_spaces t) \<le> bt_len (ses_spaces s)" "history_len t \<le> history_len s"
    and "bt_len (ses_entities t) \<le> bt_len (ses_entities s)"
    and "cache_len (ses_state t) \<le> cache_len (ses_state s)" "byte_len (ses_state t) \<le> byte_len (ses_state s)"
    and "bt_len (ses_sequences t) \<le> bt_len (ses_sequences s)"
  shows "within_limits cfg t"
  using assms unfolding within_limits_def history_len_def by linarith

text \<open>A removal whose sets are closed keeps the session well-formed.\<close>

lemma remove_from_session_wf:
  assumes wf: "session_wf cfg s"
    and closed: "\<And>i r. bt_get (ses_entities s) i = Some r \<Longrightarrow> er_space r \<in> bs_set rs \<Longrightarrow> i \<in> bs_set re"
  shows "session_wf cfg (snd (remove_from_session k re rs s))" (is "session_wf cfg ?t")
proof -
  have st: "structure_ok s" and ix: "index_pair s" "located s" and lim: "within_limits cfg s"
    using wf by (simp_all add: session_wf_def index_inv_split)
  note f = remove_from_session_fields [of k re rs s]
  note h = remove_from_session_history [OF structure_ids [OF st], of k re rs]
  have "structure_ok ?t"
    using structure_okD [OF st] closed h(4)
    by (auto simp: structure_ok_def f split: if_splits)
  moreover have "located ?t"
    unfolding located_def
  proof
    fix i
    show "bt_get (ses_entity_cells ?t) i = cell_of ?t i"
    proof (cases "i \<in> bs_set re")
      case False
      then have "bt_get (ses_entities ?t) i = bt_get (ses_entities s) i" by (simp add: f bt_get_retain split: option.split)
      then have "cell_of ?t i = cell_of s i"
        using closed [of i] False by (auto simp: cell_of_def f(6) split: option.split)
      with False ix fold_remove_cells(2) [OF ix(1), of "bs_list re" i] show ?thesis by (simp add: located_def f)
    next
      case True
      then have "bt_get (ses_entities ?t) i = None" by (simp add: f bt_get_retain split: option.split)
      with True fold_remove_cells(2) [OF ix(1), of "bs_list re" i] show ?thesis by (simp add: cell_of_absent f(4))
    qed
  qed
  then have "index_inv ?t"
    using fold_remove_cells(1) [OF ix(1), of "bs_list re"] index_pair_cong [OF f(4) f(5)] by (simp add: index_inv_split)
  moreover have "accounting_ok ?t" using f(10) by (simp add: accounting_ok_def)
  moreover have "within_limits cfg ?t"
    by (rule within_limits_mono [OF lim])
      (simp_all add: f h(2,3) bt_len_retain cache_retain_bounds)
  ultimately show ?thesis by (simp add: session_wf_def)
qed

end
