(* ===== verification/Core_Inv.thy ===== *)
theory Core_Inv
  imports Session_Inv
begin

text \<open>
  The invariant of the whole core, and that the removal of entities with the spaces anchored on them
  keeps it.
\<close>

section \<open>Counting removed owners\<close>

lemma count_owners_get:
  "bt_get (fold count_owner es m) c =
     (let n = length (filter (\<lambda>e. er_owner_connection e = c) es)
      in if n = 0 then bt_get m c else Some ((case bt_get m c of None \<Rightarrow> 0 | Some k \<Rightarrow> k) + n))"
  by (induction es arbitrary: m) (auto simp: count_owner_def bt_get_insert Let_def split: option.split)

lemma fold_update_get:
  assumes "distinct (map fst ps)"
  shows "bt_get (fold (\<lambda>(k, n). bt_update k (f n)) ps m) c =
    (case map_of ps c of None \<Rightarrow> bt_get m c | Some n \<Rightarrow> map_option (f n) (bt_get m c))"
  using assms
proof (induction ps arbitrary: m)
  case (Cons p ps)
  obtain k n where p: "p = (k, n)" by fastforce
  have "map_of ps k = None" using Cons.prems by (simp add: p map_of_eq_None_iff)
  then show ?case using Cons by (auto simp: p bt_get_update split: option.split)
qed simp

lemma map_of_bt_entries: "map_of (bt_entries m) = bt_get m"
proof
  fix k
  have d: "distinct (map fst (bt_entries m))" using distinct_bt_keys [of m] by (simp add: bt_keys_def)
  show "map_of (bt_entries m) k = bt_get m k"
  proof (cases "bt_get m k")
    case None
    then show ?thesis using bt_entries_iff [of k _ m] by (auto simp: map_of_eq_None_iff)
  next
    case (Some v)
    then show ?thesis using d by (simp add: bt_entries_iff)
  qed
qed

lemma distinct_fst_entries [simp]: "distinct (map fst (bt_entries m))"
  using distinct_bt_keys [of m] by (simp add: bt_keys_def)

definition removed_of :: "EntityId btree_set \<Rightarrow> SessionState \<Rightarrow> ConnectionId \<Rightarrow> nat" where
  "removed_of re s c = bt_count (\<lambda>r. er_owner_connection r = c \<and> er_id r \<in> bs_set re) (ses_entities s)"

definition unlink_connection ::
  "SessionKey \<Rightarrow> EntityId btree_set \<Rightarrow> SpaceId btree_set \<Rightarrow> nat \<Rightarrow> ConnectionState \<Rightarrow> ConnectionState" where
  "unlink_connection key re rs n st =
     st\<lparr>cn_owned_entities := cn_owned_entities st - n,
        cn_subscriptions := bs_retain (\<lambda>space. spk_session space \<noteq> key \<or> spk_space space \<notin> bs_set rs) (cn_subscriptions st),
        cn_outbound := snd (purge (message_removed key re rs) (cn_outbound st))\<rparr>"

lemma purge_all_get:
  "bt_get (snd (purge_all P cs)) c = map_option (\<lambda>st. st\<lparr>cn_outbound := snd (purge P (cn_outbound st))\<rparr>) (bt_get cs c)"
  by (simp add: purge_all_def)

lemma removal_spec:
  assumes s: "bt_get (wc_sessions w) key = Some s"
  obtains re rs cs where
    "closure_loop (bt_values (ses_spaces s)) (bt_values (ses_entities s)) entities bt_empty = (re, rs)"
    "snd (remove_entities_and_anchored_spaces key entities w) =
       w\<lparr>wc_sessions := bt_insert key (snd (remove_from_session key re rs s)) (wc_sessions w), wc_connections := cs\<rparr>"
    "\<And>c. bt_get cs c = map_option (unlink_connection key re rs (removed_of re s c)) (bt_get (wc_connections w) c)"
proof -
  obtain re rs where loop: "closure_loop (bt_values (ses_spaces s)) (bt_values (ses_entities s)) entities bt_empty = (re, rs)"
    by fastforce
  define owners where "owners = fold count_owner
     (filter (\<lambda>e. bs_member (er_id e) re) (bt_values (ses_entities s))) bt_empty"
  define cs1 where "cs1 = fold (\<lambda>(owner, count). bt_update owner (\<lambda>c. c\<lparr>cn_owned_entities := cn_owned_entities c - count\<rparr>))
              (bt_entries owners) (wc_connections w)"
  define cs2 where "cs2 = bt_map (\<lambda>_ c. c\<lparr>cn_subscriptions := bs_retain (\<lambda>space. spk_session space \<noteq> key
                              \<or> \<not> bs_member (spk_space space) rs) (cn_subscriptions c)\<rparr>) cs1"
  define cs3 where "cs3 = snd (purge_all (message_removed key re rs) cs2)"
  have owners: "bt_get owners c = (if removed_of re s c = 0 then None else Some (removed_of re s c))" for c
  proof -
    have "length (filter (\<lambda>e. er_owner_connection e = c)
        (filter (\<lambda>e. bs_member (er_id e) re) (bt_values (ses_entities s)))) = removed_of re s c"
      by (simp add: removed_of_def bt_count_def conj_commute)
    then show ?thesis by (simp add: owners_def count_owners_get Let_def)
  qed
  have cs1: "bt_get cs1 c = map_option (\<lambda>st. st\<lparr>cn_owned_entities := cn_owned_entities st - removed_of re s c\<rparr>)
      (bt_get (wc_connections w) c)" for c
    unfolding cs1_def
    by (subst fold_update_get [of _ "\<lambda>n c. c\<lparr>cn_owned_entities := cn_owned_entities c - n\<rparr>"])
      (auto simp: map_of_bt_entries owners split: option.splits if_splits
        intro: option.map_ident_strong [symmetric] option.map_cong)
  have get: "bt_get cs3 c = map_option (unlink_connection key re rs (removed_of re s c)) (bt_get (wc_connections w) c)" for c
    by (cases "bt_get (wc_connections w) c")
      (simp_all add: cs3_def purge_all_get cs2_def cs1 unlink_connection_def)
  have "snd (remove_entities_and_anchored_spaces key entities w) =
       w\<lparr>wc_sessions := bt_insert key (snd (remove_from_session key re rs s)) (wc_sessions w), wc_connections := cs3\<rparr>"
    using s loop
    by (simp add: remove_entities_and_anchored_spaces_def Let_def case_prod_beta owners_def cs1_def cs2_def cs3_def)
  from that [OF loop this get] show ?thesis .
qed

section \<open>Well-formed connections\<close>

definition conn_wf :: "CoreConfig \<Rightarrow> ConnectionState \<Rightarrow> bool" where
  "conn_wf cfg st \<longleftrightarrow>
     queue_inv (cn_outbound st) \<and> q_config (cn_outbound st) = cfg_outbound_queue cfg
   \<and> bt_len (cn_memberships st) \<le> cfg_max_memberships_per_connection cfg
   \<and> bt_len (cn_subscriptions st) \<le> cfg_max_subscriptions_per_connection cfg
   \<and> cn_owned_entities st \<le> cfg_max_owned_entities_per_connection cfg
   \<and> bs_set (cn_memberships st) \<subseteq> dom (bt_get (cn_session_rate_limiters st))
   \<and> bt_len (cn_session_rate_limiters st) \<le> cfg_max_memberships_per_connection cfg
   \<and> (cn_authenticated st = None \<longrightarrow> bs_set (cn_memberships st) = {})"

lemma purge_config [simp]: "q_config (snd (purge P q)) = q_config q"
  by (simp add: purge_def Let_def)

lemma conn_wf_purge: "conn_wf cfg st \<Longrightarrow> conn_wf cfg (st\<lparr>cn_outbound := snd (purge P (cn_outbound st))\<rparr>)"
  by (simp add: conn_wf_def purge_inv)

lemma bs_len_retain: "bt_len (bs_retain P s) \<le> bt_len s"
  by (simp add: bs_retain_def bt_len_retain)

lemma bs_len_remove: "bt_len (bs_remove k s) \<le> bt_len s"
  by (simp add: bs_remove_def bt_len_remove)

lemma unlink_wf: "conn_wf cfg st \<Longrightarrow> conn_wf cfg (unlink_connection key re rs n st)"
  using bs_len_retain [of "\<lambda>space. spk_session space \<noteq> key \<or> spk_space space \<notin> bs_set rs" "cn_subscriptions st"]
  by (auto simp: conn_wf_def unlink_connection_def purge_inv)

lemma removed_owned:
  assumes "structure_ok s"
  shows "owned_in (snd (remove_from_session k re rs s)) c + removed_of re s c = owned_in s c"
proof -
  have split: "bt_count (\<lambda>r. P r \<and> Q r) m + bt_count (\<lambda>r. P r \<and> \<not> Q r) m = bt_count P m"
    for P Q :: "'v \<Rightarrow> bool" and m :: "('k::linorder, 'v) btree_map"
  proof -
    have "length (filter (\<lambda>r. P r \<and> Q r) xs) + length (filter (\<lambda>r. P r \<and> \<not> Q r) xs) = length (filter P xs)" for xs
      by (induction xs) auto
    then show ?thesis by (simp add: bt_count_def)
  qed
  have "bt_count (\<lambda>r. er_owner_connection r = c) (bt_retain (\<lambda>i _. i \<notin> bs_set re) (ses_entities s)) =
        bt_count (\<lambda>r. er_owner_connection r = c \<and> \<not> er_id r \<in> bs_set re) (ses_entities s)"
    by (rule bt_count_cong) (use structure_okD(2) [OF assms] in auto)
  then show ?thesis
    using split [of "\<lambda>r. er_owner_connection r = c" "\<lambda>r. er_id r \<in> bs_set re" "ses_entities s"]
    by (simp add: owned_in_def removed_of_def remove_from_session_fields)
qed

lemma unlinked:
  assumes l: "linked cs ss" and s: "bt_get ss key = Some s" and st: "structure_ok s"
    and cs': "\<And>c. bt_get cs' c = map_option (unlink_connection key re rs (removed_of re s c)) (bt_get cs c)"
  shows "linked cs' (bt_insert key (snd (remove_from_session key re rs s)) ss)" (is "linked cs' ?ss")
proof -
  let ?s' = "snd (remove_from_session key re rs s)"
  have sub: "subscribed_in ?s' sp c \<longleftrightarrow> sp \<notin> bs_set rs \<and> subscribed_in s sp c" for sp c
    by (auto simp: subscribed_in_def remove_from_session_fields split: if_splits)
  have own: "owned_in ?s' c + removed_of re s c = owned_in s c" for c by (rule removed_owned [OF st])
  have total: "owned_total ?ss c + removed_of re s c = owned_total ss c" for c
    using owned_total_insert [OF s, of ?s' c] own [of c] by simp
  note v = views_get [OF s]
  show ?thesis
  proof (rule linkedI)
    fix c st' k assume "bt_get cs' c = Some st'"
    then obtain st where st: "bt_get cs c = Some st" "st' = unlink_connection key re rs (removed_of re s c) st"
      using cs' by auto
    show "k \<in> bs_set (cn_memberships st') \<longleftrightarrow> member_of ?ss k c"
      using linkedD(1) [OF l st(1)] v by (auto simp: st unlink_connection_def remove_from_session_fields)
    show "cn_owned_entities st' = owned_total ?ss c"
      using linkedD(3) [OF l st(1)] total [of c] by (simp add: st unlink_connection_def)
    show "SpaceKey k sp \<in> bs_set (cn_subscriptions st') \<longleftrightarrow> subscriber_of ?ss k sp c" for sp
      using linkedD(2) [OF l st(1)] v by (auto simp: st unlink_connection_def sub)
  next
    fix k c assume "member_of ?ss k c"
    then have "member_of ss k c" using v by (auto simp: remove_from_session_fields split: if_splits)
    then show "bt_get cs' c \<noteq> None" using linkedD(4) [OF l] cs' by simp
  next
    fix k sp c assume "subscriber_of ?ss k sp c"
    then have "subscriber_of ss k sp c" using v by (auto simp: sub split: if_splits)
    then have "member_of ss k c" by (rule linkedD(5) [OF l])
    then show "member_of ?ss k c" using v by (auto simp: remove_from_session_fields)
  next
    fix k c assume "owns_in ?ss k c"
    then have "owns_in ss k c" using v own [of c] by (auto split: if_splits)
    then show "member_of ?ss k c"
      using linkedD(6) [OF l] v by (auto simp: remove_from_session_fields)
  qed
qed

section \<open>The invariant of the core\<close>

text \<open>A validated configuration whose limits leave room below \<open>usize::MAX\<close>, where the saturating sums
  of the capacity checks are exact.\<close>

definition config_ok :: "CoreConfig \<Rightarrow> bool" where
  "config_ok cfg \<longleftrightarrow>
     validate_core_config cfg = Inr cfg
   \<and> cfg_max_state_bytes_per_session cfg + cfg_max_authority_emissions cfg * cfg_max_payload_bytes cfg \<le> usize_max
   \<and> cfg_max_sequence_keys_per_session cfg < usize_max"

definition ids_fresh :: "WovenCore \<Rightarrow> bool" where
  "ids_fresh w \<longleftrightarrow>
     wc_next_connection_id w \<noteq> 0 \<and> wc_next_entity_id w \<noteq> 0
   \<and> (\<forall>c st. bt_get (wc_connections w) c = Some st \<longrightarrow> c \<noteq> 0 \<and> c < wc_next_connection_id w)
   \<and> (\<forall>k s i r. bt_get (wc_sessions w) k = Some s \<longrightarrow> bt_get (ses_entities s) i = Some r \<longrightarrow>
        i \<noteq> 0 \<and> i < wc_next_entity_id w)"

definition tables_bounded :: "WovenCore \<Rightarrow> bool" where
  "tables_bounded w \<longleftrightarrow>
     bt_len (wc_connections w) \<le> cfg_max_connections (wc_config w)
   \<and> bt_len (wc_sessions w) \<le> cfg_max_sessions (wc_config w)
   \<and> bt_len (wc_channels w) \<le> cfg_max_channels (wc_config w)
   \<and> outbox_inv (wc_journal_outbox w)"

definition core_inv :: "WovenCore \<Rightarrow> bool" where
  "core_inv w \<longleftrightarrow>
     config_ok (wc_config w)
   \<and> (\<forall>c st. bt_get (wc_connections w) c = Some st \<longrightarrow> conn_wf (wc_config w) st)
   \<and> (\<forall>k s. bt_get (wc_sessions w) k = Some s \<longrightarrow> session_wf (wc_config w) s)
   \<and> linked (wc_connections w) (wc_sessions w)
   \<and> ids_fresh w
   \<and> tables_bounded w
   \<and> (\<forall>k c. bt_get (wc_admissions w) k = Some c \<longrightarrow> controller_inv c)"

lemma core_invD:
  assumes "core_inv w"
  shows "config_ok (wc_config w)"
    and "bt_get (wc_connections w) c = Some st \<Longrightarrow> conn_wf (wc_config w) st"
    and "bt_get (wc_sessions w) k = Some s \<Longrightarrow> session_wf (wc_config w) s"
    and "linked (wc_connections w) (wc_sessions w)"
    and "ids_fresh w" and "tables_bounded w"
    and "bt_get (wc_admissions w) k = Some a \<Longrightarrow> controller_inv a"
  using assms unfolding core_inv_def by blast+

text \<open>An update of connections and sessions that adds no connection, session or entity.\<close>

lemma core_inv_update:
  assumes inv: "core_inv w"
    and cs: "\<And>c st. bt_get cs c = Some st \<Longrightarrow> conn_wf (wc_config w) st \<and> bt_get (wc_connections w) c \<noteq> None"
    and ss: "\<And>k s. bt_get ss k = Some s \<Longrightarrow> session_wf (wc_config w) s"
    and old: "\<And>k s i r. bt_get ss k = Some s \<Longrightarrow> bt_get (ses_entities s) i = Some r \<Longrightarrow>
        \<exists>s0 r0. bt_get (wc_sessions w) k = Some s0 \<and> bt_get (ses_entities s0) i = Some r0"
    and dom: "\<And>k. bt_get ss k \<noteq> None \<Longrightarrow> bt_get (wc_sessions w) k \<noteq> None"
    and l: "linked cs ss"
  shows "core_inv (w\<lparr>wc_connections := cs, wc_sessions := ss\<rparr>)"
proof -
  have "bt_len cs \<le> bt_len (wc_connections w)"
    by (rule bt_len_mono) (use cs in \<open>auto simp: domIff\<close>)
  moreover have "bt_len ss \<le> bt_len (wc_sessions w)"
    by (rule bt_len_mono) (use dom in \<open>auto simp: domIff\<close>)
  ultimately have "tables_bounded (w\<lparr>wc_connections := cs, wc_sessions := ss\<rparr>)"
    using core_invD(6) [OF inv] by (simp add: tables_bounded_def)
  moreover have "ids_fresh (w\<lparr>wc_connections := cs, wc_sessions := ss\<rparr>)"
    unfolding ids_fresh_def
  proof (intro conjI allI impI; simp)
    show "wc_next_connection_id w \<noteq> 0" "wc_next_entity_id w \<noteq> 0"
      using core_invD(5) [OF inv] by (simp_all add: ids_fresh_def)
  next
    fix c st assume "bt_get cs c = Some st"
    with cs have "bt_get (wc_connections w) c \<noteq> None" by blast
    then show "c \<noteq> 0" "c < wc_next_connection_id w"
      using core_invD(5) [OF inv] unfolding ids_fresh_def by blast+
  next
    fix k s i r assume "bt_get ss k = Some s" "bt_get (ses_entities s) i = Some r"
    then show "i \<noteq> 0" "i < wc_next_entity_id w"
      using old core_invD(5) [OF inv] unfolding ids_fresh_def by blast+
  qed
  ultimately show ?thesis
    using inv cs ss l unfolding core_inv_def by simp
qed

lemma removal_inv:
  assumes inv: "core_inv w"
  shows "core_inv (snd (remove_entities_and_anchored_spaces key entities w))"
proof (cases "bt_get (wc_sessions w) key")
  case None
  let ?cs = "snd (purge_all (message_removed key entities bt_empty)
    (bt_map (\<lambda>_ c. c\<lparr>cn_subscriptions := bs_retain (\<lambda>_. True) (cn_subscriptions c)\<rparr>) (wc_connections w)))"
  have w': "snd (remove_entities_and_anchored_spaces key entities w) = w\<lparr>wc_connections := ?cs, wc_sessions := wc_sessions w\<rparr>"
    using None by (simp add: remove_entities_and_anchored_spaces_def Let_def case_prod_beta bt_empty.rep_eq)
  have same: "bs_retain (\<lambda>_. True) x = x" for x :: "SpaceKey btree_set" by (rule bs_eqI) simp
  have get: "bt_get ?cs c = map_option (\<lambda>st. st\<lparr>cn_outbound := snd (purge (message_removed key entities bt_empty) (cn_outbound st))\<rparr>)
     (bt_get (wc_connections w) c)" for c
    by (cases "bt_get (wc_connections w) c") (simp_all add: purge_all_get same)
  show ?thesis
    unfolding w'
  proof (rule core_inv_update [OF inv])
    fix c st assume "bt_get ?cs c = Some st"
    then show "conn_wf (wc_config w) st \<and> bt_get (wc_connections w) c \<noteq> None"
      using core_invD(2) [OF inv] get by (auto simp: conn_wf_purge)
  next
    show "linked ?cs (wc_sessions w)"
      using core_invD(4) [OF inv]
    proof (rule linked_conns)
      fix c show "rel_option same_links (bt_get ?cs c) (bt_get (wc_connections w) c)"
        unfolding get by (cases "bt_get (wc_connections w) c") (simp_all add: same_links_def)
    qed
  qed (use core_invD(3) [OF inv] in auto)
next
  case (Some s)
  obtain re rs cs where r:
    "closure_loop (bt_values (ses_spaces s)) (bt_values (ses_entities s)) entities bt_empty = (re, rs)"
    "snd (remove_entities_and_anchored_spaces key entities w) =
       w\<lparr>wc_sessions := bt_insert key (snd (remove_from_session key re rs s)) (wc_sessions w), wc_connections := cs\<rparr>"
    "\<And>c. bt_get cs c = map_option (unlink_connection key re rs (removed_of re s c)) (bt_get (wc_connections w) c)"
    by (rule removal_spec [OF Some, where entities = entities]) (rule that)
  have wf: "session_wf (wc_config w) s" by (rule core_invD(3) [OF inv Some])
  then have st: "structure_ok s" by (simp add: session_wf_def)
  have "i \<in> bs_set re" if "bt_get (ses_entities s) i = Some e" "er_space e \<in> bs_set rs" for i e
    using closure_loop_spec [OF r(1)] that structure_okD(2) [OF st] unfolding closed_def by (metis bt_values_iff)
  then have wf': "session_wf (wc_config w) (snd (remove_from_session key re rs s))"
    by (rule remove_from_session_wf [OF wf])
  have w': "snd (remove_entities_and_anchored_spaces key entities w) =
     w\<lparr>wc_connections := cs, wc_sessions := bt_insert key (snd (remove_from_session key re rs s)) (wc_sessions w)\<rparr>"
    unfolding r(2) by simp
  show ?thesis
    unfolding w'
  proof (rule core_inv_update [OF inv])
    fix c st assume "bt_get cs c = Some st"
    then show "conn_wf (wc_config w) st \<and> bt_get (wc_connections w) c \<noteq> None"
      using core_invD(2) [OF inv] r(3) by (auto simp: unlink_wf)
  next
    show "linked cs (bt_insert key (snd (remove_from_session key re rs s)) (wc_sessions w))"
      by (rule unlinked [OF core_invD(4) [OF inv] Some st r(3)])
  qed (use core_invD(3) [OF inv] wf' Some in \<open>auto simp: bt_get_insert remove_from_session_fields split: if_splits\<close>)
qed

section \<open>Updates that keep the invariant\<close>

lemma core_inv_frame [simp]:
  "core_inv (w\<lparr>wc_pending_admissions := pa\<rparr>) = core_inv w"
  "core_inv (w\<lparr>wc_admission_leases := al\<rparr>) = core_inv w"
  "core_inv (w\<lparr>wc_admission_tickets := tk\<rparr>) = core_inv w"
  "core_inv (w\<lparr>wc_managed := m\<rparr>) = core_inv w"
  by (simp_all add: core_inv_def ids_fresh_def tables_bounded_def)

lemma core_inv_admissions:
  assumes "core_inv w" and "\<And>k c. bt_get ads k = Some c \<Longrightarrow> controller_inv c"
  shows "core_inv (w\<lparr>wc_admissions := ads\<rparr>)"
  using assms by (simp add: core_inv_def ids_fresh_def tables_bounded_def)

lemma core_inv_admission_insert:
  "core_inv w \<Longrightarrow> controller_inv c \<Longrightarrow> core_inv (w\<lparr>wc_admissions := bt_insert k c (wc_admissions w)\<rparr>)"
  by (rule core_inv_admissions) (auto simp: bt_get_insert core_invD(7) split: if_splits)

lemma core_inv_admission_update:
  "core_inv w \<Longrightarrow> (\<And>c. controller_inv c \<Longrightarrow> controller_inv (f c)) \<Longrightarrow>
   core_inv (w\<lparr>wc_admissions := bt_update k f (wc_admissions w)\<rparr>)"
  by (rule core_inv_admissions) (auto simp: bt_get_update core_invD(7) split: if_splits)

lemma core_inv_connections:
  assumes inv: "core_inv w"
    and same: "\<And>c. rel_option same_links (bt_get cs c) (bt_get (wc_connections w) c)"
    and wf: "\<And>c st. bt_get cs c = Some st \<Longrightarrow> conn_wf (wc_config w) st"
  shows "core_inv (w\<lparr>wc_connections := cs\<rparr>)"
proof -
  have "core_inv (w\<lparr>wc_connections := cs, wc_sessions := wc_sessions w\<rparr>)"
  proof (rule core_inv_update [OF inv])
    fix c st assume "bt_get cs c = Some st"
    then show "conn_wf (wc_config w) st \<and> bt_get (wc_connections w) c \<noteq> None"
      using wf same [of c] by (auto simp: option.rel_sel)
  next
    show "linked cs (wc_sessions w)" by (rule linked_conns [OF core_invD(4) [OF inv] same])
  qed (use core_invD(3) [OF inv] in auto)
  then show ?thesis by simp
qed

lemma core_inv_connection:
  assumes inv: "core_inv w" and st: "bt_get (wc_connections w) c = Some st"
    and same: "same_links st' st" and wf: "conn_wf (wc_config w) st'"
  shows "core_inv (w\<lparr>wc_connections := bt_insert c st' (wc_connections w)\<rparr>)"
  using inv
proof (rule core_inv_connections)
  show "rel_option same_links (bt_get (bt_insert c st' (wc_connections w)) c') (bt_get (wc_connections w) c')" for c'
    using st same by (simp add: bt_get_insert)
qed (use wf core_invD(2) [OF inv] in \<open>auto simp: bt_get_insert split: if_splits\<close>)

lemma core_inv_purge_all:
  assumes inv: "core_inv w"
  shows "core_inv (w\<lparr>wc_connections := snd (purge_all P (wc_connections w))\<rparr>)"
  using inv
proof (rule core_inv_connections)
  show "rel_option same_links (bt_get (snd (purge_all P (wc_connections w))) c) (bt_get (wc_connections w) c)" for c
    unfolding purge_all_get by (cases "bt_get (wc_connections w) c") (simp_all add: same_links_def)
qed (use core_invD(2) [OF inv] in \<open>auto simp: purge_all_get conn_wf_purge\<close>)

definition kept_entities :: "SessionState \<Rightarrow> SessionState \<Rightarrow> bool" where
  "kept_entities s' s \<longleftrightarrow> dom (bt_get (ses_entities s')) \<subseteq> dom (bt_get (ses_entities s))"

lemma kept_entities_refl: "ses_entities s' = ses_entities s \<Longrightarrow> kept_entities s' s"
  by (simp add: kept_entities_def)

lemma kept_entitiesD:
  "kept_entities s' s \<Longrightarrow> bt_get (ses_entities s') i = Some r \<Longrightarrow> \<exists>r0. bt_get (ses_entities s) i = Some r0"
  unfolding kept_entities_def by blast

text \<open>One connection and one session change together.\<close>

lemma core_inv_pair:
  assumes inv: "core_inv w" and st: "bt_get (wc_connections w) c = Some st" and s: "bt_get (wc_sessions w) k = Some s"
    and wf: "conn_wf (wc_config w) st'" "session_wf (wc_config w) s'" and kept: "kept_entities s' s"
    and l: "linked (bt_insert c st' (wc_connections w)) (bt_insert k s' (wc_sessions w))"
  shows "core_inv (w\<lparr>wc_connections := bt_insert c st' (wc_connections w),
                     wc_sessions := bt_insert k s' (wc_sessions w)\<rparr>)"
  using inv
proof (rule core_inv_update)
  fix k' s'' i r
  assume "bt_get (bt_insert k s' (wc_sessions w)) k' = Some s''" "bt_get (ses_entities s'') i = Some r"
  then show "\<exists>s0 r0. bt_get (wc_sessions w) k' = Some s0 \<and> bt_get (ses_entities s0) i = Some r0"
    using s kept_entitiesD [OF kept] by (auto simp: bt_get_insert split: if_splits)
qed (use l wf st s core_invD(2,3) [OF inv] in \<open>auto simp: bt_get_insert split: if_splits\<close>)

lemma core_inv_session:
  assumes inv: "core_inv w" and s: "bt_get (wc_sessions w) k = Some s"
    and wf: "session_wf (wc_config w) s'" and kept: "kept_entities s' s"
    and same: "ses_members s' = ses_members s" "\<And>sp c. subscribed_in s' sp c = subscribed_in s sp c"
      "\<And>c. owned_in s' c = owned_in s c"
  shows "core_inv (w\<lparr>wc_sessions := bt_insert k s' (wc_sessions w)\<rparr>)"
proof -
  have "core_inv (w\<lparr>wc_connections := wc_connections w, wc_sessions := bt_insert k s' (wc_sessions w)\<rparr>)"
    using inv
  proof (rule core_inv_update)
    show "linked (wc_connections w) (bt_insert k s' (wc_sessions w))"
      by (rule linked_session [OF core_invD(4) [OF inv] s same])
  next
    fix k' s'' i r
    assume "bt_get (bt_insert k s' (wc_sessions w)) k' = Some s''" "bt_get (ses_entities s'') i = Some r"
    then show "\<exists>s0 r0. bt_get (wc_sessions w) k' = Some s0 \<and> bt_get (ses_entities s0) i = Some r0"
      using s kept_entitiesD [OF kept] by (auto simp: bt_get_insert split: if_splits)
  qed (use wf s core_invD(2,3) [OF inv] in \<open>auto simp: bt_get_insert split: if_splits\<close>)
  then show ?thesis by simp
qed

lemma linked_pair:
  assumes l: "linked cs ss" and st: "bt_get cs c = Some st" and s: "bt_get ss k = Some s"
    and mem: "\<And>k'. k' \<in> bs_set (cn_memberships st') \<longleftrightarrow>
        (if k' = k then c \<in> bs_set (ses_members s') else k' \<in> bs_set (cn_memberships st))"
    and sub: "\<And>k' sp. SpaceKey k' sp \<in> bs_set (cn_subscriptions st') \<longleftrightarrow>
        (if k' = k then subscribed_in s' sp c else SpaceKey k' sp \<in> bs_set (cn_subscriptions st))"
    and own: "cn_owned_entities st' + owned_in s c = cn_owned_entities st + owned_in s' c"
    and others: "\<And>c'. c' \<noteq> c \<Longrightarrow> c' \<in> bs_set (ses_members s') \<longleftrightarrow> c' \<in> bs_set (ses_members s)"
      "\<And>c' sp. c' \<noteq> c \<Longrightarrow> subscribed_in s' sp c' \<longleftrightarrow> subscribed_in s sp c'"
      "\<And>c'. c' \<noteq> c \<Longrightarrow> owned_in s' c' = owned_in s c'"
    and only: "\<And>sp. subscribed_in s' sp c \<Longrightarrow> c \<in> bs_set (ses_members s')"
      "owned_in s' c \<noteq> 0 \<Longrightarrow> c \<in> bs_set (ses_members s')"
  shows "linked (bt_insert c st' cs) (bt_insert k s' ss)"
proof -
  note v = views_get [OF s]
  have total: "owned_total (bt_insert k s' ss) c' + owned_in s c' = owned_total ss c' + owned_in s' c'" for c'
    by (rule owned_total_insert [OF s])
  note L = linkedD [OF l]
  show ?thesis
  proof (rule linkedI)
    fix c' st'' k' assume "bt_get (bt_insert c st' cs) c' = Some st''"
    then consider "c' = c" "st'' = st'" | "c' \<noteq> c" "bt_get cs c' = Some st''"
      by (auto simp: bt_get_insert split: if_splits)
    note C = this
    show "k' \<in> bs_set (cn_memberships st'') \<longleftrightarrow> member_of (bt_insert k s' ss) k' c'"
      using C by cases (use L(1) [OF st] L(1) mem others(1) v in auto)
    show "SpaceKey k' sp \<in> bs_set (cn_subscriptions st'') \<longleftrightarrow> subscriber_of (bt_insert k s' ss) k' sp c'" for sp
      using C by cases (use L(2) [OF st] L(2) sub others(2) v in auto)
    show "cn_owned_entities st'' = owned_total (bt_insert k s' ss) c'"
      using C
    proof cases
      case 1
      then show ?thesis using L(3) [OF st] own total [of c] by simp
    next
      case 2
      then show ?thesis using L(3) [OF 2(2)] others(3) [OF 2(1)] total [of c'] by simp
    qed
  next
    fix k' c' assume m: "member_of (bt_insert k s' ss) k' c'"
    show "bt_get (bt_insert c st' cs) c' \<noteq> None"
    proof (cases "c' = c")
      case False
      then have "member_of ss k' c'" using m others(1) v by (auto split: if_splits)
      with False L(4) show ?thesis by (auto simp: bt_get_insert)
    qed (simp add: bt_get_insert)
  next
    fix k' sp c' assume "subscriber_of (bt_insert k s' ss) k' sp c'"
    then show "member_of (bt_insert k s' ss) k' c'"
      using L(5) [of k' sp c'] others(1,2) only(1) v by (cases "c' = c") (auto split: if_splits)
  next
    fix k' c' assume "owns_in (bt_insert k s' ss) k' c'"
    then show "member_of (bt_insert k s' ss) k' c'"
      using L(6) [of k' c'] others(1,3) only(2) v by (cases "c' = c") (auto split: if_splits)
  qed
qed

end
