(* ===== verification/Core_Control.thy ===== *)
theory Core_Control
  imports Core_Inv
begin

text \<open>
  The operations on channels, sessions, admission and spaces keep the invariant of the core.
\<close>

section \<open>Channels, sessions and admission\<close>

lemma cache_len_new [simp]: "cache_len cache_new = 0"
  by (simp add: cache_len_def cache_new_def)

lemma session_wf_new: "config_ok cfg \<Longrightarrow> session_wf cfg new_session"
  using byte_len_new cache_len_new
  by (simp add: session_wf_def structure_ok_def index_inv_def cell_of_def accounting_ok_def within_limits_def new_session_def)

lemma new_session_views [simp]:
  "bs_set (ses_members new_session) = {}" "\<not> subscribed_in new_session sp c" "owned_in new_session c = 0"
  by (simp_all add: new_session_def subscribed_in_def owned_in_def bt_count_empty)

lemma register_channel_inv: "core_inv w \<Longrightarrow> core_inv (snd (register_channel channel w))"
  unfolding register_channel_def
  by (rule try_in_preserves) (auto simp: core_inv_def ids_fresh_def tables_bounded_def bt_len_insert)

lemma provision_session_inv:
  assumes inv: "core_inv w"
  shows "core_inv (snd (provision_session key w))"
  unfolding provision_session_def
proof (rule try_in_preserves [where P = core_inv, OF inv])
  have "core_inv (w\<lparr>wc_sessions := bt_insert key new_session (wc_sessions w)\<rparr>)"
    if new: "bt_get (wc_sessions w) key = None" and room: "bt_len (wc_sessions w) \<noteq> cfg_max_sessions (wc_config w)"
  proof -
    have none: "\<not> member_of (wc_sessions w) key c" "\<not> subscriber_of (wc_sessions w) key sp c"
      "\<not> owns_in (wc_sessions w) key c" for sp c
      using new by (simp_all add: member_of_def subscriber_of_def owns_in_def)
    have "linked (wc_connections w) (bt_insert key new_session (wc_sessions w))"
      by (rule linked_cong [OF core_invD(4) [OF inv]]) (simp_all add: none owned_total_insert_new [OF new])
    then show ?thesis
      using inv new room session_wf_new
      by (auto simp: core_inv_def ids_fresh_def tables_bounded_def bt_get_insert bt_len_insert new_session_def
          split: if_splits)
  qed
  then show "core_inv (snd (if bt_contains (wc_sessions w) key then (Inl (SessionAlreadyProvisioned key), w)
       else if bt_len (wc_sessions w) = cfg_max_sessions (wc_config w) then (Inl SessionLimitReached, w)
       else (Inr (), w\<lparr>wc_sessions := bt_insert key new_session (wc_sessions w)\<rparr>)))"
    using inv by (simp add: bt_contains_iff)
qed

lemma limiters_domain: "dom (bt_get (bt_update k f m)) = dom (bt_get m)"
  by (auto simp: bt_get_update split: if_splits)

lemma conn_wf_limiters:
  "conn_wf cfg st \<Longrightarrow> conn_wf cfg (st\<lparr>cn_session_rate_limiters := bt_update k f (cn_session_rate_limiters st)\<rparr>)"
  by (simp add: conn_wf_def limiters_domain bt_len_update)

lemma set_session_publish_rate_limit_inv:
  assumes inv: "core_inv w"
  shows "core_inv (snd (set_session_publish_rate_limit key policy w))"
  unfolding set_session_publish_rate_limit_def
proof (intro try_in_preserves [where P = core_inv] inv, simp)
  fix p s assume s: "bt_get (wc_sessions w) key = Some s"
  let ?w1 = "w\<lparr>wc_sessions := bt_insert key (s\<lparr>ses_publish_rate_limit := p\<rparr>) (wc_sessions w)\<rparr>"
  let ?f = "\<lambda>_::ConnectionId. \<lambda>c. c\<lparr>cn_session_rate_limiters := bt_update key (configure_limiter p) (cn_session_rate_limiters c)\<rparr>"
  have inv1: "core_inv ?w1"
    using inv s
    by (rule core_inv_session)
      (use core_invD(3) [OF inv s] in \<open>simp_all add: session_wf_def structure_ok_def accounting_ok_def
         within_limits_def kept_entities_refl subscribed_in_def owned_in_def\<close>)
  have "core_inv (?w1\<lparr>wc_connections := bt_map ?f (wc_connections w)\<rparr>)"
    using inv1
  proof (rule core_inv_connections)
    show "rel_option same_links (bt_get (bt_map ?f (wc_connections w)) c) (bt_get (wc_connections ?w1) c)" for c
      by (cases "bt_get (wc_connections w) c") (simp_all add: same_links_def)
    show "conn_wf (wc_config ?w1) st" if "bt_get (bt_map ?f (wc_connections w)) c = Some st" for c st
      using core_invD(2) [OF inv] that by (auto simp: conn_wf_limiters)
  qed
  then show "core_inv (w\<lparr>wc_sessions := bt_insert key (s\<lparr>ses_publish_rate_limit := p\<rparr>) (wc_sessions w),
     wc_connections := bt_map ?f (wc_connections w)\<rparr>)" .
qed

lemma configure_session_admission_inv:
  "core_inv w \<Longrightarrow> core_inv (snd (configure_session_admission key metadata policy capacity w))"
  unfolding configure_session_admission_def
  by (rule try_in_preserves) (simp_all add: core_inv_admission_insert controller_inv_new)

lemma apply_session_capacity_inv:
  "core_inv w \<Longrightarrow> core_inv (snd (apply_session_capacity_at key upd now w))"
  unfolding apply_session_capacity_at_def
  by (intro try_in_preserves [where P = core_inv])
    (simp_all add: case_prod_beta core_inv_admission_insert apply_capacity_inv core_invD(7))

lemma check_managed_admission_rate_inv:
  "core_inv (snd (check_managed_admission_rate_at c now w)) = core_inv w"
  by (simp add: check_managed_admission_rate_at_def Let_def case_prod_beta split: option.split)

lemma request_session_admission_inv:
  assumes "core_inv w"
  shows "core_inv (snd (request_session_admission_at c key ikey now w))"
proof -
  obtain r w1 where r: "check_managed_admission_rate_at c now w = (r, w1)" by fastforce
  then have inv: "core_inv w1" using check_managed_admission_rate_inv [of c now w] assms by simp
  have join: "core_inv (w1\<lparr>wc_admissions := bt_insert key (snd (request_join_at q now a)) (wc_admissions w1)\<rparr>)"
    if "bt_get (wc_admissions w1) key = Some a" for q a
    using inv request_join_inv [OF core_invD(7) [OF inv that]] by (rule core_inv_admission_insert)
  show ?thesis
    unfolding request_session_admission_at_def r prod.case
    by (intro try_in_preserves [where P = core_inv] inv)
      (auto simp: inv join Let_def case_prod_beta split: option.split JoinDecision.split
        intro!: try_in_preserves [where P = core_inv])
qed

section \<open>Joining\<close>

lemma prune_limiters_wf:
  assumes "conn_wf cfg st"
  shows "conn_wf cfg (prune_session_rate_limiters_at now st)" "same_links (prune_session_rate_limiters_at now st) st"
proof -
  show "same_links (prune_session_rate_limiters_at now st) st"
    by (simp add: prune_session_rate_limiters_at_def same_links_def)
  have "bt_len (cn_session_rate_limiters (prune_session_rate_limiters_at now st)) \<le> bt_len (cn_session_rate_limiters st)"
    by (simp add: prune_session_rate_limiters_at_def bt_len_retain)
  moreover have "bs_set (cn_memberships st) \<subseteq> dom (bt_get (cn_session_rate_limiters (prune_session_rate_limiters_at now st)))"
    using assms by (auto simp: conn_wf_def prune_session_rate_limiters_at_def bt_get_retain subset_iff domIff)
  ultimately show "conn_wf cfg (prune_session_rate_limiters_at now st)"
    using assms by (simp add: conn_wf_def prune_session_rate_limiters_at_def)
qed

lemma authenticated_principal_Inr:
  "authenticated_principal w c = Inr pr \<longleftrightarrow> (\<exists>st. bt_get (wc_connections w) c = Some st \<and> cn_authenticated st = Some pr)"
  by (auto simp: authenticated_principal_def and_then_def split: sum.split option.splits)

lemma session_wf_members:
  "session_wf cfg s \<Longrightarrow> session_wf cfg (s\<lparr>ses_members := ms\<rparr>)"
  by (simp add: session_wf_def structure_ok_def accounting_ok_def within_limits_def)

lemma join_links:
  assumes inv: "core_inv w" and st: "bt_get (wc_connections w) c = Some st" and s: "bt_get (wc_sessions w) key = Some s"
    and same: "same_links st1 st" and new: "key \<notin> bs_set (cn_memberships st)"
    and st2: "cn_memberships st2 = bs_insert key (cn_memberships st1)" "cn_subscriptions st2 = cn_subscriptions st1"
      "cn_owned_entities st2 = cn_owned_entities st1"
  shows "linked (bt_insert c st2 (wc_connections w))
    (bt_insert key (s\<lparr>ses_members := bs_insert c (ses_members s)\<rparr>) (wc_sessions w))"
proof -
  note l = core_invD(4) [OF inv]
  have "\<not> member_of (wc_sessions w) key c" using linkedD(1) [OF l st] new by simp
  then have none: "\<not> subscribed_in s sp c" "owned_in s c = 0" for sp
    using linkedD(5,6) [OF l] views_get [OF s] by blast+
  have "SpaceKey key sp \<notin> bs_set (cn_subscriptions st)" for sp
    using linkedD(2) [OF l st] views_get(2) [OF s] none by simp
  then show ?thesis
    by (intro linked_pair [OF l st s])
      (use none same in \<open>auto simp: st2 same_links_def subscribed_in_def owned_in_def\<close>)
qed

lemma bs_len_insert: "bt_len (bs_insert k s) \<le> Suc (bt_len s)"
  by (simp add: bs_insert_def bt_len_insert)

lemma join_unchecked_inv:
  assumes inv: "core_inv w"
  shows "core_inv (snd (join_session_unchecked_admission_at c key now w))"
  unfolding join_session_unchecked_admission_at_def
proof (intro try_in_preserves [where P = core_inv] inv)
  fix pr s st
  assume pr: "authenticated_principal w c = Inr pr" and "ok_or (bt_get (wc_sessions w) key) (SessionNotFound key) = Inr s"
    and "ok_or (bt_get (wc_connections w) c) (UnknownConnection c) = Inr st"
  then have s: "bt_get (wc_sessions w) key = Some s" and st: "bt_get (wc_connections w) c = Some st" by simp_all
  have auth: "cn_authenticated st = Some pr" using pr st by (simp add: authenticated_principal_Inr)
  let ?st1 = "prune_session_rate_limiters_at now st"
  let ?limiters = "if bt_contains (cn_session_rate_limiters ?st1) key then cn_session_rate_limiters ?st1
     else bt_insert key (new_session_limiter (ses_publish_rate_limit s)) (cn_session_rate_limiters ?st1)"
  let ?st2 = "?st1\<lparr>cn_session_rate_limiters := ?limiters, cn_memberships := bs_insert key (cn_memberships ?st1)\<rparr>"
  let ?max = "cfg_max_memberships_per_connection (wc_config w)"
  have wf: "conn_wf (wc_config w) st" by (rule core_invD(2) [OF inv st])
  note wf1 = prune_limiters_wf [OF wf, of now]
  have same: "cn_memberships ?st1 = cn_memberships st" "cn_subscriptions ?st1 = cn_subscriptions st"
    "cn_owned_entities ?st1 = cn_owned_entities st" "cn_authenticated ?st1 = cn_authenticated st"
    by (simp_all add: prune_session_rate_limiters_at_def)
  have pruned: "core_inv (w\<lparr>wc_connections := bt_insert c ?st1 (wc_connections w)\<rparr>)"
    by (rule core_inv_connection [OF inv st wf1(2,1)])
  have joined: "core_inv (w\<lparr>wc_connections := bt_insert c ?st2 (wc_connections w),
       wc_sessions := bt_insert key (s\<lparr>ses_members := bs_insert c (ses_members s)\<rparr>) (wc_sessions w)\<rparr>)"
    if new: "key \<notin> bs_set (cn_memberships st)" and room: "bt_len (cn_memberships st) \<noteq> ?max"
      and fits: "bt_contains (cn_session_rate_limiters ?st1) key \<or> bt_len (cn_session_rate_limiters ?st1) < ?max"
    using inv st s
  proof (rule core_inv_pair)
    have "bt_len (bs_insert key (cn_memberships st)) \<le> ?max"
      using wf room bs_len_insert [of key "cn_memberships st"] by (simp add: conn_wf_def)
    moreover have "bs_set (cn_memberships st) \<subseteq> dom (bt_get (cn_session_rate_limiters ?st1))"
      using wf1(1) same by (simp add: conn_wf_def)
    then have "bs_set (bs_insert key (cn_memberships st)) \<subseteq> dom (bt_get ?limiters)"
      by (auto simp: bt_contains_iff bt_get_insert)
    moreover have "bt_len ?limiters \<le> ?max"
      using fits wf1(1) by (auto simp: conn_wf_def bt_len_insert)
    ultimately show "conn_wf (wc_config w) ?st2"
      using wf1(1) auth same by (simp add: conn_wf_def)
    show "session_wf (wc_config w) (s\<lparr>ses_members := bs_insert c (ses_members s)\<rparr>)"
      by (rule session_wf_members [OF core_invD(3) [OF inv s]])
    show "linked (bt_insert c ?st2 (wc_connections w))
      (bt_insert key (s\<lparr>ses_members := bs_insert c (ses_members s)\<rparr>) (wc_sessions w))"
      by (rule join_links [OF inv st s wf1(2) new]) simp_all
  qed (simp add: kept_entities_refl)
  show "core_inv (snd (if bs_member key (cn_memberships st) then (Inr (), w)
       else if bt_len (cn_memberships st) = ?max then (Inl MembershipLimitReached, w)
       else let state1 = ?st1 in
         if \<not> bt_contains (cn_session_rate_limiters state1) key \<and> ?max \<le> bt_len (cn_session_rate_limiters state1)
         then (Inl MembershipLimitReached, w\<lparr>wc_connections := bt_insert c state1 (wc_connections w)\<rparr>)
         else let limiters = (if bt_contains (cn_session_rate_limiters state1) key then cn_session_rate_limiters state1
                     else bt_insert key (new_session_limiter (ses_publish_rate_limit s)) (cn_session_rate_limiters state1));
                  state2 = state1\<lparr>cn_session_rate_limiters := limiters, cn_memberships := bs_insert key (cn_memberships state1)\<rparr>
              in (Inr (), w\<lparr>wc_connections := bt_insert c state2 (wc_connections w),
                    wc_sessions := bt_insert key (s\<lparr>ses_members := bs_insert c (ses_members s)\<rparr>) (wc_sessions w)\<rparr>)))"
    using inv pruned joined unfolding Let_def by (auto simp: bs_member_iff)
qed

lemma join_session_inv: "core_inv w \<Longrightarrow> core_inv (snd (join_session_at c key now w))"
  by (simp add: join_session_at_def join_unchecked_inv)

lemma join_with_admission_inv:
  assumes inv: "core_inv w"
  shows "core_inv (snd (join_session_with_admission_at c key lease now w))"
proof -
  obtain r w1 where j: "join_session_unchecked_admission_at c key now w = (r, w1)" by fastforce
  then have "core_inv w1" using join_unchecked_inv [OF inv, of c key now] by simp
  then show ?thesis
    unfolding join_session_with_admission_at_def j
    by (intro try_in_preserves [where P = core_inv] inv)
      (auto simp: inv split: option.split sum.split intro!: try_in_preserves [where P = core_inv])
qed

lemma core_inv_update_admission: "core_inv w \<Longrightarrow> controller_inv a \<Longrightarrow> core_inv (update_admission k a w)"
  unfolding update_admission_def by (rule core_inv_admission_insert)

lemma queue_status_inv: "controller_inv a \<Longrightarrow> controller_inv (snd (queue_status_at i now a))"
  by (simp add: queue_status_at_def Let_def expire_at_inv)

lemma session_queue_inv:
  assumes "core_inv w"
  shows "core_inv (snd (session_queue_at c key ticket operation now w))"
proof -
  obtain r w1 where r: "check_managed_admission_rate_at c now w = (r, w1)" by fastforce
  then have inv: "core_inv w1" using check_managed_admission_rate_inv [of c now w] assms by simp
  have status: "core_inv (snd (case queue_status_at ticket now a of (s, c') \<Rightarrow> (Inr s, update_admission key c' w)))"
    if "core_inv w" "controller_inv a" for a w
    using that by (simp add: case_prod_beta core_inv_update_admission queue_status_inv)
  have claim: "core_inv (snd (case claim_offer_at ticket now a of
        (Inl _, c') \<Rightarrow> (case queue_status_at ticket now c' of (s, c') \<Rightarrow> (Inr s, update_admission key c' w1))
      | (Inr lease, c') \<Rightarrow>
          let w2 = (update_admission key c' w1)\<lparr>wc_pending_admissions := bt_insert (c, key) lease (wc_pending_admissions w1)\<rparr>
          in (case join_session_with_admission_at c key lease now w2 of
                (Inl e, w3) \<Rightarrow>
                  let w4 = w3\<lparr>wc_pending_admissions := bt_remove (c, key) (wc_pending_admissions w3),
                              wc_admission_tickets := bt_remove (c, key) (wc_admission_tickets w3)\<rparr>
                  in try_in w4 (ok_or (bt_get (wc_admissions w4) key) (AdmissionLeaseRequired key))
                       (\<lambda>a. (Inl e, update_admission key (rollback_claim_at ticket lease now a) w4))
              | (Inr _, w3) \<Rightarrow>
                  try_in w3 (ok_or (bt_get (wc_admissions w3) key) (AdmissionLeaseRequired key))
                    (\<lambda>a. case queue_status_at ticket now a of (s, c') \<Rightarrow> (Inr s, update_admission key c' w3)))))"
    if a: "controller_inv a" for a
  proof -
    obtain r' a' where cl: "claim_offer_at ticket now a = (r', a')" by fastforce
    have a': "controller_inv a'" using claim_inv [OF a, of ticket now] cl by simp
    show ?thesis
    proof (cases r')
      case (Inl e)
      then show ?thesis using status [OF inv a'] by (simp add: cl)
    next
      case (Inr lease)
      let ?w2 = "(update_admission key a' w1)\<lparr>wc_pending_admissions := bt_insert (c, key) lease (wc_pending_admissions w1)\<rparr>"
      have "core_inv ?w2" using inv a' by (simp add: core_inv_update_admission)
      then have inv3: "core_inv (snd (join_session_with_admission_at c key lease now ?w2))" by (rule join_with_admission_inv)
      obtain j w3 where j: "join_session_with_admission_at c key lease now ?w2 = (j, w3)" by fastforce
      from inv3 j have "core_inv w3" by simp
      then show ?thesis
        using core_invD(7) [of w3]
        by (cases j) (auto simp: cl Inr j Let_def core_inv_update_admission rollback_inv case_prod_beta queue_status_inv
            intro!: try_in_preserves [where P = core_inv])
    qed
  qed
  show ?thesis
    unfolding session_queue_at_def r prod.case Let_def [of "\<lambda>c w. _ c w"]
    apply (intro try_in_preserves [where P = core_inv] inv)
    using inv core_invD(7) [OF inv] status [OF inv] claim
    by (auto simp: case_prod_beta core_inv_update_admission heartbeat_inv cancel_inv
        split: QueueOperation.split intro!: try_in_preserves [where P = core_inv])
qed

lemma maintain_admission_inv: "core_inv w \<Longrightarrow> core_inv (maintain_admission_at now w)"
  unfolding maintain_admission_at_def
  by (rule core_inv_admissions) (auto simp: maintain_at_def expire_at_inv core_invD(7))

lemma admit_and_join_inv:
  assumes inv: "core_inv w"
  shows "core_inv (snd (admit_and_join_session_at c key ikey now w))"
proof -
  obtain r w1 where r: "request_session_admission_at c key ikey now w = (r, w1)" by fastforce
  then have inv1: "core_inv w1" using request_session_admission_inv [OF inv, of c key ikey now] by simp
  have "core_inv (snd (case join_session_with_admission_at c key lease now w1 of
                  (Inr _, w2) \<Rightarrow> (Inr d, w2)
                | (Inl e, w2) \<Rightarrow>
                    (Inl e,
                     w2\<lparr>wc_pending_admissions := bt_remove (c, key) (wc_pending_admissions w2),
                       wc_admissions := bt_update key (release_at lease Intentional now) (wc_admissions w2)\<rparr>)))" for lease d
  proof -
    obtain j w2 where j: "join_session_with_admission_at c key lease now w1 = (j, w2)" by fastforce
    then have "core_inv w2" using join_with_admission_inv [OF inv1, of c key lease now] by simp
    then show ?thesis
      using core_inv_admission_update [of "w2\<lparr>wc_pending_admissions := bt_remove (c, key) (wc_pending_admissions w2)\<rparr>"]
      by (cases j) (simp_all add: j release_inv)
  qed
  then show ?thesis
    unfolding admit_and_join_session_at_def r using inv1 by (auto split: sum.split JoinDecision.split)
qed

section \<open>Spaces\<close>

lemma install_wf:
  assumes wf: "session_wf cfg s" and absent: "bt_get (ses_spaces s) (sd_id d) = None"
    and ids: "sd_id d \<noteq> 0" "sd_epoch d \<noteq> 0"
    and room: "bt_len (ses_spaces s) \<noteq> cfg_max_spaces_per_session cfg"
    and history: "bt_get (ses_space_epoch_tombstones s) (sd_id d) = None \<Longrightarrow>
      bt_len (ses_spaces s) + bt_len (ses_space_epoch_tombstones s) \<noteq> cfg_max_space_epoch_tombstones_per_session cfg"
  shows "session_wf cfg (s\<lparr>ses_space_epoch_tombstones := bt_remove (sd_id d) (ses_space_epoch_tombstones s),
                           ses_subscribers := bt_insert (sd_id d) bt_empty (ses_subscribers s),
                           ses_spaces := bt_insert (sd_id d) d (ses_spaces s)\<rparr>)" (is "session_wf cfg ?t")
proof -
  have st: "structure_ok s" and lim: "within_limits cfg s" using wf by (simp_all add: session_wf_def)
  note D = structure_okD [OF st]
  have "structure_ok ?t"
    unfolding structure_ok_def
  proof (intro conjI allI impI)
    fix i r assume r: "bt_get (ses_entities ?t) i = Some r"
    then show "er_id r = i" using D(2) by simp
    obtain d0 where d0: "bt_get (ses_spaces s) (er_space r) = Some d0" "sd_epoch d0 = er_space_epoch r"
      using D(3) [of i r] r by auto
    then have "er_space r \<noteq> sd_id d" using absent by auto
    with d0 show "\<exists>d0. bt_get (ses_spaces ?t) (er_space r) = Some d0 \<and> sd_epoch d0 = er_space_epoch r" by simp
  next
    fix i assume "bt_get (ses_space_epoch_tombstones ?t) i \<noteq> None"
    then show "bt_get (ses_spaces ?t) i = None" using D(5) by (auto simp: bt_get_remove bt_get_insert split: if_splits)
  qed (use D(1,4) ids in \<open>auto simp: bt_get_insert split: if_splits\<close>)
  moreover have "cell_of ?t i = cell_of s i" for i
    using D(3) [of i] absent by (auto simp: cell_of_def bt_get_insert split: option.split)
  then have "index_inv ?t = index_inv s" by (intro index_inv_cong) simp_all
  then have "index_inv ?t" using wf by (simp add: session_wf_def)
  moreover have "accounting_ok ?t" using wf by (simp add: session_wf_def accounting_ok_def)
  moreover have "within_limits cfg ?t"
    using lim room absent history
    by (auto simp: within_limits_def bt_len_insert bt_len_remove dest: bt_len_pos)
  ultimately show ?thesis by (simp add: session_wf_def)
qed

lemma install_space_inv:
  assumes inv: "core_inv w"
  shows "core_inv (snd (install_space key d w))"
  unfolding install_space_def
proof (intro try_in_preserves [where P = core_inv] inv)
  fix u s assume "map_err InvalidSpace (validate_space d) = Inr u"
    and "ok_or (bt_get (wc_sessions w) key) (SessionNotFound key) = Inr s"
  then have ids: "sd_id d \<noteq> 0" "sd_epoch d \<noteq> 0" and s: "bt_get (wc_sessions w) key = Some s"
    using validate_space_ok_ids [of d] by auto
  let ?t = "s\<lparr>ses_space_epoch_tombstones := bt_remove (sd_id d) (ses_space_epoch_tombstones s),
              ses_subscribers := bt_insert (sd_id d) bt_empty (ses_subscribers s),
              ses_spaces := bt_insert (sd_id d) d (ses_spaces s)\<rparr>"
  have wf: "session_wf (wc_config w) s" by (rule core_invD(3) [OF inv s])
  have "core_inv (w\<lparr>wc_sessions := bt_insert key ?t (wc_sessions w)\<rparr>)"
    if absent: "bt_get (ses_spaces s) (sd_id d) = None" and "bt_len (ses_spaces s) \<noteq> cfg_max_spaces_per_session (wc_config w)"
      and "bt_get (ses_space_epoch_tombstones s) (sd_id d) = None \<Longrightarrow>
        bt_len (ses_spaces s) + bt_len (ses_space_epoch_tombstones s) \<noteq> cfg_max_space_epoch_tombstones_per_session (wc_config w)"
    using inv s
  proof (rule core_inv_session)
    show "session_wf (wc_config w) ?t" by (rule install_wf [OF wf absent ids]) (use that in auto)
    have "bt_get (ses_subscribers s) (sd_id d) = None"
      using wf absent structure_okD(4) by (simp add: session_wf_def)
    then show "subscribed_in ?t sp c = subscribed_in s sp c" for sp c
      by (auto simp: subscribed_in_def bt_get_insert)
  qed (simp_all add: kept_entities_refl owned_in_def)
  then show "core_inv (snd (if bt_contains (ses_spaces s) (sd_id d)
       then (Inl (SpaceAlreadyExists (SpaceKey key (sd_id d))), w)
       else if bt_len (ses_spaces s) = cfg_max_spaces_per_session (wc_config w) then (Inl SpaceLimitReached, w)
       else try_in w
           (case bt_get (ses_space_epoch_tombstones s) (sd_id d) of
              Some previous_epoch \<Rightarrow>
                if sd_epoch d \<le> previous_epoch then Inl (EpochDidNotAdvance previous_epoch (sd_epoch d)) else Inr ()
            | None \<Rightarrow>
                if bt_len (ses_spaces s) + bt_len (ses_space_epoch_tombstones s)
                     = cfg_max_space_epoch_tombstones_per_session (wc_config w)
                then Inl SpaceIdHistoryLimitReached else Inr ()) (\<lambda>_.
         try_in w (case sd_parent d of None \<Rightarrow> Inr () | Some p \<Rightarrow> validate_parent_anchor s p) (\<lambda>_.
           (Inr (), w\<lparr>wc_sessions := bt_insert key ?t (wc_sessions w)\<rparr>)))))"
    using inv by (auto intro!: try_in_preserves [where P = core_inv] simp: bt_contains_iff split: option.splits if_splits)
qed

text \<open>What is left of a session after a removal.\<close>

lemma removal_session:
  assumes s: "bt_get (wc_sessions w) key = Some s"
  obtains re rs where
    "closure_loop (bt_values (ses_spaces s)) (bt_values (ses_entities s)) entities bt_empty = (re, rs)"
    "bs_set entities \<subseteq> bs_set re"
    "bt_get (wc_sessions (snd (remove_entities_and_anchored_spaces key entities w))) key =
       Some (snd (remove_from_session key re rs s))"
proof -
  obtain re rs cs where r:
    "closure_loop (bt_values (ses_spaces s)) (bt_values (ses_entities s)) entities bt_empty = (re, rs)"
    "snd (remove_entities_and_anchored_spaces key entities w) =
       w\<lparr>wc_sessions := bt_insert key (snd (remove_from_session key re rs s)) (wc_sessions w), wc_connections := cs\<rparr>"
    "\<And>c. bt_get cs c = map_option (unlink_connection key re rs (removed_of re s c)) (bt_get (wc_connections w) c)"
    by (rule removal_spec [OF s, where entities = entities]) (rule that)
  from that [OF r(1)] closure_loop_spec [OF r(1)] show ?thesis by (simp add: r(2))
qed

lemma removal_connections:
  "bt_get (wc_connections (snd (remove_entities_and_anchored_spaces key entities w))) c = None \<longleftrightarrow>
     bt_get (wc_connections w) c = None"
  "bt_get (wc_connections w) c = Some st \<Longrightarrow>
   \<exists>st'. bt_get (wc_connections (snd (remove_entities_and_anchored_spaces key entities w))) c = Some st'
     \<and> cn_memberships st' = cn_memberships st \<and> cn_authenticated st' = cn_authenticated st"
proof -
  have both: "(bt_get (wc_connections (snd (remove_entities_and_anchored_spaces key entities w))) c = None \<longleftrightarrow>
     bt_get (wc_connections w) c = None)
   \<and> (\<forall>st. bt_get (wc_connections w) c = Some st \<longrightarrow>
   (\<exists>st'. bt_get (wc_connections (snd (remove_entities_and_anchored_spaces key entities w))) c = Some st'
     \<and> cn_memberships st' = cn_memberships st \<and> cn_authenticated st' = cn_authenticated st))"
  proof (cases "bt_get (wc_sessions w) key")
    case None
    then show ?thesis
      by (auto simp: remove_entities_and_anchored_spaces_def Let_def case_prod_beta purge_all_get bt_empty.rep_eq)
  next
    case (Some s)
    obtain re rs cs where r:
      "closure_loop (bt_values (ses_spaces s)) (bt_values (ses_entities s)) entities bt_empty = (re, rs)"
      "snd (remove_entities_and_anchored_spaces key entities w) =
         w\<lparr>wc_sessions := bt_insert key (snd (remove_from_session key re rs s)) (wc_sessions w), wc_connections := cs\<rparr>"
      "\<And>c. bt_get cs c = map_option (unlink_connection key re rs (removed_of re s c)) (bt_get (wc_connections w) c)"
      by (rule removal_spec [OF Some, where entities = entities]) (rule that)
    show ?thesis unfolding r(2) using r(3) [of c] by (auto simp: unlink_connection_def)
  qed
  then show "bt_get (wc_connections (snd (remove_entities_and_anchored_spaces key entities w))) c = None \<longleftrightarrow>
     bt_get (wc_connections w) c = None" by blast
  show "\<exists>st'. bt_get (wc_connections (snd (remove_entities_and_anchored_spaces key entities w))) c = Some st'
     \<and> cn_memberships st' = cn_memberships st \<and> cn_authenticated st' = cn_authenticated st"
    if "bt_get (wc_connections w) c = Some st"
    using both that by blast
qed

lemma epoch_wf:
  assumes wf: "session_wf cfg s" and d: "bt_get (ses_spaces s) space = Some d" and e: "e \<noteq> 0"
    and empty: "\<And>i r. bt_get (ses_entities s) i = Some r \<Longrightarrow> er_space r \<noteq> space"
  shows "session_wf cfg ((recompute_state_bytes
     (s\<lparr>ses_spaces := bt_insert space (d\<lparr>sd_epoch := e\<rparr>) (ses_spaces s), ses_state := cache_retain P (ses_state s)\<rparr>))
     \<lparr>ses_sequences := bt_retain Q (ses_sequences s)\<rparr>)" (is "session_wf cfg ?t")
proof -
  have st: "structure_ok s" and lim: "within_limits cfg s" using wf by (simp_all add: session_wf_def)
  note D = structure_okD [OF st]
  have "structure_ok ?t"
    unfolding structure_ok_def
  proof (intro conjI allI impI)
    fix i r assume r: "bt_get (ses_entities ?t) i = Some r"
    then have r': "bt_get (ses_entities s) i = Some r" by (simp add: recompute_state_bytes_def)
    then show "er_id r = i" by (rule D(2))
    show "\<exists>d0. bt_get (ses_spaces ?t) (er_space r) = Some d0 \<and> sd_epoch d0 = er_space_epoch r"
      using D(3) [OF r'] empty [OF r'] by (simp add: recompute_state_bytes_def bt_get_insert)
  qed (use D(1,4,5) d e in \<open>auto simp: recompute_state_bytes_def bt_get_insert split: if_splits\<close>)
  moreover have "cell_of ?t i = cell_of s i" for i
    using empty [of i] by (auto simp: cell_of_def recompute_state_bytes_def bt_get_insert split: option.split)
  then have "index_inv ?t = index_inv s" by (intro index_inv_cong) (simp_all add: recompute_state_bytes_def)
  then have "index_inv ?t" using wf by (simp add: session_wf_def)
  moreover have "accounting_ok ?t" by (simp add: accounting_ok_def recompute_state_bytes_def)
  moreover have "within_limits cfg ?t"
    by (rule within_limits_mono [OF lim])
      (use d in \<open>simp_all add: recompute_state_bytes_def history_len_def bt_len_insert bt_len_retain cache_retain_bounds\<close>)
  ultimately show ?thesis by (simp add: session_wf_def)
qed

lemma advance_space_epoch_inv:
  assumes inv: "core_inv w"
  shows "core_inv (snd (advance_space_epoch key space proposed w))"
  unfolding advance_space_epoch_def
proof (intro try_in_preserves [where P = core_inv] inv)
  fix u s d assume "require_nonzero proposed KindSpaceEpoch = Inr u"
    and "ok_or (bt_get (wc_sessions w) key) (SessionNotFound key) = Inr s"
    and "ok_or (bt_get (ses_spaces s) space) (SpaceNotFound (SpaceKey key space)) = Inr d"
  then have e: "proposed \<noteq> 0" and s: "bt_get (wc_sessions w) key = Some s" and d: "bt_get (ses_spaces s) space = Some d"
    by (simp_all add: require_nonzero_def ensure_def split: if_splits)
  let ?es = "bs_of_list (map er_id (filter (\<lambda>e. er_space e = space) (bt_values (ses_entities s))))"
  let ?P = "\<lambda>m. om_namespace m = sk_namespace key \<and> om_session m = sk_session key \<and> om_space m = space"
  obtain sm w1 where w1: "remove_entities_and_anchored_spaces key ?es w = (sm, w1)" by fastforce
  obtain n cs where cs: "purge_all ?P (wc_connections w1) = (n, cs)" by fastforce
  have "core_inv w1" using removal_inv [OF inv, of key ?es] w1 by simp
  then have inv2: "core_inv (w1\<lparr>wc_connections := cs\<rparr>)" using core_inv_purge_all [of w1 ?P] cs by simp
  have gone: "er_space r \<noteq> space" if s2: "bt_get (wc_sessions w1) key = Some s2" "bt_get (ses_entities s2) i = Some r" for s2 i r
  proof -
    obtain re rs where re: "bs_set ?es \<subseteq> bs_set re"
      "bt_get (wc_sessions (snd (remove_entities_and_anchored_spaces key ?es w))) key = Some (snd (remove_from_session key re rs s))"
      by (rule removal_session [OF s, where entities = ?es]) (rule that)
    then have i: "bt_get (ses_entities s) i = Some r" "i \<notin> bs_set re"
      using s2 w1 by (auto simp: remove_from_session_fields)
    have "structure_ok s" using core_invD(3) [OF inv s] by (simp add: session_wf_def)
    then have "er_id r = i" using i(1) by (rule structure_okD(2))
    moreover have "r \<in> set (bt_values (ses_entities s))" using i(1) bt_values_iff by metis
    ultimately show ?thesis using i(2) re(1) by force
  qed
  show "core_inv (snd (if proposed \<le> sd_epoch d then (Inl (EpochDidNotAdvance (sd_epoch d) proposed), w)
       else let entities = ?es; (summary, w1) = remove_entities_and_anchored_spaces key entities w;
             (discarded, connections) = purge_all ?P (wc_connections w1);
             summary2 = summary\<lparr>cs_queued_messages_discarded := cs_queued_messages_discarded summary + discarded\<rparr>;
             w2 = w1\<lparr>wc_connections := connections\<rparr>
         in try_in w2 (ok_or (bt_get (wc_sessions w2) key) (SessionNotFound key)) (\<lambda>session2.
            try_in w2 (ok_or (bt_get (ses_spaces session2) space) (SpaceNotFound (SpaceKey key space))) (\<lambda>d2.
              let s3 = recompute_state_bytes
                         (session2\<lparr>ses_spaces := bt_insert space (d2\<lparr>sd_epoch := proposed\<rparr>) (ses_spaces session2),
                                   ses_state := cache_retain (\<lambda>key. cak_space key \<noteq> space) (ses_state session2)\<rparr>);
                  s4 = s3\<lparr>ses_sequences := bt_retain (\<lambda>key _. sqk_space key \<noteq> space) (ses_sequences s3)\<rparr>
              in (Inr summary2, w2\<lparr>wc_sessions := bt_insert key s4 (wc_sessions w2)\<rparr>)))))"
  proof (cases "proposed \<le> sd_epoch d")
    case False
    show ?thesis
      unfolding if_not_P [OF False] Let_def w1 prod.case cs
    proof (intro try_in_preserves [where P = core_inv] inv2)
      fix s2 d2
      assume "ok_or (bt_get (wc_sessions (w1\<lparr>wc_connections := cs\<rparr>)) key) (SessionNotFound key) = Inr s2"
        and "ok_or (bt_get (ses_spaces s2) space) (SpaceNotFound (SpaceKey key space)) = Inr d2"
      then have s2: "bt_get (wc_sessions (w1\<lparr>wc_connections := cs\<rparr>)) key = Some s2" and d2: "bt_get (ses_spaces s2) space = Some d2"
        by simp_all
      let ?s3 = "recompute_state_bytes (s2\<lparr>ses_spaces := bt_insert space (d2\<lparr>sd_epoch := proposed\<rparr>) (ses_spaces s2),
          ses_state := cache_retain (\<lambda>key. cak_space key \<noteq> space) (ses_state s2)\<rparr>)"
      have seq: "ses_sequences ?s3 = ses_sequences s2" by (simp add: recompute_state_bytes_def)
      have "core_inv ((w1\<lparr>wc_connections := cs\<rparr>)\<lparr>wc_sessions := bt_insert key
         (?s3\<lparr>ses_sequences := bt_retain (\<lambda>key _. sqk_space key \<noteq> space) (ses_sequences s2)\<rparr>)
         (wc_sessions (w1\<lparr>wc_connections := cs\<rparr>))\<rparr>)"
        using inv2 s2
        by (rule core_inv_session)
          (use epoch_wf [OF core_invD(3) [OF inv2 s2] d2 e] gone s2 in
            \<open>simp_all add: kept_entities_refl subscribed_in_def owned_in_def recompute_state_bytes_def\<close>)
      then show "core_inv (snd (Inr (sm\<lparr>cs_queued_messages_discarded := cs_queued_messages_discarded sm + n\<rparr>),
         (w1\<lparr>wc_connections := cs\<rparr>)\<lparr>wc_sessions := bt_insert key
            (?s3\<lparr>ses_sequences := bt_retain (\<lambda>key _. sqk_space key \<noteq> space) (ses_sequences ?s3)\<rparr>)
           (wc_sessions (w1\<lparr>wc_connections := cs\<rparr>))\<rparr>))"
        unfolding seq by simp
    qed
  qed (simp add: inv)
qed

end
