(* ===== verification/Core_Connections.thy ===== *)
theory Core_Connections
  imports Core_Control
begin

text \<open>
  Connecting, authenticating, leaving and losing a connection keep the invariant of the core.
\<close>

section \<open>Connections\<close>

lemma transport_connected_inv:
  assumes inv: "core_inv w"
  shows "core_inv (snd (transport_connected w))"
proof -
  let ?i = "wc_next_connection_id w"
  note fresh = core_invD(5) [OF inv, unfolded ids_fresh_def] and l = core_invD(4) [OF inv]
  have absent: "bt_get (wc_connections w) ?i = None" using fresh by (metis less_irrefl not_Some_eq)
  have max: "?i + 1 \<noteq> 0 \<and> ?i < ?i + 1" if "checked_add_u64 ?i 1 = Some j" for j
    using that checked_succ_u64 [of ?i] u64_less_succ [of ?i] by (metis option.distinct(1) word_not_simps(1))
  have step: "checked_add_u64 ?i 1 = Some j \<Longrightarrow> j = ?i + 1" for j by (simp add: checked_add_u64_def split: if_splits)
  have nxt: "core_inv (w\<lparr>wc_next_connection_id := j\<rparr>)" if j: "checked_add_u64 ?i 1 = Some j" for j
    using inv max [OF j] step [OF j] unfolding core_inv_def
    by (auto simp: ids_fresh_def tables_bounded_def intro: less_trans)
  have "core_inv (w\<lparr>wc_next_connection_id := j, wc_connections := bt_insert ?i
       \<lparr>cn_authenticated = None, cn_memberships = bt_empty, cn_subscriptions = bt_empty,
        cn_owned_entities = 0, cn_rate_limiter = new_rate_limiter,
        cn_session_rate_limiters = bt_empty, cn_outbound = q\<rparr> (wc_connections w)\<rparr>)"
    if j: "checked_add_u64 ?i 1 = Some j" and q: "new_queue (cfg_outbound_queue (wc_config w)) = Inr q"
      and room: "bt_len (wc_connections w) \<noteq> cfg_max_connections (wc_config w)" for j q
  proof -
    let ?st = "\<lparr>cn_authenticated = None, cn_memberships = bt_empty, cn_subscriptions = bt_empty,
        cn_owned_entities = 0, cn_rate_limiter = new_rate_limiter,
        cn_session_rate_limiters = bt_empty, cn_outbound = q\<rparr>"
    have none: "\<not> member_of (wc_sessions w) k ?i" for k using linkedD(4) [OF l] absent by blast
    then have none': "\<not> subscriber_of (wc_sessions w) k sp ?i" "\<not> owns_in (wc_sessions w) k ?i" for k sp
      using linkedD(5,6) [OF l] by blast+
    have "owned_total (wc_sessions w) ?i = 0"
      using none'(2) unfolding owned_total_def bt_sum_dom owns_in_def by (auto simp: domIff)
    then have "linked (bt_insert ?i ?st (wc_connections w)) (wc_sessions w)"
      using none none' linkedD(4) [OF l]
      by (intro linkedI) (auto simp: bt_get_insert linkedD(1-3,5,6) [OF l] split: if_splits)
    moreover have "conn_wf (wc_config w) ?st"
      using new_queue_inv [OF q] q by (auto simp: conn_wf_def new_queue_def validate_queue_config_def split: if_splits)
    moreover have "ids_fresh (w\<lparr>wc_next_connection_id := j, wc_connections := bt_insert ?i ?st (wc_connections w)\<rparr>)"
      using fresh max [OF j] step [OF j] unfolding ids_fresh_def
      by (auto simp: bt_get_insert split: if_splits intro: less_trans)
    ultimately show ?thesis
      using inv room absent unfolding core_inv_def tables_bounded_def
      by (auto simp: bt_get_insert bt_len_insert split: if_splits)
  qed
  then show ?thesis
    unfolding transport_connected_def Let_def
    using inv nxt by (auto intro!: try_in_preserves [where P = core_inv])
qed

lemma authenticate_inv:
  assumes inv: "core_inv w"
  shows "core_inv (snd (authenticate digest c credentials now w))"
proof -
  have set: "core_inv (w1\<lparr>wc_connections := bt_insert c (st\<lparr>cn_authenticated := Some pr\<rparr>) (wc_connections w1)\<rparr>)"
    if "core_inv w1" "bt_get (wc_connections w1) c = Some st" for w1 st pr
    using that core_invD(2) [OF that]
    by (intro core_inv_connection) (simp_all add: same_links_def conn_wf_def)
  obtain r w1 where r: "(case wc_managed w of None \<Rightarrow> (wc_authenticator w credentials, w)
      | Some m \<Rightarrow> (case managed_authenticate digest c credentials now m of (r, m') \<Rightarrow> (r, w\<lparr>wc_managed := Some m'\<rparr>))) = (r, w1)"
    by fastforce
  then have "core_inv w1" using inv by (auto simp: case_prod_beta split: option.splits)
  then show ?thesis
    unfolding authenticate_def r
    using inv set by (auto intro!: try_in_preserves [where P = core_inv])
qed

text \<open>A removal of everything a connection owns leaves it owning nothing there.\<close>

abbreviation owned_set :: "ConnectionId \<Rightarrow> SessionState \<Rightarrow> EntityId btree_set" where
  "owned_set c s \<equiv> bs_of_list (map er_id (filter (\<lambda>e. er_owner_connection e = c) (bt_values (ses_entities s))))"

lemma owned_removed:
  assumes s: "bt_get (wc_sessions w) key = Some s" and st: "structure_ok s"
    and s1: "bt_get (wc_sessions (snd (remove_entities_and_anchored_spaces key (owned_set c s) w))) key = Some s1"
  shows "owned_in s1 c = 0" and "ses_members s1 = ses_members s"
proof -
  obtain re rs where re: "bs_set (owned_set c s) \<subseteq> bs_set re"
    "bt_get (wc_sessions (snd (remove_entities_and_anchored_spaces key (owned_set c s) w))) key = Some (snd (remove_from_session key re rs s))"
    by (rule removal_session [OF s, where entities = "owned_set c s"]) (rule that)
  then have s1': "s1 = snd (remove_from_session key re rs s)" using s1 by simp
  then show "ses_members s1 = ses_members s" by (simp add: remove_from_session_fields)
  have "er_owner_connection r \<noteq> c" if "bt_get (ses_entities s1) i = Some r" for i r
  proof -
    have i: "bt_get (ses_entities s) i = Some r" "i \<notin> bs_set re"
      using that by (auto simp: s1' remove_from_session_fields)
    have "er_id r = i" using structure_okD(2) [OF st] i(1) by blast
    moreover have "r \<in> set (bt_values (ses_entities s))" using i(1) bt_values_iff by metis
    ultimately show ?thesis using i(2) re(1) by force
  qed
  then show "owned_in s1 c = 0" using owned_in_pos [of s1 c] by blast
qed

text \<open>The two halves of a detachment.\<close>

definition without_member :: "ConnectionId \<Rightarrow> SessionState \<Rightarrow> SessionState" where
  "without_member c s =
     s\<lparr>ses_members := bs_remove c (ses_members s),
       ses_subscribers := bt_map (\<lambda>_. bs_remove c) (ses_subscribers s),
       ses_sequences := bt_retain (\<lambda>k _. sqk_connection k \<noteq> c) (ses_sequences s)\<rparr>"

definition without_session :: "SessionKey \<Rightarrow> ConnectionState \<Rightarrow> ConnectionState" where
  "without_session key st =
     st\<lparr>cn_memberships := bs_remove key (cn_memberships st),
        cn_session_rate_limiters :=
          (case bt_get (cn_session_rate_limiters st) key of
             None \<Rightarrow> cn_session_rate_limiters st
           | Some limiter \<Rightarrow>
               if \<not> srl_retain_after_leave limiter then bt_remove key (cn_session_rate_limiters st)
               else cn_session_rate_limiters st),
        cn_subscriptions := bs_retain (\<lambda>space. spk_session space \<noteq> key) (cn_subscriptions st),
        cn_outbound := snd (purge (\<lambda>m. om_namespace m = sk_namespace key \<and> om_session m = sk_session key) (cn_outbound st))\<rparr>"

lemma detach_eq:
  "snd (detach_connection_from_session c key w) =
    (let w1 = snd (remove_entities_and_anchored_spaces key
                (case bt_get (wc_sessions w) key of None \<Rightarrow> bt_empty | Some s \<Rightarrow> owned_set c s) w);
         w2 = (case bt_get (wc_sessions w1) key of None \<Rightarrow> w1
               | Some s \<Rightarrow> w1\<lparr>wc_sessions := bt_insert key (without_member c s) (wc_sessions w1)\<rparr>)
     in case bt_get (wc_connections w2) c of None \<Rightarrow> w2
        | Some st \<Rightarrow> w2\<lparr>wc_connections := bt_insert c (without_session key st) (wc_connections w2)\<rparr>)"
  unfolding detach_connection_from_session_def Let_def case_prod_beta without_member_def without_session_def
  by (simp split: option.split)

lemma without_member_views [simp]:
  "bs_set (ses_members (without_member c s)) = bs_set (ses_members s) - {c}"
  "subscribed_in (without_member c s) sp c' \<longleftrightarrow> c' \<noteq> c \<and> subscribed_in s sp c'"
  "owned_in (without_member c s) c' = owned_in s c'"
  "ses_entities (without_member c s) = ses_entities s"
  by (auto simp: without_member_def subscribed_in_def owned_in_def)

lemma without_member_wf:
  assumes "session_wf cfg s"
  shows "session_wf cfg (without_member c s)"
proof -
  have "bt_len (ses_sequences (without_member c s)) \<le> bt_len (ses_sequences s)"
    by (simp add: without_member_def bt_len_retain)
  then show ?thesis
    using assms
    by (simp add: session_wf_def without_member_def structure_ok_def accounting_ok_def within_limits_def)
qed

lemma without_session_views [simp]:
  "bs_set (cn_memberships (without_session key st)) = bs_set (cn_memberships st) - {key}"
  "SpaceKey k sp \<in> bs_set (cn_subscriptions (without_session key st)) \<longleftrightarrow> k \<noteq> key \<and> SpaceKey k sp \<in> bs_set (cn_subscriptions st)"
  "cn_owned_entities (without_session key st) = cn_owned_entities st"
  "cn_authenticated (without_session key st) = cn_authenticated st"
  by (auto simp: without_session_def)

lemma without_session_wf:
  assumes wf: "conn_wf cfg st"
  shows "conn_wf cfg (without_session key st)"
proof -
  let ?st = "without_session key st"
  let ?l = "cn_session_rate_limiters ?st"
  have "bt_len ?l \<le> bt_len (cn_session_rate_limiters st)"
    by (auto simp: without_session_def bt_len_remove split: option.split)
  moreover have "bt_len (cn_memberships ?st) \<le> bt_len (cn_memberships st)"
    "bt_len (cn_subscriptions ?st) \<le> bt_len (cn_subscriptions st)"
    by (simp_all add: without_session_def bs_len_remove bs_len_retain)
  ultimately have "bt_len ?l \<le> cfg_max_memberships_per_connection cfg"
    "bt_len (cn_memberships ?st) \<le> cfg_max_memberships_per_connection cfg"
    "bt_len (cn_subscriptions ?st) \<le> cfg_max_subscriptions_per_connection cfg"
    using wf unfolding conn_wf_def by linarith+
  moreover have "dom (bt_get (cn_session_rate_limiters st)) - {key} \<subseteq> dom (bt_get ?l)"
    by (auto simp: without_session_def bt_get_remove split: option.splits)
  then have "bs_set (cn_memberships st) - {key} \<subseteq> dom (bt_get ?l)"
    using wf unfolding conn_wf_def by blast
  moreover have "queue_inv (cn_outbound ?st)" "q_config (cn_outbound ?st) = q_config (cn_outbound st)"
    using wf by (simp_all add: without_session_def conn_wf_def purge_inv)
  ultimately show ?thesis using wf by (simp add: conn_wf_def)
qed

lemma detach_inv:
  assumes inv: "core_inv w"
  shows "core_inv (snd (detach_connection_from_session c key w))"
proof -
  define es where "es = (case bt_get (wc_sessions w) key of None \<Rightarrow> bt_empty | Some s \<Rightarrow> owned_set c s)"
  define w1 where "w1 = snd (remove_entities_and_anchored_spaces key es w)"
  have inv1: "core_inv w1" unfolding w1_def by (rule removal_inv [OF inv])
  note l = core_invD(4) [OF inv1]
  have eq: "snd (detach_connection_from_session c key w) =
    (let w2 = (case bt_get (wc_sessions w1) key of None \<Rightarrow> w1
               | Some s \<Rightarrow> w1\<lparr>wc_sessions := bt_insert key (without_member c s) (wc_sessions w1)\<rparr>)
     in case bt_get (wc_connections w2) c of None \<Rightarrow> w2
        | Some st \<Rightarrow> w2\<lparr>wc_connections := bt_insert c (without_session key st) (wc_connections w2)\<rparr>)"
    unfolding detach_eq w1_def es_def by (simp add: Let_def)
  show ?thesis
  proof (cases "bt_get (wc_sessions w1) key")
    case None
    then have "\<not> member_of (wc_sessions w1) key c" by (simp add: member_of_def)
    have "core_inv (w1\<lparr>wc_connections := bt_insert c (without_session key st) (wc_connections w1)\<rparr>)"
      if st: "bt_get (wc_connections w1) c = Some st" for st
      using inv1 st
    proof (rule core_inv_connection)
      have "key \<notin> bs_set (cn_memberships st)" "SpaceKey key sp \<notin> bs_set (cn_subscriptions st)" for sp
        using linkedD(1,2) [OF l st] None by (simp_all add: member_of_def subscriber_of_def)
      then have "x \<in> bs_set (cn_subscriptions (without_session key st)) \<longleftrightarrow> x \<in> bs_set (cn_subscriptions st)"
        "key \<notin> bs_set (cn_memberships st)" for x
        by (cases x; simp; blast)+
      then have "cn_subscriptions (without_session key st) = cn_subscriptions st"
        "cn_memberships (without_session key st) = cn_memberships st"
        by (auto intro!: bs_eqI)
      then show "same_links (without_session key st) st" by (simp add: same_links_def)
    qed (rule without_session_wf [OF core_invD(2) [OF inv1 st]])
    with None inv1 show ?thesis by (simp add: eq Let_def split: option.split)
  next
    case (Some s1)
    then obtain s where s: "bt_get (wc_sessions w) key = Some s"
      unfolding w1_def using removal_session es_def
      by (cases "bt_get (wc_sessions w) key")
        (auto simp: remove_entities_and_anchored_spaces_def Let_def case_prod_beta)
    have "structure_ok s" using core_invD(3) [OF inv s] by (simp add: session_wf_def)
    then have own: "owned_in s1 c = 0" using owned_removed [OF s] Some by (simp add: w1_def es_def s)
    note v = views_get [OF Some]
    have wf: "session_wf (wc_config w1) (without_member c s1)"
      by (rule without_member_wf [OF core_invD(3) [OF inv1 Some]])
    show ?thesis
    proof (cases "bt_get (wc_connections w1) c")
      case None
      then have "c \<notin> bs_set (ses_members s1)" using linkedD(4) [OF l] v(1) by blast
      moreover have "\<not> subscribed_in s1 sp c" for sp
        using linkedD(5) [OF l] v(1,2) calculation by blast
      ultimately have "core_inv (w1\<lparr>wc_sessions := bt_insert key (without_member c s1) (wc_sessions w1)\<rparr>)"
        using inv1 Some wf
        by (intro core_inv_session) (auto simp: kept_entities_refl intro!: bs_eqI)
      with Some None show ?thesis by (simp add: eq Let_def)
    next
      case st: (Some st)
      have "core_inv (w1\<lparr>wc_connections := bt_insert c (without_session key st) (wc_connections w1),
           wc_sessions := bt_insert key (without_member c s1) (wc_sessions w1)\<rparr>)"
        using inv1 st Some
      proof (rule core_inv_pair)
        show "linked (bt_insert c (without_session key st) (wc_connections w1))
          (bt_insert key (without_member c s1) (wc_sessions w1))"
          by (rule linked_pair [OF l st Some]) (simp_all add: own)
      qed (simp_all add: wf kept_entities_refl without_session_wf [OF core_invD(2) [OF inv1 st]])
      moreover have "snd (detach_connection_from_session c key w) =
         w1\<lparr>wc_connections := bt_insert c (without_session key st) (wc_connections w1),
           wc_sessions := bt_insert key (without_member c s1) (wc_sessions w1)\<rparr>"
        by (simp add: eq Let_def Some st)
      ultimately show ?thesis by simp
    qed
  qed
qed

lemma release_admission_inv: "core_inv w \<Longrightarrow> core_inv (release_session_admission c key reason now w)"
  using core_inv_admission_update [of "w\<lparr>wc_admission_leases := al\<rparr>" for al]
  by (auto simp: release_session_admission_def release_inv split: option.split)

lemma release_admission_fields [simp]:
  "wc_connections (release_session_admission c key reason now w) = wc_connections w"
  "wc_sessions (release_session_admission c key reason now w) = wc_sessions w"
  by (simp_all add: release_session_admission_def split: option.split)

lemma leave_session_inv:
  assumes inv: "core_inv w"
  shows "core_inv (snd (leave_session c key now w))"
  unfolding leave_session_def
  by (intro try_in_preserves [where P = core_inv] inv)
    (simp add: Let_def case_prod_beta detach_inv release_admission_inv inv)

text \<open>Detaching a connection takes the session out of its memberships and touches no other table
  entry of it.\<close>

lemma detach_memberships_of:
  assumes "bt_get (wc_connections w) c = Some st"
  shows "\<exists>st'. bt_get (wc_connections (snd (detach_connection_from_session c key w))) c = Some st'
     \<and> bs_set (cn_memberships st') = bs_set (cn_memberships st) - {key}"
proof -
  let ?es = "case bt_get (wc_sessions w) key of None \<Rightarrow> bt_empty | Some s \<Rightarrow> owned_set c s"
  obtain st1 where "bt_get (wc_connections (snd (remove_entities_and_anchored_spaces key ?es w))) c = Some st1"
    "cn_memberships st1 = cn_memberships st"
    using removal_connections(2) [OF assms] by blast
  then show ?thesis by (simp add: detach_eq Let_def split: option.split)
qed

lemma detach_memberships_inv:
  assumes "core_inv w" and "bt_get (wc_connections w) c = Some st"
  shows "core_inv (snd (detach_memberships clk c n keys (sm, w)))
    \<and> (\<exists>st'. bt_get (wc_connections (snd (detach_memberships clk c n keys (sm, w)))) c = Some st'
         \<and> bs_set (cn_memberships st') = bs_set (cn_memberships st) - set keys)"
  using assms
proof (induction keys arbitrary: n sm w st)
  case (Cons key keys)
  let ?w0 = "release_session_admission c key Unexpected (clk n) w"
  obtain other w1 where w1: "detach_connection_from_session c key ?w0 = (other, w1)" by fastforce
  have inv1: "core_inv w1"
    using detach_inv [OF release_admission_inv [OF Cons.prems(1)], of c key c key Unexpected "clk n"] w1 by simp
  obtain st1 where st1: "bt_get (wc_connections w1) c = Some st1"
      "bs_set (cn_memberships st1) = bs_set (cn_memberships st) - {key}"
    using detach_memberships_of [of ?w0 c st key] Cons.prems(2) w1 by auto
  show ?case using Cons.IH [OF inv1 st1(1), of "n + 1" "summary_add sm other"] st1(2) by (auto simp: w1)
qed auto

lemma release_pending_inv:
  "core_inv w \<Longrightarrow> core_inv (release_pending clk c n keys w)
    \<and> wc_connections (release_pending clk c n keys w) = wc_connections w
    \<and> wc_sessions (release_pending clk c n keys w) = wc_sessions w"
proof (induction keys arbitrary: n w)
  case (Cons key keys)
  let ?w1 = "case bt_get (wc_pending_admissions w) (c, key) of None \<Rightarrow> w
      | Some lease \<Rightarrow> w\<lparr>wc_pending_admissions := bt_remove (c, key) (wc_pending_admissions w),
              wc_admissions := bt_update key (release_at lease Intentional (clk n)) (wc_admissions w)\<rparr>"
  have "core_inv ?w1"
    using Cons.prems core_inv_admission_update [of "w\<lparr>wc_pending_admissions := x\<rparr>" for x]
    by (auto simp: release_inv split: option.split)
  moreover have "wc_connections ?w1 = wc_connections w" "wc_sessions ?w1 = wc_sessions w"
    by (simp_all split: option.split)
  ultimately show ?case using Cons.IH [of ?w1 "n + 1"] by simp
qed simp

lemma cancel_tickets_inv:
  "(\<And>k a. bt_get ads k = Some a \<Longrightarrow> controller_inv a) \<Longrightarrow>
   bt_get (cancel_tickets clk n ts ads) k = Some a \<Longrightarrow> controller_inv a"
proof (induction clk n ts ads arbitrary: k a rule: cancel_tickets.induct)
  case (2 clk n key ticket rest ads)
  show ?case
    by (rule "2.IH" [OF _ "2.prems"(2) [unfolded cancel_tickets.simps]])
      (use "2.prems"(1) in \<open>auto simp: bt_get_update cancel_inv split: if_splits\<close>)
qed simp

lemma disconnect_inv:
  assumes inv: "core_inv w" and st: "bt_get (wc_connections w) c = Some st" and none: "bs_set (cn_memberships st) = {}"
  shows "core_inv (w\<lparr>wc_connections := bt_remove c (wc_connections w)\<rparr>)"
proof -
  note l = core_invD(4) [OF inv]
  have "\<not> member_of (wc_sessions w) k c" for k using linkedD(1) [OF l st] none by auto
  then have "linked (bt_remove c (wc_connections w)) (wc_sessions w)"
    using linkedD(4) [OF l]
    by (intro linkedI) (auto simp: bt_get_remove linkedD(1-3,5,6) [OF l] split: if_splits)
  then have "core_inv (w\<lparr>wc_connections := bt_remove c (wc_connections w), wc_sessions := wc_sessions w\<rparr>)"
    by (intro core_inv_update [OF inv])
      (use core_invD(2,3) [OF inv] in \<open>auto simp: bt_get_remove split: if_splits\<close>)
  then show ?thesis by simp
qed

lemma transport_lost_inv:
  assumes inv: "core_inv w"
  shows "core_inv (snd (transport_lost clk c w))"
  unfolding transport_lost_def
proof (intro try_in_preserves [where P = core_inv] inv)
  fix st0 assume "ok_or (bt_get (wc_connections w) c) (UnknownConnection c) = Inr st0"
  then have st0: "bt_get (wc_connections w) c = Some st0" by simp
  let ?keys = "bs_list (cn_memberships st0)"
  obtain sm w1 where w1: "detach_memberships clk c 0 ?keys (empty_summary, w) = (sm, w1)" by fastforce
  obtain st1 where inv1: "core_inv w1" and st1: "bt_get (wc_connections w1) c = Some st1" "bs_set (cn_memberships st1) = {}"
    using detach_memberships_inv [OF inv st0, of clk 0 ?keys empty_summary] by (auto simp: w1)
  define w2 where "w2 = release_pending clk c (length ?keys) (pending_sessions c w1) w1"
  have w2: "core_inv w2" "wc_connections w2 = wc_connections w1"
    using release_pending_inv [OF inv1] by (simp_all add: w2_def)
  define w3 where "w3 = w2\<lparr>wc_admission_tickets := bt_retain (\<lambda>(owner, _) _. owner \<noteq> c) (wc_admission_tickets w2),
     wc_admissions := cancel_tickets clk (length ?keys + length (pending_sessions c w1)) (own_tickets c w2) (wc_admissions w2)\<rparr>"
  have inv3: "core_inv w3"
    unfolding w3_def
  proof (rule core_inv_admissions)
    show "controller_inv a" if "bt_get (cancel_tickets clk n ts (wc_admissions w2)) k = Some a" for n ts k a
      using core_invD(7) [OF w2(1)] that by (rule cancel_tickets_inv)
  qed (simp add: w2(1))
  have st3: "bt_get (wc_connections w3) c = Some st1" using st1 w2(2) by (simp add: w3_def)
  have "core_inv (w3\<lparr>wc_connections := bt_remove c (wc_connections w3)\<rparr>)"
    by (rule disconnect_inv [OF inv3 st3 st1(2)])
  then have "core_inv (w3\<lparr>wc_connections := bt_remove c (wc_connections w3), wc_managed := m\<rparr>)" for m by simp
  then show "core_inv (snd (let memberships = ?keys;
           (summary, w1) = detach_memberships clk c 0 memberships (empty_summary, w);
           pending = pending_sessions c w1;
           n1 = length memberships;
           w2 = release_pending clk c n1 pending w1;
           tickets = own_tickets c w2;
           w3 = w2\<lparr>wc_admission_tickets := bt_retain (\<lambda>(owner, _) _. owner \<noteq> c) (wc_admission_tickets w2),
                    wc_admissions := cancel_tickets clk (n1 + length pending) tickets (wc_admissions w2)\<rparr>
       in try_in w3 (ok_or (bt_get (wc_connections w3) c) (UnknownConnection c)) (\<lambda>state.
            (Inr (summary\<lparr>cs_queued_messages_discarded :=
                    cs_queued_messages_discarded summary + queue_len (cn_outbound state)\<rparr>),
             w3\<lparr>wc_connections := bt_remove c (wc_connections w3),
               wc_managed := map_option (\<lambda>m. m\<lparr>ms_connections := bt_remove c (ms_connections m),
                                             ms_operations := bt_remove c (ms_operations m)\<rparr>)
                               (wc_managed w3)\<rparr>))))"
    unfolding Let_def w1 prod.case w2_def [symmetric] w3_def [symmetric] by (simp add: st3)
qed

end
