(* ===== verification/Core_Entities.thy ===== *)
theory Core_Entities
  imports Core_Connections
begin

text \<open>
  Subscriptions, entities, positions, transitions and sweeps keep the invariant of the core.
\<close>

section \<open>Subscriptions and entities\<close>

lemma require_membership_Inr:
  "require_membership w c k = Inr u \<longleftrightarrow> (\<exists>st. bt_get (wc_connections w) c = Some st \<and> k \<in> bs_set (cn_memberships st))"
  by (auto simp: require_membership_def bs_member_iff and_then_def ensure_def split: sum.split option.splits if_splits)

lemma require_subscription_Inr:
  "require_subscription w c k = Inr u \<longleftrightarrow> (\<exists>st. bt_get (wc_connections w) c = Some st \<and> k \<in> bs_set (cn_subscriptions st))"
  by (auto simp: require_subscription_def bs_member_iff and_then_def ensure_def split: sum.split option.splits if_splits)

lemma session_wf_subscribers:
  assumes "session_wf cfg s" and "dom (bt_get subs) = dom (bt_get (ses_subscribers s))"
  shows "session_wf cfg (s\<lparr>ses_subscribers := subs\<rparr>)"
proof -
  have "bt_get subs i = None \<longleftrightarrow> bt_get (ses_subscribers s) i = None" for i using assms(2) by blast
  with assms(1) show ?thesis
    by (simp add: session_wf_def structure_ok_def accounting_ok_def within_limits_def)
qed

lemma subscribe_inv:
  assumes inv: "core_inv w"
  shows "core_inv (snd (subscribe c space w))"
  unfolding subscribe_def
proof (intro try_in_preserves [where P = core_inv] inv)
  fix u st assume "require_membership w c (spk_session space) = Inr u"
    and "ok_or (bt_get (wc_connections w) c) (UnknownConnection c) = Inr st"
  then have st: "bt_get (wc_connections w) c = Some st" and mem: "spk_session space \<in> bs_set (cn_memberships st)"
    by (auto simp: require_membership_Inr)
  let ?st = "st\<lparr>cn_subscriptions := bs_insert space (cn_subscriptions st)\<rparr>"
  note l = core_invD(4) [OF inv] and wf = core_invD(2) [OF inv st]
  obtain k sp where key: "space = SpaceKey k sp" by (cases space)
  have fin: "core_inv (w\<lparr>wc_connections := bt_insert c ?st (wc_connections w),
       wc_sessions := bt_insert k (s\<lparr>ses_subscribers := bt_insert sp (bs_insert c subs) (ses_subscribers s)\<rparr>) (wc_sessions w)\<rparr>)"
    if s: "bt_get (wc_sessions w) k = Some s" and subs: "bt_get (ses_subscribers s) sp = Some subs"
      and room: "bt_len (cn_subscriptions st) \<noteq> cfg_max_subscriptions_per_connection (wc_config w)" for s subs
    using inv st s
  proof (rule core_inv_pair)
    have "bt_len (bs_insert space (cn_subscriptions st)) \<le> cfg_max_subscriptions_per_connection (wc_config w)"
      using wf room bs_len_insert [of space "cn_subscriptions st"] by (simp add: conn_wf_def)
    then show "conn_wf (wc_config w) ?st" using wf by (simp add: conn_wf_def)
    show "session_wf (wc_config w) (s\<lparr>ses_subscribers := bt_insert sp (bs_insert c subs) (ses_subscribers s)\<rparr>)"
      using subs by (intro session_wf_subscribers core_invD(3) [OF inv s]) (auto simp: bt_get_insert split: if_splits)
    have member: "c \<in> bs_set (ses_members s)" using linkedD(1) [OF l st] mem views_get(1) [OF s] by (simp add: key)
    have sub: "subscribed_in (s\<lparr>ses_subscribers := bt_insert sp (bs_insert c subs) (ses_subscribers s)\<rparr>) sp' c' \<longleftrightarrow>
       (sp' = sp \<and> c' = c) \<or> subscribed_in s sp' c'" for sp' c'
      using subs by (auto simp: subscribed_in_def bt_get_insert)
    show "linked (bt_insert c ?st (wc_connections w))
       (bt_insert k (s\<lparr>ses_subscribers := bt_insert sp (bs_insert c subs) (ses_subscribers s)\<rparr>) (wc_sessions w))"
      by (rule linked_pair [OF l st s])
        (use linkedD(1,2) [OF l st] views_get [OF s] member mem key in \<open>auto simp: sub owned_in_def\<close>)
  qed (simp add: kept_entities_refl)
  have bound: "bt_get (ses_subscribers s) sp \<noteq> None" if "bt_get (wc_sessions w) k = Some s" "bt_contains (ses_spaces s) sp" for s
    using that core_invD(3) [OF inv] structure_okD(4) [of s sp] by (auto simp: session_wf_def bt_contains_iff)
  show "core_inv (snd (if bs_member space (cn_subscriptions st) then (Inr (), w)
       else if bt_len (cn_subscriptions st) = cfg_max_subscriptions_per_connection (wc_config w)
       then (Inl SubscriptionLimitReached, w)
       else
         try_in w (ok_or (bt_get (wc_sessions w) (spk_session space)) (SessionNotFound (spk_session space))) (\<lambda>session.
           if \<not> bt_contains (ses_spaces session) (spk_space space) then (Inl (SpaceNotFound space), w)
           else
             let w1 = w\<lparr>wc_connections := bt_insert c ?st (wc_connections w)\<rparr>
             in try_in w1 (ok_or (bt_get (ses_subscribers session) (spk_space space)) (SpaceNotFound space)) (\<lambda>subscribers.
                  (Inr (),
                   w1\<lparr>wc_sessions := bt_insert (spk_session space)
                        (session\<lparr>ses_subscribers :=
                           bt_insert (spk_space space) (bs_insert c subscribers) (ses_subscribers session)\<rparr>)
                        (wc_sessions w1)\<rparr>)))))"
    using inv fin bound
    by (cases "bt_get (wc_sessions w) k") (auto simp: key Let_def split: if_splits dest!: not_None_eq [THEN iffD1])
qed

lemma unsubscribe_inv:
  assumes inv: "core_inv w"
  shows "core_inv (snd (unsubscribe c space w))"
  unfolding unsubscribe_def
proof (intro try_in_preserves [where P = core_inv] inv)
  fix st assume "ok_or (bt_get (wc_connections w) c) (UnknownConnection c) = Inr st"
  then have st: "bt_get (wc_connections w) c = Some st" by simp
  obtain k sp where key: "space = SpaceKey k sp" by (cases space)
  let ?P = "\<lambda>m. om_namespace m = sk_namespace k \<and> om_session m = sk_session k \<and> om_space m = sp"
  let ?st = "st\<lparr>cn_subscriptions := bs_remove space (cn_subscriptions st), cn_outbound := snd (purge ?P (cn_outbound st))\<rparr>"
  let ?f = "\<lambda>s. s\<lparr>ses_subscribers := bt_update sp (bs_remove c) (ses_subscribers s)\<rparr>"
  note l = core_invD(4) [OF inv] and wf = core_invD(2) [OF inv st]
  have wf': "conn_wf (wc_config w) ?st"
    using conn_wf_purge [OF wf, of ?P] bs_len_remove [of space "cn_subscriptions st"] by (simp add: conn_wf_def)
  have "core_inv (w\<lparr>wc_sessions := bt_update k ?f (wc_sessions w), wc_connections := bt_insert c ?st (wc_connections w)\<rparr>)"
    if sub: "space \<in> bs_set (cn_subscriptions st)"
  proof -
    obtain s where s: "bt_get (wc_sessions w) k = Some s" using linkedD(2) [OF l st] sub by (auto simp: key subscriber_of_def)
    have member: "c \<in> bs_set (ses_members s)"
      using linkedD(2) [OF l st] linkedD(5) [OF l] views_get(1) [OF s] sub unfolding key by blast
    have upd: "bt_update k ?f (wc_sessions w) = bt_insert k (?f s) (wc_sessions w)"
      by (rule bt_eqI) (simp add: bt_get_update bt_get_insert s)
    have sub': "subscribed_in (?f s) sp' c' \<longleftrightarrow> \<not> (sp' = sp \<and> c' = c) \<and> subscribed_in s sp' c'" for sp' c'
      by (auto simp: subscribed_in_def bt_get_update split: if_splits)
    have "core_inv (w\<lparr>wc_connections := bt_insert c ?st (wc_connections w), wc_sessions := bt_insert k (?f s) (wc_sessions w)\<rparr>)"
      using inv st s wf'
    proof (rule core_inv_pair)
      show "session_wf (wc_config w) (?f s)"
        by (intro session_wf_subscribers core_invD(3) [OF inv s]) (rule limiters_domain)
      show "linked (bt_insert c ?st (wc_connections w)) (bt_insert k (?f s) (wc_sessions w))"
        by (rule linked_pair [OF l st s])
          (use linkedD(1,2) [OF l st] views_get [OF s] member key in \<open>auto simp: sub' owned_in_def\<close>)
    qed (simp add: kept_entities_refl)
    moreover have "w\<lparr>wc_connections := bt_insert c ?st (wc_connections w), wc_sessions := bt_insert k (?f s) (wc_sessions w)\<rparr> =
       w\<lparr>wc_sessions := bt_update k ?f (wc_sessions w), wc_connections := bt_insert c ?st (wc_connections w)\<rparr>"
      by (simp add: upd)
    ultimately show ?thesis by simp
  qed
  then show "core_inv (snd (if \<not> bs_member space (cn_subscriptions st) then (Inr empty_summary, w)
       else
         let (discarded, outbound) =
               purge (\<lambda>m. om_namespace m = sk_namespace (spk_session space)
                          \<and> om_session m = sk_session (spk_session space)
                          \<and> om_space m = spk_space space) (cn_outbound st);
             sessions =
               bt_update (spk_session space)
                 (\<lambda>s. s\<lparr>ses_subscribers := bt_update (spk_space space) (bs_remove c) (ses_subscribers s)\<rparr>)
                 (wc_sessions w)
         in (Inr (empty_summary\<lparr>cs_subscriptions_removed := 1, cs_queued_messages_discarded := discarded\<rparr>),
             w\<lparr>wc_sessions := sessions,
               wc_connections := bt_insert c
                 (st\<lparr>cn_subscriptions := bs_remove space (cn_subscriptions st), cn_outbound := outbound\<rparr>)
                 (wc_connections w)\<rparr>)))"
    using inv by (simp add: key Let_def case_prod_beta bs_member_iff)
qed

lemma spawn_wf:
  assumes wf: "session_wf cfg s" and d: "bt_get (ses_spaces s) (er_space r) = Some d" "sd_epoch d = er_space_epoch r"
    and new: "bt_get (ses_entities s) (er_id r) = None" "er_position r = None" and room: "bt_len (ses_entities s) \<noteq> cfg_max_entities_per_session cfg"
  shows "session_wf cfg (s\<lparr>ses_entities := bt_insert (er_id r) r (ses_entities s)\<rparr>)" (is "session_wf cfg ?t")
proof -
  have st: "structure_ok s" and ix: "index_inv s" and lim: "within_limits cfg s" using wf by (simp_all add: session_wf_def)
  have "structure_ok ?t"
    using structure_okD [OF st] d by (auto simp: structure_ok_def bt_get_insert split: if_splits)
  moreover have "cell_of ?t i = cell_of s i" for i
    using new by (simp add: cell_of_def bt_get_insert cong: option.case_cong)
  then have "index_inv ?t = index_inv s" by (intro index_inv_cong) simp_all
  then have "index_inv ?t" using ix by simp
  moreover have "accounting_ok ?t" using wf by (simp add: session_wf_def accounting_ok_def)
  moreover have "within_limits cfg ?t"
    using lim room new(1) by (simp add: within_limits_def bt_len_insert)
  ultimately show ?thesis by (simp add: session_wf_def)
qed

lemma owned_in_insert:
  "bt_get (ses_entities s) i = None \<Longrightarrow>
   owned_in (s\<lparr>ses_entities := bt_insert i r (ses_entities s)\<rparr>) c = owned_in s c + of_bool (er_owner_connection r = c)"
  using bt_count_insert [of "\<lambda>r. er_owner_connection r = c" i r "ses_entities s"] by (simp add: owned_in_def)

lemma u64_next:
  assumes "checked_add_u64 i 1 = Some j"
  shows "j = i + 1" "j \<noteq> 0" "i < j"
proof -
  show "j = i + 1" using assms by (simp add: checked_add_u64_def split: if_splits)
  then show "j \<noteq> 0" "i < j"
    using assms checked_succ_u64 [of i] u64_less_succ [of i] by (metis option.distinct(1) word_not_simps(1))+
qed

lemma spawn_entity_inv:
  assumes inv: "core_inv w"
  shows "core_inv (snd (spawn_entity c space epoch w))"
  unfolding spawn_entity_def
proof (intro try_in_preserves [where P = core_inv] inv)
  fix pr u st assume "require_membership w c (spk_session space) = Inr u"
    and "ok_or (bt_get (wc_connections w) c) (UnknownConnection c) = Inr st"
  then have st: "bt_get (wc_connections w) c = Some st" and mem: "spk_session space \<in> bs_set (cn_memberships st)"
    by (auto simp: require_membership_Inr)
  obtain k sp where key: "space = SpaceKey k sp" by (cases space)
  let ?i = "wc_next_entity_id w"
  let ?r = "\<lparr>er_id = ?i, er_owner_connection = c, er_owner_principal = ap_principal_id pr,
                       er_space = sp, er_space_epoch = epoch, er_position = None\<rparr>"
  let ?st = "st\<lparr>cn_owned_entities := cn_owned_entities st + 1\<rparr>"
  note l = core_invD(4) [OF inv] and fresh = core_invD(5) [OF inv, unfolded ids_fresh_def]
  have fin: "core_inv (w\<lparr>wc_next_entity_id := j,
       wc_sessions := bt_insert k (s\<lparr>ses_entities := bt_insert ?i ?r (ses_entities s)\<rparr>) (wc_sessions w),
       wc_connections := bt_insert c ?st (wc_connections w)\<rparr>)"
    if s: "bt_get (wc_sessions w) k = Some s" and d: "bt_get (ses_spaces s) sp = Some d" "sd_epoch d = epoch"
      and room: "bt_len (ses_entities s) \<noteq> cfg_max_entities_per_session (wc_config w)"
        "cn_owned_entities st \<noteq> cfg_max_owned_entities_per_connection (wc_config w)"
      and j: "checked_add_u64 ?i 1 = Some j" for s d j
  proof -
    let ?s = "s\<lparr>ses_entities := bt_insert ?i ?r (ses_entities s)\<rparr>"
    let ?w = "w\<lparr>wc_next_entity_id := j, wc_sessions := bt_insert k ?s (wc_sessions w),
       wc_connections := bt_insert c ?st (wc_connections w)\<rparr>"
    have new: "bt_get (ses_entities s) ?i = None" using fresh s by (metis less_irrefl not_Some_eq)
    have swf: "session_wf (wc_config w) ?s"
      using spawn_wf [OF core_invD(3) [OF inv s], of ?r d] d new room(1) by simp
    have cwf: "conn_wf (wc_config w) ?st" using core_invD(2) [OF inv st] room(2) by (simp add: conn_wf_def)
    have member: "c \<in> bs_set (ses_members s)" using linkedD(1) [OF l st] mem views_get(1) [OF s] by (simp add: key)
    have "linked (bt_insert c ?st (wc_connections w)) (bt_insert k ?s (wc_sessions w))"
      by (rule linked_pair [OF l st s])
        (use linkedD(1,2) [OF l st] views_get [OF s] member in \<open>auto simp: owned_in_insert [OF new] subscribed_in_def\<close>)
    moreover have "ids_fresh ?w"
      using fresh less_trans [OF _ u64_next(3) [OF j]] u64_next(2,3) [OF j] st s unfolding ids_fresh_def
      by (auto simp: bt_get_insert split: if_splits)
    moreover have "tables_bounded ?w"
      using core_invD(6) [OF inv] st s by (simp add: tables_bounded_def bt_len_insert)
    ultimately show ?thesis
      using inv cwf swf unfolding core_inv_def by (auto simp: bt_get_insert split: if_splits)
  qed
  show "core_inv (snd (if cn_owned_entities st = cfg_max_owned_entities_per_connection (wc_config w)
       then (Inl OwnedEntityLimitReached, w)
       else
     try_in w (ok_or (bt_get (wc_sessions w) (spk_session space)) (SessionNotFound (spk_session space))) (\<lambda>session.
     try_in w (ok_or (bt_get (ses_spaces session) (spk_space space)) (SpaceNotFound space)) (\<lambda>d.
       if sd_epoch d \<noteq> epoch then (Inl (SpaceEpochMismatch (sd_epoch d) epoch), w)
       else if bt_len (ses_entities session) = cfg_max_entities_per_session (wc_config w)
       then (Inl EntityLimitReached, w)
       else
         let i = ?i
         in try_in w (ok_or (checked_add_u64 i 1) IdExhausted) (\<lambda>next.
              (Inr i,
               w\<lparr>wc_next_entity_id := next,
                 wc_sessions := bt_insert (spk_session space)
                   (session\<lparr>ses_entities := bt_insert i
                      \<lparr>er_id = i, er_owner_connection = c, er_owner_principal = ap_principal_id pr,
                       er_space = spk_space space, er_space_epoch = epoch, er_position = None\<rparr>
                      (ses_entities session)\<rparr>) (wc_sessions w),
                 wc_connections := bt_insert c ?st (wc_connections w)\<rparr>))))))"
    unfolding Let_def key SpaceKey.sel
    using inv fin by (auto intro!: try_in_preserves [where P = core_inv] simp del: One_nat_def add_Suc_right)
qed

lemma place_entity_fields [simp]:
  "ses_members (place_entity i pos cell s) = ses_members s"
  "ses_publish_rate_limit (place_entity i pos cell s) = ses_publish_rate_limit s"
  "ses_spaces (place_entity i pos cell s) = ses_spaces s"
  "ses_space_epoch_tombstones (place_entity i pos cell s) = ses_space_epoch_tombstones s"
  "ses_subscribers (place_entity i pos cell s) = ses_subscribers s"
  "ses_entities (place_entity i pos cell s) = bt_update i (\<lambda>r. r\<lparr>er_position := Some pos\<rparr>) (ses_entities s)"
  "ses_sequences (place_entity i pos cell s) = ses_sequences s"
  "ses_state (place_entity i pos cell s) = ses_state s"
  "ses_state_bytes (place_entity i pos cell s) = ses_state_bytes s"
  by (simp_all add: place_entity_def Let_def split: option.split)

lemma bt_eq_iff: "m = n \<longleftrightarrow> (\<forall>k. bt_get m k = bt_get n k)"
  using bt_eqI by auto

lemma place_entity_cells:
  "bt_get (ses_entity_cells (place_entity i pos cell s)) j = (if j = i then cell else bt_get (ses_entity_cells s) j)"
  by (auto simp: place_entity_def Let_def bt_get_insert bt_get_remove split: option.split)

lemma place_entity_pair: "index_pair s \<Longrightarrow> index_pair (place_entity i pos cell s)"
proof -
  assume ip: "index_pair s"
  let ?s1 = "if bt_get (ses_entity_cells s) i \<noteq> cell
    then (case cell of None \<Rightarrow> remove_entity_from_cell i s
          | Some c \<Rightarrow> insert_entity_into_cell i c (remove_entity_from_cell i s)) else s"
  have "index_pair ?s1"
    using ip remove_from_cell_pair [OF ip, of i]
    by (auto split: option.split intro!: insert_into_cell_pair simp: bt_get_remove)
  then show ?thesis
    by (simp add: place_entity_def Let_def index_pair_def cong: if_cong)
qed

lemma place_entity_wf:
  assumes wf: "session_wf cfg s" and r: "bt_get (ses_entities s) i = Some r"
    and d: "bt_get (ses_spaces s) (er_space r) = Some d" and cell: "spatial_cell_for pos d (er_space_epoch r) = Inr cell"
  shows "session_wf cfg (place_entity i pos cell s)" (is "session_wf cfg ?t")
proof -
  have st: "structure_ok s" and ix: "index_pair s" "located s" and lim: "within_limits cfg s"
    using wf by (simp_all add: session_wf_def index_inv_split)
  have "structure_ok ?t"
    using structure_okD [OF st] by (auto simp: structure_ok_def bt_get_update split: if_splits)
  moreover have "located ?t"
    using ix(2) r d cell unfolding located_def place_entity_cells
    by (auto simp: cell_of_def bt_get_update cong: option.case_cong)
  moreover have "accounting_ok ?t" using wf by (simp add: session_wf_def accounting_ok_def)
  moreover have "within_limits cfg ?t"
    using lim by (simp add: within_limits_def bt_len_update)
  ultimately show ?thesis by (simp add: session_wf_def index_inv_split place_entity_pair ix(1))
qed

lemma owned_in_update:
  assumes "\<And>r. er_owner_connection (f r) = er_owner_connection r"
  shows "owned_in (s\<lparr>ses_entities := bt_update i f (ses_entities s)\<rparr>) c = owned_in s c"
  unfolding owned_in_def bt_count_card
  by (rule arg_cong [where f = card]) (auto simp: bt_get_update assms split: if_splits)

lemma place_entity_views:
  "subscribed_in (place_entity i pos cell s) sp c = subscribed_in s sp c"
  "owned_in (place_entity i pos cell s) c = owned_in s c"
  "kept_entities (place_entity i pos cell s) s"
proof -
  show "owned_in (place_entity i pos cell s) c = owned_in s c"
    using owned_in_update [where f = "\<lambda>r. r\<lparr>er_position := Some pos\<rparr>" and s = s and i = i and c = c] by (simp add: owned_in_def)
qed (auto simp: subscribed_in_def kept_entities_def bt_get_update split: if_splits)

lemma spatial_cell_for_space:
  assumes "spatial_cell_for position d epoch = Inr (Some k)"
  shows "sck_cell_space k = sd_id d \<and> sck_cell_epoch k = epoch"
  using assms by (auto simp: spatial_cell_for_def split: EntityPosition.splits RoutingPolicy.splits)

lemma update_entity_position_inv:
  assumes inv: "core_inv w"
  shows "core_inv (snd (update_entity_position c key i pos w))"
proof -
  have fin: "core_inv (w\<lparr>wc_sessions := bt_insert key (place_entity i pos cell s) (wc_sessions w)\<rparr>)"
    if s: "bt_get (wc_sessions w) key = Some s" and r: "bt_get (ses_entities s) i = Some r"
      and d: "bt_get (ses_spaces s) (er_space r) = Some d" and cell: "spatial_cell_for pos d (er_space_epoch r) = Inr cell"
    for s r d cell
  proof -
    have "session_wf (wc_config w) (place_entity i pos cell s)"
      by (rule place_entity_wf [OF core_invD(3) [OF inv s] r d cell])
    then show ?thesis
      by (intro core_inv_session [OF inv s]) (simp_all add: place_entity_views)
  qed
  show ?thesis
    unfolding update_entity_position_def
    using inv fin by (auto intro!: try_in_preserves [where P = core_inv])
qed

lemma remove_entity_inv: "core_inv w \<Longrightarrow> core_inv (snd (remove_entity c key i w))"
  unfolding remove_entity_def
  by (auto intro!: try_in_preserves [where P = core_inv] simp: case_prod_beta removal_inv)

lemma bt_retain_full:
  assumes "bt_len (bt_retain P m) = bt_len m"
  shows "bt_retain P m = m"
proof (rule bt_eqI)
  have "dom (bt_get (bt_retain P m)) = dom (bt_get m)"
    using assms unfolding bt_len_card by (intro card_subset_eq) auto
  then show "bt_get (bt_retain P m) k = bt_get m k" for k
    by (cases "bt_get m k"; cases "bt_get (bt_retain P m) k") (auto simp: domIff)
qed

lemma sweep_session_eq: "accounting_ok s \<Longrightarrow>
  snd (sweep_session now s) = s\<lparr>ses_state := snd (sweep_expired (ses_state s) now),
    ses_state_bytes := byte_len (snd (sweep_expired (ses_state s) now))\<rparr>"
proof -
  assume a: "accounting_ok s"
  let ?e = "bt_retain (\<lambda>_ stored. \<not> is_expired stored now) (cache_entries (ses_state s))"
  show ?thesis
  proof (cases "bt_len ?e = bt_len (cache_entries (ses_state s))")
    case True
    then show ?thesis
      using a bt_retain_full [OF True]
      by (simp add: sweep_session_def sweep_expired_def Let_def accounting_ok_def)
  next
    case False
    then have "0 < bt_len (cache_entries (ses_state s)) - bt_len ?e"
      using bt_len_retain [of "\<lambda>_ stored. \<not> is_expired stored now" "cache_entries (ses_state s)"] by linarith
    then show ?thesis
      by (simp add: sweep_session_def sweep_expired_def Let_def recompute_state_bytes_def)
  qed
qed

lemma sweep_bounds:
  "cache_len (snd (sweep_expired c now)) \<le> cache_len c" "byte_len (snd (sweep_expired c now)) \<le> byte_len c"
  by (simp_all add: sweep_expired_def Let_def cache_len_def byte_len_def bt_len_retain bt_sum_retain_le)

lemma sweep_session_fields:
  assumes "accounting_ok s"
  shows "ses_members (snd (sweep_session now s)) = ses_members s"
    "ses_publish_rate_limit (snd (sweep_session now s)) = ses_publish_rate_limit s"
    "ses_spaces (snd (sweep_session now s)) = ses_spaces s"
    "ses_space_epoch_tombstones (snd (sweep_session now s)) = ses_space_epoch_tombstones s"
    "ses_subscribers (snd (sweep_session now s)) = ses_subscribers s"
    "ses_entities (snd (sweep_session now s)) = ses_entities s"
    "ses_entity_cells (snd (sweep_session now s)) = ses_entity_cells s"
    "ses_cell_entities (snd (sweep_session now s)) = ses_cell_entities s"
    "ses_sequences (snd (sweep_session now s)) = ses_sequences s"
    "ses_state (snd (sweep_session now s)) = snd (sweep_expired (ses_state s) now)"
    "ses_state_bytes (snd (sweep_session now s)) = byte_len (snd (sweep_expired (ses_state s) now))"
  by (simp_all add: sweep_session_eq [OF assms])

text \<open>Only fields the well-formedness of a session does not read change, or its state shrinks.\<close>

lemma session_wf_shrink:
  assumes wf: "session_wf cfg s"
    and same: "ses_spaces t = ses_spaces s" "ses_space_epoch_tombstones t = ses_space_epoch_tombstones s"
      "ses_subscribers t = ses_subscribers s" "ses_entities t = ses_entities s"
      "ses_entity_cells t = ses_entity_cells s" "ses_cell_entities t = ses_cell_entities s"
    and acc: "accounting_ok t"
    and le: "cache_len (ses_state t) \<le> cache_len (ses_state s)" "byte_len (ses_state t) \<le> byte_len (ses_state s)"
      "bt_len (ses_sequences t) \<le> bt_len (ses_sequences s)"
  shows "session_wf cfg t"
proof -
  have "within_limits cfg t"
    by (rule within_limits_mono [of cfg s]) (use wf le in \<open>simp_all add: session_wf_def same history_len_def\<close>)
  moreover have "structure_ok t = structure_ok s" by (simp add: structure_ok_def same)
  moreover have "index_inv t = index_inv s" by (rule index_inv_cong) (simp_all add: same cell_of_cong [OF same(4,1)])
  ultimately show ?thesis using wf acc by (simp add: session_wf_def)
qed

lemma sweep_session_wf:
  assumes wf: "session_wf cfg s"
  shows "session_wf cfg (snd (sweep_session now s))"
proof -
  have "accounting_ok s" using wf by (simp add: session_wf_def)
  note f = sweep_session_fields [OF this, of now]
  show ?thesis
    by (rule session_wf_shrink [OF wf]) (simp_all only: f sweep_bounds accounting_ok_def order_refl)
qed

lemma sweep_session_views:
  assumes "session_wf cfg s"
  shows "subscribed_in (snd (sweep_session now s)) sp c = subscribed_in s sp c"
    "owned_in (snd (sweep_session now s)) c = owned_in s c" "kept_entities (snd (sweep_session now s)) s"
    "ses_members (snd (sweep_session now s)) = ses_members s"
  using assms by (simp_all add: session_wf_def sweep_session_fields subscribed_in_def owned_in_def kept_entities_refl)

lemma sweep_one_inv:
  assumes inv: "core_inv w" and s: "bt_get (wc_sessions w) key = Some s"
  shows "core_inv (w\<lparr>wc_sessions := bt_insert key (snd (sweep_session now s)) (wc_sessions w)\<rparr>)"
  by (rule core_inv_session [OF inv s])
    (use core_invD(3) [OF inv s] in \<open>auto simp: sweep_session_views intro!: sweep_session_wf\<close>)

lemma sweep_expired_state_inv:
  assumes inv: "core_inv w"
  shows "core_inv (snd (sweep_expired_state now w))"
proof -
  let ?ss = "bt_map (\<lambda>_ s. snd (sweep_session now s)) (wc_sessions w)"
  note wf = core_invD(3) [OF inv]
  have v: "member_of ?ss k c = member_of (wc_sessions w) k c" "subscriber_of ?ss k sp c = subscriber_of (wc_sessions w) k sp c"
    "owns_in ?ss k c = owns_in (wc_sessions w) k c" for k sp c
    using sweep_session_views [OF wf]
    by (cases "bt_get (wc_sessions w) k"; simp add: member_of_def subscriber_of_def owns_in_def)+
  have "owned_total ?ss c = owned_total (wc_sessions w) c" for c
  proof -
    have "dom (bt_get ?ss) = dom (bt_get (wc_sessions w))" by auto
    then show ?thesis
      unfolding owned_total_def bt_sum_dom
      by (intro sum.cong) (auto simp: sweep_session_views [OF wf])
  qed
  then have "linked (wc_connections w) ?ss"
    by (intro linked_cong [OF core_invD(4) [OF inv]]) (simp_all add: v)
  then have "core_inv (w\<lparr>wc_connections := wc_connections w, wc_sessions := ?ss\<rparr>)"
    by (intro core_inv_update [OF inv])
      (use core_invD(2) [OF inv] wf kept_entitiesD [OF sweep_session_views(3) [OF wf]] in \<open>auto intro: sweep_session_wf\<close>)
  then show ?thesis by (simp add: sweep_expired_state_def)
qed

section \<open>Transitions and drains\<close>

lemma move_entity_wf:
  assumes wf: "session_wf cfg s" and rec: "bt_get (ses_entities s) (tr_entity r) = Some rec"
    and d: "bt_get (ses_spaces s) (tr_destination_space r) = Some d" "sd_epoch d = tr_destination_epoch r"
  shows "session_wf cfg (move_entity r rec s)" (is "session_wf cfg ?t")
proof -
  have st: "structure_ok s" and ix: "index_pair s" "located s" and lim: "within_limits cfg s"
    using wf by (simp_all add: session_wf_def index_inv_split)
  have f: "ses_spaces ?t = ses_spaces s" "ses_space_epoch_tombstones ?t = ses_space_epoch_tombstones s"
    "ses_subscribers ?t = ses_subscribers s"
    "ses_entities ?t = bt_insert (tr_entity r) (rec\<lparr>er_space := tr_destination_space r,
       er_space_epoch := tr_destination_epoch r, er_position := None\<rparr>) (ses_entities s)"
    "ses_entity_cells ?t = ses_entity_cells (remove_entity_from_cell (tr_entity r) s)"
    "ses_cell_entities ?t = ses_cell_entities (remove_entity_from_cell (tr_entity r) s)"
    by (simp_all add: move_entity_def Let_def recompute_state_bytes_def)
  have "structure_ok ?t"
    using structure_okD [OF st] rec d by (auto simp: structure_ok_def f bt_get_insert split: if_splits)
  moreover have "index_pair ?t"
    using remove_from_cell_pair [OF ix(1)] index_pair_cong [OF f(5,6)] by simp
  moreover have "located ?t"
    using ix(2) by (simp add: located_def cell_of_def f bt_get_insert bt_get_remove cong: option.case_cong)
  moreover have "accounting_ok ?t" by (simp add: accounting_ok_def move_entity_def Let_def recompute_state_bytes_def)
  moreover have "within_limits cfg ?t"
    by (rule within_limits_mono [OF lim])
      (use rec in \<open>simp_all add: move_entity_def Let_def recompute_state_bytes_def history_len_def bt_len_insert
        bt_len_retain cache_retain_bounds\<close>)
  ultimately show ?thesis by (simp add: session_wf_def index_inv_split)
qed

lemma move_entity_views:
  assumes "bt_get (ses_entities s) (tr_entity r) = Some rec"
  shows "subscribed_in (move_entity r rec s) sp c = subscribed_in s sp c"
    "owned_in (move_entity r rec s) c = owned_in s c" "kept_entities (move_entity r rec s) s"
    "ses_members (move_entity r rec s) = ses_members s"
proof -
  show "owned_in (move_entity r rec s) c = owned_in s c"
    unfolding owned_in_def bt_count_card
    by (rule arg_cong [where f = card])
      (use assms in \<open>auto simp: move_entity_def Let_def recompute_state_bytes_def bt_get_insert split: if_splits\<close>)
qed (use assms in \<open>auto simp: move_entity_def Let_def recompute_state_bytes_def subscribed_in_def kept_entities_def
       bt_get_insert split: if_splits\<close>)

lemma transition_entity_inv:
  assumes inv: "core_inv w"
  shows "core_inv (snd (transition_entity r w))"
proof -
  have fin: "core_inv (w\<lparr>wc_sessions := bt_insert (tr_session r) (move_entity r rec s) (wc_sessions w),
      wc_connections := snd (purge_all P (wc_connections w))\<rparr>)"
    if s: "bt_get (wc_sessions w) (tr_session r) = Some s" and rec: "bt_get (ses_entities s) (tr_entity r) = Some rec"
      and d: "bt_get (ses_spaces s) (tr_destination_space r) = Some d" "sd_epoch d = tr_destination_epoch r"
    for s rec d P
  proof -
    let ?w1 = "w\<lparr>wc_sessions := bt_insert (tr_session r) (move_entity r rec s) (wc_sessions w)\<rparr>"
    have "core_inv ?w1"
      by (rule core_inv_session [OF inv s move_entity_wf [OF core_invD(3) [OF inv s] rec d]])
        (simp_all add: move_entity_views [OF rec])
    then show ?thesis using core_inv_purge_all [of ?w1 P] by simp
  qed
  show ?thesis
    unfolding transition_entity_def Let_def
    using inv fin by (auto intro!: try_in_preserves [where P = core_inv])
qed

lemma core_inv_outbound:
  assumes inv: "core_inv w" and st: "bt_get (wc_connections w) c = Some st"
    and q: "queue_inv q" "q_config q = q_config (cn_outbound st)"
  shows "core_inv (w\<lparr>wc_connections := bt_insert c (st\<lparr>cn_outbound := q\<rparr>) (wc_connections w)\<rparr>)"
  by (rule core_inv_connection [OF inv st])
    (use core_invD(2) [OF inv st] q in \<open>simp_all add: same_links_def conn_wf_def\<close>)

end
