(* ===== verification/Publish_Plan.thy ===== *)
theory Publish_Plan
  imports Core_Entities
begin

text \<open>
  Publishing up to its commit: the limiters are charged, the plan validates every message, its
  capacity projection is exact, and the commit keeps the session well-formed.
\<close>

section \<open>Charging the limiters\<close>

lemma charge_connection_inv:
  assumes inv: "core_inv w"
  shows "core_inv (snd (charge_connection c now w))"
proof -
  have "core_inv (w\<lparr>wc_connections := bt_insert c (st\<lparr>cn_rate_limiter := l\<rparr>) (wc_connections w)\<rparr>)"
    if "bt_get (wc_connections w) c = Some st" for st l
    using core_invD(2) [OF inv that]
    by (intro core_inv_connection [OF inv that]) (simp_all add: same_links_def conn_wf_def)
  then show ?thesis
    unfolding charge_connection_def
    using inv by (auto intro!: try_in_preserves [where P = core_inv] simp: case_prod_beta)
qed

lemma conn_wf_limiter:
  "conn_wf cfg st \<Longrightarrow> bt_get (cn_session_rate_limiters st) k \<noteq> None \<Longrightarrow>
   conn_wf cfg (st\<lparr>cn_session_rate_limiters := bt_insert k l (cn_session_rate_limiters st)\<rparr>)"
  by (auto simp: conn_wf_def bt_len_insert bt_get_insert subset_iff domIff)

lemma charge_session_inv:
  assumes inv: "core_inv w"
  shows "core_inv (snd (charge_session c key now w))"
proof -
  have "core_inv (w\<lparr>wc_connections := bt_insert c
      (st\<lparr>cn_session_rate_limiters := bt_insert key l (cn_session_rate_limiters st)\<rparr>) (wc_connections w)\<rparr>)"
    if "bt_get (wc_connections w) c = Some st" "bt_get (cn_session_rate_limiters st) key = Some l0" for st l l0
    using core_invD(2) [OF inv that(1)] that(2)
    by (intro core_inv_connection [OF inv that(1)] conn_wf_limiter) (simp_all add: same_links_def)
  then show ?thesis
    unfolding charge_session_def
    using inv by (auto intro!: try_in_preserves [where P = core_inv] simp: case_prod_beta)
qed

text \<open>The connections before and after the limiters of one of them are charged.\<close>

definition same_but_limiters :: "ConnectionState \<Rightarrow> ConnectionState \<Rightarrow> bool" where
  "same_but_limiters a b \<longleftrightarrow>
     cn_authenticated a = cn_authenticated b \<and> cn_memberships a = cn_memberships b
   \<and> cn_subscriptions a = cn_subscriptions b \<and> cn_owned_entities a = cn_owned_entities b
   \<and> cn_outbound a = cn_outbound b"

definition charged :: "WovenCore \<Rightarrow> WovenCore \<Rightarrow> bool" where
  "charged w' w \<longleftrightarrow>
     (\<exists>cs. w' = w\<lparr>wc_connections := cs\<rparr>
        \<and> (\<forall>c. rel_option same_but_limiters (bt_get cs c) (bt_get (wc_connections w) c)))"

lemma rel_limiters_refl [simp]: "rel_option same_but_limiters x x"
  by (cases x) (simp_all add: same_but_limiters_def)

lemma rel_limiters_trans:
  "rel_option same_but_limiters x y \<Longrightarrow> rel_option same_but_limiters y z \<Longrightarrow> rel_option same_but_limiters x z"
  by (cases x; cases y; cases z) (simp_all add: same_but_limiters_def)

lemma charged_refl [simp]: "charged w w"
  unfolding charged_def by (rule exI [of _ "wc_connections w"]) simp

lemma charged_trans:
  assumes "charged c b" and "charged b a"
  shows "charged c a"
proof -
  obtain cs cs' where c: "c = b\<lparr>wc_connections := cs\<rparr>" "b = a\<lparr>wc_connections := cs'\<rparr>"
    and r: "\<And>x. rel_option same_but_limiters (bt_get cs x) (bt_get (wc_connections b) x)"
      "\<And>x. rel_option same_but_limiters (bt_get (wc_connections b) x) (bt_get (wc_connections a) x)"
    using assms unfolding charged_def by auto
  have "c = a\<lparr>wc_connections := cs\<rparr>" unfolding c by simp
  with rel_limiters_trans [OF r] show ?thesis unfolding charged_def by blast
qed

lemma charged_get:
  "charged w' w \<Longrightarrow> rel_option same_but_limiters (bt_get (wc_connections w') c) (bt_get (wc_connections w) c)"
  by (auto simp: charged_def)

lemma charged_fields:
  assumes "charged w' w"
  shows "wc_config w' = wc_config w" "wc_sessions w' = wc_sessions w" "wc_channels w' = wc_channels w"
    "wc_journal_outbox w' = wc_journal_outbox w"
  using assms by (auto simp: charged_def)

lemma charged_insert:
  assumes "bt_get (wc_connections w) c = Some st" "same_but_limiters st' st"
  shows "charged (w\<lparr>wc_connections := bt_insert c st' (wc_connections w)\<rparr>) w"
  unfolding charged_def by (rule exI) (use assms in \<open>auto simp: bt_get_insert\<close>)

lemma charge_connection_charged: "charged (snd (charge_connection c now w)) w"
proof -
  have "same_but_limiters (st\<lparr>cn_rate_limiter := l\<rparr>) st" for st l
    by (simp add: same_but_limiters_def)
  then show ?thesis
    unfolding charge_connection_def
    by (auto intro!: try_in_preserves [where P = "\<lambda>w'. charged w' w"] charged_insert simp: case_prod_beta)
qed

lemma charge_session_charged: "charged (snd (charge_session c key now w)) w"
proof -
  have "same_but_limiters (st\<lparr>cn_session_rate_limiters := ls\<rparr>) st" for st ls
    by (simp add: same_but_limiters_def)
  then show ?thesis
    unfolding charge_session_def
    by (auto intro!: try_in_preserves [where P = "\<lambda>w'. charged w' w"] charged_insert simp: case_prod_beta)
qed

lemma charged_may_publish:
  assumes "charged w' w"
  shows "may_publish w' r = may_publish w r"
proof -
  have "authenticated_principal w' c = authenticated_principal w c" "require_membership w' c k = require_membership w c k"
    "require_subscription w' c sp = require_subscription w c sp" for c k sp
    using charged_get [OF assms, of c]
    by (cases "bt_get (wc_connections w) c"; cases "bt_get (wc_connections w') c";
        simp add: authenticated_principal_def require_membership_def require_subscription_def same_but_limiters_def)+
  then show ?thesis unfolding may_publish_def by presburger
qed

lemma publish_authorize_spec:
  assumes "publish_authorize r now w = (res, w')"
  shows "core_inv w \<Longrightarrow> core_inv w'" and "charged w' w" and "res = Inr pr \<Longrightarrow> may_publish w r = Inr pr"
proof -
  obtain res1 w1 where w1: "charge_connection (rq_connection r) now w = (res1, w1)" by fastforce
  obtain res2 w2 where w2: "charge_session (rq_connection r) (rq_session r) now w1 = (res2, w2)" by fastforce
  have inv1: "core_inv w \<Longrightarrow> core_inv w1" using charge_connection_inv [of w "rq_connection r" now] w1 by simp
  have inv2: "core_inv w \<Longrightarrow> core_inv w2" using charge_session_inv [OF inv1, of "rq_connection r" "rq_session r" now] w2 by simp
  have c1: "charged w1 w" using charge_connection_charged [of "rq_connection r" now w] w1 by simp
  have c2: "charged w2 w"
    using charge_session_charged [of "rq_connection r" "rq_session r" now w1] w2 c1 charged_trans by auto
  note eq = assms [unfolded publish_authorize_def w1 prod.case]
  show "core_inv w \<Longrightarrow> core_inv w'"
    using eq inv1 inv2 by (auto simp: try_in_def w2 split: sum.splits)
  show "charged w' w"
    using eq c1 c2 by (auto simp: try_in_def w2 split: sum.splits)
  show "res = Inr pr \<Longrightarrow> may_publish w r = Inr pr"
    using eq charged_may_publish [OF c1, of r] by (auto simp: try_in_def w2 split: sum.splits)
qed

section \<open>What a plan guarantees\<close>

text \<open>What a validated message satisfies in its session.\<close>

definition message_ok :: "CoreConfig \<Rightarrow> SessionState \<Rightarrow> ConnectionId \<Rightarrow> AuthorizedMessage \<Rightarrow> bool" where
  "message_ok cfg s c m \<longleftrightarrow>
     (\<exists>d. bt_get (ses_spaces s) (au_space m) = Some d \<and> sd_epoch d = au_space_epoch m)
   \<and> (\<forall>i. au_entity m = Some i \<longrightarrow>
        (\<exists>e. bt_get (ses_entities s) i = Some e \<and> er_space e = au_space m \<and> er_space_epoch e = au_space_epoch m))
   \<and> length (au_payload m) \<le> cfg_max_payload_bytes cfg
   \<and> validate_coalesce_key m = Inr ()
   \<and> (\<forall>v. bt_get (ses_sequences s) (sequence_key c m) = Some v \<longrightarrow> v < au_sequence m)"

lemma stale_against_None: "stale_against a b = None \<longleftrightarrow> a = None \<and> b = None"
  by (cases a; cases b) (simp_all add: stale_against_def)

lemma stale_against_less:
  assumes "\<And>v. stale_against a b = Some v \<Longrightarrow> v < x"
  shows "a = Some v \<Longrightarrow> v < x" and "b = Some v \<Longrightarrow> v < x"
  using assms by (cases a; cases b; simp add: stale_against_def)+

lemma validate_message_ok:
  assumes "validate_message w c key p m = Inr u"
  shows "\<exists>s. bt_get (wc_sessions w) key = Some s \<and> message_ok (wc_config w) s c m"
    and "p = Some pl \<Longrightarrow> bt_get pl (sequence_key c m) = Some v \<Longrightarrow> v < au_sequence m"
    and "\<exists>ch. bt_get (wc_channels w) (au_channel m) = Some ch \<and> validate_channel_policy ch (au_delivery m) (au_persistence m) = Inr ()"
proof -
  let ?stale = "\<lambda>s. stale_against (bt_get (ses_sequences s) (sequence_key c m))
     (case p of None \<Rightarrow> None | Some p \<Rightarrow> bt_get p (sequence_key c m))"
  obtain s d ch where s: "bt_get (wc_sessions w) key = Some s" "bt_get (ses_spaces s) (au_space m) = Some d"
      "bt_get (wc_channels w) (au_channel m) = Some ch" "validate_channel_policy ch (au_delivery m) (au_persistence m) = Inr ()"
    and len: "\<not> min (cfg_max_payload_bytes (wc_config w)) (cd_max_payload_bytes ch) < length (au_payload m)"
    and co: "validate_coalesce_key m = Inr ()" and ep: "sd_epoch d = au_space_epoch m"
    and en: "(case au_entity m of None \<Rightarrow> Inr ()
        | Some i \<Rightarrow> and_then (ok_or (bt_get (ses_entities s) i) (EntityNotFound i)) (\<lambda>e.
            if er_space e \<noteq> au_space m \<or> er_space_epoch e \<noteq> au_space_epoch m
            then Inl (EntitySpaceMismatch i) else Inr ())) = Inr ()"
    and sq: "(case ?stale s of None \<Rightarrow> Inr ()
        | Some seen \<Rightarrow> if au_sequence m \<le> seen then Inl (StaleSequence (au_sequence m) seen) else Inr ()) = Inr ()"
    using assms unfolding validate_message_def Let_def by (auto split: if_splits)
  have facts: "length (au_payload m) \<le> cfg_max_payload_bytes (wc_config w)"
      "\<And>i. au_entity m = Some i \<Longrightarrow>
        \<exists>e. bt_get (ses_entities s) i = Some e \<and> er_space e = au_space m \<and> er_space_epoch e = au_space_epoch m"
      "\<And>v. ?stale s = Some v \<Longrightarrow> v < au_sequence m"
    using len en sq by (auto split: if_splits)
  note less = stale_against_less [OF facts(3)]
  show "\<exists>s. bt_get (wc_sessions w) key = Some s \<and> message_ok (wc_config w) s c m"
    using s facts(1,2) co ep less(1) unfolding message_ok_def by blast
  show "p = Some pl \<Longrightarrow> bt_get pl (sequence_key c m) = Some v \<Longrightarrow> v < au_sequence m"
    by (rule less(2)) simp_all
  show "\<exists>ch. bt_get (wc_channels w) (au_channel m) = Some ch \<and> validate_channel_policy ch (au_delivery m) (au_persistence m) = Inr ()"
    using s by blast
qed

definition ahead_of :: "(SequenceKey, u64) btree_map \<Rightarrow> SessionState \<Rightarrow> bool" where
  "ahead_of planned s \<longleftrightarrow> (\<forall>k v. bt_get planned k = Some v \<longrightarrow> (\<forall>u. bt_get (ses_sequences s) k = Some u \<longrightarrow> u < v))"

lemma plan_sequences_ok:
  assumes "plan_sequences w c key ms planned0 = Inr planned" and "bt_get (wc_sessions w) key = Some s"
    and "ahead_of planned0 s"
  shows "(\<forall>m \<in> set ms. message_ok (wc_config w) s c m) \<and> ahead_of planned s
    \<and> (\<forall>k v. bt_get planned0 k = Some v \<longrightarrow> (\<exists>v'. bt_get planned k = Some v' \<and> v \<le> v'))
    \<and> (\<forall>m \<in> set ms. \<exists>v. bt_get planned (sequence_key c m) = Some v \<and> au_sequence m \<le> v)"
  using assms
proof (induction w c key ms planned0 arbitrary: planned rule: plan_sequences.induct)
  case (2 w c key m ms planned0)
  let ?p1 = "bt_insert (sequence_key c m) (au_sequence m) planned0"
  have val: "validate_message w c key (Some planned0) m = Inr ()"
    and rest: "plan_sequences w c key ms ?p1 = Inr planned"
    using "2.prems"(1) by auto
  have ok: "message_ok (wc_config w) s c m" using validate_message_ok(1) [OF val] "2.prems"(2) by simp
  have "ahead_of ?p1 s" using "2.prems"(3) ok by (auto simp: ahead_of_def bt_get_insert message_ok_def)
  note IH = "2.IH" [OF rest "2.prems"(2) this]
  have "bt_get planned0 k = Some v \<Longrightarrow> \<exists>v'. bt_get ?p1 k = Some v' \<and> v \<le> v'" for k v
    using validate_message_ok(2) [OF val refl] by (auto simp: bt_get_insert)
  then have "bt_get planned0 k = Some v \<Longrightarrow> \<exists>v'. bt_get planned k = Some v' \<and> v \<le> v'" for k v
    using IH by (meson order_trans)
  moreover have "\<exists>v. bt_get planned (sequence_key c m) = Some v \<and> au_sequence m \<le> v"
    using IH by (metis bt_get_insert_same)
  ultimately show ?case using IH ok by auto
qed simp

definition plan_ok :: "WovenCore \<Rightarrow> SessionState \<Rightarrow> PublishRequest \<Rightarrow> AuthorizedMessage list \<Rightarrow> (SequenceKey, u64) btree_map \<Rightarrow> bool" where
  "plan_ok w s r messages planned \<longleftrightarrow>
     (\<forall>m \<in> set messages. message_ok (wc_config w) s (rq_connection r) m)
   \<and> message_ok (wc_config w) s (rq_connection r) (from_request r)
   \<and> length messages \<le> cfg_max_authority_emissions (wc_config w)
   \<and> ahead_of planned s
   \<and> bt_len (ses_sequences s) + length (filter (\<lambda>k. \<not> bt_contains (ses_sequences s) k) (bt_keys planned))
       \<le> cfg_max_sequence_keys_per_session (wc_config w)"

lemma config_emissions: "config_ok cfg \<Longrightarrow> 0 < cfg_max_authority_emissions cfg"
  by (auto simp: config_ok_def validate_core_config_def split: if_splits)

lemma publish_evaluate_ok:
  assumes eval: "publish_evaluate r pr w = Inr (messages, planned)" and cfg: "config_ok (wc_config w)"
  shows "\<exists>s. bt_get (wc_sessions w) (rq_session r) = Some s \<and> plan_ok w s r messages planned"
proof -
  obtain ch s planned0 where ch: "bt_get (wc_channels w) (rq_channel r) = Some ch"
    and s: "bt_get (wc_sessions w) (rq_session r) = Some s"
    and own: "validate_message w (rq_connection r) (rq_session r) None (from_request r) = Inr ()"
    and auth: "authorized_messages w r (cd_authority ch (authority_context r pr s) (proposed_of r)) = Inr (messages, planned0)"
    and plan: "plan_sequences w (rq_connection r) (rq_session r) messages planned0 = Inr planned"
    and cap: "validate_sequence_capacity w (rq_session r) planned = Inr ()"
    using eval unfolding publish_evaluate_def by auto
  have own_ok: "message_ok (wc_config w) s (rq_connection r) (from_request r)"
    using validate_message_ok(1) [OF own] s by simp
  have "length messages \<le> cfg_max_authority_emissions (wc_config w) \<and> ahead_of planned0 s"
    using auth config_emissions [OF cfg] own_ok
    by (auto simp: authorized_messages_def ahead_of_def bt_get_insert message_ok_def from_request_def
        split: AuthorityOutcome.splits if_splits)
  moreover have "bt_len (ses_sequences s) + length (filter (\<lambda>k. \<not> bt_contains (ses_sequences s) k) (bt_keys planned))
       \<le> cfg_max_sequence_keys_per_session (wc_config w)"
    using cap s cfg
    by (auto simp: validate_sequence_capacity_def Let_def usize_sat_add_def config_ok_def min_def split: if_splits)
  ultimately show ?thesis
    using plan_sequences_ok [OF plan s] own_ok s unfolding plan_ok_def by blast
qed

section \<open>The capacity projection\<close>

text \<open>The projection of \<open>validate_state_capacity\<close> is exact: it counts the entries and bytes the
  commit will leave.\<close>

definition payload_len :: "CacheEntry option \<Rightarrow> nat option" where
  "payload_len e = map_option (\<lambda>e. length (ce_payload e)) e"

definition projects :: "InMemoryCacheService \<Rightarrow> usize \<times> usize \<times> (CacheKey, usize) btree_map \<Rightarrow> SessionState \<Rightarrow> bool" where
  "projects cache acc s \<longleftrightarrow>
     (case acc of (entries, bytes, projected) \<Rightarrow>
        entries = cache_len (ses_state s) \<and> bytes = byte_len (ses_state s) \<and> bytes = ses_state_bytes s
      \<and> (\<forall>k. (case bt_get projected k of Some n \<Rightarrow> Some n | None \<Rightarrow> payload_len (cache_get cache k)) =
              payload_len (cache_get (ses_state s) k)))"

lemma store_state_eq:
  "store_state w now m s = s\<lparr>ses_state := ses_state (store_state w now m s), ses_state_bytes := ses_state_bytes (store_state w now m s)\<rparr>"
  by (simp add: store_state_def Let_def case_prod_beta)

lemma project_step:
  assumes p: "projects cache acc s" and room: "byte_len (ses_state s) + length (au_payload m) \<le> usize_max"
  shows "projects cache (project_state cache m acc) (store_state w now m s)"
proof -
  obtain entries bytes projected where acc: "acc = (entries, bytes, projected)" by (cases acc)
  let ?e = "\<lparr>ce_sequence = au_sequence m, ce_payload = au_payload m\<rparr>"
  obtain prev c' where put: "cache_put (ses_state s) (state_key m) ?e (channel_ttl w (au_channel m)) now = (prev, c')"
    by fastforce
  note get = cache_get_put [OF put] and len = cache_len_put [OF put] and bytes = byte_len_put [OF put]
  have prev: "(case bt_get projected (state_key m) of Some n \<Rightarrow> Some n
      | None \<Rightarrow> map_option (\<lambda>e. length (ce_payload e)) (cache_get cache (state_key m))) = payload_len prev"
    using p get unfolding projects_def acc payload_len_def prod.case by blast
  have le: "byte_len (ses_state s) - (case prev of None \<Rightarrow> 0 | Some e \<Rightarrow> length (ce_payload e)) + length (au_payload m) = byte_len c'"
  proof -
    have "(case prev of None \<Rightarrow> 0 | Some e \<Rightarrow> length (ce_payload e)) \<le> byte_len (ses_state s)"
    proof (cases prev)
      case (Some e)
      then obtain st where st: "bt_get (cache_entries (ses_state s)) (state_key m) = Some st" "e = se_entry st"
        using get by (auto simp: cache_get_def)
      have "length (ce_payload (se_entry st)) \<le> byte_len (ses_state s)"
        unfolding byte_len_def bt_sum_dom
        by (rule member_le_sum [of "state_key m", where f = "\<lambda>k. length (ce_payload (se_entry (the (bt_get (cache_entries (ses_state s)) k))))", simplified st option.sel])
          (use st in auto)
      with Some st show ?thesis by simp
    qed simp
    with bytes show ?thesis by (simp split: option.splits)
  qed
  have s': "ses_state (store_state w now m s) = c'"
    "ses_state_bytes (store_state w now m s) = (case prev of None \<Rightarrow> ses_state_bytes s
       | Some e \<Rightarrow> ses_state_bytes s - length (ce_payload e)) + length (au_payload m)"
    by (simp_all add: store_state_def put Let_def split: option.split)
  have b: "bytes = byte_len (ses_state s)" "bytes = ses_state_bytes s" "entries = cache_len (ses_state s)"
    using p by (simp_all add: projects_def acc)
  have sat: "usize_sat_add (bytes - n) (length (au_payload m)) = bytes - n + length (au_payload m)" for n
    using room b by (simp add: usize_sat_add_def)
  show ?thesis
    using p b le len s' prev get sat sat [of 0]
    by (cases prev)
      (auto simp: projects_def project_state_def acc Let_def payload_len_def bt_get_insert split: option.splits)
qed

lemma store_state_bytes:
  assumes "projects cache acc s" "byte_len (ses_state s) + length (au_payload m) \<le> usize_max"
  shows "byte_len (ses_state (store_state w now m s)) \<le> byte_len (ses_state s) + length (au_payload m)"
proof -
  obtain prev c' where put: "cache_put (ses_state s) (state_key m) \<lparr>ce_sequence = au_sequence m, ce_payload = au_payload m\<rparr>
      (channel_ttl w (au_channel m)) now = (prev, c')" by fastforce
  then have "ses_state (store_state w now m s) = c'" by (simp add: store_state_def Let_def)
  with byte_len_put [OF put] show ?thesis by simp
qed

lemma projection_exact:
  assumes "projects cache acc s" and "byte_len (ses_state s) + sum_list (map (\<lambda>m. length (au_payload m)) ms) \<le> usize_max"
  shows "projects cache (fold (project_state cache) ms acc) (fold (store_state w now) ms s)"
  using assms
proof (induction ms arbitrary: acc s)
  case (Cons m ms)
  have "projects cache (project_state cache m acc) (store_state w now m s)"
    using Cons.prems by (intro project_step) auto
  moreover have "byte_len (ses_state (store_state w now m s)) + sum_list (map (\<lambda>m. length (au_payload m)) ms) \<le> usize_max"
    using Cons.prems store_state_bytes [OF Cons.prems(1), of m w now] by simp
  ultimately show ?case by (simp add: Cons.IH)
qed simp

lemma projects_start: "accounting_ok s \<Longrightarrow> projects (ses_state s) (cache_len (ses_state s), ses_state_bytes s, bt_empty) s"
  by (simp add: projects_def accounting_ok_def)

lemma store_fold_fields [simp]:
  "ses_members (fold (store_state w now) ms s) = ses_members s"
  "ses_publish_rate_limit (fold (store_state w now) ms s) = ses_publish_rate_limit s"
  "ses_spaces (fold (store_state w now) ms s) = ses_spaces s"
  "ses_space_epoch_tombstones (fold (store_state w now) ms s) = ses_space_epoch_tombstones s"
  "ses_subscribers (fold (store_state w now) ms s) = ses_subscribers s"
  "ses_entities (fold (store_state w now) ms s) = ses_entities s"
  "ses_entity_cells (fold (store_state w now) ms s) = ses_entity_cells s"
  "ses_cell_entities (fold (store_state w now) ms s) = ses_cell_entities s"
  "ses_sequences (fold (store_state w now) ms s) = ses_sequences s"
  by (induction ms arbitrary: s; simp add: store_state_def Let_def case_prod_beta)+

lemma store_fold_state:
  "ses_state s = ses_state t \<Longrightarrow> ses_state_bytes s = ses_state_bytes t \<Longrightarrow>
   ses_state (fold (store_state w now) ms s) = ses_state (fold (store_state w now) ms t)
   \<and> ses_state_bytes (fold (store_state w now) ms s) = ses_state_bytes (fold (store_state w now) ms t)"
proof (induction ms arbitrary: s t)
  case (Cons m ms)
  have "ses_state (store_state w now m s) = ses_state (store_state w now m t)"
    "ses_state_bytes (store_state w now m s) = ses_state_bytes (store_state w now m t)"
    using Cons.prems by (simp_all add: store_state_def Let_def case_prod_beta split: option.split)
  from Cons.IH [OF this] show ?case by simp
qed simp

section \<open>Planned sequences\<close>

lemma bt_get_insert_all:
  "distinct (map fst ps) \<Longrightarrow>
   bt_get (fold (\<lambda>(k, v). bt_insert k v) ps m) k = (case map_of ps k of None \<Rightarrow> bt_get m k | Some v \<Rightarrow> Some v)"
proof (induction ps arbitrary: m)
  case (Cons p ps)
  obtain a b where p: "p = (a, b)" by fastforce
  have "map_of ps a = None" using Cons.prems by (simp add: p map_of_eq_None_iff)
  with Cons show ?case by (auto simp: p bt_get_insert split: option.split)
qed simp

lemma bt_get_merge:
  "bt_get (fold (\<lambda>(k, v). bt_insert k v) (bt_entries p) m) k =
     (case bt_get p k of None \<Rightarrow> bt_get m k | Some v \<Rightarrow> Some v)"
  by (simp add: bt_get_insert_all map_of_bt_entries)

lemma bt_len_merge:
  "bt_len (fold (\<lambda>(k, v). bt_insert k v) (bt_entries p) m) =
     bt_len m + length (filter (\<lambda>k. \<not> bt_contains m k) (bt_keys p))"
proof -
  have "dom (bt_get (fold (\<lambda>(k, v). bt_insert k v) (bt_entries p) m)) = dom (bt_get m) \<union> {k \<in> set (bt_keys p). \<not> bt_contains m k}"
    by (auto simp: bt_get_merge bt_contains_iff set_bt_keys split: option.splits)
  moreover have "card (dom (bt_get m) \<union> {k \<in> set (bt_keys p). \<not> bt_contains m k}) =
      card (dom (bt_get m)) + card {k \<in> set (bt_keys p). \<not> bt_contains m k}"
    by (intro card_Un_disjoint finite_dom_bt_get finite_subset [OF _ List.finite_set [of "bt_keys p"]])
      (auto simp: bt_contains_iff)
  moreover have "card {k \<in> set (bt_keys p). \<not> bt_contains m k} = length (filter (\<lambda>k. \<not> bt_contains m k) (bt_keys p))"
    using distinct_card [OF distinct_filter [OF distinct_bt_keys], of "\<lambda>k. \<not> bt_contains m k" p] by (simp add: Collect_conj_eq)
  ultimately show ?thesis by (simp add: bt_len_card)
qed

section \<open>Commit\<close>

text \<open>What the plan phase establishes for the session it leaves behind.\<close>

definition ready_to_commit :: "WovenCore \<Rightarrow> PublishRequest \<Rightarrow> PublishPlan \<Rightarrow> SessionState \<Rightarrow> bool" where
  "ready_to_commit w r plan s \<longleftrightarrow>
     plan_ok w s r (pl_messages plan) (pl_sequences plan)
   \<and> (case fold (project_state (ses_state s)) (stateful_messages (pl_messages plan))
             (cache_len (ses_state s), ses_state_bytes s, bt_empty) of
        (entries, bytes, _) \<Rightarrow>
          entries \<le> cfg_max_state_entries_per_session (wc_config w)
        \<and> bytes \<le> cfg_max_state_bytes_per_session (wc_config w))
   \<and> (\<forall>i pos cell. pl_position plan = Some (i, pos, cell) \<longrightarrow>
        (\<exists>e d. bt_get (ses_entities s) i = Some e \<and> bt_get (ses_spaces s) (er_space e) = Some d
           \<and> spatial_cell_for pos d (er_space_epoch e) = Inr cell))"

lemma plan_bytes:
  assumes ok: "plan_ok w s r ms planned" and cfg: "config_ok (wc_config w)" and lim: "within_limits (wc_config w) s"
  shows "byte_len (ses_state s) + sum_list (map (\<lambda>m. length (au_payload m)) (stateful_messages ms)) \<le> usize_max"
proof -
  let ?max = "cfg_max_payload_bytes (wc_config w)"
  have le: "sum_list (map (\<lambda>m. length (au_payload m)) xs) \<le> length xs * ?max"
    if "\<And>m. m \<in> set xs \<Longrightarrow> length (au_payload m) \<le> ?max" for xs
    using that by (induction xs) (auto intro: add_mono)
  have "sum_list (map (\<lambda>m. length (au_payload m)) (stateful_messages ms)) \<le> length (stateful_messages ms) * ?max"
    by (rule le) (use ok in \<open>auto simp: stateful_messages_def plan_ok_def message_ok_def\<close>)
  also have "\<dots> \<le> cfg_max_authority_emissions (wc_config w) * ?max"
    using ok order_trans [OF length_filter_le [of "\<lambda>m. is_stateful (au_persistence m)" ms]]
    by (intro mult_le_mono1) (simp add: stateful_messages_def plan_ok_def)
  finally show ?thesis using lim cfg unfolding within_limits_def config_ok_def by linarith
qed

lemma commit_session_wf:
  assumes wf: "session_wf (wc_config w) s" and ready: "ready_to_commit w r plan s" and cfg: "config_ok (wc_config w)"
  shows "session_wf (wc_config w) (commit_session w1 plan now s)" (is "session_wf _ ?t")
proof -
  define s1 where "s1 = (case pl_position plan of None \<Rightarrow> s | Some (entity, position, cell) \<Rightarrow> place_entity entity position cell s)"
  define s2 where "s2 = s1\<lparr>ses_sequences := fold (\<lambda>(k, v). bt_insert k v) (bt_entries (pl_sequences plan)) (ses_sequences s1)\<rparr>"
  have t: "?t = fold (store_state w1 now) (stateful_messages (pl_messages plan)) s2"
    by (simp add: commit_session_def s1_def s2_def Let_def)
  have wf1: "session_wf (wc_config w) s1"
  proof (cases "pl_position plan")
    case (Some p)
    obtain i pos cell where p: "p = (i, pos, cell)" by (cases p)
    then obtain e d where "bt_get (ses_entities s) i = Some e" "bt_get (ses_spaces s) (er_space e) = Some d"
      "spatial_cell_for pos d (er_space_epoch e) = Inr cell"
      using ready Some unfolding ready_to_commit_def by blast
    from place_entity_wf [OF wf this] show ?thesis by (simp add: s1_def Some p)
  qed (simp add: s1_def wf)
  have same: "ses_state s1 = ses_state s" "ses_state_bytes s1 = ses_state_bytes s" "ses_sequences s1 = ses_sequences s"
    by (auto simp: s1_def split: option.split)
  have ok: "plan_ok w s r (pl_messages plan) (pl_sequences plan)" using ready by (simp add: ready_to_commit_def)
  have acc: "accounting_ok s" and lim: "within_limits (wc_config w) s" using wf by (simp_all add: session_wf_def)
  note exact = projection_exact [OF projects_start [OF acc] plan_bytes [OF ok cfg lim], of w1 now]
  have state: "ses_state ?t = ses_state (fold (store_state w1 now) (stateful_messages (pl_messages plan)) s)"
    "ses_state_bytes ?t = ses_state_bytes (fold (store_state w1 now) (stateful_messages (pl_messages plan)) s)"
    using store_fold_state [of s2 s w1 now "stateful_messages (pl_messages plan)"] by (simp_all add: t s2_def same)
  have "accounting_ok ?t" "cache_len (ses_state ?t) \<le> cfg_max_state_entries_per_session (wc_config w)"
    "byte_len (ses_state ?t) \<le> cfg_max_state_bytes_per_session (wc_config w)"
    using exact ready unfolding ready_to_commit_def projects_def accounting_ok_def state by (auto split: prod.splits)
  moreover have "bt_len (ses_sequences ?t) \<le> cfg_max_sequence_keys_per_session (wc_config w)"
    using ok by (simp add: t s2_def same bt_len_merge plan_ok_def)
  moreover have "structure_ok ?t = structure_ok s1" by (simp add: structure_ok_def t s2_def)
  moreover have "cell_of ?t i = cell_of s1 i" for i by (rule cell_of_cong) (simp_all add: t s2_def)
  then have "index_inv ?t = index_inv s1" by (intro index_inv_cong) (simp_all add: t s2_def)
  ultimately show ?thesis
    using wf1 by (simp add: session_wf_def within_limits_def) (simp add: t s2_def)
qed

lemma commit_session_views:
  "ses_members (commit_session w plan now s) = ses_members s"
  "ses_subscribers (commit_session w plan now s) = ses_subscribers s"
  "ses_spaces (commit_session w plan now s) = ses_spaces s"
  "subscribed_in (commit_session w plan now s) sp c = subscribed_in s sp c"
  "owned_in (commit_session w plan now s) c = owned_in s c"
  "kept_entities (commit_session w plan now s) s"
proof -
  have sub: "ses_subscribers (commit_session w plan now s) = ses_subscribers s"
    "ses_members (commit_session w plan now s) = ses_members s" "ses_spaces (commit_session w plan now s) = ses_spaces s"
    by (auto simp: commit_session_def Let_def split: option.split)
  then show "ses_members (commit_session w plan now s) = ses_members s"
    "ses_subscribers (commit_session w plan now s) = ses_subscribers s"
    "ses_spaces (commit_session w plan now s) = ses_spaces s"
    "subscribed_in (commit_session w plan now s) sp c = subscribed_in s sp c" by (simp_all add: subscribed_in_def)
  have ent: "ses_entities (commit_session w plan now s) =
     (case pl_position plan of None \<Rightarrow> ses_entities s
      | Some (i, pos, cell) \<Rightarrow> ses_entities (place_entity i pos cell s))"
    by (auto simp: commit_session_def Let_def split: option.split)
  then show "owned_in (commit_session w plan now s) c = owned_in s c" "kept_entities (commit_session w plan now s) s"
    using place_entity_views(2,3) by (auto simp: owned_in_def kept_entities_def split: option.split)
qed

definition swept :: "Instant \<Rightarrow> SessionKey \<Rightarrow> WovenCore \<Rightarrow> WovenCore \<Rightarrow> bool" where
  "swept now key w' w \<longleftrightarrow>
     w' = w \<or> (\<exists>s. bt_get (wc_sessions w) key = Some s
               \<and> w' = w\<lparr>wc_sessions := bt_insert key (snd (sweep_session now s)) (wc_sessions w)\<rparr>)"

lemma swept_inv: "core_inv w \<Longrightarrow> swept now key w' w \<Longrightarrow> core_inv w'"
  by (auto simp: swept_def sweep_one_inv)

lemma validate_state_capacity_spec:
  assumes "validate_state_capacity key ms now w = (res, w')"
  shows "swept now key w' w"
    and "res = Inr u \<Longrightarrow> bt_get (wc_sessions w) key = Some s \<Longrightarrow>
      bt_get (wc_sessions w') key = Some (snd (sweep_session now s)) \<and> wc_config w' = wc_config w
      \<and> wc_journal_outbox w' = wc_journal_outbox w \<and>
      (case fold (project_state (ses_state (snd (sweep_session now s)))) (stateful_messages ms)
             (cache_len (ses_state (snd (sweep_session now s))), ses_state_bytes (snd (sweep_session now s)), bt_empty) of
        (entries, bytes, _) \<Rightarrow>
          entries \<le> cfg_max_state_entries_per_session (wc_config w)
        \<and> bytes \<le> cfg_max_state_bytes_per_session (wc_config w))"
proof -
  show "swept now key w' w"
    using assms
    by (auto simp: validate_state_capacity_def swept_def try_in_def Let_def split: sum.splits prod.splits if_splits)
  show "bt_get (wc_sessions w') key = Some (snd (sweep_session now s)) \<and> wc_config w' = wc_config w
      \<and> wc_journal_outbox w' = wc_journal_outbox w \<and>
      (case fold (project_state (ses_state (snd (sweep_session now s)))) (stateful_messages ms)
             (cache_len (ses_state (snd (sweep_session now s))), ses_state_bytes (snd (sweep_session now s)), bt_empty) of
        (entries, bytes, _) \<Rightarrow>
          entries \<le> cfg_max_state_entries_per_session (wc_config w)
        \<and> bytes \<le> cfg_max_state_bytes_per_session (wc_config w))"
    if "res = Inr u" "bt_get (wc_sessions w) key = Some s"
    using assms that
    by (auto simp: validate_state_capacity_def Let_def split: prod.splits if_splits)
qed

lemma plan_ok_sweep:
  assumes "plan_ok w s r ms planned" "session_wf (wc_config w) s" "wc_config w' = wc_config w"
  shows "plan_ok w' (snd (sweep_session now s)) r ms planned"
proof -
  have "accounting_ok s" using assms(2) by (simp add: session_wf_def)
  then show ?thesis
    using assms(1,3) by (simp add: plan_ok_def message_ok_def ahead_of_def sweep_session_fields)
qed

lemma plan_position_cell:
  assumes pos: "plan_position w r = Inr (Some (i, position, cell))"
    and s: "bt_get (wc_sessions w) (rq_session r) = Some s"
    and own: "message_ok cfg s c (from_request r)"
  shows "\<exists>e d. bt_get (ses_entities s) i = Some e \<and> bt_get (ses_spaces s) (er_space e) = Some d
     \<and> spatial_cell_for position d (er_space_epoch e) = Inr cell"
    and "\<exists>e. bt_get (ses_entities s) i = Some e \<and> er_owner_connection e = rq_connection r \<and> rq_entity r = Some i"
proof -
  obtain d e where d: "bt_get (ses_spaces s) (rq_space r) = Some d" "spatial_cell_for position d (rq_space_epoch r) = Inr cell"
    and e: "rq_entity r = Some i" "bt_get (ses_entities s) i = Some e" "er_owner_connection e = rq_connection r"
    using pos s by (auto simp: plan_position_def split: option.splits if_splits)
  have "er_space e = rq_space r" "er_space_epoch e = rq_space_epoch r"
    using own e by (auto simp: message_ok_def from_request_def)
  with e(2) d show "\<exists>e d. bt_get (ses_entities s) i = Some e \<and> bt_get (ses_spaces s) (er_space e) = Some d
     \<and> spatial_cell_for position d (er_space_epoch e) = Inr cell" by auto
  show "\<exists>e. bt_get (ses_entities s) i = Some e \<and> er_owner_connection e = rq_connection r \<and> rq_entity r = Some i"
    using e by blast
qed

lemma publish_plan_spec:
  assumes inv: "core_inv w" and plan: "publish_plan r pr now w = (res, w')"
  shows "swept now (rq_session r) w' w"
    and "res = Inr pl \<Longrightarrow> \<exists>s. bt_get (wc_sessions w') (rq_session r) = Some s \<and> ready_to_commit w' r pl s
      \<and> length (durable_messages (pl_messages pl)) \<le> remaining_capacity (wc_journal_outbox w')
      \<and> publish_evaluate r pr w = Inr (pl_messages pl, pl_sequences pl)"
proof -
  have "swept now (rq_session r) w' w
    \<and> (res = Inr pl \<longrightarrow> (\<exists>s. bt_get (wc_sessions w') (rq_session r) = Some s \<and> ready_to_commit w' r pl s
      \<and> length (durable_messages (pl_messages pl)) \<le> remaining_capacity (wc_journal_outbox w')
      \<and> publish_evaluate r pr w = Inr (pl_messages pl, pl_sequences pl)))"
  proof (cases "publish_evaluate r pr w")
    case (Inl e)
    with plan show ?thesis by (auto simp: publish_plan_def swept_def)
  next
    case (Inr b)
    obtain ms planned where b: "b = (ms, planned)" by fastforce
    note eval = Inr [unfolded b]
    obtain s where s: "bt_get (wc_sessions w) (rq_session r) = Some s" and ok: "plan_ok w s r ms planned"
      using publish_evaluate_ok [OF eval core_invD(1) [OF inv]] by blast
    obtain res1 w1 where v: "validate_state_capacity (rq_session r) ms now w = (res1, w1)" by fastforce
    note v1 = validate_state_capacity_spec(1) [OF v]
    have wf: "session_wf (wc_config w) s" by (rule core_invD(3) [OF inv s])
    show ?thesis
    proof (cases res1)
      case (Inl e)
      with plan eval v v1 show ?thesis by (auto simp: publish_plan_def)
    next
      case (Inr u)
      let ?s1 = "snd (sweep_session now s)"
      note v2 = validate_state_capacity_spec(2) [OF v Inr s]
      have ok1: "plan_ok w1 ?s1 r ms planned" by (rule plan_ok_sweep [OF ok wf]) (use v2 in simp)
      have own: "message_ok (wc_config w1) ?s1 (rq_connection r) (from_request r)" using ok1 by (simp add: plan_ok_def)
      have "ready_to_commit w1 r \<lparr>pl_messages = ms, pl_sequences = planned, pl_position = position\<rparr> ?s1"
        if "plan_position w1 r = Inr position" for position
        using ok1 v2 plan_position_cell(1) [OF _ conjunct1 [OF v2] own] that
        by (auto simp: ready_to_commit_def)
      then show ?thesis
        using plan v v1 v2 Inr eval
        by (cases "plan_position w1 r") (auto simp: publish_plan_def eval v split: if_splits)
    qed
  qed
  then show "swept now (rq_session r) w' w"
    and "res = Inr pl \<Longrightarrow> \<exists>s. bt_get (wc_sessions w') (rq_session r) = Some s \<and> ready_to_commit w' r pl s
      \<and> length (durable_messages (pl_messages pl)) \<le> remaining_capacity (wc_journal_outbox w')
      \<and> publish_evaluate r pr w = Inr (pl_messages pl, pl_sequences pl)" by blast+
qed

lemma journal_all_room:
  "length ms \<le> remaining_capacity j \<Longrightarrow>
   journal_all ms j = (Inr (), j\<lparr>jo_records := jo_records j @ map (\<lambda>m. \<lparr>jr_message = m\<rparr>) ms\<rparr>)"
proof (induction ms arbitrary: j)
  case (Cons m ms)
  then have "outbox_push j \<lparr>jr_message = m\<rparr> = (Inr (), j\<lparr>jo_records := jo_records j @ [\<lparr>jr_message = m\<rparr>]\<rparr>)"
    by (intro outbox_push_room) simp
  moreover have "length ms \<le> remaining_capacity (j\<lparr>jo_records := jo_records j @ [\<lparr>jr_message = m\<rparr>]\<rparr>)"
    using Cons.prems by (simp add: remaining_capacity_def)
  ultimately show ?case by (simp add: Cons.IH)
qed simp

lemma publish_commit_spec:
  assumes inv: "core_inv w" and s: "bt_get (wc_sessions w) (rq_session r) = Some s"
    and ready: "ready_to_commit w r pl s"
    and room: "length (durable_messages (pl_messages pl)) \<le> remaining_capacity (wc_journal_outbox w)"
  shows "\<exists>w1 j. publish_commit r pl now w =
      (Inr (), w\<lparr>wc_journal_outbox := j, wc_sessions := bt_insert (rq_session r) (commit_session w1 pl now s) (wc_sessions w)\<rparr>)
    \<and> wc_channels w1 = wc_channels w
    \<and> j = (wc_journal_outbox w)\<lparr>jo_records := jo_records (wc_journal_outbox w) @
         map (\<lambda>m. \<lparr>jr_message = to_outbound (rq_session r) m\<rparr>) (durable_messages (pl_messages pl))\<rparr>"
    and "core_inv (snd (publish_commit r pl now w))"
proof -
  let ?ms = "map (to_outbound (rq_session r)) (durable_messages (pl_messages pl))"
  let ?j = "(wc_journal_outbox w)\<lparr>jo_records := jo_records (wc_journal_outbox w) @ map (\<lambda>m. \<lparr>jr_message = m\<rparr>) ?ms\<rparr>"
  let ?w1 = "w\<lparr>wc_journal_outbox := ?j\<rparr>"
  have j: "journal_all ?ms (wc_journal_outbox w) = (Inr (), ?j)"
    using journal_all_room [of ?ms] room by simp
  have c: "publish_commit r pl now w =
      (Inr (), ?w1\<lparr>wc_sessions := bt_insert (rq_session r) (commit_session ?w1 pl now s) (wc_sessions ?w1)\<rparr>)"
    using s unfolding publish_commit_def j by (simp add: Let_def)
  then show "\<exists>w1 j. publish_commit r pl now w =
      (Inr (), w\<lparr>wc_journal_outbox := j, wc_sessions := bt_insert (rq_session r) (commit_session w1 pl now s) (wc_sessions w)\<rparr>)
    \<and> wc_channels w1 = wc_channels w
    \<and> j = (wc_journal_outbox w)\<lparr>jo_records := jo_records (wc_journal_outbox w) @
         map (\<lambda>m. \<lparr>jr_message = to_outbound (rq_session r) m\<rparr>) (durable_messages (pl_messages pl))\<rparr>"
    by (intro exI [of _ ?w1] exI [of _ ?j]) (simp add: comp_def)
  have "outbox_inv ?j" using room core_invD(6) [OF inv] by (auto simp: tables_bounded_def outbox_inv_def remaining_capacity_def)
  then have inv1: "core_inv ?w1" using inv by (simp add: core_inv_def ids_fresh_def tables_bounded_def)
  have "core_inv (?w1\<lparr>wc_sessions := bt_insert (rq_session r) (commit_session ?w1 pl now s) (wc_sessions ?w1)\<rparr>)"
  proof (rule core_inv_session [OF inv1])
    show "session_wf (wc_config ?w1) (commit_session ?w1 pl now s)"
      using commit_session_wf [OF core_invD(3) [OF inv s] ready core_invD(1) [OF inv]] by simp
  qed (use s in \<open>simp_all add: commit_session_views\<close>)
  then show "core_inv (snd (publish_commit r pl now w))" unfolding c by simp
qed

end
