(* ===== verification/Publish_Deliver.thy ===== *)
theory Publish_Deliver
  imports Publish_Plan
begin

text \<open>
  Fan-out, the removal of slow consumers, and publishing as a whole: it never panics, and it either
  refuses with nothing committed or commits and delivers.
\<close>

section \<open>Fan-out\<close>

text \<open>What a fan-out may do to a connection: it changes the outbound queue only, keeps its critical
  messages, and adds only messages the connection is to receive.\<close>

definition same_but_outbound :: "ConnectionState \<Rightarrow> ConnectionState \<Rightarrow> bool" where
  "same_but_outbound a b \<longleftrightarrow>
     cn_authenticated a = cn_authenticated b \<and> cn_memberships a = cn_memberships b
   \<and> cn_subscriptions a = cn_subscriptions b \<and> cn_owned_entities a = cn_owned_entities b
   \<and> cn_rate_limiter a = cn_rate_limiter b \<and> cn_session_rate_limiters a = cn_session_rate_limiters b"

definition received ::
  "(ConnectionId \<Rightarrow> AuthenticatedPrincipal option \<Rightarrow> OutboundMessage \<Rightarrow> bool) \<Rightarrow> ConnectionId
   \<Rightarrow> ConnectionState \<Rightarrow> ConnectionState \<Rightarrow> bool" where
  "received R c a b \<longleftrightarrow>
     same_but_outbound a b
   \<and> set (q_critical (cn_outbound b)) \<subseteq> set (q_critical (cn_outbound a))
   \<and> (\<forall>m \<in> set (contents (cn_outbound a)). m \<in> set (contents (cn_outbound b)) \<or> R c (cn_authenticated b) m)"

definition fanned ::
  "(ConnectionId \<Rightarrow> AuthenticatedPrincipal option \<Rightarrow> OutboundMessage \<Rightarrow> bool) \<Rightarrow> Fanout \<Rightarrow> Fanout \<Rightarrow> bool" where
  "fanned R f' f \<longleftrightarrow>
     bs_set (fo_disconnected f) \<subseteq> bs_set (fo_disconnected f')
   \<and> bs_set (fo_disconnected f') \<subseteq> bs_set (fo_disconnected f) \<union> dom (bt_get (fo_connections f))
   \<and> (\<forall>c. rel_option (received R c) (bt_get (fo_connections f') c) (bt_get (fo_connections f) c))"

definition conns_wf :: "CoreConfig \<Rightarrow> Fanout \<Rightarrow> bool" where
  "conns_wf cfg f \<longleftrightarrow> (\<forall>c st. bt_get (fo_connections f) c = Some st \<longrightarrow> conn_wf cfg st)"

lemma received_refl [simp]: "received R c a a"
  by (simp add: received_def same_but_outbound_def)

lemma received_trans:
  assumes "received R c x y" and "received R c y z"
  shows "received R c x z"
proof -
  have "same_but_outbound x z" "cn_authenticated y = cn_authenticated z"
    using assms by (simp_all add: received_def same_but_outbound_def)
  with assms show ?thesis unfolding received_def by (auto 4 3)
qed

lemma received_mono: "received R c x y \<Longrightarrow> (\<And>p m. R c p m \<Longrightarrow> R' c p m) \<Longrightarrow> received R' c x y"
  unfolding received_def by blast

lemma rel_option_None: "rel_option P x y \<Longrightarrow> x = None \<longleftrightarrow> y = None"
  by (cases x; cases y) simp_all

lemma fanned_refl [simp]: "fanned R f f"
proof -
  have "rel_option (received R c) x x" for c x by (cases x) simp_all
  then show ?thesis by (simp add: fanned_def)
qed

lemma fanned_dom:
  assumes "fanned R f' f"
  shows "dom (bt_get (fo_connections f')) = dom (bt_get (fo_connections f))"
proof -
  have "bt_get (fo_connections f') c = None \<longleftrightarrow> bt_get (fo_connections f) c = None" for c
    using assms unfolding fanned_def by (intro rel_option_None) blast
  then show ?thesis by (simp add: dom_def)
qed

lemma fanned_trans:
  assumes "fanned R f2 f1" and "fanned R f1 f0"
  shows "fanned R f2 f0"
proof -
  have "rel_option (received R c) (bt_get (fo_connections f2) c) (bt_get (fo_connections f0) c)" for c
  proof -
    have "rel_option (received R c) (bt_get (fo_connections f2) c) (bt_get (fo_connections f1) c)"
      "rel_option (received R c) (bt_get (fo_connections f1) c) (bt_get (fo_connections f0) c)"
      using assms by (simp_all add: fanned_def)
    then show ?thesis by (auto simp: option.rel_sel intro: received_trans)
  qed
  then show ?thesis using assms fanned_dom [OF assms(2)] unfolding fanned_def by blast
qed

lemma fannedD:
  assumes "fanned R f' f" and "bt_get (fo_connections f) c = Some st"
  obtains st' where "bt_get (fo_connections f') c = Some st'" "received R c st' st"
proof -
  have "rel_option (received R c) (bt_get (fo_connections f') c) (Some st)"
    using assms unfolding fanned_def by metis
  with that show ?thesis by (auto simp: option_rel_Some2)
qed

lemma fanned_mono:
  assumes "fanned R f' f" and "\<And>c p m. R c p m \<Longrightarrow> R' c p m"
  shows "fanned R' f' f"
  using assms(1) unfolding fanned_def
  by (auto intro: option.rel_mono_strong received_mono assms(2))

lemma push_valid:
  assumes "queue_inv q" and key: "is_replaceable (om_delivery m) \<Longrightarrow> om_coalesce_key m \<noteq> None"
  obtains r q' where "push q m = Some (Inr r, q')" "queue_inv q'" "q_config q' = q_config q"
proof -
  obtain r q' where p: "push q m = Some (r, q')" "queue_inv q'" using push_total [OF assms(1), of m] by blast
  have "r \<noteq> Inl e" for e
    using p(1) key by (auto simp: push_def push_latest_def scoped_coalesce_key_def split: if_splits prod.splits option.splits)
  then obtain r' where "r = Inr r'" by (cases r) auto
  with that p push_lanes [OF p(1)] show ?thesis by blast
qed

definition may_reach :: "SessionKey \<Rightarrow> AuthenticatedPrincipal option \<Rightarrow> OutboundMessage \<Rightarrow> bool" where
  "may_reach key p m \<longleftrightarrow> (\<exists>pr. p = Some pr \<and> can_receive pr key (om_space m) (om_channel m))"

text \<open>A connection is served a critical message when the message is in its critical lane or the
  connection is to be dropped as a slow consumer.\<close>

definition served :: "OutboundMessage \<Rightarrow> ConnectionId \<Rightarrow> Fanout \<Rightarrow> bool" where
  "served m c f \<longleftrightarrow>
     c \<in> bs_set (fo_disconnected f)
   \<or> (\<exists>st. bt_get (fo_connections f) c = Some st \<and> m \<in> set (q_critical (cn_outbound st)))"

lemma served_fanned:
  assumes "served m c f" and "fanned R f' f"
  shows "served m c f'"
proof (cases "c \<in> bs_set (fo_disconnected f)")
  case False
  then obtain st where st: "bt_get (fo_connections f) c = Some st" "m \<in> set (q_critical (cn_outbound st))"
    using assms(1) by (auto simp: served_def)
  then obtain st' where "bt_get (fo_connections f') c = Some st'" "received R c st' st"
    using fannedD [OF assms(2)] by metis
  with st(2) show ?thesis unfolding served_def received_def by blast
qed (use assms(2) in \<open>auto simp: served_def fanned_def\<close>)

lemma deliver_one_spec:
  assumes wf: "conns_wf cfg f" and key: "is_replaceable (om_delivery m) \<Longrightarrow> om_coalesce_key m \<noteq> None"
  shows "\<exists>f'. deliver_one session m c f = Some (Inr (), f') \<and> conns_wf cfg f'
    \<and> fanned (\<lambda>c' p x. x = m \<and> c' = c \<and> may_reach session p m) f' f
    \<and> (is_critical (om_delivery m) \<longrightarrow>
        (\<forall>st. bt_get (fo_connections f) c = Some st \<and> may_reach session (cn_authenticated st) m \<longrightarrow>
           served m c f'))"
proof (cases "bs_member c (fo_disconnected f)")
  case False
  show ?thesis
  proof (cases "bt_get (fo_connections f) c")
    case None
    with False wf show ?thesis by (simp add: deliver_one_def)
  next
    case st: (Some st)
    show ?thesis
    proof (cases "may_reach session (cn_authenticated st) m")
      case no: False
      with False st wf show ?thesis by (auto simp: deliver_one_def may_reach_def split: option.split)
    next
      case True
      then obtain pr where pr: "cn_authenticated st = Some pr" "can_receive pr session (om_space m) (om_channel m)"
        by (auto simp: may_reach_def)
      have cwf: "conn_wf cfg st" using wf st by (simp add: conns_wf_def)
      then have qi: "queue_inv (cn_outbound st)" by (simp add: conn_wf_def)
      obtain res q where p: "push (cn_outbound st) m = Some (Inr res, q)" "queue_inv q" "q_config q = q_config (cn_outbound st)"
        by (rule push_valid [OF qi key])
      let ?st = "st\<lparr>cn_outbound := q\<rparr>"
      obtain f' where f': "deliver_one session m c f = Some (Inr (), f')"
        "fo_connections f' = bt_insert c ?st (fo_connections f)"
        "fo_disconnected f' = (if res = CriticalCapacityExhausted then bs_insert c (fo_disconnected f) else fo_disconnected f)"
        using False st pr p(1) by (simp add: deliver_one_def Let_def)
      have "conns_wf cfg f'"
        using wf cwf p unfolding conns_wf_def f'(2) by (auto simp: bt_get_insert conn_wf_def split: if_splits)
      moreover have lanes: "q_critical q = q_critical (cn_outbound st) @
           (if is_critical (om_delivery m) \<and> res \<noteq> CriticalCapacityExhausted then [m] else [])"
        using push_lanes [OF p(1)] by simp
      have "received (\<lambda>c' p x. x = m \<and> c' = c \<and> may_reach session p m) c ?st st"
        using lanes push_contents [OF qi p(1)] True by (auto simp: received_def same_but_outbound_def)
      moreover have rel: "rel_option (received R c') (bt_get (bt_insert c ?st (fo_connections f)) c') (bt_get (fo_connections f) c')"
        if "received R c ?st st" for R c'
        using that st by (cases "bt_get (fo_connections f) c'") (auto simp: bt_get_insert)
      ultimately have "fanned (\<lambda>c' p x. x = m \<and> c' = c \<and> may_reach session p m) f' f"
        using st unfolding fanned_def f'(2,3) by auto
      with f' lanes \<open>conns_wf cfg f'\<close> show ?thesis by (auto simp: served_def)
    qed
  qed
next
  case True
  with wf show ?thesis by (simp add: deliver_one_def bs_member_iff served_def)
qed

lemma deliver_all_spec:
  assumes "conns_wf cfg f" and key: "is_replaceable (om_delivery m) \<Longrightarrow> om_coalesce_key m \<noteq> None"
  shows "\<exists>f'. deliver_all session m cs f = Some (Inr (), f') \<and> conns_wf cfg f'
    \<and> fanned (\<lambda>c' p x. x = m \<and> c' \<in> set cs \<and> may_reach session p m) f' f
    \<and> (is_critical (om_delivery m) \<longrightarrow>
        (\<forall>c \<in> set cs. \<forall>st. bt_get (fo_connections f) c = Some st \<and> may_reach session (cn_authenticated st) m \<longrightarrow>
           served m c f'))"
  using assms(1)
proof (induction cs arbitrary: f)
  case (Cons c cs)
  obtain f1 where f1: "deliver_one session m c f = Some (Inr (), f1)" "conns_wf cfg f1"
    "fanned (\<lambda>c' p x. x = m \<and> c' = c \<and> may_reach session p m) f1 f"
    and now: "is_critical (om_delivery m) \<Longrightarrow> bt_get (fo_connections f) c = Some st \<Longrightarrow> may_reach session (cn_authenticated st) m \<Longrightarrow>
       served m c f1" for st
    using deliver_one_spec [OF Cons.prems key, of session c] by blast
  obtain f2 where f2: "deliver_all session m cs f1 = Some (Inr (), f2)" "conns_wf cfg f2"
    "fanned (\<lambda>c' p x. x = m \<and> c' \<in> set cs \<and> may_reach session p m) f2 f1"
    and later: "is_critical (om_delivery m) \<Longrightarrow> c' \<in> set cs \<Longrightarrow> bt_get (fo_connections f1) c' = Some st \<Longrightarrow>
       may_reach session (cn_authenticated st) m \<Longrightarrow>
       served m c' f2" for c' st
    using Cons.IH [OF f1(2)] by blast
  have fan: "fanned (\<lambda>c' p x. x = m \<and> c' \<in> set (c # cs) \<and> may_reach session p m) f2 f"
    by (rule fanned_trans [OF fanned_mono [OF f2(3)] fanned_mono [OF f1(3)]]) auto
  have srv: "served m c' f2"
    if crit: "is_critical (om_delivery m)" and c': "c' \<in> set (c # cs)" and st: "bt_get (fo_connections f) c' = Some st"
      and may: "may_reach session (cn_authenticated st) m" for c' st
  proof (cases "c' \<in> set cs")
    case True
    obtain st1 where st1: "bt_get (fo_connections f1) c' = Some st1"
        "received (\<lambda>c' p x. x = m \<and> c' = c \<and> may_reach session p m) c' st1 st"
      by (rule fannedD [OF f1(3) st])
    then have "cn_authenticated st1 = cn_authenticated st" by (simp add: received_def same_but_outbound_def)
    with later [OF crit True st1(1)] may show ?thesis by simp
  next
    case False
    then have "c' = c" using c' by simp
    then show ?thesis using now [OF crit] st may served_fanned [OF _ f2(3)] by blast
  qed
  show ?case
  proof (intro exI conjI)
    show "deliver_all session m (c # cs) f = Some (Inr (), f2)" using f1(1) f2(1) by simp
  qed (use f2(2) fan srv in auto)
qed simp

definition deliverable :: "OutboundMessage \<Rightarrow> bool" where
  "deliverable m \<longleftrightarrow> (is_replaceable (om_delivery m) \<longrightarrow> om_coalesce_key m \<noteq> None)"

lemma message_ok_deliverable: "message_ok cfg s c m \<Longrightarrow> deliverable (to_outbound key m)"
  by (auto simp: message_ok_def deliverable_def to_outbound_def validate_coalesce_key_def split: if_splits)

lemma ready_deliverable:
  "ready_to_commit w r plan s \<Longrightarrow> \<forall>m \<in> set (pl_messages plan). deliverable (to_outbound key m)"
  using message_ok_deliverable unfolding ready_to_commit_def plan_ok_def by blast

lemma fan_out_spec:
  assumes "conns_wf cfg f" and "\<And>m. m \<in> set ms \<Longrightarrow> deliverable m"
  shows "\<exists>f'. fan_out w session ms f = Some (Inr (), f') \<and> conns_wf cfg f'
    \<and> fanned (\<lambda>c p m. m \<in> set ms \<and> c \<in> set (recipients_of w session m) \<and> may_reach session p m) f' f
    \<and> (\<forall>m \<in> set ms. is_critical (om_delivery m) \<longrightarrow>
        (\<forall>c \<in> set (recipients_of w session m). \<forall>st. bt_get (fo_connections f) c = Some st
           \<and> may_reach session (cn_authenticated st) m \<longrightarrow> served m c f'))"
  using assms
proof (induction ms arbitrary: f)
  case (Cons m ms)
  let ?R = "\<lambda>ms c p m. m \<in> set ms \<and> c \<in> set (recipients_of w session m) \<and> may_reach session p m"
  let ?cs = "recipients_of w session m"
  have key: "is_replaceable (om_delivery m) \<Longrightarrow> om_coalesce_key m \<noteq> None" using Cons.prems(2) [of m] by (simp add: deliverable_def)
  have rest: "\<And>x. x \<in> set ms \<Longrightarrow> deliverable x" using Cons.prems(2) by simp
  obtain f1 where f1: "deliver_all session m ?cs f = Some (Inr (), f1)" "conns_wf cfg f1"
    "fanned (\<lambda>c' p x. x = m \<and> c' \<in> set ?cs \<and> may_reach session p m) f1 f"
    and now: "is_critical (om_delivery m) \<Longrightarrow> c \<in> set ?cs \<Longrightarrow> bt_get (fo_connections f) c = Some st \<Longrightarrow>
       may_reach session (cn_authenticated st) m \<Longrightarrow> served m c f1" for c st
    using deliver_all_spec [OF Cons.prems(1) key, of session ?cs] by blast
  obtain f2 where f2: "fan_out w session ms f1 = Some (Inr (), f2)" "conns_wf cfg f2" "fanned (?R ms) f2 f1"
    and later: "x \<in> set ms \<Longrightarrow> is_critical (om_delivery x) \<Longrightarrow> c \<in> set (recipients_of w session x) \<Longrightarrow>
       bt_get (fo_connections f1) c = Some st \<Longrightarrow> may_reach session (cn_authenticated st) x \<Longrightarrow> served x c f2" for x c st
    using Cons.IH [OF f1(2) rest] by blast
  have fan: "fanned (?R (m # ms)) f2 f"
    by (rule fanned_trans [OF fanned_mono [OF f2(3)] fanned_mono [OF f1(3)]]) auto
  have srv: "served x c f2" if x: "x \<in> set (m # ms)" "is_critical (om_delivery x)" "c \<in> set (recipients_of w session x)"
      and st: "bt_get (fo_connections f) c = Some st" "may_reach session (cn_authenticated st) x" for x c st
  proof (cases "x \<in> set ms")
    case True
    obtain st1 where st1: "bt_get (fo_connections f1) c = Some st1"
        "received (\<lambda>c' p x. x = m \<and> c' \<in> set ?cs \<and> may_reach session p m) c st1 st"
      by (rule fannedD [OF f1(3) st(1)])
    then have "cn_authenticated st1 = cn_authenticated st" by (simp add: received_def same_but_outbound_def)
    with later [OF True x(2,3) st1(1)] st(2) show ?thesis by simp
  next
    case False
    with x have "x = m" by simp
    with now [of c st] x st served_fanned [OF _ f2(3)] show ?thesis by simp
  qed
  show ?case
  proof (intro exI conjI)
    show "fan_out w session (m # ms) f = Some (Inr (), f2)" using f1(1) f2(1) by simp
  qed (use f2(2) fan srv in auto)
qed auto

lemma fanned_inv:
  assumes inv: "core_inv w"
    and f: "fanned R f' f" "fo_connections f = wc_connections w" "conns_wf (wc_config w) f'"
  shows "core_inv (w\<lparr>wc_connections := fo_connections f'\<rparr>)"
  using inv
proof (rule core_inv_connections)
  fix c
  have "rel_option (received R c) (bt_get (fo_connections f') c) (bt_get (wc_connections w) c)"
    using f(1,2) by (simp add: fanned_def)
  then show "rel_option same_links (bt_get (fo_connections f') c) (bt_get (wc_connections w) c)"
    by (rule option.rel_mono_strong) (simp add: received_def same_but_outbound_def same_links_def)
qed (use f(3) in \<open>auto simp: conns_wf_def\<close>)

section \<open>Dropping slow consumers\<close>

text \<open>The end of \<open>transport_lost\<close>, once the connection has left every session.\<close>

definition forget_connection :: "(nat \<Rightarrow> Instant) \<Rightarrow> ConnectionId \<Rightarrow> nat \<Rightarrow> WovenCore \<Rightarrow> WovenCore" where
  "forget_connection clk c n w =
     (let pending = pending_sessions c w;
          w2 = release_pending clk c n pending w;
          w3 = w2\<lparr>wc_admission_tickets := bt_retain (\<lambda>(owner, _) _. owner \<noteq> c) (wc_admission_tickets w2),
                 wc_admissions := cancel_tickets clk (n + length pending) (own_tickets c w2) (wc_admissions w2)\<rparr>
      in w3\<lparr>wc_connections := bt_remove c (wc_connections w3),
           wc_managed := map_option (\<lambda>m. m\<lparr>ms_connections := bt_remove c (ms_connections m),
                                         ms_operations := bt_remove c (ms_operations m)\<rparr>) (wc_managed w3)\<rparr>)"

lemma transport_lost_eq:
  assumes inv: "core_inv w" and st: "bt_get (wc_connections w) c = Some st"
  shows "\<exists>sm. transport_lost clk c w =
     (Inr sm, forget_connection clk c (length (bs_list (cn_memberships st)))
        (snd (detach_memberships clk c 0 (bs_list (cn_memberships st)) (empty_summary, w))))"
proof -
  let ?keys = "bs_list (cn_memberships st)"
  obtain sm w1 where w1: "detach_memberships clk c 0 ?keys (empty_summary, w) = (sm, w1)" by fastforce
  obtain st1 where inv1: "core_inv w1" and st1: "bt_get (wc_connections w1) c = Some st1"
    using detach_memberships_inv [OF inv st, of clk 0 ?keys empty_summary] by (auto simp: w1)
  have "c \<noteq> 0" using core_invD(5) [OF inv] st by (auto simp: ids_fresh_def)
  then have ok: "validate_connection_id c = Inr ()" by (simp add: validate_connection_id_def require_nonzero_def)
  have "wc_connections (release_pending clk c (length ?keys) (pending_sessions c w1) w1) = wc_connections w1"
    using release_pending_inv [OF inv1] by blast
  with st1 show ?thesis
    unfolding transport_lost_def ok by (simp add: st Let_def w1 forget_connection_def)
qed

lemma drop_slow_consumers_spec:
  assumes "core_inv w"
  shows "\<exists>o'. fst (drop_slow_consumers clk cs out w) = Inr o'" and "core_inv (snd (drop_slow_consumers clk cs out w))"
proof -
  have "(\<exists>o'. fst (drop_slow_consumers clk cs out w) = Inr o') \<and> core_inv (snd (drop_slow_consumers clk cs out w))"
    using assms
  proof (induction cs arbitrary: out w)
    case (Cons c cs)
    show ?case
    proof (cases "bt_get (wc_connections w) c")
      case (Some st)
      obtain sm w1 where t: "transport_lost (clk c) c w = (Inr sm, w1)"
        using transport_lost_eq [OF Cons.prems Some] by blast
      have "core_inv w1" using transport_lost_inv [OF Cons.prems, of "clk c" c] t by simp
      with Cons.IH show ?thesis using Some t by (simp add: bt_contains_iff)
    qed (use Cons in \<open>simp add: bt_contains_iff\<close>)
  qed simp
  then show "\<exists>o'. fst (drop_slow_consumers clk cs out w) = Inr o'" and "core_inv (snd (drop_slow_consumers clk cs out w))"
    by blast+
qed

lemma deliver_shape:
  assumes inv: "core_inv w" and ok: "\<forall>m \<in> set (pl_messages plan). deliverable (to_outbound (rq_session r) m)"
  obtains f out w' where "publish_deliver clk r plan w = Some (Inr out, w')" "core_inv w'"
    "core_inv (w\<lparr>wc_connections := fo_connections f\<rparr>)"
    "fanned (\<lambda>c p m. m \<in> to_outbound (rq_session r) ` set (pl_messages plan) \<and> c \<in> set (recipients_of w (rq_session r) m)
       \<and> may_reach (rq_session r) p m) f
       \<lparr>fo_outcome = \<lparr>po_authorized_messages = length (pl_messages plan), po_recipient_attempts = 0,
          po_queues = zero_activity, po_disconnected_slow_consumers = []\<rparr>,
        fo_disconnected = bt_empty, fo_connections = wc_connections w\<rparr>"
    "drop_slow_consumers clk (bs_list (fo_disconnected f)) (fo_outcome f) (w\<lparr>wc_connections := fo_connections f\<rparr>) = (Inr out, w')"
proof -
  let ?ms = "map (to_outbound (rq_session r)) (pl_messages plan)"
  let ?out0 = "\<lparr>po_authorized_messages = length (pl_messages plan), po_recipient_attempts = 0,
                      po_queues = zero_activity, po_disconnected_slow_consumers = []\<rparr>"
  let ?f0 = "\<lparr>fo_outcome = ?out0, fo_disconnected = bt_empty, fo_connections = wc_connections w\<rparr>"
  have wf: "conns_wf (wc_config w) ?f0" using core_invD(2) [OF inv] by (simp add: conns_wf_def)
  obtain f where f: "fan_out w (rq_session r) ?ms ?f0 = Some (Inr (), f)" "conns_wf (wc_config w) f"
    and fan: "fanned (\<lambda>c p m. m \<in> set ?ms \<and> c \<in> set (recipients_of w (rq_session r) m) \<and> may_reach (rq_session r) p m) f ?f0"
    using fan_out_spec [OF wf, of ?ms w "rq_session r"] ok by auto
  have inv1: "core_inv (w\<lparr>wc_connections := fo_connections f\<rparr>)"
    by (rule fanned_inv [OF inv fan _ f(2)]) simp
  obtain out w' where d: "drop_slow_consumers clk (bs_list (fo_disconnected f)) (fo_outcome f) (w\<lparr>wc_connections := fo_connections f\<rparr>) = (Inr out, w')"
    "core_inv w'"
    using drop_slow_consumers_spec [OF inv1, of clk "bs_list (fo_disconnected f)" "fo_outcome f"] by (metis prod.collapse)
  have "publish_deliver clk r plan w = Some (Inr out, w')" using d by (simp add: publish_deliver_def Let_def f)
  from that [OF this d(2) inv1 _ d(1)] fan show ?thesis by simp
qed

lemma publish_deliver_spec:
  assumes "core_inv w" and "\<forall>m \<in> set (pl_messages plan). deliverable (to_outbound (rq_session r) m)"
  shows "\<exists>out w'. publish_deliver clk r plan w = Some (Inr out, w') \<and> core_inv w'"
  by (rule deliver_shape [OF assms, where clk = clk]) blast

section \<open>Publishing\<close>

text \<open>Publishing never panics, keeps the invariant, and succeeds exactly when a plan is found.\<close>

lemma publish_at_cases:
  assumes inv: "core_inv w"
  obtains (refused) e w1 w2 where "publish_at clk r now w = Some (Inl e, w2)" "core_inv w2" "charged w1 w" "swept now (rq_session r) w2 w1"
  | (published) pr w1 plan w2 s w3 out w4 where
      "publish_at clk r now w = Some (Inr out, w4)" "core_inv w4"
      "may_publish w r = Inr pr" "charged w1 w" "core_inv w1" "publish_evaluate r pr w1 = Inr (pl_messages plan, pl_sequences plan)"
      "swept now (rq_session r) w2 w1" "core_inv w2" "bt_get (wc_sessions w2) (rq_session r) = Some s" "ready_to_commit w2 r plan s"
      "length (durable_messages (pl_messages plan)) \<le> remaining_capacity (wc_journal_outbox w2)"
      "publish_commit r plan now w2 = (Inr (), w3)" "core_inv w3" "publish_deliver clk r plan w3 = Some (Inr out, w4)"
proof -
  obtain res1 w1 where a: "publish_authorize r now w = (res1, w1)" by fastforce
  note A = publish_authorize_spec [OF a]
  have inv1: "core_inv w1" by (rule A(1) [OF inv])
  show ?thesis
  proof (cases res1)
    case (Inl e)
    have "publish_at clk r now w = Some (Inl e, w1)" by (simp add: publish_at_def a Inl)
    from refused [OF this inv1 A(2)] show ?thesis by (simp add: swept_def)
  next
    case pr: (Inr pr)
    obtain res2 w2 where p: "publish_plan r pr now w1 = (res2, w2)" by fastforce
    note S = publish_plan_spec [OF inv1 p]
    have inv2: "core_inv w2" by (rule swept_inv [OF inv1 S(1)])
    show ?thesis
    proof (cases res2)
      case (Inl e)
      have "publish_at clk r now w = Some (Inl e, w2)" by (simp add: publish_at_def a pr p Inl)
      from refused [OF this inv2 A(2) S(1)] show ?thesis .
    next
      case (Inr plan)
      obtain s where s: "bt_get (wc_sessions w2) (rq_session r) = Some s" "ready_to_commit w2 r plan s"
        "length (durable_messages (pl_messages plan)) \<le> remaining_capacity (wc_journal_outbox w2)"
        "publish_evaluate r pr w1 = Inr (pl_messages plan, pl_sequences plan)"
        using S(2) [OF Inr] by blast
      obtain w3 where c: "publish_commit r plan now w2 = (Inr (), w3)"
        using publish_commit_spec(1) [OF inv2 s(1-3)] by blast
      have inv3: "core_inv w3" using publish_commit_spec(2) [OF inv2 s(1-3), of now] c by simp
      obtain out w4 where d: "publish_deliver clk r plan w3 = Some (Inr out, w4)" "core_inv w4"
        using publish_deliver_spec [OF inv3 ready_deliverable [OF s(2)]] by blast
      have "publish_at clk r now w = Some (Inr out, w4)" by (simp add: publish_at_def a pr p Inr c d)
      from published [OF this d(2) A(3) [OF pr] A(2) inv1 s(4) S(1) inv2 s(1-3) c inv3 d(1)] show ?thesis .
    qed
  qed
qed

end
