(* ===== verification/Core_Run.thy ===== *)
theory Core_Run
  imports Publish_Deliver
begin

text \<open>
  Runs of the core: the step relation of its public operations, the invariant over every run
  (through the interpretation of a generic machine with an invariant), and the states a core reaches
  from a configuration it accepts.
\<close>

section \<open>Draining\<close>

lemma drain_outbound_inv:
  assumes inv: "core_inv w"
  shows "core_inv (snd (drain_outbound c w))"
proof -
  have "core_inv (w\<lparr>wc_connections := bt_insert c (st\<lparr>cn_outbound := snd (drain (cn_outbound st))\<rparr>) (wc_connections w)\<rparr>)"
    if st: "bt_get (wc_connections w) c = Some st" for st
    using core_invD(2) [OF inv st]
    by (intro core_inv_outbound [OF inv st]) (simp_all add: conn_wf_def drain_refines drain_frame)
  then show ?thesis
    unfolding drain_outbound_def
    using inv by (auto intro!: try_in_preserves [where P = core_inv] simp: case_prod_beta)
qed

lemma drain_for_spaces_total:
  assumes inv: "core_inv w"
  shows "\<exists>r w'. drain_outbound_for_spaces c spaces w = Some (r, w') \<and> core_inv w'"
proof (cases "validate_connection_id c")
  case (Inr u)
  show ?thesis
  proof (cases "bt_get (wc_connections w) c")
    case (Some st)
    let ?P = "\<lambda>m. bs_member (SpaceKey (SessionKey (om_namespace m) (om_session m)) (om_space m)) spaces"
    have q: "queue_inv (cn_outbound st)" using core_invD(2) [OF inv Some] by (simp add: conn_wf_def)
    then have d: "drain_matching ?P (cn_outbound st) = Some (filter ?P (contents (cn_outbound st)), snd (purge ?P (cn_outbound st)))"
      by (intro drain_matching_state) (simp add: queue_inv_def)
    have "core_inv (w\<lparr>wc_connections := bt_insert c (st\<lparr>cn_outbound := snd (purge ?P (cn_outbound st))\<rparr>) (wc_connections w)\<rparr>)"
      by (rule core_inv_outbound [OF inv Some]) (use q in \<open>simp_all add: purge_inv\<close>)
    with inv show ?thesis unfolding drain_outbound_for_spaces_def Inr Some by (simp add: d del: bs_member_iff)
  qed (simp add: drain_outbound_for_spaces_def Inr inv)
qed (simp add: drain_outbound_for_spaces_def inv)

lemma pop_journal_inv: "core_inv w \<Longrightarrow> core_inv (snd (pop_journal_record w))"
  using outbox_pop_inv [of "wc_journal_outbox w"]
  by (simp add: pop_journal_record_def case_prod_beta core_inv_def ids_fresh_def tables_bounded_def)

section \<open>Runs of the core\<close>

text \<open>One call of a public operation of the core. An operation that fails may still have charged a
  limiter or swept expired state, so failing calls are steps too.\<close>

inductive core_step :: "WovenCore \<Rightarrow> WovenCore \<Rightarrow> bool" where
  step_register_channel: "core_step w (snd (register_channel channel w))"
| step_provision_session: "core_step w (snd (provision_session key w))"
| step_set_rate_limit: "core_step w (snd (set_session_publish_rate_limit key policy w))"
| step_configure_admission: "core_step w (snd (configure_session_admission key metadata qpolicy capacity w))"
| step_apply_capacity: "core_step w (snd (apply_session_capacity_at key capacity now w))"
| step_request_admission: "core_step w (snd (request_session_admission_at c key idempotency now w))"
| step_session_queue: "core_step w (snd (session_queue_at c key ticket operation now w))"
| step_maintain: "core_step w (maintain_admission_at now w)"
| step_admit_and_join: "core_step w (snd (admit_and_join_session_at c key idempotency now w))"
| step_install_space: "core_step w (snd (install_space key descriptor w))"
| step_advance_epoch: "core_step w (snd (advance_space_epoch key space epoch w))"
| step_connected: "core_step w (snd (transport_connected w))"
| step_authenticate: "core_step w (snd (authenticate digest c credentials now w))"
| step_join: "core_step w (snd (join_session_at c key now w))"
| step_join_with_admission: "core_step w (snd (join_session_with_admission_at c key lease now w))"
| step_leave: "core_step w (snd (leave_session c key now w))"
| step_subscribe: "core_step w (snd (subscribe c space_key w))"
| step_unsubscribe: "core_step w (snd (unsubscribe c space_key w))"
| step_spawn: "core_step w (snd (spawn_entity c space_key epoch w))"
| step_update_position: "core_step w (snd (update_entity_position c key entity position w))"
| step_remove_entity: "core_step w (snd (remove_entity c key entity w))"
| step_transition: "core_step w (snd (transition_entity transition w))"
| step_publish: "publish_at clocks request now w = Some (result, w') \<Longrightarrow> core_step w w'"
| step_drain: "core_step w (snd (drain_outbound c w))"
| step_drain_for_spaces: "drain_outbound_for_spaces c spaces w = Some (messages, w') \<Longrightarrow> core_step w w'"
| step_pop_journal: "core_step w (snd (pop_journal_record w))"
| step_sweep: "core_step w (snd (sweep_expired_state now w))"
| step_transport_lost: "core_step w (snd (transport_lost clock c w))"

lemma publish_at_inv:
  assumes "core_inv w" and "publish_at clk r now w = Some (res, w')"
  shows "core_inv w'"
  using assms(1) by (rule publish_at_cases [where clk = clk and r = r and now = now]) (use assms(2) in simp_all)

lemma core_step_inv: "core_step w w' \<Longrightarrow> core_inv w \<Longrightarrow> core_inv w'"
proof (induction rule: core_step.induct)
  case (step_publish clocks request now w result w')
  then show ?case by (simp add: publish_at_inv)
next
  case (step_drain_for_spaces c spaces w messages w')
  then show ?case using drain_for_spaces_total [of w c spaces] by auto
qed (simp_all add: register_channel_inv provision_session_inv set_session_publish_rate_limit_inv
    configure_session_admission_inv apply_session_capacity_inv request_session_admission_inv session_queue_inv
    maintain_admission_inv admit_and_join_inv install_space_inv advance_space_epoch_inv transport_connected_inv
    authenticate_inv join_session_inv join_with_admission_inv leave_session_inv subscribe_inv unsubscribe_inv
    spawn_entity_inv update_entity_position_inv remove_entity_inv transition_entity_inv drain_outbound_inv
    pop_journal_inv sweep_expired_state_inv transport_lost_inv)

lemma core_new_inv:
  assumes "core_new authenticator cfg = Inr w" and "config_ok cfg"
  shows "core_inv w"
proof -
  have w: "wc_config w = cfg" "wc_connections w = bt_empty" "wc_sessions w = bt_empty" "wc_channels w = bt_empty"
    "wc_admissions w = bt_empty" "wc_next_connection_id w = 1" "wc_next_entity_id w = 1"
    "wc_journal_outbox w = new_outbox (cfg_journal_outbox_capacity cfg)"
    using assms by (auto simp: core_new_def config_ok_def)
  have "linked bt_empty bt_empty"
    by (intro linkedI) (auto simp: member_of_def subscriber_of_def owns_in_def)
  with assms(2) show ?thesis
    by (simp add: core_inv_def w ids_fresh_def tables_bounded_def outbox_new_inv)
qed

text \<open>A machine with an invariant: what holds initially and is kept by every step holds in every
  state it reaches.\<close>

locale invariant_machine =
  fixes initial :: "'s \<Rightarrow> bool" and step :: "'s \<Rightarrow> 's \<Rightarrow> bool" and inv :: "'s \<Rightarrow> bool"
  assumes initial_inv: "initial s \<Longrightarrow> inv s"
    and step_inv: "step s t \<Longrightarrow> inv s \<Longrightarrow> inv t"
begin

lemma steps_inv: "step\<^sup>*\<^sup>* s t \<Longrightarrow> inv s \<Longrightarrow> inv t"
  by (induction rule: rtranclp_induct) (auto intro: step_inv)

lemma reached_inv: "initial s \<Longrightarrow> step\<^sup>*\<^sup>* s t \<Longrightarrow> inv t"
  using initial_inv steps_inv by blast

end

interpretation core: invariant_machine
  "\<lambda>w. \<exists>authenticator cfg. core_new authenticator cfg = Inr w \<and> config_ok cfg" core_step core_inv
  by unfold_locales (auto intro: core_new_inv core_step_inv)

definition reachable_core :: "CoreConfig \<Rightarrow> WovenCore \<Rightarrow> bool" where
  "reachable_core cfg w \<longleftrightarrow> (\<exists>authenticator w0. core_new authenticator cfg = Inr w0 \<and> core_step\<^sup>*\<^sup>* w0 w)"

lemma reachable_core_inv: "config_ok cfg \<Longrightarrow> reachable_core cfg w \<Longrightarrow> core_inv w"
  unfolding reachable_core_def using core.reached_inv by blast

end
