(* ===== verification/Core_Delivery.thy ===== *)
theory Core_Delivery
  imports Core_Run
begin

text \<open>
  Delivery: a removal only shrinks the queues, the recipients read from the spatial index are those a
  scan of the indexed entities finds, and every message in a queue has an origin.
\<close>

section \<open>Queues only shrink when connections go\<close>

definition shrinks :: "WovenCore \<Rightarrow> WovenCore \<Rightarrow> bool" where
  "shrinks w' w \<longleftrightarrow> (\<forall>c st'. bt_get (wc_connections w') c = Some st' \<longrightarrow>
     (\<exists>st. bt_get (wc_connections w) c = Some st \<and> cn_authenticated st' = cn_authenticated st
        \<and> set (contents (cn_outbound st')) \<subseteq> set (contents (cn_outbound st))))"

lemma shrinks_refl [simp]: "shrinks w w"
  by (auto simp: shrinks_def)

lemma shrinks_trans:
  assumes "shrinks a b" and "shrinks b c"
  shows "shrinks a c"
  unfolding shrinks_def
proof (intro allI impI)
  fix i x assume "bt_get (wc_connections a) i = Some x"
  then obtain y where y: "bt_get (wc_connections b) i = Some y" "cn_authenticated x = cn_authenticated y"
      "set (contents (cn_outbound x)) \<subseteq> set (contents (cn_outbound y))"
    using assms(1) unfolding shrinks_def by blast
  then obtain z where "bt_get (wc_connections c) i = Some z" "cn_authenticated y = cn_authenticated z"
      "set (contents (cn_outbound y)) \<subseteq> set (contents (cn_outbound z))"
    using assms(2) unfolding shrinks_def by blast
  with y show "\<exists>st. bt_get (wc_connections c) i = Some st \<and> cn_authenticated x = cn_authenticated st
     \<and> set (contents (cn_outbound x)) \<subseteq> set (contents (cn_outbound st))" by auto
qed

lemma shrinks_connections: "wc_connections w' = wc_connections w \<Longrightarrow> shrinks w' w"
  by (auto simp: shrinks_def)

lemma purge_subset: "queue_inv q \<Longrightarrow> set (contents (snd (purge P q))) \<subseteq> set (contents q)"
  using purge_contents [of q P] by (auto simp: queue_inv_def)

lemma removal_shrinks:
  assumes inv: "core_inv w"
  shows "shrinks (snd (remove_entities_and_anchored_spaces key entities w)) w"
  unfolding shrinks_def
proof (intro allI impI)
  fix c st' assume st': "bt_get (wc_connections (snd (remove_entities_and_anchored_spaces key entities w))) c = Some st'"
  then obtain st where st: "bt_get (wc_connections w) c = Some st" using removal_connections(1) [of key entities w c] by auto
  have q: "queue_inv (cn_outbound st)" using core_invD(2) [OF inv st] by (simp add: conn_wf_def)
  show "\<exists>st. bt_get (wc_connections w) c = Some st \<and> cn_authenticated st' = cn_authenticated st
        \<and> set (contents (cn_outbound st')) \<subseteq> set (contents (cn_outbound st))"
  proof (cases "bt_get (wc_sessions w) key")
    case None
    then show ?thesis
      using st' st purge_subset [OF q, of "message_removed key entities bt_empty"]
      by (auto simp: remove_entities_and_anchored_spaces_def Let_def case_prod_beta purge_all_get bt_empty.rep_eq)
  next
    case (Some s)
    obtain re rs cs where r:
      "closure_loop (bt_values (ses_spaces s)) (bt_values (ses_entities s)) entities bt_empty = (re, rs)"
      "snd (remove_entities_and_anchored_spaces key entities w) =
         w\<lparr>wc_sessions := bt_insert key (snd (remove_from_session key re rs s)) (wc_sessions w), wc_connections := cs\<rparr>"
      "\<And>c. bt_get cs c = map_option (unlink_connection key re rs (removed_of re s c)) (bt_get (wc_connections w) c)"
      by (rule removal_spec [OF Some, where entities = entities]) (rule that)
    show ?thesis
      using st' st purge_subset [OF q, of "message_removed key re rs"] unfolding r(2) by (auto simp: r(3) unlink_connection_def)
  qed
qed

lemma detach_shrinks:
  assumes inv: "core_inv w"
  shows "shrinks (snd (detach_connection_from_session c key w)) w"
proof -
  let ?es = "case bt_get (wc_sessions w) key of None \<Rightarrow> bt_empty | Some s \<Rightarrow> owned_set c s"
  define w1 where "w1 = snd (remove_entities_and_anchored_spaces key ?es w)"
  have inv1: "core_inv w1" unfolding w1_def by (rule removal_inv [OF inv])
  define w2 where "w2 = (case bt_get (wc_sessions w1) key of None \<Rightarrow> w1
               | Some s \<Rightarrow> w1\<lparr>wc_sessions := bt_insert key (without_member c s) (wc_sessions w1)\<rparr>)"
  have cs: "wc_connections w2 = wc_connections w1" by (simp add: w2_def split: option.split)
  have eq: "snd (detach_connection_from_session c key w) = (case bt_get (wc_connections w2) c of None \<Rightarrow> w2
        | Some st \<Rightarrow> w2\<lparr>wc_connections := bt_insert c (without_session key st) (wc_connections w2)\<rparr>)"
    unfolding detach_eq w1_def w2_def Let_def by (rule refl)
  have "set (contents (cn_outbound (without_session key st))) \<subseteq> set (contents (cn_outbound st))"
    if "bt_get (wc_connections w1) c = Some st" for st
    using core_invD(2) [OF inv1 that] by (simp add: without_session_def conn_wf_def purge_subset)
  then have "shrinks (snd (detach_connection_from_session c key w)) w1"
    unfolding eq cs by (auto simp: shrinks_def bt_get_insert cs split: option.splits if_splits)
  then show ?thesis using removal_shrinks [OF inv] shrinks_trans unfolding w1_def by blast
qed

lemma detach_memberships_shrinks:
  assumes "core_inv w" and "bt_get (wc_connections w) c = Some st"
  shows "shrinks (snd (detach_memberships clk c n keys (sm, w))) w"
  using assms
proof (induction keys arbitrary: n sm w st)
  case (Cons key keys)
  let ?w0 = "release_session_admission c key Unexpected (clk n) w"
  have inv0: "core_inv ?w0" by (rule release_admission_inv [OF Cons.prems(1)])
  obtain other w1 where w1: "detach_connection_from_session c key ?w0 = (other, w1)" by fastforce
  have inv1: "core_inv w1" using detach_inv [OF inv0, of c key] w1 by simp
  have s1: "shrinks w1 w"
    using detach_shrinks [OF inv0, of c key] shrinks_connections [of ?w0 w] shrinks_trans w1 by auto
  obtain st1 where st1: "bt_get (wc_connections w1) c = Some st1"
    using detach_memberships_of [of ?w0 c st key] Cons.prems(2) w1 by auto
  show ?case
    using Cons.IH [OF inv1 st1, of "n + 1" "summary_add sm other"] s1 shrinks_trans by (auto simp: w1)
qed simp

lemma forget_connections:
  assumes "core_inv w"
  shows "wc_connections (forget_connection clk c n w) = bt_remove c (wc_connections w)"
    "wc_sessions (forget_connection clk c n w) = wc_sessions w"
  using release_pending_inv [OF assms, of clk c n "pending_sessions c w"]
  by (simp_all add: forget_connection_def Let_def)

lemma transport_lost_shrinks:
  assumes inv: "core_inv w" and st: "bt_get (wc_connections w) c = Some st"
  shows "shrinks (snd (transport_lost clk c w)) w"
proof -
  let ?d = "detach_memberships clk c 0 (bs_list (cn_memberships st)) (empty_summary, w)"
  have inv1: "core_inv (snd ?d)" using detach_memberships_inv [OF inv st] by blast
  have "shrinks (forget_connection clk c n (snd ?d)) (snd ?d)" for n
    unfolding shrinks_def forget_connections [OF inv1] by (auto simp: bt_get_remove split: if_splits)
  then show ?thesis
    using transport_lost_eq [OF inv st, of clk] detach_memberships_shrinks [OF inv st] shrinks_trans by (metis snd_conv)
qed

lemma drop_slow_consumers_shrinks:
  assumes "core_inv w"
  shows "shrinks (snd (drop_slow_consumers clk cs out w)) w"
  using assms
proof (induction cs arbitrary: out w)
  case (Cons c cs)
  show ?case
  proof (cases "bt_get (wc_connections w) c")
    case (Some st)
    obtain sm w1 where t: "transport_lost (clk c) c w = (Inr sm, w1)"
      using transport_lost_eq [OF Cons.prems Some] by blast
    have "core_inv w1" "shrinks w1 w"
      using transport_lost_inv [OF Cons.prems, of "clk c" c] transport_lost_shrinks [OF Cons.prems Some, of "clk c"] t by simp_all
    then show ?thesis using shrinks_trans [OF Cons.IH] Some t by (simp add: bt_contains_iff)
  qed (use Cons in \<open>simp add: bt_contains_iff\<close>)
qed simp

section \<open>Who may receive\<close>

text \<open>An entity qualifies its owner when it has a position, lies within the exact radius if one is
  asked for, and its owner subscribes.\<close>

definition qualifies ::
  "SessionState \<Rightarrow> ConnectionId set \<Rightarrow> EntityPosition \<Rightarrow> f64 \<Rightarrow> bool \<Rightarrow> EntityId \<Rightarrow> ConnectionId \<Rightarrow> bool" where
  "qualifies s subs pos radius exact i c \<longleftrightarrow>
     (\<exists>e p. bt_get (ses_entities s) i = Some e \<and> er_position e = Some p \<and> er_owner_connection e = c \<and> c \<in> subs
        \<and> (exact \<longrightarrow> squared_distance_within pos p radius))"

lemma consider_candidate_set:
  "bs_set (consider_candidate s subs pos radius exact i acc) =
     bs_set acc \<union> {c. qualifies s (bs_set subs) pos radius exact i c}"
  by (auto simp: consider_candidate_def qualifies_def split: option.splits)

lemma consider_all_set:
  "bs_set (fold (consider_candidate s subs pos radius exact) xs acc) =
     bs_set acc \<union> {c. \<exists>i \<in> set xs. qualifies s (bs_set subs) pos radius exact i c}"
  by (induction xs arbitrary: acc) (auto simp: consider_candidate_set)

lemma consider_cells_set:
  "bs_set (fold (\<lambda>(cell, es) acc. if near cell then fold (consider_candidate s subs pos radius exact) (bs_list es) acc else acc) cells acc) =
     bs_set acc \<union> {c. \<exists>(cell, es) \<in> set cells. near cell \<and> (\<exists>i \<in> bs_set es. qualifies s (bs_set subs) pos radius exact i c)}"
proof (induction cells arbitrary: acc)
  case (Cons p cells)
  obtain k es where p: "p = (k, es)" by fastforce
  show ?case by (cases "near k") (auto simp: p Cons.IH consider_all_set)
qed simp

lemma grid_recipients_set:
  assumes "index_inv s"
  shows "bs_set (grid_recipients s m subs pos cell cell_size radius exact) =
     {c. \<exists>i k. cell_of s i = Some k \<and> near_cell m cell (f64_ceil (f64_div radius cell_size)) k
        \<and> qualifies s (bs_set subs) pos radius exact i c}"
proof -
  have ix: "cell_of s i = Some k \<longleftrightarrow> (\<exists>es. bt_get (ses_cell_entities s) k = Some es \<and> i \<in> bs_set es)" for i k
    using assms unfolding index_inv_def by metis
  have "(\<exists>(k, es) \<in> set (bt_entries (ses_cell_entities s)). near k \<and> (\<exists>i \<in> bs_set es. Q i)) \<longleftrightarrow>
     (\<exists>i k. cell_of s i = Some k \<and> near k \<and> Q i)" for near Q
    unfolding ix by (auto simp: bt_entries_iff) blast
  then show ?thesis by (simp add: grid_recipients_def consider_cells_set)
qed

lemma qualifies_subscribed: "qualifies s subs pos radius exact i c \<Longrightarrow> c \<in> subs"
  by (auto simp: qualifies_def)

lemma subscribers_set:
  "bs_set (case bt_get (ses_subscribers s) sp of None \<Rightarrow> bt_empty | Some x \<Rightarrow> x) = {c. subscribed_in s sp c}"
  by (auto simp: subscribed_in_def split: option.split)

lemma routing_recipients_subscribed:
  assumes "index_inv s" and "c \<in> bs_set (routing_recipients s m)"
  shows "subscribed_in s (om_space m) c"
proof -
  let ?subs = "case bt_get (ses_subscribers s) (om_space m) of None \<Rightarrow> bt_empty | Some x \<Rightarrow> x"
  have "c \<in> bs_set ?subs"
    using assms
    by (auto dest: qualifies_subscribed simp: routing_recipients_def Let_def grid_recipients_set [OF assms(1)] simp del: subscribers_set
        split: option.splits if_splits prod.splits)
  then show ?thesis by (simp add: subscribers_set)
qed

lemma routing_recipients_critical:
  "is_critical (om_delivery m) \<Longrightarrow> bt_get (ses_spaces s) (om_space m) = Some d \<Longrightarrow>
   bs_set (routing_recipients s m) = {c. subscribed_in s (om_space m) c}"
  by (simp add: routing_recipients_def Let_def subscribers_set)

section \<open>What a publish does\<close>

text \<open>The recipients computed from a session depend on its spaces, subscribers and index only; sweeping
  and committing leave the subscribers alone.\<close>

lemma recipients_subscribed:
  assumes inv: "core_inv w" and c: "c \<in> set (recipients_of w key m)"
  shows "subscriber_of (wc_sessions w) key (om_space m) c"
proof -
  obtain s where s: "bt_get (wc_sessions w) key = Some s" "c \<in> bs_set (routing_recipients s m)"
    using c by (auto simp: recipients_of_def split: option.splits)
  have "index_inv s" using core_invD(3) [OF inv s(1)] by (simp add: session_wf_def)
  with s show ?thesis by (auto simp: subscriber_of_def routing_recipients_subscribed)
qed

lemma charged_sessions: "charged w' w \<Longrightarrow> wc_sessions w' = wc_sessions w"
  by (auto simp: charged_def)

lemma swept_connections: "swept now key w' w \<Longrightarrow> wc_connections w' = wc_connections w"
  by (auto simp: swept_def)

lemma swept_subscribers:
  assumes "core_inv w" and "swept now key w' w"
  shows "subscriber_of (wc_sessions w') k sp c = subscriber_of (wc_sessions w) k sp c"
  using assms(2) unfolding swept_def
proof (elim disjE exE conjE)
  fix s assume s: "bt_get (wc_sessions w) key = Some s"
    and w': "w' = w\<lparr>wc_sessions := bt_insert key (snd (sweep_session now s)) (wc_sessions w)\<rparr>"
  show ?thesis
    using sweep_session_views(1) [OF core_invD(3) [OF assms(1) s]] views_get(2) [OF s] by (simp add: w')
qed simp

lemma commit_shape:
  assumes "publish_commit r plan now w = (Inr (), w')" and "bt_get (wc_sessions w) (rq_session r) = Some s"
  obtains j w1 where "w' = w\<lparr>wc_journal_outbox := j, wc_sessions := bt_insert (rq_session r) (commit_session w1 plan now s) (wc_sessions w)\<rparr>"
  using assms unfolding publish_commit_def
  by (cases "journal_all (map (to_outbound (rq_session r)) (durable_messages (pl_messages plan))) (wc_journal_outbox w)")
    (auto simp: Let_def)

lemma commit_frame:
  assumes "publish_commit r plan now w = (Inr (), w')" and "bt_get (wc_sessions w) (rq_session r) = Some s"
  shows "wc_connections w' = wc_connections w"
    "subscriber_of (wc_sessions w') k sp c = subscriber_of (wc_sessions w) k sp c"
proof -
  obtain j w1 where w': "w' = w\<lparr>wc_journal_outbox := j, wc_sessions := bt_insert (rq_session r) (commit_session w1 plan now s) (wc_sessions w)\<rparr>"
    by (rule commit_shape [OF assms])
  show "wc_connections w' = wc_connections w" by (simp add: w')
  show "subscriber_of (wc_sessions w') k sp c = subscriber_of (wc_sessions w) k sp c"
    using views_get(2) [OF assms(2)] by (simp add: w' commit_session_views)
qed

text \<open>Where the messages in the queues come from.\<close>

lemma deliver_origin:
  assumes inv: "core_inv w" and ok: "\<forall>m \<in> set (pl_messages plan). deliverable (to_outbound (rq_session r) m)"
    and d: "publish_deliver clk r plan w = Some (Inr out, w')"
    and st': "bt_get (wc_connections w') c = Some st'" and m: "m \<in> set (contents (cn_outbound st'))"
  shows "\<exists>st. bt_get (wc_connections w) c = Some st \<and>
    (m \<in> set (contents (cn_outbound st))
     \<or> (m \<in> to_outbound (rq_session r) ` set (pl_messages plan)
        \<and> subscriber_of (wc_sessions w) (rq_session r) (om_space m) c
        \<and> may_reach (rq_session r) (cn_authenticated st) m))"
proof -
  let ?R = "\<lambda>c p m. m \<in> to_outbound (rq_session r) ` set (pl_messages plan) \<and> c \<in> set (recipients_of w (rq_session r) m)
    \<and> may_reach (rq_session r) p m"
  obtain f :: Fanout and out2 w2 where f:
      "drop_slow_consumers clk (bs_list (fo_disconnected f)) (fo_outcome f) (w\<lparr>wc_connections := fo_connections f\<rparr>) = (Inr out2, w2)"
      "publish_deliver clk r plan w = Some (Inr out2, w2)" "core_inv (w\<lparr>wc_connections := fo_connections f\<rparr>)"
    and fan: "fanned ?R f \<lparr>fo_outcome = \<lparr>po_authorized_messages = length (pl_messages plan), po_recipient_attempts = 0,
          po_queues = zero_activity, po_disconnected_slow_consumers = []\<rparr>,
        fo_disconnected = bt_empty, fo_connections = wc_connections w\<rparr>"
    by (rule deliver_shape [OF inv ok, where clk = clk]) (rule that; assumption)
  then have "shrinks w' (w\<lparr>wc_connections := fo_connections f\<rparr>)"
    using d drop_slow_consumers_shrinks [OF f(3), of clk "bs_list (fo_disconnected f)" "fo_outcome f"] by simp
  then obtain st1 where st1: "bt_get (fo_connections f) c = Some st1" "m \<in> set (contents (cn_outbound st1))"
    using st' m unfolding shrinks_def by simp blast
  have "c \<in> dom (bt_get (wc_connections w))" using fanned_dom [OF fan] st1(1) by auto
  then obtain st where st: "bt_get (wc_connections w) c = Some st" by blast
  then have "received ?R c st1 st" using fannedD [OF fan, of c st] st1(1) by auto
  then have "m \<in> set (contents (cn_outbound st)) \<or> ?R c (cn_authenticated st) m"
    using st1(2) unfolding received_def by blast
  with st recipients_subscribed [OF inv] show ?thesis by auto
qed

end
