(* ===== verification/Core_Sample.thy ===== *)
theory Core_Sample
  imports Core_Delivery
begin

text \<open>
  A sample run of the core, from its configuration to a published message: the concrete states on
  which the properties of the core are applied.
\<close>

section \<open>A sample world\<close>

text \<open>Two clients of one session: the first owns an entity in a broadcast space, both subscribe to it.\<close>

definition demo_key :: SessionKey where "demo_key = SessionKey 1 1"

definition demo_space :: SpaceKey where "demo_space = SpaceKey demo_key 1"

definition demo_grants :: AuthorizationGrants where
  "demo_grants = grant_channel (ChannelScope demo_key 1) ReadWrite (grant_space demo_space ReadWrite
     (grant_space (SpaceKey demo_key 2) ReadWrite (grant_session demo_key ReadWrite (grant_namespace 1 ReadWrite new_grants))))"

definition demo_authenticator :: "Credentials \<Rightarrow> AuthError + AuthenticatedPrincipal" where
  "demo_authenticator credentials =
     (if cr_token credentials = ''a'' then Inr \<lparr>ap_principal_id = 7, ap_grants = demo_grants\<rparr>
      else if cr_token credentials = ''b'' then Inr \<lparr>ap_principal_id = 8, ap_grants = demo_grants\<rparr>
      else Inl InvalidCredentials)"

definition demo_config :: CoreConfig where
  "demo_config = default_core_config\<lparr>cfg_outbound_queue := \<lparr>total_capacity = 4, critical_capacity = 2, latest_capacity = 2, best_effort_capacity = 2\<rparr>\<rparr>"

definition demo_descriptor :: "SpaceId \<Rightarrow> ParentAnchor option \<Rightarrow> SpaceDescriptor" where
  "demo_descriptor i parent =
     \<lparr>sd_id = i, sd_local_frame = FrameLogical, sd_bounds = None, sd_parent = parent, sd_epoch = 1, sd_routing = BroadcastAll\<rparr>"

definition demo_channel :: ChannelDefinition where
  "demo_channel = relay_owned 1 ReliableOrdered (Stateful None) 16"

definition demo_empty :: WovenCore where
  "demo_empty = (case core_new demo_authenticator demo_config of Inr w \<Rightarrow> w)"

definition demo_control :: WovenCore where
  "demo_control = snd (install_space demo_key (demo_descriptor 1 None) (snd (provision_session demo_key
     (snd (register_channel demo_channel demo_empty)))))"

definition demo_connected :: WovenCore where
  "demo_connected = snd (authenticate (\<lambda>_. []) 2 \<lparr>cr_token = ''b''\<rparr> 0 (snd (authenticate (\<lambda>_. []) 1 \<lparr>cr_token = ''a''\<rparr> 0
     (snd (transport_connected (snd (transport_connected demo_control)))))))"

definition demo_core :: WovenCore where
  "demo_core = snd (spawn_entity 1 demo_space 1 (snd (subscribe 2 demo_space (snd (subscribe 1 demo_space
     (snd (join_session_at 2 demo_key 0 (snd (join_session_at 1 demo_key 0 demo_connected)))))))))"

definition demo_request :: "u64 \<Rightarrow> PublishRequest" where
  "demo_request n =
     \<lparr>rq_connection = 1, rq_session = demo_key, rq_space = 1, rq_space_epoch = 1, rq_entity = Some 1, rq_channel = 1,
      rq_sequence = n, rq_delivery = ReliableOrdered, rq_persistence = Stateful None, rq_coalesce_key = None,
      rq_routing_position = None, rq_payload = [1, 2]\<rparr>"


lemma demo_config_ok: "config_ok demo_config"
  by code_simp

lemma demo_empty_new: "core_new demo_authenticator demo_config = Inr demo_empty"
proof -
  have "is_ok (core_new demo_authenticator demo_config)" by code_simp
  then show ?thesis by (auto simp: demo_empty_def is_ok_iff)
qed

lemma demo_control_reached: "core_step\<^sup>*\<^sup>* demo_empty demo_control"
  unfolding demo_control_def
  by (rule rtranclp.rtrancl_into_rtrancl [OF rtranclp.rtrancl_into_rtrancl [OF r_into_rtranclp [of core_step, OF step_register_channel] step_provision_session] step_install_space])

lemma demo_connected_reached: "core_step\<^sup>*\<^sup>* demo_control demo_connected"
  unfolding demo_connected_def
  by (rule rtranclp.rtrancl_into_rtrancl [OF rtranclp.rtrancl_into_rtrancl [OF rtranclp.rtrancl_into_rtrancl [OF r_into_rtranclp [of core_step, OF step_connected] step_connected] step_authenticate] step_authenticate])

lemma demo_core_reached: "core_step\<^sup>*\<^sup>* demo_connected demo_core"
  unfolding demo_core_def
  by (rule rtranclp.rtrancl_into_rtrancl [OF rtranclp.rtrancl_into_rtrancl [OF rtranclp.rtrancl_into_rtrancl [OF rtranclp.rtrancl_into_rtrancl [OF r_into_rtranclp [of core_step, OF step_join] step_join] step_subscribe] step_subscribe] step_spawn])

lemma demo_reachable: "reachable_core demo_config demo_core"
  unfolding reachable_core_def
  using demo_empty_new demo_control_reached demo_connected_reached demo_core_reached by (meson rtranclp_trans)

definition demo_published :: WovenCore where
  "demo_published = snd (the (publish_at (\<lambda>_ _. 0) (demo_request 1) 0 demo_core))"

lemma demo_facts:
  "(\<lambda>w. map_option (\<lambda>s. (bs_list (ses_members s), map bs_list (bt_values (ses_subscribers s)), map er_owner_connection (bt_values (ses_entities s))))
          (bt_get (wc_sessions w) demo_key) = Some ([1, 2], [[1, 2]], [1])
      \<and> map_option (\<lambda>st. (map_option ap_principal_id (cn_authenticated st), contents (cn_outbound st))) (bt_get (wc_connections w) 2) = Some (Some 8, [])) demo_core"
  by code_simp

lemma demo_published_facts:
  "(case publish_at (\<lambda>_ _. 0) (demo_request 1) 0 demo_core of
      None \<Rightarrow> False
    | Some (r, w) \<Rightarrow> is_ok r
        \<and> map_option (\<lambda>s. bt_get (ses_sequences s) (sequence_key 1 (from_request (demo_request 1)))) (bt_get (wc_sessions w) demo_key) = Some (Some 1)
        \<and> map_option (\<lambda>st. contents (cn_outbound st)) (bt_get (wc_connections w) 2) = Some [to_outbound demo_key (from_request (demo_request 1))])"
  by code_simp

lemma demo_published_run:
  obtains out where "publish_at (\<lambda>_ _. 0) (demo_request 1) 0 demo_core = Some (Inr out, demo_published)"
  using demo_published_facts by (auto simp: demo_published_def is_ok_iff split: option.splits)

lemma demo_published_reachable: "reachable_core demo_config demo_published"
proof -
  obtain out where "publish_at (\<lambda>_ _. 0) (demo_request 1) 0 demo_core = Some (Inr out, demo_published)"
    by (rule demo_published_run)
  then have "core_step demo_core demo_published" by (rule step_publish)
  with demo_reachable show ?thesis unfolding reachable_core_def by (meson rtranclp.rtrancl_into_rtrancl)
qed

lemma demo_published_sequence:
  obtains s where "bt_get (wc_sessions demo_published) demo_key = Some s"
    "bt_get (ses_sequences s) (sequence_key 1 (from_request (demo_request 1))) = Some 1"
proof -
  have "map_option (\<lambda>s. bt_get (ses_sequences s) (sequence_key 1 (from_request (demo_request 1)))) (bt_get (wc_sessions demo_published) demo_key) = Some (Some 1)"
    using demo_published_facts by (auto simp: demo_published_def split: option.splits)
  with that show ?thesis by auto
qed

text \<open>A second space anchored on the entity of the first client, and that entity moved into the space it
  anchors.\<close>

definition demo_anchored :: WovenCore where
  "demo_anchored = snd (subscribe 1 (SpaceKey demo_key 2)
     (snd (install_space demo_key (demo_descriptor 2 (Some (ParentAnchor 1 1))) demo_core)))"

definition demo_looped :: WovenCore where
  "demo_looped = snd (transition_entity
     \<lparr>tr_connection = 1, tr_session = demo_key, tr_entity = 1, tr_source_space = 1, tr_source_epoch = 1,
      tr_destination_space = 2, tr_destination_epoch = 1\<rparr> demo_anchored)"

lemma demo_anchored_run: "core_step\<^sup>*\<^sup>* demo_core demo_anchored"
  unfolding demo_anchored_def
  by (rule rtranclp.rtrancl_into_rtrancl [OF r_into_rtranclp [of core_step, OF step_install_space] step_subscribe])

lemma demo_looped_run: "core_step\<^sup>*\<^sup>* demo_core demo_looped"
  unfolding demo_looped_def by (rule rtranclp.rtrancl_into_rtrancl [OF demo_anchored_run step_transition])

lemma demo_anchored_reachable: "reachable_core demo_config demo_anchored"
  and demo_looped_reachable: "reachable_core demo_config demo_looped"
  using demo_reachable demo_anchored_run demo_looped_run unfolding reachable_core_def by (meson rtranclp_trans)+

lemma demo_reader:
  "(\<lambda>w. (case bt_get (wc_connections w) 2 of
      None \<Rightarrow> False
    | Some st \<Rightarrow> (case cn_authenticated st of
         None \<Rightarrow> False
       | Some pr \<Rightarrow> can_receive pr demo_key 1 1 \<and> bs_member (SpaceKey demo_key 1) (cn_subscriptions st)))
    \<and> (case bt_get (wc_sessions w) demo_key of
         None \<Rightarrow> False
       | Some s \<Rightarrow> bt_get (ses_spaces s) 1 \<noteq> None \<and> byte_len (ses_state s) = 0)) demo_core"
  by code_simp

lemma demo_looped_facts:
  "(\<lambda>w. (case bt_get (wc_sessions w) demo_key of
         None \<Rightarrow> False
       | Some s \<Rightarrow> map_option sd_parent (bt_get (ses_spaces s) 2) = Some (Some (ParentAnchor 1 1))
           \<and> map_option er_space (bt_get (ses_entities s) 1) = Some 2)
    \<and> (case advance_space_epoch demo_key 2 2 w of
         (Inl e, w') \<Rightarrow> e = SpaceNotFound (SpaceKey demo_key 2)
           \<and> map_option (\<lambda>s. (bt_keys (ses_spaces s), bt_keys (ses_entities s))) (bt_get (wc_sessions w') demo_key) = Some ([1], [])
       | _ \<Rightarrow> False)) demo_looped"
  by code_simp

end
