(* ===== verification/Core_Properties.thy ===== *)
theory Core_Properties
  imports Core_Sample
begin

text \<open>
  The properties of the core as a whole, over every state it reaches, each applied to
  the sample run.
\<close>

section \<open>Properties of the core\<close>

text \<open>C1. The invariant of the core holds in every state it reaches from a configuration it accepts, over every
  sequence of calls, failing ones included: the two sides of memberships, subscriptions and ownership
  agree, entities lie in live spaces of the current epoch, the spatial index is exact, the state bytes
  are exactly accounted, every configured limit holds, ids are fresh, and queues, journal and
  admission controllers keep their own invariants.\<close>

theorem core_invariant:
  assumes "config_ok cfg" and "reachable_core cfg w"
  shows "core_inv w"
  using assms by (rule reachable_core_inv)

theorem core_invariant_witness:
  "config_ok demo_config \<and> reachable_core demo_config demo_core \<and> core_inv demo_core"
  using core_invariant [OF demo_config_ok demo_reachable] demo_config_ok demo_reachable by blast

text \<open>C7. Publishing and draining never panic in a reachable core, whatever the request and the clock.\<close>

theorem core_never_panics:
  assumes "config_ok cfg" and "reachable_core cfg w"
  shows "publish_at clocks request now w \<noteq> None \<and> drain_outbound_for_spaces c spaces w \<noteq> None"
proof -
  have inv: "core_inv w" using assms by (rule reachable_core_inv)
  show ?thesis
    using drain_for_spaces_total [OF inv, of c spaces]
    by (cases rule: publish_at_cases [OF inv, where clk = clocks and r = request and now = now]) auto
qed

theorem core_never_panics_witness:
  "config_ok demo_config \<and> reachable_core demo_config demo_core
   \<and> publish_at (\<lambda>_ _. 0) (demo_request 1) 0 demo_core \<noteq> None
   \<and> drain_outbound_for_spaces 2 (bs_of_list [demo_space]) demo_core \<noteq> None"
  using core_never_panics [OF demo_config_ok demo_reachable] demo_config_ok demo_reachable by blast

text \<open>C3. A refused publish commits nothing: no journal record, no sequence number, no state, no position, no
  queued message and no disconnect. Only rate limiters of connections may have been charged, and
  expired state of the target session may have been swept.\<close>

theorem refused_publish_commits_nothing:
  assumes "config_ok cfg" and "reachable_core cfg w" and "publish_at clocks request now w = Some (Inl e, w')"
  shows "w' = w\<lparr>wc_connections := wc_connections w', wc_sessions := wc_sessions w'\<rparr>
    \<and> rel_option same_but_limiters (bt_get (wc_connections w') c) (bt_get (wc_connections w) c)
    \<and> (bt_get (wc_sessions w') k = bt_get (wc_sessions w) k
       \<or> k = rq_session request \<and> bt_get (wc_sessions w') k = map_option (\<lambda>s. snd (sweep_session now s)) (bt_get (wc_sessions w) k))"
proof -
  have inv: "core_inv w" using assms(1,2) by (rule reachable_core_inv)
  then show ?thesis
  proof (cases rule: publish_at_cases [where clk = clocks and r = request and now = now])
    case (refused e' w1 w2)
    then have w2: "w2 = w'" using assms(3) by simp
    obtain cs where cs: "w1 = w\<lparr>wc_connections := cs\<rparr>"
        "\<And>c. rel_option same_but_limiters (bt_get cs c) (bt_get (wc_connections w) c)"
      using refused(3) unfolding charged_def by blast
    show ?thesis
      using refused(4) unfolding w2 swept_def
    proof (elim disjE exE conjE)
      fix s assume "bt_get (wc_sessions w1) (rq_session request) = Some s"
        "w' = w1\<lparr>wc_sessions := bt_insert (rq_session request) (snd (sweep_session now s)) (wc_sessions w1)\<rparr>"
      with cs show ?thesis by (simp add: bt_get_insert)
    qed (use cs in simp)
  next
    case published
    with assms(3) show ?thesis by simp
  qed
qed

theorem refused_publish_commits_nothing_witness:
  "\<exists>e w'. publish_at (\<lambda>_ _. 0) ((demo_request 1)\<lparr>rq_connection := 1\<rparr>) 5 demo_empty = Some (Inl e, w')
     \<and> w' = demo_empty\<lparr>wc_connections := wc_connections w', wc_sessions := wc_sessions w'\<rparr>"
proof -
  let ?r = "(demo_request 1)\<lparr>rq_connection := 1\<rparr>"
  have r: "reachable_core demo_config demo_empty" unfolding reachable_core_def using demo_empty_new by blast
  have "(case publish_at (\<lambda>_ _. 0) ?r 5 demo_empty of Some (Inl e, w') \<Rightarrow> True | _ \<Rightarrow> False)" by code_simp
  then obtain e w' where p: "publish_at (\<lambda>_ _. 0) ?r 5 demo_empty = Some (Inl e, w')"
    by (auto split: option.splits sum.splits)
  from refused_publish_commits_nothing [OF demo_config_ok r p] p show ?thesis by blast
qed

text \<open>C5. A stale or replayed publish is refused: when the session already holds a sequence number at least as
  high under the key of the request, publishing fails.\<close>

theorem stale_publish_refused:
  assumes "config_ok cfg" and "reachable_core cfg w"
    and "bt_get (wc_sessions w) (rq_session request) = Some s"
    and "bt_get (ses_sequences s) (sequence_key (rq_connection request) (from_request request)) = Some last_sequence"
    and "rq_sequence request \<le> last_sequence"
  shows "\<exists>e w'. publish_at clocks request now w = Some (Inl e, w')"
proof -
  have inv: "core_inv w" using assms(1,2) by (rule reachable_core_inv)
  then show ?thesis
  proof (cases rule: publish_at_cases [where clk = clocks and r = request and now = now])
    case (published pr w1 plan w2 s2 w3 out w4)
    have "bt_get (wc_sessions w1) (rq_session request) = Some s" using assms(3) charged_sessions [OF published(4)] by simp
    then have "message_ok (wc_config w1) s (rq_connection request) (from_request request)"
      using publish_evaluate_ok [OF published(6) core_invD(1) [OF published(5)]] by (auto simp: plan_ok_def)
    with assms(4,5) show ?thesis by (auto simp: message_ok_def from_request_def)
  qed blast
qed

theorem stale_publish_refused_witness:
  "config_ok demo_config \<and> reachable_core demo_config demo_published
   \<and> (\<exists>e w'. publish_at (\<lambda>_ _. 0) (demo_request 1) 5 demo_published = Some (Inl e, w'))"
proof -
  obtain s where "bt_get (wc_sessions demo_published) demo_key = Some s"
    "bt_get (ses_sequences s) (sequence_key 1 (from_request (demo_request 1))) = Some 1"
    by (rule demo_published_sequence)
  then have "\<exists>e w'. publish_at (\<lambda>_ _. 0) (demo_request 1) 5 demo_published = Some (Inl e, w')"
    by (intro stale_publish_refused [OF demo_config_ok demo_published_reachable, of _ s 1]) (simp_all add: demo_request_def)
  with demo_config_ok demo_published_reachable show ?thesis by blast
qed

text \<open>C4. A publish succeeds only for an authenticated connection with write grants for the namespace, the
  session, the space and the channel, that is a member of the session and subscribes to the space; and on
  a relay-owned channel only for the owner of the entity it names.\<close>

theorem publish_needs_rights:
  assumes "config_ok cfg" and "reachable_core cfg w" and "publish_at clocks request now w = Some (Inr out, w')"
  shows "\<exists>st pr s ch. bt_get (wc_connections w) (rq_connection request) = Some st \<and> cn_authenticated st = Some pr
    \<and> can_write_namespace (ap_grants pr) (sk_namespace (rq_session request))
    \<and> can_write_session (ap_grants pr) (rq_session request)
    \<and> can_write_space (ap_grants pr) (SpaceKey (rq_session request) (rq_space request))
    \<and> can_write_channel (ap_grants pr) (ChannelScope (rq_session request) (rq_channel request))
    \<and> rq_session request \<in> bs_set (cn_memberships st)
    \<and> SpaceKey (rq_session request) (rq_space request) \<in> bs_set (cn_subscriptions st)
    \<and> bt_get (wc_sessions w) (rq_session request) = Some s \<and> bt_get (wc_channels w) (rq_channel request) = Some ch
    \<and> (cd_authority ch = relay_owned_evaluate \<longrightarrow>
        (\<exists>i e. rq_entity request = Some i \<and> bt_get (ses_entities s) i = Some e
           \<and> er_owner_connection e = rq_connection request))"
proof -
  have inv: "core_inv w" using assms(1,2) by (rule reachable_core_inv)
  then show ?thesis
  proof (cases rule: publish_at_cases [where clk = clocks and r = request and now = now])
    case (refused e w1 w2)
    with assms(3) show ?thesis by simp
  next
    case (published pr w1 plan w2 s2 w3 out' w4)
    obtain st where st: "bt_get (wc_connections w) (rq_connection request) = Some st" "cn_authenticated st = Some pr"
      "rq_session request \<in> bs_set (cn_memberships st)"
      "SpaceKey (rq_session request) (rq_space request) \<in> bs_set (cn_subscriptions st)"
      and rights: "can_write_namespace (ap_grants pr) (sk_namespace (rq_session request))"
        "can_write_session (ap_grants pr) (rq_session request)"
        "can_write_space (ap_grants pr) (SpaceKey (rq_session request) (rq_space request))"
        "can_write_channel (ap_grants pr) (ChannelScope (rq_session request) (rq_channel request))"
      using published(3)
      by (auto simp: may_publish_def Let_def authenticated_principal_Inr require_membership_Inr require_subscription_Inr
          require_namespace_write_def require_session_write_def require_space_write_def split: if_splits)
    obtain ch s y where ch: "bt_get (wc_channels w1) (rq_channel request) = Some ch"
      and s: "bt_get (wc_sessions w1) (rq_session request) = Some s"
      and auth: "authorized_messages w1 request (cd_authority ch (authority_context request pr s) (proposed_of request)) = Inr y"
      using published(6) unfolding publish_evaluate_def by auto
    have "\<exists>i e. rq_entity request = Some i \<and> bt_get (ses_entities s) i = Some e \<and> er_owner_connection e = rq_connection request"
      if "cd_authority ch = relay_owned_evaluate"
    proof -
      have "relay_owned_evaluate (authority_context request pr s) (proposed_of request) \<noteq> Reject reason" for reason
        using auth by (auto simp: authorized_messages_def that)
      then have "ac_entity_owner (authority_context request pr s) = Some (ac_connection (authority_context request pr s))"
        using relay.foreign_entity_rejected by blast
      then show ?thesis by (auto simp: authority_context_def split: option.splits)
    qed
    with st rights ch s charged_sessions [OF published(4)] charged_fields(3) [OF published(4)] show ?thesis by auto
  qed
qed

theorem publish_needs_rights_witness:
  "\<exists>out w'. publish_at (\<lambda>_ _. 0) (demo_request 1) 0 demo_core = Some (Inr out, w')
     \<and> (\<exists>st pr. bt_get (wc_connections demo_core) 1 = Some st \<and> cn_authenticated st = Some pr
          \<and> can_write_channel (ap_grants pr) (ChannelScope demo_key 1))"
proof -
  obtain out where p: "publish_at (\<lambda>_ _. 0) (demo_request 1) 0 demo_core = Some (Inr out, demo_published)"
    by (rule demo_published_run)
  have "rq_connection (demo_request 1) = 1" "rq_session (demo_request 1) = demo_key" "rq_channel (demo_request 1) = 1"
    by (simp_all add: demo_request_def)
  with publish_needs_rights [OF demo_config_ok demo_reachable p] p show ?thesis by metis
qed

text \<open>C2. A publish reaches only readers: any message in a queue after it was there before, or is one of the
  session's messages and the connection subscribes to its space and holds read grants for the
  namespace, the session, the space and the channel.\<close>

theorem publish_reaches_only_readers:
  assumes "config_ok cfg" and "reachable_core cfg w" and "publish_at clocks request now w = Some (Inr out, w')"
    and "bt_get (wc_connections w') c = Some st'" and "m \<in> set (contents (cn_outbound st'))"
  shows "\<exists>st. bt_get (wc_connections w) c = Some st \<and>
    (m \<in> set (contents (cn_outbound st))
     \<or> (\<exists>pr. SessionKey (om_namespace m) (om_session m) = rq_session request
         \<and> SpaceKey (rq_session request) (om_space m) \<in> bs_set (cn_subscriptions st)
         \<and> cn_authenticated st = Some pr \<and> can_receive pr (rq_session request) (om_space m) (om_channel m)))"
proof -
  have inv: "core_inv w" using assms(1,2) by (rule reachable_core_inv)
  then show ?thesis
  proof (cases rule: publish_at_cases [where clk = clocks and r = request and now = now])
    case (refused e w1 w2)
    with assms(3) show ?thesis by simp
  next
    case (published pr w1 plan w2 s w3 out' w4)
    have w4: "w4 = w'" using published(1) assms(3) by simp
    from deliver_origin [OF published(13) ready_deliverable [OF published(10)] published(14) assms(4,5) [folded w4]]
    obtain st3 where st3: "bt_get (wc_connections w3) c = Some st3"
      and origin: "m \<in> set (contents (cn_outbound st3))
        \<or> (m \<in> to_outbound (rq_session request) ` set (pl_messages plan)
           \<and> subscriber_of (wc_sessions w3) (rq_session request) (om_space m) c
           \<and> may_reach (rq_session request) (cn_authenticated st3) m)" by blast
    have cs: "wc_connections w3 = wc_connections w1"
      using commit_frame(1) [OF published(12,9)] swept_connections [OF published(7)] by simp
    obtain st where st: "bt_get (wc_connections w) c = Some st" "same_but_limiters st3 st"
      using charged_get [OF published(4), of c] st3 cs by (auto simp: option_rel_Some1)
    have sub: "subscriber_of (wc_sessions w3) k sp c = subscriber_of (wc_sessions w) k sp c" for k sp
      using commit_frame(2) [OF published(12,9)] swept_subscribers [OF published(5,7)] charged_sessions [OF published(4)] by simp
    have key: "m \<in> to_outbound k ` X \<Longrightarrow> SessionKey (om_namespace m) (om_session m) = k" for k X
      by (cases k) (auto simp: to_outbound_def)
    show ?thesis
      using origin st key linkedD(2) [OF core_invD(4) [OF inv] st(1)]
      unfolding sub may_reach_def same_but_limiters_def by auto
  qed
qed

theorem publish_reaches_only_readers_witness:
  "\<exists>out st' st m. publish_at (\<lambda>_ _. 0) (demo_request 1) 0 demo_core = Some (Inr out, demo_published)
     \<and> bt_get (wc_connections demo_published) 2 = Some st' \<and> m \<in> set (contents (cn_outbound st'))
     \<and> bt_get (wc_connections demo_core) 2 = Some st
     \<and> SpaceKey demo_key (om_space m) \<in> bs_set (cn_subscriptions st)"
proof -
  let ?m = "to_outbound demo_key (from_request (demo_request 1))"
  obtain out where p: "publish_at (\<lambda>_ _. 0) (demo_request 1) 0 demo_core = Some (Inr out, demo_published)"
    by (rule demo_published_run)
  have "map_option (\<lambda>st. contents (cn_outbound st)) (bt_get (wc_connections demo_published) 2) = Some [?m]"
    using demo_published_facts p by (simp add: is_ok_iff)
  then obtain st' where st': "bt_get (wc_connections demo_published) 2 = Some st'" "contents (cn_outbound st') = [?m]" by auto
  obtain st where st: "bt_get (wc_connections demo_core) 2 = Some st" "contents (cn_outbound st) = []"
    using demo_facts by auto
  have "rq_session (demo_request 1) = demo_key" by (simp add: demo_request_def)
  with publish_reaches_only_readers [OF demo_config_ok demo_reachable p st'(1), of ?m] st' st
  have "SpaceKey demo_key (om_space ?m) \<in> bs_set (cn_subscriptions st)" by auto
  with p st' st(1) show ?thesis by auto
qed

text \<open>C6. A critical message reaches everyone it is for: after a fan-out every subscriber of its space that
  may read it has the message in its critical lane, or is marked for disconnection as a slow consumer.
  Spatial routing never filters critical messages.\<close>

theorem critical_reaches_every_subscriber:
  assumes "core_inv w" and "\<forall>x \<in> set ms. is_replaceable (om_delivery x) \<longrightarrow> om_coalesce_key x \<noteq> None"
    and "m \<in> set ms" and "is_critical (om_delivery m)"
    and "bt_get (wc_sessions w) key = Some s" and "bt_get (ses_spaces s) (om_space m) = Some d"
    and "bt_get (wc_connections w) c = Some st" and "SpaceKey key (om_space m) \<in> bs_set (cn_subscriptions st)"
    and "cn_authenticated st = Some pr" and "can_receive pr key (om_space m) (om_channel m)"
  shows "\<exists>f. fan_out w key ms \<lparr>fo_outcome = out, fo_disconnected = bt_empty, fo_connections = wc_connections w\<rparr> = Some (Inr (), f)
    \<and> (c \<in> bs_set (fo_disconnected f)
       \<or> (\<exists>st'. bt_get (fo_connections f) c = Some st' \<and> m \<in> set (q_critical (cn_outbound st'))))"
proof -
  let ?f0 = "\<lparr>fo_outcome = out, fo_disconnected = bt_empty, fo_connections = wc_connections w\<rparr>"
  have wf: "conns_wf (wc_config w) ?f0" using core_invD(2) [OF assms(1)] by (simp add: conns_wf_def)
  have "subscribed_in s (om_space m) c"
    using linkedD(2) [OF core_invD(4) [OF assms(1)] assms(7)] assms(8) views_get(2) [OF assms(5)] by simp
  then have "c \<in> set (recipients_of w key m)"
    using routing_recipients_critical [OF assms(4,6)] assms(5) by (simp add: recipients_of_def)
  moreover have "may_reach key (cn_authenticated st) m" using assms(9,10) by (simp add: may_reach_def)
  ultimately show ?thesis
    using fan_out_spec [OF wf, of ms w key] assms(2-4,7) unfolding deliverable_def served_def by fastforce
qed

theorem critical_reaches_every_subscriber_witness:
  "\<exists>m f. is_critical (om_delivery m)
    \<and> fan_out demo_core demo_key [m] \<lparr>fo_outcome = \<lparr>po_authorized_messages = 1, po_recipient_attempts = 0,
          po_queues = zero_activity, po_disconnected_slow_consumers = []\<rparr>,
        fo_disconnected = bt_empty, fo_connections = wc_connections demo_core\<rparr> = Some (Inr (), f)
    \<and> (2 \<in> bs_set (fo_disconnected f)
       \<or> (\<exists>st'. bt_get (fo_connections f) 2 = Some st' \<and> m \<in> set (q_critical (cn_outbound st'))))"
proof -
  let ?m = "to_outbound demo_key (from_request (demo_request 1))"
  have m: "om_delivery ?m = ReliableOrdered" "om_space ?m = 1" "om_channel ?m = 1" "is_critical ReliableOrdered" "\<not> is_replaceable ReliableOrdered"
    by (simp_all add: to_outbound_def from_request_def demo_request_def is_critical_def is_replaceable_def)
  have inv: "core_inv demo_core" by (rule reachable_core_inv [OF demo_config_ok demo_reachable])
  obtain st pr s d where w: "bt_get (wc_connections demo_core) 2 = Some st" "cn_authenticated st = Some pr" "can_receive pr demo_key 1 1"
    "SpaceKey demo_key 1 \<in> bs_set (cn_subscriptions st)" "bt_get (wc_sessions demo_core) demo_key = Some s" "bt_get (ses_spaces s) 1 = Some d"
    using demo_reader by (auto split: option.splits)
  let ?out = "\<lparr>po_authorized_messages = 1, po_recipient_attempts = 0, po_queues = zero_activity, po_disconnected_slow_consumers = []\<rparr>"
  have "\<exists>f. fan_out demo_core demo_key [?m] \<lparr>fo_outcome = ?out, fo_disconnected = bt_empty, fo_connections = wc_connections demo_core\<rparr> = Some (Inr (), f)
    \<and> (2 \<in> bs_set (fo_disconnected f)
       \<or> (\<exists>st'. bt_get (fo_connections f) 2 = Some st' \<and> ?m \<in> set (q_critical (cn_outbound st'))))"
    by (rule critical_reaches_every_subscriber [OF inv _ _ _ w(5) _ w(1) _ w(2)]) (use m w in simp_all)
  with m show ?thesis by metis
qed

end
