(* ===== verification/Core_Removal.thy ===== *)
theory Core_Removal
  imports Core_Sample
begin

text \<open>
  Removal: the closure loop of \<open>remove_entities_and_anchored_spaces\<close> against an inductive specification
  of what depends on the removed entities, and what is left of a connection whose transport is lost.
\<close>

section \<open>Removal\<close>

text \<open>What a removal takes along: the named entities, every space anchored on a doomed entity or nested
  in a doomed space, and every entity in a doomed space.\<close>

inductive doomed_entity :: "SessionState \<Rightarrow> EntityId set \<Rightarrow> EntityId \<Rightarrow> bool"
  and doomed_space :: "SessionState \<Rightarrow> EntityId set \<Rightarrow> SpaceId \<Rightarrow> bool" for s roots where
  doomed_root: "i \<in> roots \<Longrightarrow> doomed_entity s roots i"
| doomed_inside: "bt_get (ses_entities s) i = Some e \<Longrightarrow> doomed_space s roots (er_space e) \<Longrightarrow> doomed_entity s roots i"
| doomed_anchor: "bt_get (ses_spaces s) sp = Some d \<Longrightarrow> sd_parent d = Some p \<Longrightarrow> doomed_entity s roots (anchor_entity p)
    \<Longrightarrow> doomed_space s roots sp"
| doomed_parent: "bt_get (ses_spaces s) sp = Some d \<Longrightarrow> sd_parent d = Some p \<Longrightarrow> doomed_space s roots (parent_space p)
    \<Longrightarrow> doomed_space s roots sp"

lemma closed_spaces:
  assumes "structure_ok s"
  shows "closed (bt_values (ses_spaces s)) (bt_values (ses_entities s)) E S \<longleftrightarrow>
     (\<forall>sp d p. bt_get (ses_spaces s) sp = Some d \<and> sd_parent d = Some p \<and> (anchor_entity p \<in> E \<or> parent_space p \<in> S) \<longrightarrow> sp \<in> S)
   \<and> (\<forall>i e. bt_get (ses_entities s) i = Some e \<and> er_space e \<in> S \<longrightarrow> i \<in> E)"
proof -
  have all: "(\<forall>v \<in> set (bt_values m). P v (f v)) \<longleftrightarrow> (\<forall>k v. bt_get m k = Some v \<longrightarrow> P v k)"
    if "\<And>k v. bt_get m k = Some v \<Longrightarrow> f v = k" for m :: "('k::linorder, 'v) btree_map" and f and P :: "'v \<Rightarrow> 'k \<Rightarrow> bool"
    using that by (metis bt_values_iff)
  have "(\<forall>d \<in> set (bt_values (ses_spaces s)). \<forall>p. sd_parent d = Some p \<and> (anchor_entity p \<in> E \<or> parent_space p \<in> S) \<longrightarrow> sd_id d \<in> S) \<longleftrightarrow>
    (\<forall>sp d. bt_get (ses_spaces s) sp = Some d \<longrightarrow> (\<forall>p. sd_parent d = Some p \<and> (anchor_entity p \<in> E \<or> parent_space p \<in> S) \<longrightarrow> sp \<in> S))"
    using structure_okD(1) [OF assms] by (intro all) blast
  moreover have "(\<forall>e \<in> set (bt_values (ses_entities s)). er_space e \<in> S \<longrightarrow> er_id e \<in> E) \<longleftrightarrow>
    (\<forall>i e. bt_get (ses_entities s) i = Some e \<longrightarrow> er_space e \<in> S \<longrightarrow> i \<in> E)"
    using structure_okD(2) [OF assms] by (intro all) blast
  ultimately show ?thesis unfolding closed_def by meson
qed

lemma closure_is_doomed:
  assumes st: "structure_ok s"
    and loop: "closure_loop (bt_values (ses_spaces s)) (bt_values (ses_entities s)) entities bt_empty = (re, rs)"
  shows "bs_set re = {i. doomed_entity s (bs_set entities) i}" and "bs_set rs = {sp. doomed_space s (bs_set entities) sp}"
proof -
  let ?E = "{i. doomed_entity s (bs_set entities) i}" and ?S = "{sp. doomed_space s (bs_set entities) sp}"
  note spec = closure_loop_spec [OF loop]
  have "closed (bt_values (ses_spaces s)) (bt_values (ses_entities s)) ?E ?S"
    unfolding closed_spaces [OF st] by (auto intro: doomed_entity_doomed_space.intros)
  then have le: "bs_set re \<subseteq> ?E" "bs_set rs \<subseteq> ?S"
    using spec doomed_root [of _ "bs_set entities" s] by (metis (no_types, lifting) bot.extremum bs_set_empty mem_Collect_eq subsetI)+
  have r: "bs_set entities \<subseteq> bs_set re" using spec by (elim conjE)
  have "closed (bt_values (ses_spaces s)) (bt_values (ses_entities s)) (bs_set re) (bs_set rs)" using spec by (elim conjE)
  note c = this [unfolded closed_spaces [OF st]]
  have "(doomed_entity s (bs_set entities) i \<longrightarrow> i \<in> bs_set re) \<and> (doomed_space s (bs_set entities) sp \<longrightarrow> sp \<in> bs_set rs)" for i sp
    by (rule doomed_entity_doomed_space.induct [where ?P1.0 = "\<lambda>i. i \<in> bs_set re" and ?P2.0 = "\<lambda>sp. sp \<in> bs_set rs"])
      (use c r in blast)+
  with le show "bs_set re = ?E" "bs_set rs = ?S" by blast+
qed

text \<open>C15. Removing entities removes exactly what depends on them: an entity or space is gone afterwards if and
  only if it is doomed, and a doomed space leaves its epoch behind as a tombstone.\<close>

theorem removal_is_least_closure:
  assumes "config_ok cfg" and "reachable_core cfg w" and "bt_get (wc_sessions w) key = Some s"
  shows "\<exists>s'. bt_get (wc_sessions (snd (remove_entities_and_anchored_spaces key entities w))) key = Some s'
    \<and> bt_get (ses_entities s') i = (if doomed_entity s (bs_set entities) i then None else bt_get (ses_entities s) i)
    \<and> bt_get (ses_spaces s') sp = (if doomed_space s (bs_set entities) sp then None else bt_get (ses_spaces s) sp)
    \<and> bt_get (ses_subscribers s') sp = (if doomed_space s (bs_set entities) sp then None else bt_get (ses_subscribers s) sp)
    \<and> bt_get (ses_space_epoch_tombstones s') sp =
        (if doomed_space s (bs_set entities) sp then map_option sd_epoch (bt_get (ses_spaces s) sp)
         else bt_get (ses_space_epoch_tombstones s) sp)"
proof -
  have inv: "core_inv w" using assms(1,2) by (rule reachable_core_inv)
  have st: "structure_ok s" using core_invD(3) [OF inv assms(3)] by (simp add: session_wf_def)
  obtain re rs where r: "closure_loop (bt_values (ses_spaces s)) (bt_values (ses_entities s)) entities bt_empty = (re, rs)"
    "bt_get (wc_sessions (snd (remove_entities_and_anchored_spaces key entities w))) key = Some (snd (remove_from_session key re rs s))"
    by (rule removal_session [OF assms(3), where entities = entities]) (rule that)
  have live: "doomed_space s R sp \<Longrightarrow> bt_get (ses_spaces s) sp \<noteq> None" for R
    by (auto elim: doomed_space.cases)
  note d = closure_is_doomed [OF st r(1)]
  show ?thesis
    unfolding r(2) using remove_from_session_history(4) [OF structure_ids [OF st], of key re rs sp] live [of "bs_set entities"]
    by (auto simp: remove_from_session_fields d bt_get_retain split: option.split)
qed

theorem removal_is_least_closure_witness:
  "\<exists>s s'. bt_get (wc_sessions demo_looped) demo_key = Some s \<and> bt_contains (ses_spaces s) 2
    \<and> bt_get (wc_sessions (snd (remove_entities_and_anchored_spaces demo_key (bs_of_list [1]) demo_looped))) demo_key = Some s'
    \<and> bt_get (ses_entities s') 1 = None \<and> bt_get (ses_spaces s') 2 = None"
proof -
  obtain s where s: "bt_get (wc_sessions demo_looped) demo_key = Some s"
      "map_option sd_parent (bt_get (ses_spaces s) 2) = Some (Some (ParentAnchor 1 1))"
    using conjunct1 [OF demo_looped_facts] by (cases "bt_get (wc_sessions demo_looped) demo_key") auto
  then obtain d where d: "bt_get (ses_spaces s) 2 = Some d" "sd_parent d = Some (ParentAnchor 1 1)" by auto
  have e: "doomed_entity s (bs_set (bs_of_list [1])) 1" by (rule doomed_root) simp
  with d have "doomed_space s (bs_set (bs_of_list [1])) 2" by (auto intro: doomed_anchor)
  with removal_is_least_closure [OF demo_config_ok demo_looped_reachable s(1), of "bs_of_list [1]" 1 2] s(1) d e
  show ?thesis by (auto simp: bt_contains_iff)
qed

section \<open>Losing a connection\<close>

lemma release_pending_frame:
  "wc_admission_tickets (release_pending clk c n keys w) = wc_admission_tickets w"
  "bt_get (wc_pending_admissions (release_pending clk c n keys w)) k =
     (if fst k = c \<and> snd k \<in> set keys then None else bt_get (wc_pending_admissions w) k)"
  by (induction keys arbitrary: n w) (auto simp: bt_get_remove split: option.splits)

lemma forget_traces:
  "bt_get (wc_pending_admissions (forget_connection clk c n w)) (c, k) = None"
  "bt_get (wc_admission_tickets (forget_connection clk c n w)) (c, k) = None"
proof -
  have "k \<in> set (pending_sessions c w)" if "bt_get (wc_pending_admissions w) (c, k) = Some l" for l
    using that by (auto simp: pending_sessions_def intro!: image_eqI [where x = "(c, k)"])
  then show "bt_get (wc_pending_admissions (forget_connection clk c n w)) (c, k) = None"
    by (cases "bt_get (wc_pending_admissions w) (c, k)") (auto simp: forget_connection_def Let_def release_pending_frame)
  show "bt_get (wc_admission_tickets (forget_connection clk c n w)) (c, k) = None"
    by (auto simp: forget_connection_def Let_def bt_get_retain split: option.split)
qed

text \<open>C14. A lost transport leaves no trace: cleaning up a known connection succeeds, and afterwards no session
  lists it as a member, subscriber or owner, and it holds no pending admission and no queue ticket.\<close>

theorem lost_transport_leaves_no_trace:
  assumes "config_ok cfg" and "reachable_core cfg w" and "bt_get (wc_connections w) c = Some st"
  shows "\<exists>summary w'. transport_lost clk c w = (Inr summary, w')
    \<and> bt_get (wc_connections w') c = None
    \<and> (\<forall>key s. bt_get (wc_sessions w') key = Some s \<longrightarrow>
          c \<notin> bs_set (ses_members s) \<and> \<not> subscribed_in s sp c
        \<and> (\<forall>i e. bt_get (ses_entities s) i = Some e \<longrightarrow> er_owner_connection e \<noteq> c))
    \<and> bt_get (wc_pending_admissions w') (c, key) = None \<and> bt_get (wc_admission_tickets w') (c, key) = None"
proof -
  have inv: "core_inv w" using assms(1,2) by (rule reachable_core_inv)
  let ?w1 = "snd (detach_memberships clk c 0 (bs_list (cn_memberships st)) (empty_summary, w))"
  obtain sm w' where t: "transport_lost clk c w = (Inr sm, w')"
    and w': "w' = forget_connection clk c (length (bs_list (cn_memberships st))) ?w1"
    using transport_lost_eq [OF inv assms(3)] by blast
  have inv': "core_inv w'" using transport_lost_inv [OF inv, of clk c] t by simp
  have inv1: "core_inv ?w1" using detach_memberships_inv [OF inv assms(3)] by blast
  have gone: "bt_get (wc_connections w') c = None" unfolding w' forget_connections [OF inv1] by (simp add: bt_get_remove)
  then have "\<not> member_of (wc_sessions w') k c" for k using linkedD(4) [OF core_invD(4) [OF inv']] by blast
  then have "\<not> subscriber_of (wc_sessions w') k sp c" "\<not> owns_in (wc_sessions w') k c" "\<not> member_of (wc_sessions w') k c" for k sp
    using linkedD(5,6) [OF core_invD(4) [OF inv']] by blast+
  then have "c \<notin> bs_set (ses_members s) \<and> \<not> subscribed_in s sp c
        \<and> (\<forall>i e. bt_get (ses_entities s) i = Some e \<longrightarrow> er_owner_connection e \<noteq> c)"
    if "bt_get (wc_sessions w') k = Some s" for k s
    using owned_in_pos [of s c] views_get [OF that] by blast
  then show ?thesis using t gone forget_traces [of clk c _ ?w1] unfolding w' by blast
qed

theorem lost_transport_leaves_no_trace_witness:
  "\<exists>summary w'. transport_lost (\<lambda>_. 0) 2 demo_core = (Inr summary, w') \<and> bt_get (wc_connections w') 2 = None"
proof -
  obtain st where "bt_get (wc_connections demo_core) 2 = Some st" using demo_reader by (auto split: option.splits)
  from lost_transport_leaves_no_trace [OF demo_config_ok demo_reachable this, of "\<lambda>_. 0"] show ?thesis by blast
qed

end
