(* ===== verification/Core_Consistency.thy ===== *)
theory Core_Consistency
  imports Core_Sample
begin

text \<open>
  Derived data against what it is derived from: the spatial index against the positions of the entities,
  the capacity projection of the plan phase against the commit, and an operation that is not atomic.
\<close>

section \<open>Routing\<close>

text \<open>The recipients of a message by a scan over all entities, without the index.\<close>

definition scan_recipients :: "SessionState \<Rightarrow> OutboundMessage \<Rightarrow> ConnectionId set" where
  "scan_recipients s m =
     (case bt_get (ses_spaces s) (om_space m) of
        None \<Rightarrow> {}
      | Some d \<Rightarrow>
          if is_critical (om_delivery m) then {c. subscribed_in s (om_space m) c}
          else (case grid_parameters (sd_routing d) of
                  None \<Rightarrow> {c. subscribed_in s (om_space m) c}
                | Some (cell_size, radius, exact) \<Rightarrow>
                    {c. subscribed_in s (om_space m) c
                      \<and> (\<exists>i source position cell j candidate position' cell'.
                           om_entity m = Some i \<and> bt_get (ses_entities s) i = Some source \<and> er_position source = Some position
                         \<and> cell_of s i = Some cell \<and> sck_cell_space cell = om_space m \<and> sck_cell_epoch cell = om_space_epoch m
                         \<and> bt_get (ses_entities s) j = Some candidate \<and> er_position candidate = Some position'
                         \<and> er_owner_connection candidate = c
                         \<and> cell_of s j = Some cell' \<and> near_cell m cell (f64_ceil (f64_div radius cell_size)) cell'
                         \<and> (exact \<longrightarrow> squared_distance_within position position' radius))}))"

lemma routing_matches_scan:
  assumes "index_inv s"
  shows "bs_set (routing_recipients s m) = scan_recipients s m"
proof (cases "bt_get (ses_spaces s) (om_space m)")
  case (Some d)
  have loc: "bt_get (ses_entity_cells s) i = cell_of s i" for i using assms by (simp add: index_inv_def)
  show ?thesis
  proof (cases "is_critical (om_delivery m) \<or> grid_parameters (sd_routing d) = None")
    case True
    with Some show ?thesis by (auto simp: routing_recipients_def scan_recipients_def Let_def subscribers_set)
  next
    case False
    then obtain cs radius exact where g: "grid_parameters (sd_routing d) = Some (cs, radius, exact)" by auto
    let ?subs = "case bt_get (ses_subscribers s) (om_space m) of None \<Rightarrow> bt_empty | Some x \<Rightarrow> x"
    have rs: "routing_recipients s m = (case om_entity m of None \<Rightarrow> bt_empty | Some i \<Rightarrow>
       (case bt_get (ses_entities s) i of None \<Rightarrow> bt_empty | Some source \<Rightarrow>
         (case er_position source of None \<Rightarrow> bt_empty | Some p \<Rightarrow>
           (case cell_of s i of None \<Rightarrow> bt_empty | Some k \<Rightarrow>
             if sck_cell_space k \<noteq> om_space m \<or> sck_cell_epoch k \<noteq> om_space_epoch m then bt_empty
             else grid_recipients s m ?subs p k cs radius exact))))"
      unfolding routing_recipients_def Let_def loc using False Some g by simp
    have sc: "scan_recipients s m = {c. subscribed_in s (om_space m) c
         \<and> (\<exists>i source position cell j candidate position' cell'.
              om_entity m = Some i \<and> bt_get (ses_entities s) i = Some source \<and> er_position source = Some position
            \<and> cell_of s i = Some cell \<and> sck_cell_space cell = om_space m \<and> sck_cell_epoch cell = om_space_epoch m
            \<and> bt_get (ses_entities s) j = Some candidate \<and> er_position candidate = Some position'
            \<and> er_owner_connection candidate = c
            \<and> cell_of s j = Some cell' \<and> near_cell m cell (f64_ceil (f64_div radius cs)) cell'
            \<and> (exact \<longrightarrow> squared_distance_within position position' radius))}"
      using False Some g by (simp add: scan_recipients_def)
    show ?thesis
    proof (cases "\<exists>i source p k. om_entity m = Some i \<and> bt_get (ses_entities s) i = Some source \<and> er_position source = Some p
        \<and> cell_of s i = Some k \<and> sck_cell_space k = om_space m \<and> sck_cell_epoch k = om_space_epoch m")
      case True
      then obtain i source p k where i: "om_entity m = Some i" "bt_get (ses_entities s) i = Some source" "er_position source = Some p"
        "cell_of s i = Some k" "sck_cell_space k = om_space m" "sck_cell_epoch k = om_space_epoch m" by blast
      show ?thesis
        unfolding rs sc using i by (auto simp: grid_recipients_set [OF assms] qualifies_def subscribers_set)
    next
      case False
      then show ?thesis unfolding rs sc by (auto split: option.split)
    qed
  qed
qed (simp add: routing_recipients_def scan_recipients_def Let_def)

text \<open>C16. Routing through the spatial index selects exactly the recipients a scan over all entities of the
  session selects, with the cell of every entity computed from its position.\<close>

theorem spatial_routing_is_a_scan:
  assumes "config_ok cfg" and "reachable_core cfg w" and "bt_get (wc_sessions w) key = Some s"
  shows "bs_set (routing_recipients s m) = scan_recipients s m"
proof -
  have "core_inv w" using assms(1,2) by (rule reachable_core_inv)
  from core_invD(3) [OF this assms(3)] have "index_inv s" by (simp add: session_wf_def)
  then show ?thesis by (rule routing_matches_scan)
qed

theorem spatial_routing_is_a_scan_witness:
  "\<exists>s. bt_get (wc_sessions demo_core) demo_key = Some s
    \<and> bs_set (routing_recipients s (to_outbound demo_key (from_request (demo_request 1))))
        = scan_recipients s (to_outbound demo_key (from_request (demo_request 1)))"
proof -
  obtain s where "bt_get (wc_sessions demo_core) demo_key = Some s" using demo_reader by (auto split: option.splits)
  with spatial_routing_is_a_scan [OF demo_config_ok demo_reachable this] show ?thesis by blast
qed

text \<open>C32. The capacity check before a commit projects exactly what the commit does: the projected number of
  entries and of payload bytes are those of the session after storing the messages.\<close>

theorem capacity_projection_is_exact:
  assumes "config_ok cfg" and "reachable_core cfg w" and "bt_get (wc_sessions w) key = Some s"
    and "byte_len (ses_state s) + sum_list (map (\<lambda>m. length (au_payload m)) ms) \<le> usize_max"
    and "fold (project_state (ses_state s)) ms (cache_len (ses_state s), ses_state_bytes s, bt_empty) = (entries, bytes, projected)"
  shows "cache_len (ses_state (fold (store_state channels now) ms s)) = entries
    \<and> ses_state_bytes (fold (store_state channels now) ms s) = bytes
    \<and> byte_len (ses_state (fold (store_state channels now) ms s)) = bytes"
proof -
  have "core_inv w" using assms(1,2) by (rule reachable_core_inv)
  from core_invD(3) [OF this assms(3)] have "accounting_ok s" by (simp add: session_wf_def)
  from projection_exact [OF projects_start [OF this] assms(4), of channels now] show ?thesis
    by (simp add: assms(5) projects_def)
qed

theorem capacity_projection_is_exact_witness:
  "\<exists>s entries bytes projected. bt_get (wc_sessions demo_core) demo_key = Some s
    \<and> fold (project_state (ses_state s)) [from_request (demo_request 1)] (cache_len (ses_state s), ses_state_bytes s, bt_empty)
        = (entries, bytes, projected)
    \<and> byte_len (ses_state (fold (store_state demo_core 0) [from_request (demo_request 1)] s)) = bytes"
proof -
  let ?ms = "[from_request (demo_request 1)]"
  obtain s where s: "bt_get (wc_sessions demo_core) demo_key = Some s" "byte_len (ses_state s) = 0"
    using demo_reader by (auto split: option.splits)
  obtain entries bytes projected where
    p: "fold (project_state (ses_state s)) ?ms (cache_len (ses_state s), ses_state_bytes s, bt_empty) = (entries, bytes, projected)"
    by (metis prod_cases3)
  have "byte_len (ses_state s) + sum_list (map (\<lambda>m. length (au_payload m)) ?ms) \<le> usize_max"
    by (simp add: s(2) from_request_def demo_request_def usize_max_def)
  from capacity_projection_is_exact [OF demo_config_ok demo_reachable s(1) this p, of demo_core 0] s(1) p show ?thesis by blast
qed

text \<open>C39. Advancing the epoch of a space is not atomic: when the entity anchoring the space has moved into it,
  the call removes the space with everything in it and then reports that the space is unknown.\<close>

theorem epoch_advance_can_fail_after_removing:
  "\<exists>w w' s s'. reachable_core demo_config w \<and> bt_get (wc_sessions w) demo_key = Some s \<and> bt_contains (ses_spaces s) 2
    \<and> advance_space_epoch demo_key 2 2 w = (Inl (SpaceNotFound (SpaceKey demo_key 2)), w')
    \<and> bt_get (wc_sessions w') demo_key = Some s' \<and> \<not> bt_contains (ses_spaces s') 2 \<and> ses_entities s' = bt_empty"
proof -
  obtain r w' where a: "advance_space_epoch demo_key 2 2 demo_looped = (r, w')" by fastforce
  note facts = demo_looped_facts [unfolded a prod.case]
  obtain s where s: "bt_get (wc_sessions demo_looped) demo_key = Some s" "bt_contains (ses_spaces s) 2"
    using conjunct1 [OF facts] by (cases "bt_get (wc_sessions demo_looped) demo_key") (auto simp: bt_contains_iff)
  have w': "r = Inl (SpaceNotFound (SpaceKey demo_key 2))"
      "map_option (\<lambda>s. (bt_keys (ses_spaces s), bt_keys (ses_entities s))) (bt_get (wc_sessions w') demo_key) = Some ([1], [])"
    using conjunct2 [OF facts] by (cases r; simp)+
  then obtain s' where s': "bt_get (wc_sessions w') demo_key = Some s'" "bt_keys (ses_spaces s') = [1]" "bt_keys (ses_entities s') = []" by auto
  have "bt_get (ses_spaces s') 2 = None" using bt_keys_iff [of 2 "ses_spaces s'"] s'(2) by simp
  moreover have "ses_entities s' = bt_empty" using bt_keys_iff [of _ "ses_entities s'"] s'(3) by (simp add: bt_eq_iff)
  ultimately show ?thesis using demo_looped_reachable s a [unfolded w'(1)] s'(1) by (auto simp: bt_contains_iff)
qed

end
