(* ===== verification/Core_Epochs.thy ===== *)
theory Core_Epochs
  imports Core_Sample
begin

text \<open>
  The epochs of spaces over runs of the core: no operation forgets the epoch of a space id or lowers
  it, whether the space is live or retired.
\<close>

section \<open>The epochs of spaces\<close>

definition known_epoch :: "SessionState \<Rightarrow> SpaceId \<Rightarrow> SpaceEpoch option" where
  "known_epoch s sp =
     (case bt_get (ses_spaces s) sp of
        Some d \<Rightarrow> Some (sd_epoch d)
      | None \<Rightarrow> bt_get (ses_space_epoch_tombstones s) sp)"

definition epochs_kept :: "SessionState \<Rightarrow> SessionState \<Rightarrow> bool" where
  "epochs_kept s s' \<longleftrightarrow> (\<forall>sp e. known_epoch s sp = Some e \<longrightarrow> (\<exists>e'. known_epoch s' sp = Some e' \<and> e \<le> e'))"

definition grows :: "Sessions \<Rightarrow> Sessions \<Rightarrow> bool" where
  "grows ss ss' \<longleftrightarrow> (\<forall>k s. bt_get ss k = Some s \<longrightarrow> (\<exists>s'. bt_get ss' k = Some s' \<and> epochs_kept s s'))"

abbreviation later :: "WovenCore \<Rightarrow> WovenCore \<Rightarrow> bool" where
  "later w w' \<equiv> grows (wc_sessions w) (wc_sessions w')"

lemma epochs_kept_refl [simp]: "epochs_kept s s"
  by (simp add: epochs_kept_def)

lemma epochs_kept_trans: "epochs_kept a b \<Longrightarrow> epochs_kept b c \<Longrightarrow> epochs_kept a c"
  unfolding epochs_kept_def by (meson order_trans)

lemma epochs_kept_same:
  "ses_spaces t = ses_spaces s \<Longrightarrow> ses_space_epoch_tombstones t = ses_space_epoch_tombstones s \<Longrightarrow> epochs_kept s t"
  by (simp add: epochs_kept_def known_epoch_def cong: option.case_cong)

lemma grows_refl [simp]: "grows ss ss"
  by (simp add: grows_def)

lemma grows_trans: "grows a b \<Longrightarrow> grows b c \<Longrightarrow> grows a c"
  unfolding grows_def using epochs_kept_trans by meson

lemma grows_insert:
  "(\<And>s. bt_get ss k = Some s \<Longrightarrow> epochs_kept s s') \<Longrightarrow> grows ss (bt_insert k s' ss)"
  by (auto simp: grows_def bt_get_insert)

lemmas later_in = try_in_preserves [where P = "\<lambda>x. later w x" for w]

lemma removal_later:
  assumes inv: "core_inv w"
  shows "later w (snd (remove_entities_and_anchored_spaces key entities w))"
proof (cases "bt_get (wc_sessions w) key")
  case None
  then show ?thesis
    by (simp add: remove_entities_and_anchored_spaces_def Let_def case_prod_beta)
next
  case (Some s)
  obtain re rs cs where r:
    "snd (remove_entities_and_anchored_spaces key entities w) =
       w\<lparr>wc_sessions := bt_insert key (snd (remove_from_session key re rs s)) (wc_sessions w), wc_connections := cs\<rparr>"
    by (rule removal_spec [OF Some, where entities = entities]) (rule that)
  have "structure_ok s" using core_invD(3) [OF inv Some] by (simp add: session_wf_def)
  note st = structure_ids [OF this]
  have "known_epoch (snd (remove_from_session key re rs s)) sp = known_epoch s sp" for sp
    using remove_from_session_history(4) [OF st, of key re rs sp] st
    by (auto simp: known_epoch_def remove_from_session_fields ids_ok_def split: option.splits)
  then have "epochs_kept s (snd (remove_from_session key re rs s))" by (simp add: epochs_kept_def)
  then show ?thesis unfolding r using Some by (auto intro!: grows_insert)
qed

lemma detach_later:
  assumes inv: "core_inv w"
  shows "later w (snd (detach_connection_from_session c key w))"
proof -
  let ?es = "case bt_get (wc_sessions w) key of None \<Rightarrow> bt_empty | Some s \<Rightarrow> owned_set c s"
  define w1 where "w1 = snd (remove_entities_and_anchored_spaces key ?es w)"
  define w2 where "w2 = (case bt_get (wc_sessions w1) key of None \<Rightarrow> w1
               | Some s \<Rightarrow> w1\<lparr>wc_sessions := bt_insert key (without_member c s) (wc_sessions w1)\<rparr>)"
  have "later w1 w2"
    by (auto simp: w2_def without_member_def intro!: grows_insert epochs_kept_same split: option.split)
  moreover have "later w2 (snd (detach_connection_from_session c key w))"
    unfolding detach_eq Let_def w1_def [symmetric] w2_def [symmetric] by (simp split: option.split)
  ultimately show ?thesis using removal_later [OF inv, of key ?es] grows_trans unfolding w1_def by blast
qed

lemma detach_memberships_later:
  assumes "core_inv w"
  shows "later w (snd (detach_memberships clk c n keys (sm, w)))"
  using assms
proof (induction keys arbitrary: n sm w)
  case (Cons key keys)
  let ?w0 = "release_session_admission c key Unexpected (clk n) w"
  have inv0: "core_inv ?w0" by (rule release_admission_inv [OF Cons.prems])
  obtain other w1 where w1: "detach_connection_from_session c key ?w0 = (other, w1)" by fastforce
  have inv1: "core_inv w1" using detach_inv [OF inv0, of c key] w1 by simp
  have "later w ?w0" by simp
  then have "later w w1" using detach_later [OF inv0, of c key] w1 grows_trans by fastforce
  then show ?case using Cons.IH [OF inv1, of "n + 1" "summary_add sm other"] grows_trans by (auto simp: w1)
qed simp

lemma transport_lost_later:
  assumes inv: "core_inv w"
  shows "later w (snd (transport_lost clk c w))"
proof (cases "bt_get (wc_connections w) c")
  case None
  then show ?thesis by (simp add: transport_lost_def try_in_def split: sum.split)
next
  case (Some st)
  let ?w1 = "snd (detach_memberships clk c 0 (bs_list (cn_memberships st)) (empty_summary, w))"
  have "core_inv ?w1" using detach_memberships_inv [OF inv Some] by blast
  then have "later ?w1 (forget_connection clk c n ?w1)" for n by (simp add: forget_connections)
  then show ?thesis
    using transport_lost_eq [OF inv Some, of clk] detach_memberships_later [OF inv] grows_trans by (metis snd_conv)
qed

lemma drop_slow_later:
  assumes "core_inv w"
  shows "later w (snd (drop_slow_consumers clk cs out w))"
  using assms
proof (induction cs arbitrary: out w)
  case (Cons c cs)
  show ?case
  proof (cases "bt_get (wc_connections w) c")
    case (Some st)
    obtain sm w1 where t: "transport_lost (clk c) c w = (Inr sm, w1)"
      using transport_lost_eq [OF Cons.prems Some] by blast
    have "core_inv w1" "later w w1"
      using transport_lost_inv [OF Cons.prems, of "clk c" c] transport_lost_later [OF Cons.prems, of "clk c" c] t by simp_all
    then show ?thesis using grows_trans [OF _ Cons.IH] Some t by (simp add: bt_contains_iff)
  qed (use Cons in \<open>simp add: bt_contains_iff\<close>)
qed simp


lemma swept_later:
  assumes inv: "core_inv w" and same: "wc_sessions w1 = wc_sessions w" and swept: "swept now key w' w1"
  shows "later w w'"
proof -
  have "epochs_kept s (snd (sweep_session now s))" if "bt_get (wc_sessions w) key = Some s" for s
    using core_invD(3) [OF inv that] by (intro epochs_kept_same) (simp_all add: session_wf_def sweep_session_fields)
  with swept same show ?thesis
    unfolding swept_def by (auto intro!: grows_insert)
qed

lemma commit_later:
  assumes "publish_commit r plan now w = (Inr (), w')" and "bt_get (wc_sessions w) (rq_session r) = Some s"
  shows "later w w'"
proof -
  obtain j w1 where w': "w' = w\<lparr>wc_journal_outbox := j, wc_sessions := bt_insert (rq_session r) (commit_session w1 plan now s) (wc_sessions w)\<rparr>"
    by (rule commit_shape [OF assms])
  have "epochs_kept s (commit_session w1 plan now s)"
    by (rule epochs_kept_same) (simp_all add: commit_session_def Let_def split: option.split)
  then show ?thesis using assms(2) by (auto simp: w' intro!: grows_insert)
qed

lemma deliver_later:
  assumes inv: "core_inv w" and ok: "\<forall>m \<in> set (pl_messages plan). deliverable (to_outbound (rq_session r) m)"
    and d: "publish_deliver clk r plan w = Some (Inr out, w')"
  shows "later w w'"
proof -
  obtain f :: Fanout and out2 w2 where
      "drop_slow_consumers clk (bs_list (fo_disconnected f)) (fo_outcome f) (w\<lparr>wc_connections := fo_connections f\<rparr>) = (Inr out2, w2)"
    and "publish_deliver clk r plan w = Some (Inr out2, w2)" and inv1: "core_inv (w\<lparr>wc_connections := fo_connections f\<rparr>)"
    by (rule deliver_shape [OF inv ok, where clk = clk]) (rule that; assumption)
  then have "w' = snd (drop_slow_consumers clk (bs_list (fo_disconnected f)) (fo_outcome f) (w\<lparr>wc_connections := fo_connections f\<rparr>))"
    using d by simp
  moreover have "later w (w\<lparr>wc_connections := fo_connections f\<rparr>)" by simp
  ultimately show ?thesis using drop_slow_later [OF inv1] grows_trans by blast
qed

lemma publish_later:
  assumes inv: "core_inv w" and run: "publish_at clk r now w = Some (res, w')"
  shows "later w w'"
  using inv
proof (cases rule: publish_at_cases [where clk = clk and r = r and now = now])
  case (refused e w1 w2)
  with run swept_later [OF inv charged_sessions [OF refused(3)]] show ?thesis by simp
next
  case (published pr w1 plan w2 s w3 out w4)
  have "later w3 w4" by (rule deliver_later [OF published(13) ready_deliverable [OF published(10)] published(14)])
  moreover have "later w2 w3" by (rule commit_later [OF published(12,9)])
  moreover have "later w w2" by (rule swept_later [OF inv charged_sessions [OF published(4)] published(7)])
  moreover have "w4 = w'" using run published(1) by simp
  ultimately show ?thesis using grows_trans by blast
qed


lemma advance_later:
  assumes inv: "core_inv w"
  shows "later w (snd (advance_space_epoch key space proposed w))"
proof -
  have fin: "later w (w2\<lparr>wc_sessions := bt_insert key s4 (wc_sessions w2)\<rparr>)"
    if s: "bt_get (wc_sessions w) key = Some s" and d: "bt_get (ses_spaces s) space = Some d" "sd_epoch d < proposed"
      and w1: "w2 = (snd (remove_entities_and_anchored_spaces key es w))\<lparr>wc_connections := cs\<rparr>"
      and s2: "bt_get (wc_sessions w2) key = Some s2" and d2: "bt_get (ses_spaces s2) space = Some d2"
      and s4: "ses_spaces s4 = bt_insert space (d2\<lparr>sd_epoch := proposed\<rparr>) (ses_spaces s2)"
        "ses_space_epoch_tombstones s4 = ses_space_epoch_tombstones s2"
    for s d es w2 cs s2 d2 s4
  proof -
    obtain re rs where "bt_get (wc_sessions (snd (remove_entities_and_anchored_spaces key es w))) key = Some (snd (remove_from_session key re rs s))"
      by (rule removal_session [OF s, where entities = es]) (rule that)
    then have "d2 = d" using s2 d2 d by (auto simp: w1 remove_from_session_fields split: if_splits)
    then have "epochs_kept s2 s4"
      using d(2) d2 by (auto simp: epochs_kept_def known_epoch_def s4 bt_get_insert split: option.splits)
    then have "later w2 (w2\<lparr>wc_sessions := bt_insert key s4 (wc_sessions w2)\<rparr>)"
      using s2 by (auto intro!: grows_insert)
    moreover have "later w w2" using removal_later [OF inv, of key es] unfolding w1 grows_def by simp
    ultimately show ?thesis using grows_trans by blast
  qed
  have mid: "later w ((snd (remove_entities_and_anchored_spaces key es w))\<lparr>wc_connections := cs\<rparr>)" for es cs
    using removal_later [OF inv, of key es] unfolding grows_def by simp
  show ?thesis
    unfolding advance_space_epoch_def Let_def case_prod_beta
    using fin mid by (auto intro!: later_in simp: recompute_state_bytes_def not_le)
qed

lemma join_unchecked_later: "later w (snd (join_session_unchecked_admission_at c key now w))"
  unfolding join_session_unchecked_admission_at_def Let_def
  by (auto intro!: later_in grows_insert epochs_kept_same)

lemma join_with_admission_later: "later w (snd (join_session_with_admission_at c key lease now w))"
proof -
  have "later w (w1\<lparr>wc_pending_admissions := x, wc_admission_leases := y\<rparr>)"
    if "join_session_unchecked_admission_at c key now w = (r, w1)" for r w1 x y
    using join_unchecked_later [of w c key now] that by simp
  moreover have "later w w1" if "join_session_unchecked_admission_at c key now w = (r, w1)" for r w1
    using join_unchecked_later [of w c key now] that by simp
  ultimately show ?thesis
    unfolding join_session_with_admission_at_def
    by (auto intro!: later_in split: option.split prod.split sum.split)
qed

lemma managed_rate_sessions: "check_managed_admission_rate_at c now w = (r, w') \<Longrightarrow> wc_sessions w' = wc_sessions w"
  by (auto simp: check_managed_admission_rate_at_def Let_def split: option.splits prod.splits if_splits)

lemma request_admission_sessions:
  "wc_sessions (snd (request_session_admission_at c key i now w)) = wc_sessions w"
proof -
  obtain r w1 where r: "check_managed_admission_rate_at c now w = (r, w1)" by fastforce
  note same = managed_rate_sessions [OF r]
  show ?thesis
    unfolding request_session_admission_at_def r prod.case
    by (intro try_in_preserves [where P = "\<lambda>x. wc_sessions x = wc_sessions w"])
      (auto simp: same Let_def intro!: try_in_preserves [where P = "\<lambda>x. wc_sessions x = wc_sessions w"]
        split: option.split prod.split JoinDecision.split)
qed

lemma join_with_admission_grows:
  "wc_sessions w = ss \<Longrightarrow> grows ss (wc_sessions (snd (join_session_with_admission_at c key lease now w)))"
  using join_with_admission_later [of w c key lease now] by simp

lemma session_queue_later: "later w (snd (session_queue_at c key t op now w))"
proof -
  obtain r w1 where r: "check_managed_admission_rate_at c now w = (r, w1)" by fastforce
  note same = managed_rate_sessions [OF r]
  show ?thesis
    unfolding session_queue_at_def r prod.case Let_def
    by (intro later_in)
      (auto simp: same update_admission_def case_prod_beta intro!: later_in join_with_admission_grows
        split: QueueOperation.split sum.split)
qed

lemma admit_and_join_later: "later w (snd (admit_and_join_session_at c key i now w))"
proof -
  obtain r w1 where r: "request_session_admission_at c key i now w = (r, w1)" by fastforce
  have same: "wc_sessions w1 = wc_sessions w" using request_admission_sessions [of c key i now w] r by simp
  show ?thesis
    unfolding admit_and_join_session_at_def r
    by (auto simp: same case_prod_beta intro!: join_with_admission_grows split: sum.split JoinDecision.split)
qed

lemma epochs_kept_install:
  assumes "bt_get (ses_spaces s) (sd_id d) = None"
    and "\<And>e. bt_get (ses_space_epoch_tombstones s) (sd_id d) = Some e \<Longrightarrow> e < sd_epoch d"
  shows "epochs_kept s (s\<lparr>ses_space_epoch_tombstones := bt_remove (sd_id d) (ses_space_epoch_tombstones s),
      ses_subscribers := x, ses_spaces := bt_insert (sd_id d) d (ses_spaces s)\<rparr>)"
  using assms by (auto simp: epochs_kept_def known_epoch_def bt_get_insert bt_get_remove less_imp_le split: option.splits)

lemma install_later: "later w (snd (install_space key d w))"
  unfolding install_space_def
  by (auto intro!: later_in grows_insert epochs_kept_install simp: bt_contains_iff not_le split: option.splits if_splits)

lemma leave_later: "core_inv w \<Longrightarrow> later w (snd (leave_session c key now w))"
proof -
  assume inv: "core_inv w"
  let ?w1 = "release_session_admission c key Intentional now w"
  let ?w2 = "?w1\<lparr>wc_admission_tickets := bt_remove (c, key) (wc_admission_tickets ?w1)\<rparr>"
  have "core_inv ?w2" using release_admission_inv [OF inv] by simp
  from detach_later [OF this, of c key] have "later w (snd (detach_connection_from_session c key ?w2))"
    by (simp add: grows_def)
  then show ?thesis
    unfolding leave_session_def Let_def by (auto intro!: later_in simp: case_prod_beta)
qed

lemma unsubscribe_later: "later w (snd (unsubscribe c space_key w))"
proof -
  have "epochs_kept s (s\<lparr>ses_subscribers := x\<rparr>)" for s x by (rule epochs_kept_same) simp_all
  then have "later w (w\<lparr>wc_sessions := bt_update k (\<lambda>s. s\<lparr>ses_subscribers := f s\<rparr>) (wc_sessions w), wc_connections := y\<rparr>)" for k f y
    by (auto simp: grows_def bt_get_update)
  then show ?thesis
    unfolding unsubscribe_def Let_def by (auto intro!: later_in simp: case_prod_beta)
qed

lemma sweep_later:
  assumes inv: "core_inv w"
  shows "later w (snd (sweep_expired_state now w))"
proof -
  have "epochs_kept s (snd (sweep_session now s))" if "bt_get (wc_sessions w) k = Some s" for k s
    using core_invD(3) [OF inv that] by (intro epochs_kept_same) (simp_all add: session_wf_def sweep_session_fields)
  then show ?thesis by (auto simp: grows_def sweep_expired_state_def)
qed

lemma core_step_later:
  assumes "core_step w w'" and "core_inv w"
  shows "later w w'"
  using assms
proof (induction rule: core_step.induct)
  case (step_publish clocks request now w result w')
  then show ?case using publish_later by blast
next
  case (step_drain_for_spaces c spaces w messages w')
  then show ?case
    by (auto simp: drain_outbound_for_spaces_def split: sum.splits option.splits if_splits)
next
  case (step_advance_epoch w key space epoch)
  then show ?case by (rule advance_later)
next
  case (step_transport_lost w clock c)
  then show ?case by (rule transport_lost_later)
next
  case (step_leave w c key now)
  show ?case using step_leave by (rule leave_later)
next
  case (step_install_space w key descriptor)
  show ?case by (rule install_later)
next
  case (step_remove_entity w c key entity)
  show ?case unfolding remove_entity_def
    using removal_later [OF step_remove_entity] by (auto intro!: later_in simp: case_prod_beta)
next
  case (step_sweep w now)
  show ?case using step_sweep by (rule sweep_later)
next
  case (step_join_with_admission w c key lease now)
  show ?case by (rule join_with_admission_later)
next
  case (step_admit_and_join w c key i now)
  show ?case by (rule admit_and_join_later)
next
  case (step_session_queue w c key t op now)
  show ?case by (rule session_queue_later)
next
  case (step_request_admission w c key i now)
  show ?case by (simp add: request_admission_sessions)
next
  case (step_register_channel w channel)
  show ?case by (simp add: register_channel_def try_in_def split: sum.split)
next
  case (step_provision_session w key)
  show ?case by (auto simp: provision_session_def bt_contains_iff intro!: later_in grows_insert)
next
  case (step_set_rate_limit w key policy)
  show ?case
    unfolding set_session_publish_rate_limit_def
    by (auto intro!: later_in grows_insert epochs_kept_same)
next
  case (step_configure_admission w key metadata qpolicy capacity)
  show ?case unfolding configure_session_admission_def by (auto intro!: later_in)
next
  case (step_apply_capacity w key capacity now)
  show ?case unfolding apply_session_capacity_at_def by (auto intro!: later_in split: prod.split)
next
  case (step_maintain w now)
  show ?case by (simp add: maintain_admission_at_def)
next
  case (step_connected w)
  show ?case unfolding transport_connected_def by (auto simp: Let_def try_in_def split: sum.split option.split)
next
  case (step_authenticate w digest c credentials now)
  show ?case unfolding authenticate_def by (auto intro!: later_in split: prod.split option.split)
next
  case (step_join w c key now)
  show ?case by (simp add: join_session_at_def join_unchecked_later)
next
  case (step_subscribe w c space_key)
  show ?case unfolding subscribe_def Let_def
    by (auto intro!: later_in grows_insert epochs_kept_same)
next
  case (step_unsubscribe w c space_key)
  show ?case by (rule unsubscribe_later)
next
  case (step_spawn w c space_key epoch)
  show ?case unfolding spawn_entity_def Let_def
    by (auto intro!: later_in grows_insert epochs_kept_same)
next
  case (step_update_position w c key entity position)
  show ?case unfolding update_entity_position_def
    by (auto intro!: later_in grows_insert epochs_kept_same)
next
  case (step_transition w r)
  show ?case unfolding transition_entity_def Let_def
    by (auto intro!: later_in grows_insert epochs_kept_same
      simp: move_entity_def Let_def recompute_state_bytes_def)
next
  case (step_drain w c)
  show ?case by (simp add: drain_outbound_def try_in_def split: sum.split prod.split)
next
  case (step_pop_journal w)
  show ?case by (simp add: pop_journal_record_def split: prod.split)
qed


text \<open>C17. Space epochs never go back: over any further calls a session keeps the epoch it knows of a space id,
  live or retired, or knows a later one; so a space installed again under an old id starts above every
  epoch that id has had.\<close>

theorem space_epochs_never_go_back:
  assumes "config_ok cfg" and "reachable_core cfg w" and "core_step\<^sup>*\<^sup>* w w'"
    and "bt_get (wc_sessions w) key = Some s" and "known_epoch s space = Some e"
  shows "\<exists>s' e'. bt_get (wc_sessions w') key = Some s' \<and> known_epoch s' space = Some e' \<and> e \<le> e'"
proof -
  have "core_inv w" using assms(1,2) by (rule reachable_core_inv)
  with assms(3) have "core_inv w' \<and> later w w'"
    by (induction rule: rtranclp_induct) (auto intro: core_step_inv grows_trans [OF _ core_step_later])
  then show ?thesis using assms(4,5) unfolding grows_def epochs_kept_def by blast
qed

theorem space_epochs_never_go_back_witness:
  "\<exists>s e s' e'. core_step\<^sup>*\<^sup>* demo_core demo_looped
    \<and> bt_get (wc_sessions demo_core) demo_key = Some s \<and> known_epoch s 1 = Some e
    \<and> bt_get (wc_sessions demo_looped) demo_key = Some s' \<and> known_epoch s' 1 = Some e' \<and> e \<le> e'"
proof -
  obtain s d where s: "bt_get (wc_sessions demo_core) demo_key = Some s" "bt_get (ses_spaces s) 1 = Some d"
    using demo_reader by (auto split: option.splits)
  then have e: "known_epoch s 1 = Some (sd_epoch d)" by (simp add: known_epoch_def)
  have run: "core_step\<^sup>*\<^sup>* demo_core demo_looped" by (rule demo_looped_run)
  from space_epochs_never_go_back [OF demo_config_ok demo_reachable run s(1) e] run s(1) e show ?thesis by blast
qed

end
