(* ===== verification/Rate_Limits.thy ===== *)
theory Rate_Limits
  imports Core_Delivery
begin

text \<open>
  The publish rate limiters: the bound a fixed-window limiter guarantees for every interval, and that a
  session's limiter survives leaving and joining again.
\<close>

section \<open>Rate limits\<close>

text \<open>The instants at which a limiter lets a publish through, out of the instants it is asked at.\<close>

fun admitted :: "PublishRateLimit \<Rightarrow> ConnectionRateLimiter \<Rightarrow> Instant list \<Rightarrow> Instant list" where
  "admitted policy l [] = []"
| "admitted policy l (now # rest) =
     (case rate_admit policy now l of
        (Inl _, l') \<Rightarrow> admitted policy l' rest
      | (Inr _, l') \<Rightarrow> now # admitted policy l' rest)"

definition in_window :: "PublishRateLimit \<Rightarrow> Instant \<Rightarrow> Instant \<Rightarrow> bool" where
  "in_window policy from t \<longleftrightarrow> from \<le> t \<and> t < from + prl_window policy"

lemma rate_admit_cases:
  assumes "prl_max_publishes policy \<le> usize_max"
  obtains (refused) e where "rate_admit policy now l = (Inl e, l)"
  | (opened) "rate_admit policy now l = (Inr (), \<lparr>rl_window_started = Some now, rl_publishes = 1\<rparr>)"
      "\<And>s. rl_window_started l = Some s \<Longrightarrow> s + prl_window policy \<le> now"
  | (counted) s where "rl_window_started l = Some s" "s \<le> now" "now < s + prl_window policy"
      "rl_publishes l < prl_max_publishes policy"
      "rate_admit policy now l = (Inr (), l\<lparr>rl_publishes := rl_publishes l + 1\<rparr>)"
proof (cases "rl_window_started l")
  case None
  then show ?thesis by (intro opened) (simp_all add: rate_admit_def admit_optional_def Let_def)
next
  case (Some s)
  show ?thesis
  proof (cases "s \<le> now")
    case False
    with Some show ?thesis
      by (intro refused [of RateLimitClockRegressed])
        (simp add: rate_admit_def admit_optional_def Let_def checked_duration_since_def)
  next
    case True
    consider "prl_window policy \<le> now - s" | "now - s < prl_window policy" "prl_max_publishes policy \<le> rl_publishes l"
      | "now - s < prl_window policy" "rl_publishes l < prl_max_publishes policy" by linarith
    then show ?thesis
    proof cases
      case 1
      with True Some show ?thesis
        by (intro opened) (simp_all add: rate_admit_def admit_optional_def Let_def checked_duration_since_def policy_window_def)
    next
      case 2
      with True Some show ?thesis
        by (intro refused [of "PublishRateLimited (prl_window policy - (now - s))"])
          (simp add: rate_admit_def admit_optional_def Let_def checked_duration_since_def policy_window_def)
    next
      case 3
      with True Some assms show ?thesis
        by (intro counted [of s])
          (simp_all add: rate_admit_def admit_optional_def Let_def checked_duration_since_def policy_window_def usize_sat_add_def)
    qed
  qed
qed

text \<open>What a limiter may still let through in a window: all of the next one, and what is left of the
  current one if the two overlap.\<close>

definition allowance :: "PublishRateLimit \<Rightarrow> Instant \<Rightarrow> ConnectionRateLimiter \<Rightarrow> nat" where
  "allowance policy from l =
     (case rl_window_started l of
        None \<Rightarrow> 2 * prl_max_publishes policy
      | Some s \<Rightarrow>
          if from + prl_window policy \<le> s then 0
          else if from \<le> s then prl_max_publishes policy - rl_publishes l
          else if from < s + prl_window policy then 2 * prl_max_publishes policy - rl_publishes l
          else 2 * prl_max_publishes policy)"

lemma admitted_within_allowance:
  assumes "prl_max_publishes policy \<le> usize_max" and "0 < prl_max_publishes policy"
    and "rl_publishes l \<le> prl_max_publishes policy"
  shows "length (filter (in_window policy from) (admitted policy l ts)) \<le> allowance policy from l"
  using assms(3)
proof (induction ts arbitrary: l)
  case (Cons now ts)
  from assms(1) show ?case
  proof (cases rule: rate_admit_cases [where now = now and l = l])
    case (refused e)
    then show ?thesis using Cons by simp
  next
    case opened
    let ?l = "\<lparr>rl_window_started = Some now, rl_publishes = 1\<rparr>"
    define n where "n = length (filter (in_window policy from) (admitted policy ?l ts))"
    have "n \<le> allowance policy from ?l" unfolding n_def
      using assms(2) by (intro Cons.IH) simp
    then have "of_bool (in_window policy from now) + n \<le> allowance policy from l"
      using opened(2) assms(2) Cons.prems
      by (cases "rl_window_started l") (auto simp: allowance_def in_window_def split: if_splits)
    moreover have "length (filter (in_window policy from) (admitted policy l (now # ts))) = of_bool (in_window policy from now) + n"
      by (simp add: opened n_def)
    ultimately show ?thesis by simp
  next
    case (counted s)
    let ?l = "l\<lparr>rl_publishes := rl_publishes l + 1\<rparr>"
    define n where "n = length (filter (in_window policy from) (admitted policy ?l ts))"
    have "n \<le> allowance policy from ?l" unfolding n_def
      using counted(4) by (intro Cons.IH) simp
    then have "of_bool (in_window policy from now) + n \<le> allowance policy from l"
      using counted(1-4) by (auto simp: allowance_def in_window_def split: if_splits)
    moreover have "length (filter (in_window policy from) (admitted policy l (now # ts))) = of_bool (in_window policy from now) + n"
      by (simp add: counted(5) n_def)
    ultimately show ?thesis by simp
  qed
qed simp

text \<open>C33. However the calls fall, a fixed-window limiter lets at most twice its budget through in any interval
  of one window length.\<close>

theorem rate_limit_bounds_every_window:
  assumes "validate_rate_limit policy = Inr policy" and "prl_max_publishes policy \<le> usize_max"
  shows "length (filter (in_window policy from) (admitted policy new_rate_limiter ts)) \<le> 2 * prl_max_publishes policy"
proof -
  have "0 < prl_max_publishes policy" using assms(1) by (simp add: validate_rate_limit_def split: if_splits)
  then show ?thesis
    using admitted_within_allowance [OF assms(2), of new_rate_limiter "from" ts]
    by (simp add: allowance_def new_rate_limiter_def)
qed

theorem rate_limit_bounds_every_window_witness:
  "length (filter (in_window \<lparr>prl_max_publishes = 1, prl_window = 10\<rparr> 5)
     (admitted \<lparr>prl_max_publishes = 1, prl_window = 10\<rparr> new_rate_limiter [0, 5, 10, 14, 20])) \<le> 2"
  using rate_limit_bounds_every_window [of "\<lparr>prl_max_publishes = 1, prl_window = 10\<rparr>" 5 "[0, 5, 10, 14, 20]"]
  by (simp add: validate_rate_limit_def usize_max_def)

lemma removal_limiters:
  assumes "bt_get (wc_connections w) c = Some st"
  shows "\<exists>st'. bt_get (wc_connections (snd (remove_entities_and_anchored_spaces key es w))) c = Some st'
    \<and> cn_session_rate_limiters st' = cn_session_rate_limiters st"
proof (cases "bt_get (wc_sessions w) key")
  case None
  with assms show ?thesis
    by (auto simp: remove_entities_and_anchored_spaces_def Let_def case_prod_beta purge_all_get bt_empty.rep_eq)
next
  case (Some s)
  obtain re rs cs where r:
    "snd (remove_entities_and_anchored_spaces key es w) =
       w\<lparr>wc_sessions := bt_insert key (snd (remove_from_session key re rs s)) (wc_sessions w), wc_connections := cs\<rparr>"
    "\<And>c. bt_get cs c = map_option (unlink_connection key re rs (removed_of re s c)) (bt_get (wc_connections w) c)"
    by (rule removal_spec [OF Some, where entities = es]) (rule that)
  show ?thesis unfolding r(1) using assms by (simp add: r(2) unlink_connection_def)
qed

lemma detach_limiters:
  assumes st: "bt_get (wc_connections w) c = Some st"
    and l: "bt_get (cn_session_rate_limiters st) key = Some l" "srl_retain_after_leave l"
  shows "\<exists>st'. bt_get (wc_connections (snd (detach_connection_from_session c key w))) c = Some st'
    \<and> cn_session_rate_limiters st' = cn_session_rate_limiters st"
proof -
  let ?es = "case bt_get (wc_sessions w) key of None \<Rightarrow> bt_empty | Some s \<Rightarrow> owned_set c s"
  define w1 where "w1 = snd (remove_entities_and_anchored_spaces key ?es w)"
  define w2 where "w2 = (case bt_get (wc_sessions w1) key of None \<Rightarrow> w1
               | Some s \<Rightarrow> w1\<lparr>wc_sessions := bt_insert key (without_member c s) (wc_sessions w1)\<rparr>)"
  obtain st1 where st1: "bt_get (wc_connections w1) c = Some st1" "cn_session_rate_limiters st1 = cn_session_rate_limiters st"
    using removal_limiters [OF st, of key ?es] unfolding w1_def by blast
  have cs: "wc_connections w2 = wc_connections w1" by (simp add: w2_def split: option.split)
  show ?thesis
    unfolding detach_eq Let_def w1_def [symmetric] w2_def [symmetric]
    using st1 l by (simp add: cs without_session_def)
qed

lemma leave_keeps_limiter:
  assumes run: "leave_session c key now w = (Inr summary, w')" and st: "bt_get (wc_connections w) c = Some st"
    and l: "bt_get (cn_session_rate_limiters st) key = Some l" "srl_retain_after_leave l"
  shows "\<exists>st'. bt_get (wc_connections w') c = Some st' \<and> bt_get (cn_session_rate_limiters st') key = Some l"
proof -
  let ?w1 = "release_session_admission c key Intentional now w"
  let ?w2 = "?w1\<lparr>wc_admission_tickets := bt_remove (c, key) (wc_admission_tickets ?w1)\<rparr>"
  have w': "w' = snd (detach_connection_from_session c key ?w2)"
    using run by (auto simp: leave_session_def Let_def try_in_def split: sum.splits prod.splits)
  have "bt_get (wc_connections ?w2) c = Some st" using st by simp
  from detach_limiters [OF this l] l show ?thesis unfolding w' by auto
qed

text \<open>C34. Leaving and joining again does not replenish a session's publish budget: a retained limiter whose
  window is still running is found unchanged after the join.\<close>

theorem rejoining_keeps_the_budget:
  assumes "leave_session c key left_at w = (Inr summary, w1)"
    and "join_session_at c key joined_at w1 = (Inr (), w2)"
    and "bt_get (wc_connections w) c = Some st" and "bt_get (cn_session_rate_limiters st) key = Some limiter"
    and "srl_retain_after_leave limiter" and "\<not> limiter_expired_at limiter joined_at"
  shows "\<exists>st'. bt_get (wc_connections w2) c = Some st' \<and> bt_get (cn_session_rate_limiters st') key = Some limiter"
proof -
  obtain st1 where st1: "bt_get (wc_connections w1) c = Some st1" "bt_get (cn_session_rate_limiters st1) key = Some limiter"
    using leave_keeps_limiter [OF assms(1,3,4,5)] by blast
  have "bt_get (cn_session_rate_limiters (prune_session_rate_limiters_at joined_at st1)) key = Some limiter"
    using st1(2) assms(6) by (simp add: prune_session_rate_limiters_at_def)
  with assms(2) st1 show ?thesis
    by (auto simp: join_session_at_def join_session_unchecked_admission_at_def try_in_def Let_def bt_contains_iff
        split: if_splits sum.splits)
qed

text \<open>A small core: one member of one session, whose limiter has a window running since instant 5.\<close>

definition limited_key :: SessionKey where "limited_key = SessionKey 1 1"

definition limited_limiter :: SessionRateLimiter where
  "limited_limiter = \<lparr>srl_limiter = \<lparr>rl_window_started = Some 5, rl_publishes = 3\<rparr>, srl_retain_after_leave = True, srl_window = 100\<rparr>"

definition limited_connection :: ConnectionState where
  "limited_connection =
     \<lparr>cn_authenticated = Some \<lparr>ap_principal_id = 7,
        ap_grants = grant_session limited_key ReadWrite (grant_namespace 1 ReadWrite new_grants)\<rparr>,
      cn_memberships = bs_of_list [limited_key], cn_subscriptions = bt_empty, cn_owned_entities = 0,
      cn_rate_limiter = new_rate_limiter, cn_session_rate_limiters = bt_insert limited_key limited_limiter bt_empty,
      cn_outbound = \<lparr>q_config = cfg_outbound_queue default_core_config, q_critical = [], q_latest_order = [], q_latest = bt_empty,
            q_best_effort = [], q_critical_capacity_exhausted = False\<rparr>\<rparr>"

definition limited_core :: WovenCore where
  "limited_core =
     \<lparr>wc_managed = None, wc_authenticator = (\<lambda>_. Inl InvalidCredentials), wc_config = default_core_config,
      wc_next_connection_id = 2, wc_next_entity_id = 1, wc_connections = bt_insert 1 limited_connection bt_empty,
      wc_sessions = bt_insert limited_key (new_session\<lparr>ses_members := bs_of_list [1]\<rparr>) bt_empty,
      wc_channels = bt_empty, wc_admissions = bt_empty, wc_pending_admissions = bt_empty,
      wc_admission_tickets = bt_empty, wc_admission_leases = bt_empty, wc_journal_outbox = new_outbox 1\<rparr>"

lemma limited_core_runs:
  "(case leave_session 1 limited_key 10 limited_core of
      (Inl _, _) \<Rightarrow> False
    | (Inr _, w1) \<Rightarrow> (case join_session_at 1 limited_key 20 w1 of (Inl _, _) \<Rightarrow> False | (Inr _, _) \<Rightarrow> True))
   \<and> \<not> limiter_expired_at limited_limiter 20 \<and> srl_retain_after_leave limited_limiter
   \<and> map_option (\<lambda>st. bt_get (cn_session_rate_limiters st) limited_key) (bt_get (wc_connections limited_core) 1) = Some (Some limited_limiter)"
  by code_simp

theorem rejoining_keeps_the_budget_witness:
  "\<exists>summary w1 w2 st'. leave_session 1 limited_key 10 limited_core = (Inr summary, w1)
    \<and> join_session_at 1 limited_key 20 w1 = (Inr (), w2)
    \<and> bt_get (wc_connections w2) 1 = Some st' \<and> bt_get (cn_session_rate_limiters st') limited_key = Some limited_limiter"
proof -
  obtain summary w1 where l: "leave_session 1 limited_key 10 limited_core = (Inr summary, w1)"
    using limited_core_runs by (auto split: prod.splits sum.splits)
  obtain w2 where j: "join_session_at 1 limited_key 20 w1 = (Inr (), w2)"
    using limited_core_runs unfolding l by (auto split: prod.splits sum.splits)
  obtain st where st: "bt_get (wc_connections limited_core) 1 = Some st"
    "bt_get (cn_session_rate_limiters st) limited_key = Some limited_limiter"
    using limited_core_runs by auto
  have "srl_retain_after_leave limited_limiter" "\<not> limiter_expired_at limited_limiter 20" using limited_core_runs by blast+
  from rejoining_keeps_the_budget [OF l j st this] l j show ?thesis by blast
qed

end
