(* ===== verification/Protocol_Model.thy ===== *)
theory Protocol_Model
  imports Float64
begin

text \<open>
  The messages of the WVN1 protocol (\<open>woven-protocol/src/model.rs\<close>): the numeric enums with their wire
  values, the control payloads, and the envelope every message travels in. A Rust \<open>String\<close> is the list of
  its UTF-8 bytes, so \<open>len\<close> is the length of the list. Constructors carry a prefix where the source has
  the same variant name in several enums.
\<close>

section \<open>Numeric enums\<close>

text \<open>\<open>numeric_enum!\<close> gives every enum a table of its variants with their wire values, and reads a wire
  value by looking it up in that table.\<close>

definition enum_from_wire :: "('a \<Rightarrow> 'w) \<Rightarrow> 'a list \<Rightarrow> 'w \<Rightarrow> 'a option" where
  "enum_from_wire val variants v = List.find (\<lambda>x. val x = v) variants"

locale numeric_enum =
  fixes val :: "'a \<Rightarrow> 'w" and variants :: "'a list"
  assumes listed: "enum_from_wire val variants (val x) = Some x"
begin

lemma from_wire_iff: "enum_from_wire val variants v = Some x \<longleftrightarrow> val x = v"
  using listed by (auto simp: enum_from_wire_def find_Some_iff)

lemma value_inject: "val x = val y \<longleftrightarrow> x = y"
  using listed by (metis option.inject)

end

datatype MessageKind =
    MkUnknown | MkHello | MkCapabilities | MkAuthenticate | MkAuthenticated | MkJoinSession
  | MkLeaveSession | MkSubscribeSpace | MkUnsubscribeSpace | MkSubscriptionAccepted | MkSubscriptionRejected | MkEntityEntered
  | MkEntityLeft | MkEntityState | MkReliableEvent | MkSnapshotRequest | MkSnapshot | MkSpaceTransition
  | MkPing | MkPong | MkProtocolError | MkInferenceRequested | MkInferenceAccepted | MkInferenceProgress
  | MkInferenceStreamChunk | MkInferenceCompleted | MkInferenceFailed | MkInferenceCancelled | MkInferenceExpired | MkToolCallProposed
  | MkToolCallAccepted | MkToolCallRejected | MkToolCallCompleted | MkRequestAdmission | MkAdmissionResult | MkQueueStatusRequest
  | MkQueueHeartbeat | MkQueueClaim | MkQueueCancel | MkQueueUpdate | MkClientLog

fun message_kind_value :: "MessageKind \<Rightarrow> u8" where
  "message_kind_value MkUnknown = 0"
| "message_kind_value MkHello = 1"
| "message_kind_value MkCapabilities = 2"
| "message_kind_value MkAuthenticate = 3"
| "message_kind_value MkAuthenticated = 4"
| "message_kind_value MkJoinSession = 5"
| "message_kind_value MkLeaveSession = 6"
| "message_kind_value MkSubscribeSpace = 7"
| "message_kind_value MkUnsubscribeSpace = 8"
| "message_kind_value MkSubscriptionAccepted = 9"
| "message_kind_value MkSubscriptionRejected = 10"
| "message_kind_value MkEntityEntered = 11"
| "message_kind_value MkEntityLeft = 12"
| "message_kind_value MkEntityState = 13"
| "message_kind_value MkReliableEvent = 14"
| "message_kind_value MkSnapshotRequest = 15"
| "message_kind_value MkSnapshot = 16"
| "message_kind_value MkSpaceTransition = 17"
| "message_kind_value MkPing = 18"
| "message_kind_value MkPong = 19"
| "message_kind_value MkProtocolError = 20"
| "message_kind_value MkInferenceRequested = 21"
| "message_kind_value MkInferenceAccepted = 22"
| "message_kind_value MkInferenceProgress = 23"
| "message_kind_value MkInferenceStreamChunk = 24"
| "message_kind_value MkInferenceCompleted = 25"
| "message_kind_value MkInferenceFailed = 26"
| "message_kind_value MkInferenceCancelled = 27"
| "message_kind_value MkInferenceExpired = 28"
| "message_kind_value MkToolCallProposed = 29"
| "message_kind_value MkToolCallAccepted = 30"
| "message_kind_value MkToolCallRejected = 31"
| "message_kind_value MkToolCallCompleted = 32"
| "message_kind_value MkRequestAdmission = 33"
| "message_kind_value MkAdmissionResult = 34"
| "message_kind_value MkQueueStatusRequest = 35"
| "message_kind_value MkQueueHeartbeat = 36"
| "message_kind_value MkQueueClaim = 37"
| "message_kind_value MkQueueCancel = 38"
| "message_kind_value MkQueueUpdate = 39"
| "message_kind_value MkClientLog = 40"

definition message_kind_variants :: "MessageKind list" where
  "message_kind_variants =
     [MkUnknown, MkHello, MkCapabilities, MkAuthenticate, MkAuthenticated, MkJoinSession,
      MkLeaveSession, MkSubscribeSpace, MkUnsubscribeSpace, MkSubscriptionAccepted, MkSubscriptionRejected, MkEntityEntered,
      MkEntityLeft, MkEntityState, MkReliableEvent, MkSnapshotRequest, MkSnapshot, MkSpaceTransition,
      MkPing, MkPong, MkProtocolError, MkInferenceRequested, MkInferenceAccepted, MkInferenceProgress,
      MkInferenceStreamChunk, MkInferenceCompleted, MkInferenceFailed, MkInferenceCancelled, MkInferenceExpired, MkToolCallProposed,
      MkToolCallAccepted, MkToolCallRejected, MkToolCallCompleted, MkRequestAdmission, MkAdmissionResult, MkQueueStatusRequest,
      MkQueueHeartbeat, MkQueueClaim, MkQueueCancel, MkQueueUpdate, MkClientLog]"

definition message_kind_from_wire :: "u8 \<Rightarrow> MessageKind option" where
  "message_kind_from_wire v = enum_from_wire message_kind_value message_kind_variants v"

datatype WireDeliveryClass =
    DcUnknown
  | DcReliableOrdered
  | DcReliableUnordered
  | DcLatestValue
  | DcUnreliableSequenced
  | DcBestEffortEvent

fun wire_delivery_class_value :: "WireDeliveryClass \<Rightarrow> u8" where
  "wire_delivery_class_value DcUnknown = 0"
| "wire_delivery_class_value DcReliableOrdered = 1"
| "wire_delivery_class_value DcReliableUnordered = 2"
| "wire_delivery_class_value DcLatestValue = 3"
| "wire_delivery_class_value DcUnreliableSequenced = 4"
| "wire_delivery_class_value DcBestEffortEvent = 5"

definition wire_delivery_class_variants :: "WireDeliveryClass list" where
  "wire_delivery_class_variants =
     [DcUnknown, DcReliableOrdered, DcReliableUnordered, DcLatestValue, DcUnreliableSequenced, DcBestEffortEvent]"

definition wire_delivery_class_from_wire :: "u8 \<Rightarrow> WireDeliveryClass option" where
  "wire_delivery_class_from_wire v = enum_from_wire wire_delivery_class_value wire_delivery_class_variants v"

datatype LogLevel =
    LogUnknown
  | LogInfo
  | LogWarn
  | LogError

fun log_level_value :: "LogLevel \<Rightarrow> u8" where
  "log_level_value LogUnknown = 0"
| "log_level_value LogInfo = 1"
| "log_level_value LogWarn = 2"
| "log_level_value LogError = 3"

definition log_level_variants :: "LogLevel list" where
  "log_level_variants =
     [LogUnknown, LogInfo, LogWarn, LogError]"

definition log_level_from_wire :: "u8 \<Rightarrow> LogLevel option" where
  "log_level_from_wire v = enum_from_wire log_level_value log_level_variants v"

datatype AuthenticationScheme =
    AsUnknown
  | AsBearer
  | AsDevelopment

fun authentication_scheme_value :: "AuthenticationScheme \<Rightarrow> u8" where
  "authentication_scheme_value AsUnknown = 0"
| "authentication_scheme_value AsBearer = 1"
| "authentication_scheme_value AsDevelopment = 2"

definition authentication_scheme_variants :: "AuthenticationScheme list" where
  "authentication_scheme_variants =
     [AsUnknown, AsBearer, AsDevelopment]"

definition authentication_scheme_from_wire :: "u8 \<Rightarrow> AuthenticationScheme option" where
  "authentication_scheme_from_wire v = enum_from_wire authentication_scheme_value authentication_scheme_variants v"

datatype SubscriptionRejectionCode =
    SrUnknown
  | SrUnauthorized
  | SrSpaceNotFound
  | SrCapacityExceeded
  | SrEpochMismatch

fun subscription_rejection_code_value :: "SubscriptionRejectionCode \<Rightarrow> u16" where
  "subscription_rejection_code_value SrUnknown = 0"
| "subscription_rejection_code_value SrUnauthorized = 1"
| "subscription_rejection_code_value SrSpaceNotFound = 2"
| "subscription_rejection_code_value SrCapacityExceeded = 3"
| "subscription_rejection_code_value SrEpochMismatch = 4"

definition subscription_rejection_code_variants :: "SubscriptionRejectionCode list" where
  "subscription_rejection_code_variants =
     [SrUnknown, SrUnauthorized, SrSpaceNotFound, SrCapacityExceeded, SrEpochMismatch]"

definition subscription_rejection_code_from_wire :: "u16 \<Rightarrow> SubscriptionRejectionCode option" where
  "subscription_rejection_code_from_wire v = enum_from_wire subscription_rejection_code_value subscription_rejection_code_variants v"

datatype EntityLeaveReason =
    LrUnknown
  | LrUnsubscribed
  | LrDisconnected
  | LrTransitioned
  | LrRemoved

fun entity_leave_reason_value :: "EntityLeaveReason \<Rightarrow> u8" where
  "entity_leave_reason_value LrUnknown = 0"
| "entity_leave_reason_value LrUnsubscribed = 1"
| "entity_leave_reason_value LrDisconnected = 2"
| "entity_leave_reason_value LrTransitioned = 3"
| "entity_leave_reason_value LrRemoved = 4"

definition entity_leave_reason_variants :: "EntityLeaveReason list" where
  "entity_leave_reason_variants =
     [LrUnknown, LrUnsubscribed, LrDisconnected, LrTransitioned, LrRemoved]"

definition entity_leave_reason_from_wire :: "u8 \<Rightarrow> EntityLeaveReason option" where
  "entity_leave_reason_from_wire v = enum_from_wire entity_leave_reason_value entity_leave_reason_variants v"

datatype ProtocolErrorCode =
    PeUnknown | PeMalformedFrame | PeUnsupportedVersion | PeUnsupportedMessage | PeAuthenticationRequired | PeUnauthorized
  | PeInvalidScope | PeStaleEpoch | PeSequenceRejected | PePayloadTooLarge | PeRateLimited | PeInternal

fun protocol_error_code_value :: "ProtocolErrorCode \<Rightarrow> u16" where
  "protocol_error_code_value PeUnknown = 0"
| "protocol_error_code_value PeMalformedFrame = 1"
| "protocol_error_code_value PeUnsupportedVersion = 2"
| "protocol_error_code_value PeUnsupportedMessage = 3"
| "protocol_error_code_value PeAuthenticationRequired = 4"
| "protocol_error_code_value PeUnauthorized = 5"
| "protocol_error_code_value PeInvalidScope = 6"
| "protocol_error_code_value PeStaleEpoch = 7"
| "protocol_error_code_value PeSequenceRejected = 8"
| "protocol_error_code_value PePayloadTooLarge = 9"
| "protocol_error_code_value PeRateLimited = 10"
| "protocol_error_code_value PeInternal = 11"

definition protocol_error_code_variants :: "ProtocolErrorCode list" where
  "protocol_error_code_variants =
     [PeUnknown, PeMalformedFrame, PeUnsupportedVersion, PeUnsupportedMessage, PeAuthenticationRequired, PeUnauthorized,
      PeInvalidScope, PeStaleEpoch, PeSequenceRejected, PePayloadTooLarge, PeRateLimited, PeInternal]"

definition protocol_error_code_from_wire :: "u16 \<Rightarrow> ProtocolErrorCode option" where
  "protocol_error_code_from_wire v = enum_from_wire protocol_error_code_value protocol_error_code_variants v"

datatype ToolCallRejectionCode =
    TrUnknown
  | TrStale
  | TrUnauthorized
  | TrInvalidArguments
  | TrPolicyDenied

fun tool_call_rejection_code_value :: "ToolCallRejectionCode \<Rightarrow> u8" where
  "tool_call_rejection_code_value TrUnknown = 0"
| "tool_call_rejection_code_value TrStale = 1"
| "tool_call_rejection_code_value TrUnauthorized = 2"
| "tool_call_rejection_code_value TrInvalidArguments = 3"
| "tool_call_rejection_code_value TrPolicyDenied = 4"

definition tool_call_rejection_code_variants :: "ToolCallRejectionCode list" where
  "tool_call_rejection_code_variants =
     [TrUnknown, TrStale, TrUnauthorized, TrInvalidArguments, TrPolicyDenied]"

definition tool_call_rejection_code_from_wire :: "u8 \<Rightarrow> ToolCallRejectionCode option" where
  "tool_call_rejection_code_from_wire v = enum_from_wire tool_call_rejection_code_value tool_call_rejection_code_variants v"

datatype AdmissionStatus =
    AdUnknown
  | AdAdmitted
  | AdQueued
  | AdPaused
  | AdRejected

fun admission_status_value :: "AdmissionStatus \<Rightarrow> u8" where
  "admission_status_value AdUnknown = 0"
| "admission_status_value AdAdmitted = 1"
| "admission_status_value AdQueued = 2"
| "admission_status_value AdPaused = 3"
| "admission_status_value AdRejected = 4"

definition admission_status_variants :: "AdmissionStatus list" where
  "admission_status_variants =
     [AdUnknown, AdAdmitted, AdQueued, AdPaused, AdRejected]"

definition admission_status_from_wire :: "u8 \<Rightarrow> AdmissionStatus option" where
  "admission_status_from_wire v = enum_from_wire admission_status_value admission_status_variants v"

datatype AdmissionRejectionCode =
    ArNone
  | ArServerPaused
  | ArQueueFull
  | ArQueueDisabled
  | ArAlreadyQueued
  | ArInvalidIdempotencyKey

fun admission_rejection_code_value :: "AdmissionRejectionCode \<Rightarrow> u8" where
  "admission_rejection_code_value ArNone = 0"
| "admission_rejection_code_value ArServerPaused = 1"
| "admission_rejection_code_value ArQueueFull = 2"
| "admission_rejection_code_value ArQueueDisabled = 3"
| "admission_rejection_code_value ArAlreadyQueued = 4"
| "admission_rejection_code_value ArInvalidIdempotencyKey = 5"

definition admission_rejection_code_variants :: "AdmissionRejectionCode list" where
  "admission_rejection_code_variants =
     [ArNone, ArServerPaused, ArQueueFull, ArQueueDisabled, ArAlreadyQueued, ArInvalidIdempotencyKey]"

definition admission_rejection_code_from_wire :: "u8 \<Rightarrow> AdmissionRejectionCode option" where
  "admission_rejection_code_from_wire v = enum_from_wire admission_rejection_code_value admission_rejection_code_variants v"

datatype QueueState =
    QsUnknown
  | QsWaiting
  | QsOffered
  | QsAdmitted
  | QsCancelled
  | QsExpired
  | QsMissing

fun queue_state_value :: "QueueState \<Rightarrow> u8" where
  "queue_state_value QsUnknown = 0"
| "queue_state_value QsWaiting = 1"
| "queue_state_value QsOffered = 2"
| "queue_state_value QsAdmitted = 3"
| "queue_state_value QsCancelled = 4"
| "queue_state_value QsExpired = 5"
| "queue_state_value QsMissing = 6"

definition queue_state_variants :: "QueueState list" where
  "queue_state_variants =
     [QsUnknown, QsWaiting, QsOffered, QsAdmitted, QsCancelled, QsExpired,
      QsMissing]"

definition queue_state_from_wire :: "u8 \<Rightarrow> QueueState option" where
  "queue_state_from_wire v = enum_from_wire queue_state_value queue_state_variants v"

definition is_unreliable :: "WireDeliveryClass \<Rightarrow> bool" where
  "is_unreliable d \<longleftrightarrow> d = DcUnreliableSequenced \<or> d = DcBestEffortEvent"

section \<open>Control payloads\<close>

record ClientLog =
  wcl_level :: LogLevel
  wcl_message :: string

record RequestAdmission =
  wra_idempotency_key :: string

record AdmissionResult =
  war_status :: AdmissionStatus
  war_rejection_code :: AdmissionRejectionCode
  war_ticket_id :: "u64 option"
  war_poll_after_ms :: u32
  war_ticket_remaining_ms :: u32

record QueueStatusRequest =
  wqr_ticket_id :: u64

record QueueHeartbeat =
  wqh_ticket_id :: u64

record QueueClaim =
  wqc_ticket_id :: u64

record QueueCancel =
  wqx_ticket_id :: u64

record QueueUpdate =
  wqu_ticket_id :: u64
  wqu_state :: QueueState
  wqu_position :: u32
  wqu_poll_after_ms :: u32
  wqu_ticket_remaining_ms :: u32
  wqu_offer_remaining_ms :: u32

record Hello =
  whe_min_protocol_version :: u16
  whe_max_protocol_version :: u16
  whe_client_name :: string
  whe_client_version :: string
  whe_capability_bits :: u64
  whe_max_frame_size :: u32
  whe_max_payload_size :: u32

record Capabilities =
  wca_selected_protocol_version :: u16
  wca_server_name :: string
  wca_server_version :: string
  wca_capability_bits :: u64
  wca_max_frame_size :: u32
  wca_max_payload_size :: u32

record Authenticate =
  wau_scheme :: AuthenticationScheme
  wau_credentials :: "u8 list"

record Authenticated =
  wad_principal_id :: u64
  wad_assigned_entity_id :: "u64 option"

record JoinSession =
  wjs_resume_token :: "u8 list"

record LeaveSession =
  wls_reason :: string

record UnsubscribeSpace =
  wus_subscription_id :: u64

record SubscriptionAccepted =
  wsa_subscription_id :: u64
  wsa_accepted_space_epoch :: u64

record SubscriptionRejected =
  wsr_code :: SubscriptionRejectionCode
  wsr_reason :: string

record EntityEntered =
  wee_owner_entity_id :: "u64 option"

record EntityLeft =
  wel_reason :: EntityLeaveReason

record SnapshotRequest =
  wsq_after_server_tick :: "u64 option"

record SpaceTransition =
  wst_from_space_id :: u64
  wst_to_space_id :: u64
  wst_to_space_epoch :: u64

record Ping =
  wpi_nonce :: u64
  wpi_sender_time_micros :: u64

record Pong =
  wpo_nonce :: u64
  wpo_sender_time_micros :: u64
  wpo_responder_time_micros :: u64

record ProtocolError =
  wpe_code :: ProtocolErrorCode
  wpe_related_message_kind :: MessageKind
  wpe_message :: string

record InferenceRequested =
  wir_capability :: string
  wir_deadline_ms :: u64
  wir_input :: "u8 list"

record InferenceAccepted =
  wia_queued_position :: u32

record InferenceProgress =
  wip_percent :: u8

record InferenceStreamChunk =
  wic_sequence :: u32
  wic_chunk :: "u8 list"
  wic_is_final :: bool

record InferenceCompleted =
  wid_result :: "u8 list"

record InferenceFailed =
  wif_reason :: string

record InferenceCancelled =
  wix_reason :: string

record InferenceExpired =
  wie_reason :: string

record ToolCallProposed =
  wtp_tool_id :: string
  wtp_tool_version :: u32
  wtp_arguments :: "u8 list"
  wtp_expected_revision :: u64

record ToolCallAccepted =
  wta_tool_id :: string

record ToolCallRejected =
  wtr_code :: ToolCallRejectionCode
  wtr_reason :: string

record ToolCallCompleted =
  wtc_new_revision :: u64
  wtc_result :: "u8 list"

datatype ControlPayload =
    CtlClientLog ClientLog
  | CtlRequestAdmission RequestAdmission
  | CtlAdmissionResult AdmissionResult
  | CtlQueueStatusRequest QueueStatusRequest
  | CtlQueueHeartbeat QueueHeartbeat
  | CtlQueueClaim QueueClaim
  | CtlQueueCancel QueueCancel
  | CtlQueueUpdate QueueUpdate
  | CtlHello Hello
  | CtlCapabilities Capabilities
  | CtlAuthenticate Authenticate
  | CtlAuthenticated Authenticated
  | CtlJoinSession JoinSession
  | CtlLeaveSession LeaveSession
  | CtlSubscribeSpace
  | CtlUnsubscribeSpace UnsubscribeSpace
  | CtlSubscriptionAccepted SubscriptionAccepted
  | CtlSubscriptionRejected SubscriptionRejected
  | CtlEntityEntered EntityEntered
  | CtlEntityLeft EntityLeft
  | CtlSnapshotRequest SnapshotRequest
  | CtlSpaceTransition SpaceTransition
  | CtlPing Ping
  | CtlPong Pong
  | CtlProtocolError ProtocolError
  | CtlInferenceRequested InferenceRequested
  | CtlInferenceAccepted InferenceAccepted
  | CtlInferenceProgress InferenceProgress
  | CtlInferenceStreamChunk InferenceStreamChunk
  | CtlInferenceCompleted InferenceCompleted
  | CtlInferenceFailed InferenceFailed
  | CtlInferenceCancelled InferenceCancelled
  | CtlInferenceExpired InferenceExpired
  | CtlToolCallProposed ToolCallProposed
  | CtlToolCallAccepted ToolCallAccepted
  | CtlToolCallRejected ToolCallRejected
  | CtlToolCallCompleted ToolCallCompleted

fun control_kind :: "ControlPayload \<Rightarrow> MessageKind" where
  "control_kind (CtlClientLog _) = MkClientLog"
| "control_kind (CtlRequestAdmission _) = MkRequestAdmission"
| "control_kind (CtlAdmissionResult _) = MkAdmissionResult"
| "control_kind (CtlQueueStatusRequest _) = MkQueueStatusRequest"
| "control_kind (CtlQueueHeartbeat _) = MkQueueHeartbeat"
| "control_kind (CtlQueueClaim _) = MkQueueClaim"
| "control_kind (CtlQueueCancel _) = MkQueueCancel"
| "control_kind (CtlQueueUpdate _) = MkQueueUpdate"
| "control_kind (CtlHello _) = MkHello"
| "control_kind (CtlCapabilities _) = MkCapabilities"
| "control_kind (CtlAuthenticate _) = MkAuthenticate"
| "control_kind (CtlAuthenticated _) = MkAuthenticated"
| "control_kind (CtlJoinSession _) = MkJoinSession"
| "control_kind (CtlLeaveSession _) = MkLeaveSession"
| "control_kind CtlSubscribeSpace = MkSubscribeSpace"
| "control_kind (CtlUnsubscribeSpace _) = MkUnsubscribeSpace"
| "control_kind (CtlSubscriptionAccepted _) = MkSubscriptionAccepted"
| "control_kind (CtlSubscriptionRejected _) = MkSubscriptionRejected"
| "control_kind (CtlEntityEntered _) = MkEntityEntered"
| "control_kind (CtlEntityLeft _) = MkEntityLeft"
| "control_kind (CtlSnapshotRequest _) = MkSnapshotRequest"
| "control_kind (CtlSpaceTransition _) = MkSpaceTransition"
| "control_kind (CtlPing _) = MkPing"
| "control_kind (CtlPong _) = MkPong"
| "control_kind (CtlProtocolError _) = MkProtocolError"
| "control_kind (CtlInferenceRequested _) = MkInferenceRequested"
| "control_kind (CtlInferenceAccepted _) = MkInferenceAccepted"
| "control_kind (CtlInferenceProgress _) = MkInferenceProgress"
| "control_kind (CtlInferenceStreamChunk _) = MkInferenceStreamChunk"
| "control_kind (CtlInferenceCompleted _) = MkInferenceCompleted"
| "control_kind (CtlInferenceFailed _) = MkInferenceFailed"
| "control_kind (CtlInferenceCancelled _) = MkInferenceCancelled"
| "control_kind (CtlInferenceExpired _) = MkInferenceExpired"
| "control_kind (CtlToolCallProposed _) = MkToolCallProposed"
| "control_kind (CtlToolCallAccepted _) = MkToolCallAccepted"
| "control_kind (CtlToolCallRejected _) = MkToolCallRejected"
| "control_kind (CtlToolCallCompleted _) = MkToolCallCompleted"

fun variable_len :: "ControlPayload \<Rightarrow> usize" where
  "variable_len (CtlClientLog v) = length (wcl_message v)"
| "variable_len (CtlRequestAdmission v) = length (wra_idempotency_key v)"
| "variable_len (CtlAdmissionResult _) = 0"
| "variable_len (CtlQueueStatusRequest _) = 0"
| "variable_len (CtlQueueHeartbeat _) = 0"
| "variable_len (CtlQueueClaim _) = 0"
| "variable_len (CtlQueueCancel _) = 0"
| "variable_len (CtlQueueUpdate _) = 0"
| "variable_len (CtlHello v) = usize_sat_add (length (whe_client_name v)) (length (whe_client_version v))"
| "variable_len (CtlCapabilities v) = usize_sat_add (length (wca_server_name v)) (length (wca_server_version v))"
| "variable_len (CtlAuthenticate v) = length (wau_credentials v)"
| "variable_len (CtlAuthenticated _) = 0"
| "variable_len (CtlJoinSession v) = length (wjs_resume_token v)"
| "variable_len (CtlLeaveSession v) = length (wls_reason v)"
| "variable_len CtlSubscribeSpace = 0"
| "variable_len (CtlUnsubscribeSpace _) = 0"
| "variable_len (CtlSubscriptionAccepted _) = 0"
| "variable_len (CtlSubscriptionRejected v) = length (wsr_reason v)"
| "variable_len (CtlEntityEntered _) = 0"
| "variable_len (CtlEntityLeft _) = 0"
| "variable_len (CtlSnapshotRequest _) = 0"
| "variable_len (CtlSpaceTransition _) = 0"
| "variable_len (CtlPing _) = 0"
| "variable_len (CtlPong _) = 0"
| "variable_len (CtlProtocolError v) = length (wpe_message v)"
| "variable_len (CtlInferenceRequested v) = usize_sat_add (length (wir_capability v)) (length (wir_input v))"
| "variable_len (CtlInferenceAccepted _) = 0"
| "variable_len (CtlInferenceProgress _) = 0"
| "variable_len (CtlInferenceStreamChunk v) = length (wic_chunk v)"
| "variable_len (CtlInferenceCompleted v) = length (wid_result v)"
| "variable_len (CtlInferenceFailed v) = length (wif_reason v)"
| "variable_len (CtlInferenceCancelled v) = length (wix_reason v)"
| "variable_len (CtlInferenceExpired v) = length (wie_reason v)"
| "variable_len (CtlToolCallProposed v) = usize_sat_add (length (wtp_tool_id v)) (length (wtp_arguments v))"
| "variable_len (CtlToolCallAccepted v) = length (wta_tool_id v)"
| "variable_len (CtlToolCallRejected v) = length (wtr_reason v)"
| "variable_len (CtlToolCallCompleted v) = length (wtc_result v)"

section \<open>Envelopes\<close>

record OpaquePayload =
  op_type_id :: u64
  op_bytes :: "u8 list"

datatype MessagePayload =
    MsgControl ControlPayload
  | MsgEntityState OpaquePayload
  | MsgReliableEvent OpaquePayload
  | MsgSnapshot OpaquePayload

fun payload_kind :: "MessagePayload \<Rightarrow> MessageKind" where
  "payload_kind (MsgControl control) = control_kind control"
| "payload_kind (MsgEntityState _) = MkEntityState"
| "payload_kind (MsgReliableEvent _) = MkReliableEvent"
| "payload_kind (MsgSnapshot _) = MkSnapshot"

fun opaque :: "MessagePayload \<Rightarrow> OpaquePayload option" where
  "opaque (MsgControl _) = None"
| "opaque (MsgEntityState payload) = Some payload"
| "opaque (MsgReliableEvent payload) = Some payload"
| "opaque (MsgSnapshot payload) = Some payload"

record RoutingPosition3D =
  rp_x :: f64
  rp_y :: f64
  rp_z :: f64

definition routing_is_finite :: "RoutingPosition3D \<Rightarrow> bool" where
  "routing_is_finite p \<longleftrightarrow> f64_is_finite (rp_x p) \<and> f64_is_finite (rp_y p) \<and> f64_is_finite (rp_z p)"

definition PROTOCOL_VERSION :: u16 where "PROTOCOL_VERSION = 1"

definition MAX_LOG_MESSAGE_BYTES :: usize where "MAX_LOG_MESSAGE_BYTES = 1024"

record Envelope =
  ev_protocol_version :: u16
  ev_delivery_class :: WireDeliveryClass
  ev_namespace_id :: u64
  ev_session_id :: u64
  ev_space_id :: u64
  ev_channel_id :: "u64 option"
  ev_entity_id :: "u64 option"
  ev_space_epoch :: u64
  ev_server_tick :: u64
  ev_sender_sequence :: u64
  ev_correlation_id :: "u64 option"
  ev_routing_position :: "RoutingPosition3D option"
  ev_message :: MessagePayload

definition envelope_new :: "WireDeliveryClass \<Rightarrow> MessagePayload \<Rightarrow> Envelope" where
  "envelope_new delivery_class message =
     \<lparr>ev_protocol_version = PROTOCOL_VERSION, ev_delivery_class = delivery_class, ev_namespace_id = 0,
      ev_session_id = 0, ev_space_id = 0, ev_channel_id = None, ev_entity_id = None, ev_space_epoch = 0,
      ev_server_tick = 0, ev_sender_sequence = 0, ev_correlation_id = None, ev_routing_position = None,
      ev_message = message\<rparr>"

definition envelope_control :: "WireDeliveryClass \<Rightarrow> ControlPayload \<Rightarrow> Envelope" where
  "envelope_control delivery_class payload = envelope_new delivery_class (MsgControl payload)"

definition envelope_entity_state :: "WireDeliveryClass \<Rightarrow> OpaquePayload \<Rightarrow> Envelope" where
  "envelope_entity_state delivery_class payload = envelope_new delivery_class (MsgEntityState payload)"

definition envelope_reliable_event :: "WireDeliveryClass \<Rightarrow> OpaquePayload \<Rightarrow> Envelope" where
  "envelope_reliable_event delivery_class payload = envelope_new delivery_class (MsgReliableEvent payload)"

definition envelope_snapshot :: "WireDeliveryClass \<Rightarrow> OpaquePayload \<Rightarrow> Envelope" where
  "envelope_snapshot delivery_class payload = envelope_new delivery_class (MsgSnapshot payload)"

definition message_kind :: "Envelope \<Rightarrow> MessageKind" where
  "message_kind e = payload_kind (ev_message e)"

definition payload_type_id :: "Envelope \<Rightarrow> u64 option" where
  "payload_type_id e = map_option op_type_id (opaque (ev_message e))"

definition payload_bytes :: "Envelope \<Rightarrow> u8 list" where
  "payload_bytes e = (case opaque (ev_message e) of None \<Rightarrow> [] | Some payload \<Rightarrow> op_bytes payload)"

section \<open>Every enum reads back what it writes\<close>

interpretation message_kind: numeric_enum message_kind_value message_kind_variants
  by unfold_locales (case_tac x; simp add: enum_from_wire_def message_kind_variants_def)

lemma message_kind_from_wire_iff [simp]: "message_kind_from_wire v = Some x \<longleftrightarrow> message_kind_value x = v"
  by (simp add: message_kind_from_wire_def message_kind.from_wire_iff)

lemma message_kind_from_wire_value [simp]: "message_kind_from_wire (message_kind_value x) = Some x"
  by simp

interpretation wire_delivery_class: numeric_enum wire_delivery_class_value wire_delivery_class_variants
  by unfold_locales (case_tac x; simp add: enum_from_wire_def wire_delivery_class_variants_def)

lemma wire_delivery_class_from_wire_iff [simp]: "wire_delivery_class_from_wire v = Some x \<longleftrightarrow> wire_delivery_class_value x = v"
  by (simp add: wire_delivery_class_from_wire_def wire_delivery_class.from_wire_iff)

lemma wire_delivery_class_from_wire_value [simp]: "wire_delivery_class_from_wire (wire_delivery_class_value x) = Some x"
  by simp

interpretation log_level: numeric_enum log_level_value log_level_variants
  by unfold_locales (case_tac x; simp add: enum_from_wire_def log_level_variants_def)

lemma log_level_from_wire_iff [simp]: "log_level_from_wire v = Some x \<longleftrightarrow> log_level_value x = v"
  by (simp add: log_level_from_wire_def log_level.from_wire_iff)

lemma log_level_from_wire_value [simp]: "log_level_from_wire (log_level_value x) = Some x"
  by simp

interpretation authentication_scheme: numeric_enum authentication_scheme_value authentication_scheme_variants
  by unfold_locales (case_tac x; simp add: enum_from_wire_def authentication_scheme_variants_def)

lemma authentication_scheme_from_wire_iff [simp]: "authentication_scheme_from_wire v = Some x \<longleftrightarrow> authentication_scheme_value x = v"
  by (simp add: authentication_scheme_from_wire_def authentication_scheme.from_wire_iff)

lemma authentication_scheme_from_wire_value [simp]: "authentication_scheme_from_wire (authentication_scheme_value x) = Some x"
  by simp

interpretation subscription_rejection_code: numeric_enum subscription_rejection_code_value subscription_rejection_code_variants
  by unfold_locales (case_tac x; simp add: enum_from_wire_def subscription_rejection_code_variants_def)

lemma subscription_rejection_code_from_wire_iff [simp]: "subscription_rejection_code_from_wire v = Some x \<longleftrightarrow> subscription_rejection_code_value x = v"
  by (simp add: subscription_rejection_code_from_wire_def subscription_rejection_code.from_wire_iff)

lemma subscription_rejection_code_from_wire_value [simp]: "subscription_rejection_code_from_wire (subscription_rejection_code_value x) = Some x"
  by simp

interpretation entity_leave_reason: numeric_enum entity_leave_reason_value entity_leave_reason_variants
  by unfold_locales (case_tac x; simp add: enum_from_wire_def entity_leave_reason_variants_def)

lemma entity_leave_reason_from_wire_iff [simp]: "entity_leave_reason_from_wire v = Some x \<longleftrightarrow> entity_leave_reason_value x = v"
  by (simp add: entity_leave_reason_from_wire_def entity_leave_reason.from_wire_iff)

lemma entity_leave_reason_from_wire_value [simp]: "entity_leave_reason_from_wire (entity_leave_reason_value x) = Some x"
  by simp

interpretation protocol_error_code: numeric_enum protocol_error_code_value protocol_error_code_variants
  by unfold_locales (case_tac x; simp add: enum_from_wire_def protocol_error_code_variants_def)

lemma protocol_error_code_from_wire_iff [simp]: "protocol_error_code_from_wire v = Some x \<longleftrightarrow> protocol_error_code_value x = v"
  by (simp add: protocol_error_code_from_wire_def protocol_error_code.from_wire_iff)

lemma protocol_error_code_from_wire_value [simp]: "protocol_error_code_from_wire (protocol_error_code_value x) = Some x"
  by simp

interpretation tool_call_rejection_code: numeric_enum tool_call_rejection_code_value tool_call_rejection_code_variants
  by unfold_locales (case_tac x; simp add: enum_from_wire_def tool_call_rejection_code_variants_def)

lemma tool_call_rejection_code_from_wire_iff [simp]: "tool_call_rejection_code_from_wire v = Some x \<longleftrightarrow> tool_call_rejection_code_value x = v"
  by (simp add: tool_call_rejection_code_from_wire_def tool_call_rejection_code.from_wire_iff)

lemma tool_call_rejection_code_from_wire_value [simp]: "tool_call_rejection_code_from_wire (tool_call_rejection_code_value x) = Some x"
  by simp

interpretation admission_status: numeric_enum admission_status_value admission_status_variants
  by unfold_locales (case_tac x; simp add: enum_from_wire_def admission_status_variants_def)

lemma admission_status_from_wire_iff [simp]: "admission_status_from_wire v = Some x \<longleftrightarrow> admission_status_value x = v"
  by (simp add: admission_status_from_wire_def admission_status.from_wire_iff)

lemma admission_status_from_wire_value [simp]: "admission_status_from_wire (admission_status_value x) = Some x"
  by simp

interpretation admission_rejection_code: numeric_enum admission_rejection_code_value admission_rejection_code_variants
  by unfold_locales (case_tac x; simp add: enum_from_wire_def admission_rejection_code_variants_def)

lemma admission_rejection_code_from_wire_iff [simp]: "admission_rejection_code_from_wire v = Some x \<longleftrightarrow> admission_rejection_code_value x = v"
  by (simp add: admission_rejection_code_from_wire_def admission_rejection_code.from_wire_iff)

lemma admission_rejection_code_from_wire_value [simp]: "admission_rejection_code_from_wire (admission_rejection_code_value x) = Some x"
  by simp

interpretation queue_state: numeric_enum queue_state_value queue_state_variants
  by unfold_locales (case_tac x; simp add: enum_from_wire_def queue_state_variants_def)

lemma queue_state_from_wire_iff [simp]: "queue_state_from_wire v = Some x \<longleftrightarrow> queue_state_value x = v"
  by (simp add: queue_state_from_wire_def queue_state.from_wire_iff)

lemma queue_state_from_wire_value [simp]: "queue_state_from_wire (queue_state_value x) = Some x"
  by simp

lemma payload_eta [simp]:
  "\<lparr>wcl_level = wcl_level v0, wcl_message = wcl_message v0\<rparr> = v0"
  "\<lparr>wra_idempotency_key = wra_idempotency_key v1\<rparr> = v1"
  "\<lparr>war_status = war_status v2,
     war_rejection_code = war_rejection_code v2,
     war_ticket_id = war_ticket_id v2,
     war_poll_after_ms = war_poll_after_ms v2,
     war_ticket_remaining_ms = war_ticket_remaining_ms v2\<rparr> = v2"
  "\<lparr>wqr_ticket_id = wqr_ticket_id v3\<rparr> = v3"
  "\<lparr>wqh_ticket_id = wqh_ticket_id v4\<rparr> = v4"
  "\<lparr>wqc_ticket_id = wqc_ticket_id v5\<rparr> = v5"
  "\<lparr>wqx_ticket_id = wqx_ticket_id v6\<rparr> = v6"
  "\<lparr>wqu_ticket_id = wqu_ticket_id v7,
     wqu_state = wqu_state v7,
     wqu_position = wqu_position v7,
     wqu_poll_after_ms = wqu_poll_after_ms v7,
     wqu_ticket_remaining_ms = wqu_ticket_remaining_ms v7,
     wqu_offer_remaining_ms = wqu_offer_remaining_ms v7\<rparr> = v7"
  "\<lparr>whe_min_protocol_version = whe_min_protocol_version v8,
     whe_max_protocol_version = whe_max_protocol_version v8,
     whe_client_name = whe_client_name v8,
     whe_client_version = whe_client_version v8,
     whe_capability_bits = whe_capability_bits v8,
     whe_max_frame_size = whe_max_frame_size v8,
     whe_max_payload_size = whe_max_payload_size v8\<rparr> = v8"
  "\<lparr>wca_selected_protocol_version = wca_selected_protocol_version v9,
     wca_server_name = wca_server_name v9,
     wca_server_version = wca_server_version v9,
     wca_capability_bits = wca_capability_bits v9,
     wca_max_frame_size = wca_max_frame_size v9,
     wca_max_payload_size = wca_max_payload_size v9\<rparr> = v9"
  "\<lparr>wau_scheme = wau_scheme v10, wau_credentials = wau_credentials v10\<rparr> = v10"
  "\<lparr>wad_principal_id = wad_principal_id v11, wad_assigned_entity_id = wad_assigned_entity_id v11\<rparr> = v11"
  "\<lparr>wjs_resume_token = wjs_resume_token v12\<rparr> = v12"
  "\<lparr>wls_reason = wls_reason v13\<rparr> = v13"
  "\<lparr>wus_subscription_id = wus_subscription_id v15\<rparr> = v15"
  "\<lparr>wsa_subscription_id = wsa_subscription_id v16, wsa_accepted_space_epoch = wsa_accepted_space_epoch v16\<rparr> = v16"
  "\<lparr>wsr_code = wsr_code v17, wsr_reason = wsr_reason v17\<rparr> = v17"
  "\<lparr>wee_owner_entity_id = wee_owner_entity_id v18\<rparr> = v18"
  "\<lparr>wel_reason = wel_reason v19\<rparr> = v19"
  "\<lparr>wsq_after_server_tick = wsq_after_server_tick v20\<rparr> = v20"
  "\<lparr>wst_from_space_id = wst_from_space_id v21, wst_to_space_id = wst_to_space_id v21, wst_to_space_epoch = wst_to_space_epoch v21\<rparr> = v21"
  "\<lparr>wpi_nonce = wpi_nonce v22, wpi_sender_time_micros = wpi_sender_time_micros v22\<rparr> = v22"
  "\<lparr>wpo_nonce = wpo_nonce v23, wpo_sender_time_micros = wpo_sender_time_micros v23, wpo_responder_time_micros = wpo_responder_time_micros v23\<rparr> = v23"
  "\<lparr>wpe_code = wpe_code v24, wpe_related_message_kind = wpe_related_message_kind v24, wpe_message = wpe_message v24\<rparr> = v24"
  "\<lparr>wir_capability = wir_capability v25, wir_deadline_ms = wir_deadline_ms v25, wir_input = wir_input v25\<rparr> = v25"
  "\<lparr>wia_queued_position = wia_queued_position v26\<rparr> = v26"
  "\<lparr>wip_percent = wip_percent v27\<rparr> = v27"
  "\<lparr>wic_sequence = wic_sequence v28, wic_chunk = wic_chunk v28, wic_is_final = wic_is_final v28\<rparr> = v28"
  "\<lparr>wid_result = wid_result v29\<rparr> = v29"
  "\<lparr>wif_reason = wif_reason v30\<rparr> = v30"
  "\<lparr>wix_reason = wix_reason v31\<rparr> = v31"
  "\<lparr>wie_reason = wie_reason v32\<rparr> = v32"
  "\<lparr>wtp_tool_id = wtp_tool_id v33, wtp_tool_version = wtp_tool_version v33, wtp_arguments = wtp_arguments v33, wtp_expected_revision = wtp_expected_revision v33\<rparr> = v33"
  "\<lparr>wta_tool_id = wta_tool_id v34\<rparr> = v34"
  "\<lparr>wtr_code = wtr_code v35, wtr_reason = wtr_reason v35\<rparr> = v35"
  "\<lparr>wtc_new_revision = wtc_new_revision v36, wtc_result = wtc_result v36\<rparr> = v36"
  by simp_all

end
