(* ===== verification/Protocol_Semantics.thy ===== *)
theory Protocol_Semantics
  imports Protocol_Model
begin

text \<open>
  The semantic checks every envelope passes on its way in and out
  (\<open>woven-protocol/src/semantics.rs\<close>), and the errors of the codec (\<open>codec.rs\<close>). Each check is the
  function of the same name; \<open>Inl\<close> is the error the source returns, with its message.
\<close>

section \<open>Errors and limits\<close>

datatype CodecError =
    CeInvalidLimits usize usize
  | CeFrameTooLarge usize usize
  | CePayloadTooLarge usize usize
  | CeTruncatedFrame usize usize
  | CeTrailingBytes usize usize
  | CeInvalidSizePrefix u32
  | CeInvalidFileIdentifier
  | CeInvalidFlatbuffer string
  | CeUnsupportedProtocolVersion u16
  | CeUnknownMessageKind u8
  | CeUnknownDeliveryClass u8
  | CeUnsupportedEnumValue string u64
  | CeMessageControlMismatch u8 u8
  | CeMissingPayloadType MessageKind
  | CeUnexpectedDomainPayload MessageKind
  | CeInvalidSemantics MessageKind string

record CodecLimits =
  max_frame_len :: usize
  max_payload_len :: usize

record Codec =
  codec_limits :: CodecLimits

section \<open>Requirements\<close>

definition invalid :: "Envelope \<Rightarrow> string \<Rightarrow> CodecError + 'a" where
  "invalid envelope reason = Inl (CeInvalidSemantics (message_kind envelope) reason)"

definition require :: "u64 \<Rightarrow> Envelope \<Rightarrow> string \<Rightarrow> CodecError + unit" where
  "require value envelope reason = (if value = 0 then invalid envelope reason else Inr ())"

definition reject_zero_option :: "u64 option \<Rightarrow> Envelope \<Rightarrow> string \<Rightarrow> CodecError + unit" where
  "reject_zero_option value envelope reason = (if value = Some 0 then invalid envelope reason else Inr ())"

definition unwrap_or_zero :: "u64 option \<Rightarrow> u64" where
  "unwrap_or_zero x = (case x of None \<Rightarrow> 0 | Some v \<Rightarrow> v)"

definition reject_zero_optional_ids :: "Envelope \<Rightarrow> CodecError + unit" where
  "reject_zero_optional_ids e =
     and_then (reject_zero_option (ev_channel_id e) e ''channel_id cannot be Some(0)'') (\<lambda>_.
     and_then (reject_zero_option (ev_entity_id e) e ''entity_id cannot be Some(0)'') (\<lambda>_.
       reject_zero_option (ev_correlation_id e) e ''correlation_id cannot be Some(0)''))"

definition require_unscoped :: "Envelope \<Rightarrow> CodecError + unit" where
  "require_unscoped e =
     (if ev_namespace_id e \<noteq> 0 \<or> ev_session_id e \<noteq> 0 \<or> ev_space_id e \<noteq> 0 \<or> ev_channel_id e \<noteq> None
         \<or> ev_entity_id e \<noteq> None \<or> ev_space_epoch e \<noteq> 0
      then invalid e ''connection-level message must not carry namespace, session, space, channel, entity, or epoch scope''
      else Inr ())"

definition require_session_scope :: "Envelope \<Rightarrow> CodecError + unit" where
  "require_session_scope e =
     and_then (require (ev_namespace_id e) e ''namespace_id must be non-zero'') (\<lambda>_.
     and_then (require (ev_session_id e) e ''session_id must be non-zero'') (\<lambda>_.
       if ev_space_id e \<noteq> 0 \<or> ev_channel_id e \<noteq> None \<or> ev_entity_id e \<noteq> None \<or> ev_space_epoch e \<noteq> 0
       then invalid e ''session-level message must not carry space, channel, entity, or epoch scope''
       else Inr ()))"

definition require_space_scope :: "Envelope \<Rightarrow> bool \<Rightarrow> bool \<Rightarrow> CodecError + unit" where
  "require_space_scope e require_channel require_entity =
     and_then (require (ev_namespace_id e) e ''namespace_id must be non-zero'') (\<lambda>_.
     and_then (require (ev_session_id e) e ''session_id must be non-zero'') (\<lambda>_.
     and_then (require (ev_space_id e) e ''space_id must be non-zero'') (\<lambda>_.
     and_then (require (ev_space_epoch e) e ''space_epoch must be non-zero'') (\<lambda>_.
     and_then
       (if require_channel then require (unwrap_or_zero (ev_channel_id e)) e ''channel_id must be non-zero''
        else if ev_channel_id e \<noteq> None then invalid e ''message kind must not carry channel_id''
        else Inr ()) (\<lambda>_.
       if require_entity then require (unwrap_or_zero (ev_entity_id e)) e ''entity_id must be non-zero''
       else Inr ())))))"

definition validate_optional_scope :: "Envelope \<Rightarrow> CodecError + unit" where
  "validate_optional_scope e =
     (let has_space_detail =
            ev_space_id e \<noteq> 0 \<or> ev_channel_id e \<noteq> None \<or> ev_entity_id e \<noteq> None \<or> ev_space_epoch e \<noteq> 0
      in if ev_namespace_id e = 0 \<and> (ev_session_id e \<noteq> 0 \<or> has_space_detail)
         then invalid e ''scoped protocol error requires namespace_id''
         else if ev_session_id e = 0 \<and> has_space_detail
         then invalid e ''space-scoped protocol error requires session_id''
         else if ev_space_id e = 0
                 \<and> (ev_channel_id e \<noteq> None \<or> ev_entity_id e \<noteq> None \<or> ev_space_epoch e \<noteq> 0)
         then invalid e ''space-scoped protocol error requires space_id''
         else Inr ())"

definition validate_delivery :: "Envelope \<Rightarrow> CodecError + unit" where
  "validate_delivery e =
     (let class = ev_delivery_class e;
          valid =
            (case message_kind e of
               MkEntityState \<Rightarrow> class = DcLatestValue \<or> class = DcUnreliableSequenced
             | MkReliableEvent \<Rightarrow> class = DcReliableOrdered \<or> class = DcReliableUnordered
             | MkPing \<Rightarrow> class = DcReliableUnordered
             | MkPong \<Rightarrow> class = DcReliableUnordered
             | MkInferenceProgress \<Rightarrow> class = DcBestEffortEvent
             | MkInferenceStreamChunk \<Rightarrow> class = DcBestEffortEvent
             | MkUnknown \<Rightarrow> False
             | _ \<Rightarrow> class = DcReliableOrdered)
      in if valid then Inr () else invalid e ''delivery class is incompatible with the message kind'')"

section \<open>Control messages\<close>

definition validate_advertised_limits :: "Envelope \<Rightarrow> u32 \<Rightarrow> u32 \<Rightarrow> string \<Rightarrow> CodecError + unit" where
  "validate_advertised_limits e max_frame_size max_payload_size message =
     (if max_frame_size = 0 \<or> max_payload_size = 0
      then invalid e (if message = ''Hello'' then ''Hello advertised limits must be non-zero''
                      else ''Capabilities advertised limits must be non-zero'')
      else if max_frame_size < max_payload_size
      then invalid e (if message = ''Hello'' then ''Hello max_payload_size cannot exceed max_frame_size''
                      else ''Capabilities max_payload_size cannot exceed max_frame_size'')
      else Inr ())"

definition validate_hello :: "Envelope \<Rightarrow> Hello \<Rightarrow> CodecError + unit" where
  "validate_hello e v =
     (if whe_min_protocol_version v = 0 \<or> whe_max_protocol_version v < whe_min_protocol_version v
         \<or> \<not> (whe_min_protocol_version v \<le> PROTOCOL_VERSION \<and> PROTOCOL_VERSION \<le> whe_max_protocol_version v)
      then invalid e ''Hello version range must be non-zero, ordered, and include protocol v1''
      else validate_advertised_limits e (whe_max_frame_size v) (whe_max_payload_size v) ''Hello'')"

definition validate_capabilities :: "Envelope \<Rightarrow> Capabilities \<Rightarrow> CodecError + unit" where
  "validate_capabilities e v =
     (if wca_selected_protocol_version v \<noteq> PROTOCOL_VERSION
      then invalid e ''Capabilities selected_protocol_version must be protocol v1''
      else validate_advertised_limits e (wca_max_frame_size v) (wca_max_payload_size v) ''Capabilities'')"

definition validate_authenticate :: "Envelope \<Rightarrow> Authenticate \<Rightarrow> CodecError + unit" where
  "validate_authenticate e v =
     (if wau_scheme v = AsUnknown then invalid e ''authentication scheme cannot be Unknown''
      else if wau_credentials v = [] then invalid e ''authentication credentials cannot be empty''
      else Inr ())"

definition validate_snapshot_request :: "Envelope \<Rightarrow> SnapshotRequest \<Rightarrow> CodecError + unit" where
  "validate_snapshot_request e v =
     reject_zero_option (wsq_after_server_tick v) e ''after_server_tick cannot be Some(0)''"

definition validate_transition :: "Envelope \<Rightarrow> SpaceTransition \<Rightarrow> CodecError + unit" where
  "validate_transition e v =
     and_then (require_space_scope e False True) (\<lambda>_.
     and_then (require (wst_from_space_id v) e ''transition from_space_id must be non-zero'') (\<lambda>_.
     and_then (require (wst_to_space_id v) e ''transition to_space_id must be non-zero'') (\<lambda>_.
     and_then (require (wst_to_space_epoch v) e ''transition to_space_epoch must be non-zero'') (\<lambda>_.
       if wst_from_space_id v \<noteq> ev_space_id e
       then invalid e ''transition from_space_id must match envelope space_id''
       else if wst_from_space_id v = wst_to_space_id v then invalid e ''transition spaces must differ''
       else Inr ()))))"

definition validate_protocol_error :: "Envelope \<Rightarrow> ProtocolError \<Rightarrow> CodecError + unit" where
  "validate_protocol_error e v =
     (if wpe_code v = PeUnknown then invalid e ''protocol error code cannot be Unknown''
      else if wpe_related_message_kind v = MkUnknown then invalid e ''related message kind cannot be Unknown''
      else validate_optional_scope e)"

definition validate_inference_requested :: "Envelope \<Rightarrow> InferenceRequested \<Rightarrow> CodecError + unit" where
  "validate_inference_requested e v =
     (if wir_capability v = [] then invalid e ''inference capability cannot be empty'' else Inr ())"

definition validate_tool_call_proposed :: "Envelope \<Rightarrow> ToolCallProposed \<Rightarrow> CodecError + unit" where
  "validate_tool_call_proposed e v =
     (if wtp_tool_id v = [] then invalid e ''tool_id cannot be empty''
      else if wtp_tool_version v = 0 then invalid e ''tool_version must be non-zero''
      else Inr ())"

definition validate_inference_control :: "Envelope \<Rightarrow> ControlPayload \<Rightarrow> CodecError + unit" where
  "validate_inference_control e control =
     and_then (require_space_scope e False True) (\<lambda>_.
       case control of
         CtlInferenceRequested v \<Rightarrow> validate_inference_requested e v
       | CtlInferenceProgress v \<Rightarrow>
           (if 100 < wip_percent v then invalid e ''inference progress percent cannot exceed 100'' else Inr ())
       | CtlInferenceFailed v \<Rightarrow>
           (if wif_reason v = [] then invalid e ''inference failure reason cannot be empty'' else Inr ())
       | CtlToolCallProposed v \<Rightarrow> validate_tool_call_proposed e v
       | CtlToolCallAccepted v \<Rightarrow>
           (if wta_tool_id v = [] then invalid e ''tool_id cannot be empty'' else Inr ())
       | CtlToolCallRejected v \<Rightarrow>
           (if wtr_code v = TrUnknown then invalid e ''tool call rejection code cannot be Unknown'' else Inr ())
       | _ \<Rightarrow> Inr ())"

text \<open>The last arm of the source is \<open>unreachable!\<close>: \<open>validate_control\<close> calls \<open>validate_managed\<close> on the seven
  managed payloads only.\<close>

definition managed_fields_ok :: "ControlPayload \<Rightarrow> bool" where
  "managed_fields_ok control =
     (case control of
        CtlRequestAdmission v \<Rightarrow> wra_idempotency_key v \<noteq> [] \<and> length (wra_idempotency_key v) \<le> 256
      | CtlQueueStatusRequest v \<Rightarrow> wqr_ticket_id v \<noteq> 0
      | CtlQueueHeartbeat v \<Rightarrow> wqh_ticket_id v \<noteq> 0
      | CtlQueueClaim v \<Rightarrow> wqc_ticket_id v \<noteq> 0
      | CtlQueueCancel v \<Rightarrow> wqx_ticket_id v \<noteq> 0
      | CtlAdmissionResult v \<Rightarrow>
          (let queued = war_status v = AdQueued
           in war_status v \<noteq> AdUnknown
              \<and> (war_status v = AdRejected) = (war_rejection_code v \<noteq> ArNone)
              \<and> queued = (war_ticket_id v \<noteq> None)
              \<and> war_ticket_id v \<noteq> Some 0
              \<and> war_poll_after_ms v \<le> 30000
              \<and> war_ticket_remaining_ms v \<le> 900000
              \<and> (queued \<or> war_ticket_remaining_ms v = 0)
              \<and> (war_status v = AdQueued \<or> war_status v = AdPaused \<or> war_poll_after_ms v = 0))
      | CtlQueueUpdate v \<Rightarrow>
          (let live = (wqu_state v = QsWaiting \<or> wqu_state v = QsOffered)
           in wqu_ticket_id v \<noteq> 0
              \<and> wqu_state v \<noteq> QsUnknown
              \<and> (wqu_state v = QsWaiting) = (wqu_position v \<noteq> 0)
              \<and> wqu_poll_after_ms v \<le> 30000
              \<and> wqu_ticket_remaining_ms v \<le> 900000
              \<and> wqu_offer_remaining_ms v \<le> 30000
              \<and> (wqu_state v = QsOffered \<or> wqu_offer_remaining_ms v = 0)
              \<and> (live \<or> wqu_poll_after_ms v = 0 \<and> wqu_ticket_remaining_ms v = 0))
      | _ \<Rightarrow> False)"

definition validate_managed :: "Envelope \<Rightarrow> ControlPayload \<Rightarrow> CodecError + unit" where
  "validate_managed e control =
     and_then (require_session_scope e) (\<lambda>_.
     and_then (require (unwrap_or_zero (ev_correlation_id e)) e ''managed controls require correlation_id'') (\<lambda>_.
       if managed_fields_ok control then Inr () else invalid e ''invalid managed admission fields''))"

fun validate_control :: "Envelope \<Rightarrow> ControlPayload \<Rightarrow> CodecError + unit" where
  "validate_control e (CtlRequestAdmission v) = validate_managed e (CtlRequestAdmission v)"
| "validate_control e (CtlAdmissionResult v) = validate_managed e (CtlAdmissionResult v)"
| "validate_control e (CtlQueueStatusRequest v) = validate_managed e (CtlQueueStatusRequest v)"
| "validate_control e (CtlQueueHeartbeat v) = validate_managed e (CtlQueueHeartbeat v)"
| "validate_control e (CtlQueueClaim v) = validate_managed e (CtlQueueClaim v)"
| "validate_control e (CtlQueueCancel v) = validate_managed e (CtlQueueCancel v)"
| "validate_control e (CtlQueueUpdate v) = validate_managed e (CtlQueueUpdate v)"
| "validate_control e (CtlHello v) = and_then (require_unscoped e) (\<lambda>_. validate_hello e v)"
| "validate_control e (CtlCapabilities v) = and_then (require_unscoped e) (\<lambda>_. validate_capabilities e v)"
| "validate_control e (CtlAuthenticate v) = and_then (require_unscoped e) (\<lambda>_. validate_authenticate e v)"
| "validate_control e (CtlAuthenticated v) =
     and_then (require_unscoped e) (\<lambda>_.
     and_then (require (wad_principal_id v) e ''authenticated principal_id must be non-zero'') (\<lambda>_.
       reject_zero_option (wad_assigned_entity_id v) e ''assigned_entity_id cannot be Some(0)''))"
| "validate_control e (CtlClientLog v) =
     and_then (require_session_scope e) (\<lambda>_.
       if wcl_level v = LogUnknown then invalid e ''client log level cannot be Unknown''
       else if wcl_message v = [] \<or> MAX_LOG_MESSAGE_BYTES < length (wcl_message v)
       then invalid e ''client log message must contain 1 to 1024 UTF-8 bytes''
       else Inr ())"
| "validate_control e (CtlJoinSession _) = require_session_scope e"
| "validate_control e (CtlLeaveSession _) = require_session_scope e"
| "validate_control e CtlSubscribeSpace = require_space_scope e True False"
| "validate_control e (CtlUnsubscribeSpace v) =
     and_then (require_space_scope e True False) (\<lambda>_.
       require (wus_subscription_id v) e ''subscription_id must be non-zero'')"
| "validate_control e (CtlSubscriptionAccepted v) =
     and_then (require_space_scope e True False) (\<lambda>_.
     and_then (require (wsa_subscription_id v) e ''subscription_id must be non-zero'') (\<lambda>_.
     and_then (require (wsa_accepted_space_epoch v) e ''accepted_space_epoch must be non-zero'') (\<lambda>_.
       if wsa_accepted_space_epoch v \<noteq> ev_space_epoch e
       then invalid e ''accepted_space_epoch must match envelope space_epoch''
       else Inr ())))"
| "validate_control e (CtlSubscriptionRejected v) =
     and_then (require_space_scope e True False) (\<lambda>_.
       if wsr_code v = SrUnknown then invalid e ''subscription rejection code cannot be Unknown'' else Inr ())"
| "validate_control e (CtlEntityEntered v) =
     and_then (require_space_scope e False True) (\<lambda>_.
       reject_zero_option (wee_owner_entity_id v) e ''owner_entity_id cannot be Some(0)'')"
| "validate_control e (CtlEntityLeft v) =
     and_then (require_space_scope e False True) (\<lambda>_.
       if wel_reason v = LrUnknown then invalid e ''entity leave reason cannot be Unknown'' else Inr ())"
| "validate_control e (CtlSnapshotRequest v) =
     and_then (require_space_scope e True False) (\<lambda>_. validate_snapshot_request e v)"
| "validate_control e (CtlSpaceTransition v) = validate_transition e v"
| "validate_control e (CtlPing v) =
     and_then (require_unscoped e) (\<lambda>_. require (wpi_nonce v) e ''ping nonce must be non-zero'')"
| "validate_control e (CtlPong v) =
     and_then (require_unscoped e) (\<lambda>_. require (wpo_nonce v) e ''pong nonce must be non-zero'')"
| "validate_control e (CtlProtocolError v) = validate_protocol_error e v"
| "validate_control e control = validate_inference_control e control"

section \<open>Envelopes\<close>

definition reject_routing_position :: "Envelope \<Rightarrow> CodecError + unit" where
  "reject_routing_position e =
     (if ev_routing_position e \<noteq> None then invalid e ''routing position is valid only on EntityState'' else Inr ())"

definition validate_opaque :: "Envelope \<Rightarrow> OpaquePayload \<Rightarrow> CodecError + unit" where
  "validate_opaque e payload =
     and_then (reject_routing_position e) (\<lambda>_.
     and_then (require_space_scope e True False) (\<lambda>_.
       require (op_type_id payload) e ''payload_type_id must be non-zero''))"

definition validate :: "Envelope \<Rightarrow> CodecError + unit" where
  "validate e =
     and_then (reject_zero_optional_ids e) (\<lambda>_.
     and_then (validate_delivery e) (\<lambda>_.
       case ev_message e of
         MsgControl control \<Rightarrow> and_then (reject_routing_position e) (\<lambda>_. validate_control e control)
       | MsgEntityState payload \<Rightarrow>
           and_then (require_space_scope e True True) (\<lambda>_.
           and_then (require (op_type_id payload) e ''payload_type_id must be non-zero'') (\<lambda>_.
             case ev_routing_position e of
               None \<Rightarrow> Inr ()
             | Some position \<Rightarrow>
                 if \<not> routing_is_finite position then invalid e ''routing position coordinates must be finite''
                 else Inr ()))
       | MsgReliableEvent payload \<Rightarrow> validate_opaque e payload
       | MsgSnapshot payload \<Rightarrow> validate_opaque e payload))"

section \<open>What the checks accept\<close>

text \<open>A check accepts exactly when its condition holds.\<close>

named_theorems accepts

lemma invalid_not_ok [simp]: "invalid e reason \<noteq> Inr x"
  by (simp add: invalid_def)

lemma require_ok [accepts]: "require v e reason = Inr u \<longleftrightarrow> v \<noteq> 0"
  by (simp add: require_def)

lemma reject_zero_option_ok [accepts]: "reject_zero_option v e reason = Inr u \<longleftrightarrow> v \<noteq> Some 0"
  by (simp add: reject_zero_option_def)

lemma unwrap_or_zero_eq_0 [accepts]: "unwrap_or_zero x = 0 \<longleftrightarrow> x = None \<or> x = Some 0"
  by (simp add: unwrap_or_zero_def split: option.splits)

lemma reject_zero_optional_ids_ok [accepts]:
  "reject_zero_optional_ids e = Inr u \<longleftrightarrow>
     ev_channel_id e \<noteq> Some 0 \<and> ev_entity_id e \<noteq> Some 0 \<and> ev_correlation_id e \<noteq> Some 0"
  by (simp add: reject_zero_optional_ids_def accepts)

lemma require_unscoped_ok [accepts]:
  "require_unscoped e = Inr u \<longleftrightarrow>
     ev_namespace_id e = 0 \<and> ev_session_id e = 0 \<and> ev_space_id e = 0 \<and> ev_channel_id e = None
     \<and> ev_entity_id e = None \<and> ev_space_epoch e = 0"
  by (simp add: require_unscoped_def)

lemma require_session_scope_ok [accepts]:
  "require_session_scope e = Inr u \<longleftrightarrow>
     ev_namespace_id e \<noteq> 0 \<and> ev_session_id e \<noteq> 0 \<and> ev_space_id e = 0 \<and> ev_channel_id e = None
     \<and> ev_entity_id e = None \<and> ev_space_epoch e = 0"
  by (simp add: require_session_scope_def accepts)

lemma require_space_scope_ok [accepts]:
  "require_space_scope e ch en = Inr u \<longleftrightarrow>
     ev_namespace_id e \<noteq> 0 \<and> ev_session_id e \<noteq> 0 \<and> ev_space_id e \<noteq> 0 \<and> ev_space_epoch e \<noteq> 0
     \<and> (if ch then ev_channel_id e \<noteq> None \<and> ev_channel_id e \<noteq> Some 0 else ev_channel_id e = None)
     \<and> (en \<longrightarrow> ev_entity_id e \<noteq> None \<and> ev_entity_id e \<noteq> Some 0)"
  by (auto simp add: require_space_scope_def accepts)

lemma reject_routing_position_ok [accepts]:
  "reject_routing_position e = Inr u \<longleftrightarrow> ev_routing_position e = None"
  by (simp add: reject_routing_position_def)

end
