(* ===== verification/Protocol_Codec.thy ===== *)
theory Protocol_Codec
  imports Protocol_Semantics
begin

text \<open>
  The codec (\<open>woven-protocol/src/codec.rs\<close>). The FlatBuffers library and the accessors it generates from
  the schema are not part of the repository: \<open>FlatBuffers\<close> is a parameter with the three functions the
  codec calls. What they read and write is the \<open>Envelope\<close> table of the schema, \<open>WireEnvelope\<close>, whose union
  has one constructor per table of \<open>ControlPayload\<close>; an absent string or vector is \<open>None\<close>.
\<close>

section \<open>The tables on the wire\<close>

datatype WireControl =
    ClientLogPayload u8 "string option"
  | RequestAdmissionPayload "string option"
  | AdmissionResultPayload u8 u8 u64 u32 u32
  | QueueStatusRequestPayload u64
  | QueueHeartbeatPayload u64
  | QueueClaimPayload u64
  | QueueCancelPayload u64
  | QueueUpdatePayload u64 u8 u32 u32 u32 u32
  | HelloPayload u16 u16 "string option" "string option" u64 u32 u32
  | CapabilitiesPayload u16 "string option" "string option" u64 u32 u32
  | AuthenticatePayload u8 "u8 list option"
  | AuthenticatedPayload u64 u64
  | JoinSessionPayload "u8 list option"
  | LeaveSessionPayload "string option"
  | SubscribeSpacePayload u64
  | UnsubscribeSpacePayload u64
  | SubscriptionAcceptedPayload u64 u64
  | SubscriptionRejectedPayload u16 "string option"
  | EntityEnteredPayload u64
  | EntityLeftPayload u8
  | SnapshotRequestPayload u64 u64
  | SpaceTransitionPayload u64 u64 u64
  | PingPayload u64 u64
  | PongPayload u64 u64 u64
  | ProtocolErrorPayload u16 u8 "string option"
  | InferenceRequestedPayload "string option" u64 "u8 list option"
  | InferenceAcceptedPayload u32
  | InferenceProgressPayload u8
  | InferenceStreamChunkPayload u32 "u8 list option" bool
  | InferenceCompletedPayload "u8 list option"
  | InferenceFailedPayload "string option"
  | InferenceCancelledPayload "string option"
  | InferenceExpiredPayload "string option"
  | ToolCallProposedPayload "string option" u32 "u8 list option" u64
  | ToolCallAcceptedPayload "string option"
  | ToolCallRejectedPayload u8 "string option"
  | ToolCallCompletedPayload u64 "u8 list option"

fun wire_tag :: "WireControl \<Rightarrow> u8" where
  "wire_tag (ClientLogPayload _ _) = 37"
| "wire_tag (RequestAdmissionPayload _) = 30"
| "wire_tag (AdmissionResultPayload _ _ _ _ _) = 31"
| "wire_tag (QueueStatusRequestPayload _) = 32"
| "wire_tag (QueueHeartbeatPayload _) = 33"
| "wire_tag (QueueClaimPayload _) = 34"
| "wire_tag (QueueCancelPayload _) = 35"
| "wire_tag (QueueUpdatePayload _ _ _ _ _ _) = 36"
| "wire_tag (HelloPayload _ _ _ _ _ _ _) = 1"
| "wire_tag (CapabilitiesPayload _ _ _ _ _ _) = 2"
| "wire_tag (AuthenticatePayload _ _) = 3"
| "wire_tag (AuthenticatedPayload _ _) = 4"
| "wire_tag (JoinSessionPayload _) = 5"
| "wire_tag (LeaveSessionPayload _) = 6"
| "wire_tag (SubscribeSpacePayload _) = 7"
| "wire_tag (UnsubscribeSpacePayload _) = 8"
| "wire_tag (SubscriptionAcceptedPayload _ _) = 9"
| "wire_tag (SubscriptionRejectedPayload _ _) = 10"
| "wire_tag (EntityEnteredPayload _) = 11"
| "wire_tag (EntityLeftPayload _) = 12"
| "wire_tag (SnapshotRequestPayload _ _) = 13"
| "wire_tag (SpaceTransitionPayload _ _ _) = 14"
| "wire_tag (PingPayload _ _) = 15"
| "wire_tag (PongPayload _ _ _) = 16"
| "wire_tag (ProtocolErrorPayload _ _ _) = 17"
| "wire_tag (InferenceRequestedPayload _ _ _) = 18"
| "wire_tag (InferenceAcceptedPayload _) = 19"
| "wire_tag (InferenceProgressPayload _) = 20"
| "wire_tag (InferenceStreamChunkPayload _ _ _) = 21"
| "wire_tag (InferenceCompletedPayload _) = 22"
| "wire_tag (InferenceFailedPayload _) = 23"
| "wire_tag (InferenceCancelledPayload _) = 24"
| "wire_tag (InferenceExpiredPayload _) = 25"
| "wire_tag (ToolCallProposedPayload _ _ _ _) = 26"
| "wire_tag (ToolCallAcceptedPayload _) = 27"
| "wire_tag (ToolCallRejectedPayload _ _) = 28"
| "wire_tag (ToolCallCompletedPayload _ _) = 29"

record WireEnvelope =
  we_protocol_version :: u16
  we_message_kind :: u8
  we_delivery_class :: u8
  we_namespace_id :: u64
  we_session_id :: u64
  we_space_id :: u64
  we_entity_id :: u64
  we_space_epoch :: u64
  we_server_tick :: u64
  we_sender_sequence :: u64
  we_correlation_id :: u64
  we_payload_type_id :: u64
  we_payload :: "u8 list option"
  we_control_type :: u8
  we_control :: "WireControl option"
  we_channel_id :: u64
  we_routing_position :: "(f64 \<times> f64 \<times> f64) option"

record FlatBuffers =
  fb_finish_size_prefixed :: "WireEnvelope \<Rightarrow> u8 list"
  fb_has_identifier :: "u8 list \<Rightarrow> bool"
  fb_size_prefixed_root :: "u8 list \<Rightarrow> string + WireEnvelope"

section \<open>Limits\<close>

definition SIZE_PREFIX_LEN :: usize where "SIZE_PREFIX_LEN = 4"

definition MIN_ENCODED_LEN :: u32 where "MIN_ENCODED_LEN = 8"

definition MIN_FRAME_LEN :: usize where "MIN_FRAME_LEN = 12"

definition codec_limits_new :: "usize \<Rightarrow> usize \<Rightarrow> CodecError + CodecLimits" where
  "codec_limits_new frame payload =
     (if frame < MIN_FRAME_LEN \<or> usize_sat_add (2 ^ 32 - 1) SIZE_PREFIX_LEN < frame \<or> frame < payload
      then Inl (CeInvalidLimits frame payload)
      else Inr \<lparr>max_frame_len = frame, max_payload_len = payload\<rparr>)"

definition default_codec_limits :: CodecLimits where
  "default_codec_limits = \<lparr>max_frame_len = 1024 * 1024, max_payload_len = 64 * 1024\<rparr>"

definition codec_new :: "CodecLimits \<Rightarrow> CodecError + Codec" where
  "codec_new limits =
     and_then (codec_limits_new (max_frame_len limits) (max_payload_len limits)) (\<lambda>_. Inr \<lparr>codec_limits = limits\<rparr>)"

definition enforce_frame_limit :: "Codec \<Rightarrow> usize \<Rightarrow> CodecError + unit" where
  "enforce_frame_limit codec actual =
     (if max_frame_len (codec_limits codec) < actual
      then Inl (CeFrameTooLarge actual (max_frame_len (codec_limits codec)))
      else Inr ())"

definition enforce_payload_limit :: "Codec \<Rightarrow> usize \<Rightarrow> CodecError + unit" where
  "enforce_payload_limit codec actual =
     (if max_payload_len (codec_limits codec) < actual
      then Inl (CePayloadTooLarge actual (max_payload_len (codec_limits codec)))
      else Inr ())"

definition u32_from_le_bytes :: "u8 list \<Rightarrow> u32" where
  "u32_from_le_bytes bytes = of_nat (foldr (\<lambda>b n. unat b + 256 * n) bytes 0)"

definition expected_frame_len :: "Codec \<Rightarrow> u8 list \<Rightarrow> CodecError + usize option" where
  "expected_frame_len codec prefix =
     (if length prefix < SIZE_PREFIX_LEN then Inr None
      else
        let encoded_len = u32_from_le_bytes (take SIZE_PREFIX_LEN prefix)
        in if encoded_len < MIN_ENCODED_LEN then Inl (CeInvalidSizePrefix encoded_len)
           else
             let frame_len = usize_sat_add (unat encoded_len) SIZE_PREFIX_LEN
             in and_then (enforce_frame_limit codec frame_len) (\<lambda>_. Inr (Some frame_len)))"

section \<open>Encoding\<close>

text \<open>One function per arm of \<open>encode_control\<close>.\<close>

definition encode_client_log :: "ClientLog \<Rightarrow> WireControl" where
  "encode_client_log v =
     ClientLogPayload (log_level_value (wcl_level v)) (Some (wcl_message v))"

definition encode_request_admission :: "RequestAdmission \<Rightarrow> WireControl" where
  "encode_request_admission v =
     RequestAdmissionPayload (Some (wra_idempotency_key v))"

definition encode_admission_result :: "AdmissionResult \<Rightarrow> WireControl" where
  "encode_admission_result v =
     AdmissionResultPayload (admission_status_value (war_status v)) (admission_rejection_code_value (war_rejection_code v)) (unwrap_or_zero (war_ticket_id v)) (war_poll_after_ms v) (war_ticket_remaining_ms v)"

definition encode_queue_status_request :: "QueueStatusRequest \<Rightarrow> WireControl" where
  "encode_queue_status_request v =
     QueueStatusRequestPayload (wqr_ticket_id v)"

definition encode_queue_heartbeat :: "QueueHeartbeat \<Rightarrow> WireControl" where
  "encode_queue_heartbeat v =
     QueueHeartbeatPayload (wqh_ticket_id v)"

definition encode_queue_claim :: "QueueClaim \<Rightarrow> WireControl" where
  "encode_queue_claim v =
     QueueClaimPayload (wqc_ticket_id v)"

definition encode_queue_cancel :: "QueueCancel \<Rightarrow> WireControl" where
  "encode_queue_cancel v =
     QueueCancelPayload (wqx_ticket_id v)"

definition encode_queue_update :: "QueueUpdate \<Rightarrow> WireControl" where
  "encode_queue_update v =
     QueueUpdatePayload (wqu_ticket_id v) (queue_state_value (wqu_state v)) (wqu_position v) (wqu_poll_after_ms v) (wqu_ticket_remaining_ms v) (wqu_offer_remaining_ms v)"

definition encode_hello :: "Hello \<Rightarrow> WireControl" where
  "encode_hello v =
     HelloPayload (whe_min_protocol_version v) (whe_max_protocol_version v) (Some (whe_client_name v)) (Some (whe_client_version v)) (whe_capability_bits v) (whe_max_frame_size v) (whe_max_payload_size v)"

definition encode_capabilities :: "Capabilities \<Rightarrow> WireControl" where
  "encode_capabilities v =
     CapabilitiesPayload (wca_selected_protocol_version v) (Some (wca_server_name v)) (Some (wca_server_version v)) (wca_capability_bits v) (wca_max_frame_size v) (wca_max_payload_size v)"

definition encode_authenticate :: "Authenticate \<Rightarrow> WireControl" where
  "encode_authenticate v =
     AuthenticatePayload (authentication_scheme_value (wau_scheme v)) (Some (wau_credentials v))"

definition encode_authenticated :: "Authenticated \<Rightarrow> WireControl" where
  "encode_authenticated v =
     AuthenticatedPayload (wad_principal_id v) (unwrap_or_zero (wad_assigned_entity_id v))"

definition encode_join_session :: "JoinSession \<Rightarrow> WireControl" where
  "encode_join_session v =
     JoinSessionPayload (Some (wjs_resume_token v))"

definition encode_leave_session :: "LeaveSession \<Rightarrow> WireControl" where
  "encode_leave_session v =
     LeaveSessionPayload (Some (wls_reason v))"

definition encode_subscribe_space :: "u64 \<Rightarrow> WireControl" where
  "encode_subscribe_space channel_id = SubscribeSpacePayload channel_id"

definition encode_unsubscribe_space :: "UnsubscribeSpace \<Rightarrow> WireControl" where
  "encode_unsubscribe_space v =
     UnsubscribeSpacePayload (wus_subscription_id v)"

definition encode_subscription_accepted :: "SubscriptionAccepted \<Rightarrow> WireControl" where
  "encode_subscription_accepted v =
     SubscriptionAcceptedPayload (wsa_subscription_id v) (wsa_accepted_space_epoch v)"

definition encode_subscription_rejected :: "SubscriptionRejected \<Rightarrow> WireControl" where
  "encode_subscription_rejected v =
     SubscriptionRejectedPayload (subscription_rejection_code_value (wsr_code v)) (Some (wsr_reason v))"

definition encode_entity_entered :: "EntityEntered \<Rightarrow> WireControl" where
  "encode_entity_entered v =
     EntityEnteredPayload (unwrap_or_zero (wee_owner_entity_id v))"

definition encode_entity_left :: "EntityLeft \<Rightarrow> WireControl" where
  "encode_entity_left v =
     EntityLeftPayload (entity_leave_reason_value (wel_reason v))"

definition encode_snapshot_request :: "u64 \<Rightarrow> SnapshotRequest \<Rightarrow> WireControl" where
  "encode_snapshot_request channel_id v =
     SnapshotRequestPayload channel_id (unwrap_or_zero (wsq_after_server_tick v))"

definition encode_space_transition :: "SpaceTransition \<Rightarrow> WireControl" where
  "encode_space_transition v =
     SpaceTransitionPayload (wst_from_space_id v) (wst_to_space_id v) (wst_to_space_epoch v)"

definition encode_ping :: "Ping \<Rightarrow> WireControl" where
  "encode_ping v =
     PingPayload (wpi_nonce v) (wpi_sender_time_micros v)"

definition encode_pong :: "Pong \<Rightarrow> WireControl" where
  "encode_pong v =
     PongPayload (wpo_nonce v) (wpo_sender_time_micros v) (wpo_responder_time_micros v)"

definition encode_protocol_error :: "ProtocolError \<Rightarrow> WireControl" where
  "encode_protocol_error v =
     ProtocolErrorPayload (protocol_error_code_value (wpe_code v)) (message_kind_value (wpe_related_message_kind v)) (Some (wpe_message v))"

definition encode_inference_requested :: "InferenceRequested \<Rightarrow> WireControl" where
  "encode_inference_requested v =
     InferenceRequestedPayload (Some (wir_capability v)) (wir_deadline_ms v) (Some (wir_input v))"

definition encode_inference_accepted :: "InferenceAccepted \<Rightarrow> WireControl" where
  "encode_inference_accepted v =
     InferenceAcceptedPayload (wia_queued_position v)"

definition encode_inference_progress :: "InferenceProgress \<Rightarrow> WireControl" where
  "encode_inference_progress v =
     InferenceProgressPayload (wip_percent v)"

definition encode_inference_stream_chunk :: "InferenceStreamChunk \<Rightarrow> WireControl" where
  "encode_inference_stream_chunk v =
     InferenceStreamChunkPayload (wic_sequence v) (Some (wic_chunk v)) (wic_is_final v)"

definition encode_inference_completed :: "InferenceCompleted \<Rightarrow> WireControl" where
  "encode_inference_completed v =
     InferenceCompletedPayload (Some (wid_result v))"

definition encode_inference_failed :: "InferenceFailed \<Rightarrow> WireControl" where
  "encode_inference_failed v =
     InferenceFailedPayload (Some (wif_reason v))"

definition encode_inference_cancelled :: "InferenceCancelled \<Rightarrow> WireControl" where
  "encode_inference_cancelled v =
     InferenceCancelledPayload (Some (wix_reason v))"

definition encode_inference_expired :: "InferenceExpired \<Rightarrow> WireControl" where
  "encode_inference_expired v =
     InferenceExpiredPayload (Some (wie_reason v))"

definition encode_tool_call_proposed :: "ToolCallProposed \<Rightarrow> WireControl" where
  "encode_tool_call_proposed v =
     ToolCallProposedPayload (Some (wtp_tool_id v)) (wtp_tool_version v) (Some (wtp_arguments v)) (wtp_expected_revision v)"

definition encode_tool_call_accepted :: "ToolCallAccepted \<Rightarrow> WireControl" where
  "encode_tool_call_accepted v =
     ToolCallAcceptedPayload (Some (wta_tool_id v))"

definition encode_tool_call_rejected :: "ToolCallRejected \<Rightarrow> WireControl" where
  "encode_tool_call_rejected v =
     ToolCallRejectedPayload (tool_call_rejection_code_value (wtr_code v)) (Some (wtr_reason v))"

definition encode_tool_call_completed :: "ToolCallCompleted \<Rightarrow> WireControl" where
  "encode_tool_call_completed v =
     ToolCallCompletedPayload (wtc_new_revision v) (Some (wtc_result v))"

fun encode_control :: "ControlPayload \<Rightarrow> u64 \<Rightarrow> WireControl" where
  "encode_control (CtlClientLog v) channel_id = encode_client_log v"
| "encode_control (CtlRequestAdmission v) channel_id = encode_request_admission v"
| "encode_control (CtlAdmissionResult v) channel_id = encode_admission_result v"
| "encode_control (CtlQueueStatusRequest v) channel_id = encode_queue_status_request v"
| "encode_control (CtlQueueHeartbeat v) channel_id = encode_queue_heartbeat v"
| "encode_control (CtlQueueClaim v) channel_id = encode_queue_claim v"
| "encode_control (CtlQueueCancel v) channel_id = encode_queue_cancel v"
| "encode_control (CtlQueueUpdate v) channel_id = encode_queue_update v"
| "encode_control (CtlHello v) channel_id = encode_hello v"
| "encode_control (CtlCapabilities v) channel_id = encode_capabilities v"
| "encode_control (CtlAuthenticate v) channel_id = encode_authenticate v"
| "encode_control (CtlAuthenticated v) channel_id = encode_authenticated v"
| "encode_control (CtlJoinSession v) channel_id = encode_join_session v"
| "encode_control (CtlLeaveSession v) channel_id = encode_leave_session v"
| "encode_control CtlSubscribeSpace channel_id = encode_subscribe_space channel_id"
| "encode_control (CtlUnsubscribeSpace v) channel_id = encode_unsubscribe_space v"
| "encode_control (CtlSubscriptionAccepted v) channel_id = encode_subscription_accepted v"
| "encode_control (CtlSubscriptionRejected v) channel_id = encode_subscription_rejected v"
| "encode_control (CtlEntityEntered v) channel_id = encode_entity_entered v"
| "encode_control (CtlEntityLeft v) channel_id = encode_entity_left v"
| "encode_control (CtlSnapshotRequest v) channel_id = encode_snapshot_request channel_id v"
| "encode_control (CtlSpaceTransition v) channel_id = encode_space_transition v"
| "encode_control (CtlPing v) channel_id = encode_ping v"
| "encode_control (CtlPong v) channel_id = encode_pong v"
| "encode_control (CtlProtocolError v) channel_id = encode_protocol_error v"
| "encode_control (CtlInferenceRequested v) channel_id = encode_inference_requested v"
| "encode_control (CtlInferenceAccepted v) channel_id = encode_inference_accepted v"
| "encode_control (CtlInferenceProgress v) channel_id = encode_inference_progress v"
| "encode_control (CtlInferenceStreamChunk v) channel_id = encode_inference_stream_chunk v"
| "encode_control (CtlInferenceCompleted v) channel_id = encode_inference_completed v"
| "encode_control (CtlInferenceFailed v) channel_id = encode_inference_failed v"
| "encode_control (CtlInferenceCancelled v) channel_id = encode_inference_cancelled v"
| "encode_control (CtlInferenceExpired v) channel_id = encode_inference_expired v"
| "encode_control (CtlToolCallProposed v) channel_id = encode_tool_call_proposed v"
| "encode_control (CtlToolCallAccepted v) channel_id = encode_tool_call_accepted v"
| "encode_control (CtlToolCallRejected v) channel_id = encode_tool_call_rejected v"
| "encode_control (CtlToolCallCompleted v) channel_id = encode_tool_call_completed v"

definition wire_envelope :: "Envelope \<Rightarrow> WireEnvelope" where
  "wire_envelope e =
     (let control =
            (case ev_message e of
               MsgControl payload \<Rightarrow> Some (encode_control payload (unwrap_or_zero (ev_channel_id e)))
             | _ \<Rightarrow> None)
      in \<lparr>we_protocol_version = ev_protocol_version e,
          we_message_kind = message_kind_value (message_kind e),
          we_delivery_class = wire_delivery_class_value (ev_delivery_class e),
          we_namespace_id = ev_namespace_id e,
          we_session_id = ev_session_id e,
          we_space_id = ev_space_id e,
          we_entity_id = unwrap_or_zero (ev_entity_id e),
          we_space_epoch = ev_space_epoch e,
          we_server_tick = ev_server_tick e,
          we_sender_sequence = ev_sender_sequence e,
          we_correlation_id = unwrap_or_zero (ev_correlation_id e),
          we_payload_type_id = (case opaque (ev_message e) of None \<Rightarrow> 0 | Some payload \<Rightarrow> op_type_id payload),
          we_payload = map_option op_bytes (opaque (ev_message e)),
          we_control_type = (case control of None \<Rightarrow> 0 | Some c \<Rightarrow> wire_tag c),
          we_control = control,
          we_channel_id = unwrap_or_zero (ev_channel_id e),
          we_routing_position = map_option (\<lambda>p. (rp_x p, rp_y p, rp_z p)) (ev_routing_position e)\<rparr>)"

definition validate_outbound :: "Codec \<Rightarrow> Envelope \<Rightarrow> CodecError + unit" where
  "validate_outbound codec e =
     (if ev_protocol_version e \<noteq> PROTOCOL_VERSION then Inl (CeUnsupportedProtocolVersion (ev_protocol_version e))
      else if ev_delivery_class e = DcUnknown
      then Inl (CeUnknownDeliveryClass (wire_delivery_class_value (ev_delivery_class e)))
      else
        and_then (validate e) (\<lambda>_.
          case ev_message e of
            MsgControl control \<Rightarrow> enforce_payload_limit codec (variable_len control)
          | _ \<Rightarrow>
              (case opaque (ev_message e) of
                 None \<Rightarrow> Inr ()
               | Some payload \<Rightarrow>
                   if op_type_id payload = 0 then Inl (CeMissingPayloadType (message_kind e))
                   else enforce_payload_limit codec (length (op_bytes payload)))))"

definition encode :: "FlatBuffers \<Rightarrow> Codec \<Rightarrow> Envelope \<Rightarrow> CodecError + u8 list" where
  "encode fb codec e =
     and_then (validate_outbound codec e) (\<lambda>_.
       let encoded = fb_finish_size_prefixed fb (wire_envelope e)
       in and_then (enforce_frame_limit codec (length encoded)) (\<lambda>_. Inr encoded))"

section \<open>Decoding\<close>

definition control_mismatch :: "WireEnvelope \<Rightarrow> MessageKind \<Rightarrow> CodecError" where
  "control_mismatch e kind = CeMessageControlMismatch (message_kind_value kind) (we_control_type e)"

definition require_control :: "WireEnvelope \<Rightarrow> MessageKind \<Rightarrow> u8 \<Rightarrow> CodecError + unit" where
  "require_control e kind expected =
     (if we_control_type e \<noteq> expected \<or> we_control e = None then Inl (control_mismatch e kind) else Inr ())"

definition vector_bytes :: "u8 list option \<Rightarrow> u8 list" where
  "vector_bytes v = (case v of None \<Rightarrow> [] | Some bytes \<Rightarrow> bytes)"

definition checked_control_vector :: "Codec \<Rightarrow> u8 list option \<Rightarrow> CodecError + u8 list" where
  "checked_control_vector codec v =
     and_then (enforce_payload_limit codec (case v of None \<Rightarrow> 0 | Some bytes \<Rightarrow> length bytes)) (\<lambda>_. Inr (vector_bytes v))"

definition unwrap_or_default :: "string option \<Rightarrow> string" where
  "unwrap_or_default s = (case s of None \<Rightarrow> [] | Some t \<Rightarrow> t)"

definition checked_control_string :: "Codec \<Rightarrow> string option \<Rightarrow> CodecError + string" where
  "checked_control_string codec v =
     (let s = unwrap_or_default v in and_then (enforce_payload_limit codec (length s)) (\<lambda>_. Inr s))"

definition checked_control_strings :: "Codec \<Rightarrow> string \<Rightarrow> string \<Rightarrow> CodecError + string \<times> string" where
  "checked_control_strings codec first second =
     and_then (enforce_payload_limit codec (usize_sat_add (length first) (length second))) (\<lambda>_. Inr (first, second))"

definition require_channel_mirror :: "WireEnvelope \<Rightarrow> MessageKind \<Rightarrow> u64 \<Rightarrow> CodecError + unit" where
  "require_channel_mirror e kind mirrored =
     (if mirrored = we_channel_id e then Inr ()
      else Inl (CeInvalidSemantics kind ''control channel_id must match envelope channel_id''))"

definition nonzero :: "u64 \<Rightarrow> u64 option" where
  "nonzero v = (if v = 0 then None else Some v)"

text \<open>One function per arm of \<open>decode_control\<close>. The generated accessor \<open>control_as_..\<close> returns the table of
  the union when its tag is the expected one.\<close>

definition decode_client_log :: "Codec \<Rightarrow> WireEnvelope \<Rightarrow> CodecError + ControlPayload" where
  "decode_client_log codec e =
     and_then (require_control e MkClientLog 37) (\<lambda>_.
     case we_control e of
       Some (ClientLogPayload level message) \<Rightarrow>
          and_then (ok_or (log_level_from_wire level) (CeUnsupportedEnumValue ''LogLevel'' (ucast level))) (\<lambda>level'.
          and_then (checked_control_string codec message) (\<lambda>message'.
            Inr (CtlClientLog \<lparr>wcl_level = level', wcl_message = message'\<rparr>)))
     | _ \<Rightarrow> Inl (control_mismatch e MkClientLog))"

definition decode_request_admission :: "Codec \<Rightarrow> WireEnvelope \<Rightarrow> CodecError + ControlPayload" where
  "decode_request_admission codec e =
     and_then (require_control e MkRequestAdmission 30) (\<lambda>_.
     case we_control e of
       Some (RequestAdmissionPayload idempotency_key) \<Rightarrow>
          and_then (checked_control_string codec idempotency_key) (\<lambda>idempotency_key'.
            Inr (CtlRequestAdmission \<lparr>wra_idempotency_key = idempotency_key'\<rparr>))
     | _ \<Rightarrow> Inl (control_mismatch e MkRequestAdmission))"

definition decode_admission_result :: "Codec \<Rightarrow> WireEnvelope \<Rightarrow> CodecError + ControlPayload" where
  "decode_admission_result codec e =
     and_then (require_control e MkAdmissionResult 31) (\<lambda>_.
     case we_control e of
       Some (AdmissionResultPayload status rejection_code ticket_id poll_after_ms ticket_remaining_ms) \<Rightarrow>
          and_then (ok_or (admission_status_from_wire status) (CeUnsupportedEnumValue ''AdmissionStatus'' (ucast status))) (\<lambda>status'.
          and_then (ok_or (admission_rejection_code_from_wire rejection_code) (CeUnsupportedEnumValue ''AdmissionRejectionCode'' (ucast rejection_code))) (\<lambda>rejection_code'.
            Inr (CtlAdmissionResult \<lparr>war_status = status', war_rejection_code = rejection_code', war_ticket_id = nonzero ticket_id, war_poll_after_ms = poll_after_ms, war_ticket_remaining_ms = ticket_remaining_ms\<rparr>)))
     | _ \<Rightarrow> Inl (control_mismatch e MkAdmissionResult))"

definition decode_queue_status_request :: "Codec \<Rightarrow> WireEnvelope \<Rightarrow> CodecError + ControlPayload" where
  "decode_queue_status_request codec e =
     and_then (require_control e MkQueueStatusRequest 32) (\<lambda>_.
     case we_control e of
       Some (QueueStatusRequestPayload ticket_id) \<Rightarrow>
            Inr (CtlQueueStatusRequest \<lparr>wqr_ticket_id = ticket_id\<rparr>)
     | _ \<Rightarrow> Inl (control_mismatch e MkQueueStatusRequest))"

definition decode_queue_heartbeat :: "Codec \<Rightarrow> WireEnvelope \<Rightarrow> CodecError + ControlPayload" where
  "decode_queue_heartbeat codec e =
     and_then (require_control e MkQueueHeartbeat 33) (\<lambda>_.
     case we_control e of
       Some (QueueHeartbeatPayload ticket_id) \<Rightarrow>
            Inr (CtlQueueHeartbeat \<lparr>wqh_ticket_id = ticket_id\<rparr>)
     | _ \<Rightarrow> Inl (control_mismatch e MkQueueHeartbeat))"

definition decode_queue_claim :: "Codec \<Rightarrow> WireEnvelope \<Rightarrow> CodecError + ControlPayload" where
  "decode_queue_claim codec e =
     and_then (require_control e MkQueueClaim 34) (\<lambda>_.
     case we_control e of
       Some (QueueClaimPayload ticket_id) \<Rightarrow>
            Inr (CtlQueueClaim \<lparr>wqc_ticket_id = ticket_id\<rparr>)
     | _ \<Rightarrow> Inl (control_mismatch e MkQueueClaim))"

definition decode_queue_cancel :: "Codec \<Rightarrow> WireEnvelope \<Rightarrow> CodecError + ControlPayload" where
  "decode_queue_cancel codec e =
     and_then (require_control e MkQueueCancel 35) (\<lambda>_.
     case we_control e of
       Some (QueueCancelPayload ticket_id) \<Rightarrow>
            Inr (CtlQueueCancel \<lparr>wqx_ticket_id = ticket_id\<rparr>)
     | _ \<Rightarrow> Inl (control_mismatch e MkQueueCancel))"

definition decode_queue_update :: "Codec \<Rightarrow> WireEnvelope \<Rightarrow> CodecError + ControlPayload" where
  "decode_queue_update codec e =
     and_then (require_control e MkQueueUpdate 36) (\<lambda>_.
     case we_control e of
       Some (QueueUpdatePayload ticket_id state_ position poll_after_ms ticket_remaining_ms offer_remaining_ms) \<Rightarrow>
          and_then (ok_or (queue_state_from_wire state_) (CeUnsupportedEnumValue ''QueueState'' (ucast state_))) (\<lambda>state_'.
            Inr (CtlQueueUpdate \<lparr>wqu_ticket_id = ticket_id, wqu_state = state_', wqu_position = position, wqu_poll_after_ms = poll_after_ms, wqu_ticket_remaining_ms = ticket_remaining_ms, wqu_offer_remaining_ms = offer_remaining_ms\<rparr>))
     | _ \<Rightarrow> Inl (control_mismatch e MkQueueUpdate))"

definition decode_hello :: "Codec \<Rightarrow> WireEnvelope \<Rightarrow> CodecError + ControlPayload" where
  "decode_hello codec e =
     and_then (require_control e MkHello 1) (\<lambda>_.
     case we_control e of
       Some (HelloPayload min_protocol_version max_protocol_version client_name client_version capability_bits max_frame_size max_payload_size) \<Rightarrow>
          and_then (checked_control_strings codec (unwrap_or_default client_name) (unwrap_or_default client_version)) (\<lambda>(client_name', client_version').
            Inr (CtlHello \<lparr>whe_min_protocol_version = min_protocol_version, whe_max_protocol_version = max_protocol_version, whe_client_name = client_name', whe_client_version = client_version', whe_capability_bits = capability_bits, whe_max_frame_size = max_frame_size, whe_max_payload_size = max_payload_size\<rparr>))
     | _ \<Rightarrow> Inl (control_mismatch e MkHello))"

definition decode_capabilities :: "Codec \<Rightarrow> WireEnvelope \<Rightarrow> CodecError + ControlPayload" where
  "decode_capabilities codec e =
     and_then (require_control e MkCapabilities 2) (\<lambda>_.
     case we_control e of
       Some (CapabilitiesPayload selected_protocol_version server_name server_version capability_bits max_frame_size max_payload_size) \<Rightarrow>
          and_then (checked_control_strings codec (unwrap_or_default server_name) (unwrap_or_default server_version)) (\<lambda>(server_name', server_version').
            Inr (CtlCapabilities \<lparr>wca_selected_protocol_version = selected_protocol_version, wca_server_name = server_name', wca_server_version = server_version', wca_capability_bits = capability_bits, wca_max_frame_size = max_frame_size, wca_max_payload_size = max_payload_size\<rparr>))
     | _ \<Rightarrow> Inl (control_mismatch e MkCapabilities))"

definition decode_authenticate :: "Codec \<Rightarrow> WireEnvelope \<Rightarrow> CodecError + ControlPayload" where
  "decode_authenticate codec e =
     and_then (require_control e MkAuthenticate 3) (\<lambda>_.
     case we_control e of
       Some (AuthenticatePayload scheme credentials) \<Rightarrow>
          and_then (ok_or (authentication_scheme_from_wire scheme) (CeUnsupportedEnumValue ''authentication scheme'' (ucast scheme))) (\<lambda>scheme'.
          and_then (checked_control_vector codec credentials) (\<lambda>credentials'.
            Inr (CtlAuthenticate \<lparr>wau_scheme = scheme', wau_credentials = credentials'\<rparr>)))
     | _ \<Rightarrow> Inl (control_mismatch e MkAuthenticate))"

definition decode_authenticated :: "Codec \<Rightarrow> WireEnvelope \<Rightarrow> CodecError + ControlPayload" where
  "decode_authenticated codec e =
     and_then (require_control e MkAuthenticated 4) (\<lambda>_.
     case we_control e of
       Some (AuthenticatedPayload principal_id assigned_entity_id) \<Rightarrow>
            Inr (CtlAuthenticated \<lparr>wad_principal_id = principal_id, wad_assigned_entity_id = nonzero assigned_entity_id\<rparr>)
     | _ \<Rightarrow> Inl (control_mismatch e MkAuthenticated))"

definition decode_join_session :: "Codec \<Rightarrow> WireEnvelope \<Rightarrow> CodecError + ControlPayload" where
  "decode_join_session codec e =
     and_then (require_control e MkJoinSession 5) (\<lambda>_.
     case we_control e of
       Some (JoinSessionPayload resume_token) \<Rightarrow>
          and_then (checked_control_vector codec resume_token) (\<lambda>resume_token'.
            Inr (CtlJoinSession \<lparr>wjs_resume_token = resume_token'\<rparr>))
     | _ \<Rightarrow> Inl (control_mismatch e MkJoinSession))"

definition decode_leave_session :: "Codec \<Rightarrow> WireEnvelope \<Rightarrow> CodecError + ControlPayload" where
  "decode_leave_session codec e =
     and_then (require_control e MkLeaveSession 6) (\<lambda>_.
     case we_control e of
       Some (LeaveSessionPayload reason) \<Rightarrow>
          and_then (checked_control_string codec reason) (\<lambda>reason'.
            Inr (CtlLeaveSession \<lparr>wls_reason = reason'\<rparr>))
     | _ \<Rightarrow> Inl (control_mismatch e MkLeaveSession))"

definition decode_subscribe_space :: "Codec \<Rightarrow> WireEnvelope \<Rightarrow> CodecError + ControlPayload" where
  "decode_subscribe_space codec e =
     and_then (require_control e MkSubscribeSpace 7) (\<lambda>_.
     case we_control e of
       Some (SubscribeSpacePayload channel_id) \<Rightarrow>
          and_then (require_channel_mirror e MkSubscribeSpace channel_id) (\<lambda>_.
            Inr CtlSubscribeSpace)
     | _ \<Rightarrow> Inl (control_mismatch e MkSubscribeSpace))"

definition decode_unsubscribe_space :: "Codec \<Rightarrow> WireEnvelope \<Rightarrow> CodecError + ControlPayload" where
  "decode_unsubscribe_space codec e =
     and_then (require_control e MkUnsubscribeSpace 8) (\<lambda>_.
     case we_control e of
       Some (UnsubscribeSpacePayload subscription_id) \<Rightarrow>
            Inr (CtlUnsubscribeSpace \<lparr>wus_subscription_id = subscription_id\<rparr>)
     | _ \<Rightarrow> Inl (control_mismatch e MkUnsubscribeSpace))"

definition decode_subscription_accepted :: "Codec \<Rightarrow> WireEnvelope \<Rightarrow> CodecError + ControlPayload" where
  "decode_subscription_accepted codec e =
     and_then (require_control e MkSubscriptionAccepted 9) (\<lambda>_.
     case we_control e of
       Some (SubscriptionAcceptedPayload subscription_id accepted_space_epoch) \<Rightarrow>
            Inr (CtlSubscriptionAccepted \<lparr>wsa_subscription_id = subscription_id, wsa_accepted_space_epoch = accepted_space_epoch\<rparr>)
     | _ \<Rightarrow> Inl (control_mismatch e MkSubscriptionAccepted))"

definition decode_subscription_rejected :: "Codec \<Rightarrow> WireEnvelope \<Rightarrow> CodecError + ControlPayload" where
  "decode_subscription_rejected codec e =
     and_then (require_control e MkSubscriptionRejected 10) (\<lambda>_.
     case we_control e of
       Some (SubscriptionRejectedPayload code reason) \<Rightarrow>
          and_then (ok_or (subscription_rejection_code_from_wire code) (CeUnsupportedEnumValue ''subscription rejection code'' (ucast code))) (\<lambda>code'.
          and_then (checked_control_string codec reason) (\<lambda>reason'.
            Inr (CtlSubscriptionRejected \<lparr>wsr_code = code', wsr_reason = reason'\<rparr>)))
     | _ \<Rightarrow> Inl (control_mismatch e MkSubscriptionRejected))"

definition decode_entity_entered :: "Codec \<Rightarrow> WireEnvelope \<Rightarrow> CodecError + ControlPayload" where
  "decode_entity_entered codec e =
     and_then (require_control e MkEntityEntered 11) (\<lambda>_.
     case we_control e of
       Some (EntityEnteredPayload owner_entity_id) \<Rightarrow>
            Inr (CtlEntityEntered \<lparr>wee_owner_entity_id = nonzero owner_entity_id\<rparr>)
     | _ \<Rightarrow> Inl (control_mismatch e MkEntityEntered))"

definition decode_entity_left :: "Codec \<Rightarrow> WireEnvelope \<Rightarrow> CodecError + ControlPayload" where
  "decode_entity_left codec e =
     and_then (require_control e MkEntityLeft 12) (\<lambda>_.
     case we_control e of
       Some (EntityLeftPayload reason) \<Rightarrow>
          and_then (ok_or (entity_leave_reason_from_wire reason) (CeUnsupportedEnumValue ''entity leave reason'' (ucast reason))) (\<lambda>reason'.
            Inr (CtlEntityLeft \<lparr>wel_reason = reason'\<rparr>))
     | _ \<Rightarrow> Inl (control_mismatch e MkEntityLeft))"

definition decode_snapshot_request :: "Codec \<Rightarrow> WireEnvelope \<Rightarrow> CodecError + ControlPayload" where
  "decode_snapshot_request codec e =
     and_then (require_control e MkSnapshotRequest 13) (\<lambda>_.
     case we_control e of
       Some (SnapshotRequestPayload channel_id after_server_tick) \<Rightarrow>
          and_then (require_channel_mirror e MkSnapshotRequest channel_id) (\<lambda>_.
            Inr (CtlSnapshotRequest \<lparr>wsq_after_server_tick = nonzero after_server_tick\<rparr>))
     | _ \<Rightarrow> Inl (control_mismatch e MkSnapshotRequest))"

definition decode_space_transition :: "Codec \<Rightarrow> WireEnvelope \<Rightarrow> CodecError + ControlPayload" where
  "decode_space_transition codec e =
     and_then (require_control e MkSpaceTransition 14) (\<lambda>_.
     case we_control e of
       Some (SpaceTransitionPayload from_space_id to_space_id to_space_epoch) \<Rightarrow>
            Inr (CtlSpaceTransition \<lparr>wst_from_space_id = from_space_id, wst_to_space_id = to_space_id, wst_to_space_epoch = to_space_epoch\<rparr>)
     | _ \<Rightarrow> Inl (control_mismatch e MkSpaceTransition))"

definition decode_ping :: "Codec \<Rightarrow> WireEnvelope \<Rightarrow> CodecError + ControlPayload" where
  "decode_ping codec e =
     and_then (require_control e MkPing 15) (\<lambda>_.
     case we_control e of
       Some (PingPayload nonce sender_time_micros) \<Rightarrow>
            Inr (CtlPing \<lparr>wpi_nonce = nonce, wpi_sender_time_micros = sender_time_micros\<rparr>)
     | _ \<Rightarrow> Inl (control_mismatch e MkPing))"

definition decode_pong :: "Codec \<Rightarrow> WireEnvelope \<Rightarrow> CodecError + ControlPayload" where
  "decode_pong codec e =
     and_then (require_control e MkPong 16) (\<lambda>_.
     case we_control e of
       Some (PongPayload nonce sender_time_micros responder_time_micros) \<Rightarrow>
            Inr (CtlPong \<lparr>wpo_nonce = nonce, wpo_sender_time_micros = sender_time_micros, wpo_responder_time_micros = responder_time_micros\<rparr>)
     | _ \<Rightarrow> Inl (control_mismatch e MkPong))"

definition decode_protocol_error :: "Codec \<Rightarrow> WireEnvelope \<Rightarrow> CodecError + ControlPayload" where
  "decode_protocol_error codec e =
     and_then (require_control e MkProtocolError 17) (\<lambda>_.
     case we_control e of
       Some (ProtocolErrorPayload code related_message_kind message) \<Rightarrow>
          and_then (ok_or (protocol_error_code_from_wire code) (CeUnsupportedEnumValue ''protocol error code'' (ucast code))) (\<lambda>code'.
          and_then (ok_or (message_kind_from_wire related_message_kind) (CeUnsupportedEnumValue ''related message kind'' (ucast related_message_kind))) (\<lambda>related_message_kind'.
          and_then (checked_control_string codec message) (\<lambda>message'.
            Inr (CtlProtocolError \<lparr>wpe_code = code', wpe_related_message_kind = related_message_kind', wpe_message = message'\<rparr>))))
     | _ \<Rightarrow> Inl (control_mismatch e MkProtocolError))"

definition decode_inference_requested :: "Codec \<Rightarrow> WireEnvelope \<Rightarrow> CodecError + ControlPayload" where
  "decode_inference_requested codec e =
     and_then (require_control e MkInferenceRequested 18) (\<lambda>_.
     case we_control e of
       Some (InferenceRequestedPayload capability deadline_ms input_) \<Rightarrow>
          and_then (checked_control_string codec capability) (\<lambda>capability'.
          and_then (checked_control_vector codec input_) (\<lambda>input_'.
            Inr (CtlInferenceRequested \<lparr>wir_capability = capability', wir_deadline_ms = deadline_ms, wir_input = input_'\<rparr>)))
     | _ \<Rightarrow> Inl (control_mismatch e MkInferenceRequested))"

definition decode_inference_accepted :: "Codec \<Rightarrow> WireEnvelope \<Rightarrow> CodecError + ControlPayload" where
  "decode_inference_accepted codec e =
     and_then (require_control e MkInferenceAccepted 19) (\<lambda>_.
     case we_control e of
       Some (InferenceAcceptedPayload queued_position) \<Rightarrow>
            Inr (CtlInferenceAccepted \<lparr>wia_queued_position = queued_position\<rparr>)
     | _ \<Rightarrow> Inl (control_mismatch e MkInferenceAccepted))"

definition decode_inference_progress :: "Codec \<Rightarrow> WireEnvelope \<Rightarrow> CodecError + ControlPayload" where
  "decode_inference_progress codec e =
     and_then (require_control e MkInferenceProgress 20) (\<lambda>_.
     case we_control e of
       Some (InferenceProgressPayload percent) \<Rightarrow>
            Inr (CtlInferenceProgress \<lparr>wip_percent = percent\<rparr>)
     | _ \<Rightarrow> Inl (control_mismatch e MkInferenceProgress))"

definition decode_inference_stream_chunk :: "Codec \<Rightarrow> WireEnvelope \<Rightarrow> CodecError + ControlPayload" where
  "decode_inference_stream_chunk codec e =
     and_then (require_control e MkInferenceStreamChunk 21) (\<lambda>_.
     case we_control e of
       Some (InferenceStreamChunkPayload sequence chunk is_final) \<Rightarrow>
          and_then (checked_control_vector codec chunk) (\<lambda>chunk'.
            Inr (CtlInferenceStreamChunk \<lparr>wic_sequence = sequence, wic_chunk = chunk', wic_is_final = is_final\<rparr>))
     | _ \<Rightarrow> Inl (control_mismatch e MkInferenceStreamChunk))"

definition decode_inference_completed :: "Codec \<Rightarrow> WireEnvelope \<Rightarrow> CodecError + ControlPayload" where
  "decode_inference_completed codec e =
     and_then (require_control e MkInferenceCompleted 22) (\<lambda>_.
     case we_control e of
       Some (InferenceCompletedPayload result) \<Rightarrow>
          and_then (checked_control_vector codec result) (\<lambda>result'.
            Inr (CtlInferenceCompleted \<lparr>wid_result = result'\<rparr>))
     | _ \<Rightarrow> Inl (control_mismatch e MkInferenceCompleted))"

definition decode_inference_failed :: "Codec \<Rightarrow> WireEnvelope \<Rightarrow> CodecError + ControlPayload" where
  "decode_inference_failed codec e =
     and_then (require_control e MkInferenceFailed 23) (\<lambda>_.
     case we_control e of
       Some (InferenceFailedPayload reason) \<Rightarrow>
          and_then (checked_control_string codec reason) (\<lambda>reason'.
            Inr (CtlInferenceFailed \<lparr>wif_reason = reason'\<rparr>))
     | _ \<Rightarrow> Inl (control_mismatch e MkInferenceFailed))"

definition decode_inference_cancelled :: "Codec \<Rightarrow> WireEnvelope \<Rightarrow> CodecError + ControlPayload" where
  "decode_inference_cancelled codec e =
     and_then (require_control e MkInferenceCancelled 24) (\<lambda>_.
     case we_control e of
       Some (InferenceCancelledPayload reason) \<Rightarrow>
          and_then (checked_control_string codec reason) (\<lambda>reason'.
            Inr (CtlInferenceCancelled \<lparr>wix_reason = reason'\<rparr>))
     | _ \<Rightarrow> Inl (control_mismatch e MkInferenceCancelled))"

definition decode_inference_expired :: "Codec \<Rightarrow> WireEnvelope \<Rightarrow> CodecError + ControlPayload" where
  "decode_inference_expired codec e =
     and_then (require_control e MkInferenceExpired 25) (\<lambda>_.
     case we_control e of
       Some (InferenceExpiredPayload reason) \<Rightarrow>
          and_then (checked_control_string codec reason) (\<lambda>reason'.
            Inr (CtlInferenceExpired \<lparr>wie_reason = reason'\<rparr>))
     | _ \<Rightarrow> Inl (control_mismatch e MkInferenceExpired))"

definition decode_tool_call_proposed :: "Codec \<Rightarrow> WireEnvelope \<Rightarrow> CodecError + ControlPayload" where
  "decode_tool_call_proposed codec e =
     and_then (require_control e MkToolCallProposed 26) (\<lambda>_.
     case we_control e of
       Some (ToolCallProposedPayload tool_id tool_version arguments expected_revision) \<Rightarrow>
          and_then (checked_control_string codec tool_id) (\<lambda>tool_id'.
          and_then (checked_control_vector codec arguments) (\<lambda>arguments'.
            Inr (CtlToolCallProposed \<lparr>wtp_tool_id = tool_id', wtp_tool_version = tool_version, wtp_arguments = arguments', wtp_expected_revision = expected_revision\<rparr>)))
     | _ \<Rightarrow> Inl (control_mismatch e MkToolCallProposed))"

definition decode_tool_call_accepted :: "Codec \<Rightarrow> WireEnvelope \<Rightarrow> CodecError + ControlPayload" where
  "decode_tool_call_accepted codec e =
     and_then (require_control e MkToolCallAccepted 27) (\<lambda>_.
     case we_control e of
       Some (ToolCallAcceptedPayload tool_id) \<Rightarrow>
          and_then (checked_control_string codec tool_id) (\<lambda>tool_id'.
            Inr (CtlToolCallAccepted \<lparr>wta_tool_id = tool_id'\<rparr>))
     | _ \<Rightarrow> Inl (control_mismatch e MkToolCallAccepted))"

definition decode_tool_call_rejected :: "Codec \<Rightarrow> WireEnvelope \<Rightarrow> CodecError + ControlPayload" where
  "decode_tool_call_rejected codec e =
     and_then (require_control e MkToolCallRejected 28) (\<lambda>_.
     case we_control e of
       Some (ToolCallRejectedPayload code reason) \<Rightarrow>
          and_then (ok_or (tool_call_rejection_code_from_wire code) (CeUnsupportedEnumValue ''tool call rejection code'' (ucast code))) (\<lambda>code'.
          and_then (checked_control_string codec reason) (\<lambda>reason'.
            Inr (CtlToolCallRejected \<lparr>wtr_code = code', wtr_reason = reason'\<rparr>)))
     | _ \<Rightarrow> Inl (control_mismatch e MkToolCallRejected))"

definition decode_tool_call_completed :: "Codec \<Rightarrow> WireEnvelope \<Rightarrow> CodecError + ControlPayload" where
  "decode_tool_call_completed codec e =
     and_then (require_control e MkToolCallCompleted 29) (\<lambda>_.
     case we_control e of
       Some (ToolCallCompletedPayload new_revision result) \<Rightarrow>
          and_then (checked_control_vector codec result) (\<lambda>result'.
            Inr (CtlToolCallCompleted \<lparr>wtc_new_revision = new_revision, wtc_result = result'\<rparr>))
     | _ \<Rightarrow> Inl (control_mismatch e MkToolCallCompleted))"

fun decode_control :: "Codec \<Rightarrow> WireEnvelope \<Rightarrow> MessageKind \<Rightarrow> CodecError + ControlPayload" where
  "decode_control codec e MkClientLog = decode_client_log codec e"
| "decode_control codec e MkRequestAdmission = decode_request_admission codec e"
| "decode_control codec e MkAdmissionResult = decode_admission_result codec e"
| "decode_control codec e MkQueueStatusRequest = decode_queue_status_request codec e"
| "decode_control codec e MkQueueHeartbeat = decode_queue_heartbeat codec e"
| "decode_control codec e MkQueueClaim = decode_queue_claim codec e"
| "decode_control codec e MkQueueCancel = decode_queue_cancel codec e"
| "decode_control codec e MkQueueUpdate = decode_queue_update codec e"
| "decode_control codec e MkHello = decode_hello codec e"
| "decode_control codec e MkCapabilities = decode_capabilities codec e"
| "decode_control codec e MkAuthenticate = decode_authenticate codec e"
| "decode_control codec e MkAuthenticated = decode_authenticated codec e"
| "decode_control codec e MkJoinSession = decode_join_session codec e"
| "decode_control codec e MkLeaveSession = decode_leave_session codec e"
| "decode_control codec e MkSubscribeSpace = decode_subscribe_space codec e"
| "decode_control codec e MkUnsubscribeSpace = decode_unsubscribe_space codec e"
| "decode_control codec e MkSubscriptionAccepted = decode_subscription_accepted codec e"
| "decode_control codec e MkSubscriptionRejected = decode_subscription_rejected codec e"
| "decode_control codec e MkEntityEntered = decode_entity_entered codec e"
| "decode_control codec e MkEntityLeft = decode_entity_left codec e"
| "decode_control codec e MkSnapshotRequest = decode_snapshot_request codec e"
| "decode_control codec e MkSpaceTransition = decode_space_transition codec e"
| "decode_control codec e MkPing = decode_ping codec e"
| "decode_control codec e MkPong = decode_pong codec e"
| "decode_control codec e MkProtocolError = decode_protocol_error codec e"
| "decode_control codec e MkInferenceRequested = decode_inference_requested codec e"
| "decode_control codec e MkInferenceAccepted = decode_inference_accepted codec e"
| "decode_control codec e MkInferenceProgress = decode_inference_progress codec e"
| "decode_control codec e MkInferenceStreamChunk = decode_inference_stream_chunk codec e"
| "decode_control codec e MkInferenceCompleted = decode_inference_completed codec e"
| "decode_control codec e MkInferenceFailed = decode_inference_failed codec e"
| "decode_control codec e MkInferenceCancelled = decode_inference_cancelled codec e"
| "decode_control codec e MkInferenceExpired = decode_inference_expired codec e"
| "decode_control codec e MkToolCallProposed = decode_tool_call_proposed codec e"
| "decode_control codec e MkToolCallAccepted = decode_tool_call_accepted codec e"
| "decode_control codec e MkToolCallRejected = decode_tool_call_rejected codec e"
| "decode_control codec e MkToolCallCompleted = decode_tool_call_completed codec e"
| "decode_control codec e MkUnknown = Inl (control_mismatch e MkUnknown)"
| "decode_control codec e MkEntityState = Inl (control_mismatch e MkEntityState)"
| "decode_control codec e MkReliableEvent = Inl (control_mismatch e MkReliableEvent)"
| "decode_control codec e MkSnapshot = Inl (control_mismatch e MkSnapshot)"

definition decode_opaque :: "Codec \<Rightarrow> WireEnvelope \<Rightarrow> MessageKind \<Rightarrow> CodecError + MessagePayload" where
  "decode_opaque codec e kind =
     (if we_control_type e \<noteq> 0 \<or> we_control e \<noteq> None then Inl (control_mismatch e kind)
      else if we_payload_type_id e = 0 then Inl (CeMissingPayloadType kind)
      else
        and_then (enforce_payload_limit codec (case we_payload e of None \<Rightarrow> 0 | Some bytes \<Rightarrow> length bytes)) (\<lambda>_.
          let payload = \<lparr>op_type_id = we_payload_type_id e, op_bytes = vector_bytes (we_payload e)\<rparr>
          in case kind of
               MkEntityState \<Rightarrow> Inr (MsgEntityState payload)
             | MkReliableEvent \<Rightarrow> Inr (MsgReliableEvent payload)
             | MkSnapshot \<Rightarrow> Inr (MsgSnapshot payload)
             | _ \<Rightarrow> Inl (control_mismatch e kind)))"

definition decode_message :: "Codec \<Rightarrow> WireEnvelope \<Rightarrow> MessageKind \<Rightarrow> CodecError + MessagePayload" where
  "decode_message codec e kind =
     (if kind = MkEntityState \<or> kind = MkReliableEvent \<or> kind = MkSnapshot then decode_opaque codec e kind
      else if kind = MkUnknown then Inl (CeUnknownMessageKind 0)
      else if we_payload_type_id e \<noteq> 0 \<or> we_payload e \<noteq> None then Inl (CeUnexpectedDomainPayload kind)
      else and_then (decode_control codec e kind) (\<lambda>control. Inr (MsgControl control)))"

definition decode_verified :: "Codec \<Rightarrow> WireEnvelope \<Rightarrow> CodecError + Envelope" where
  "decode_verified codec e =
     (if we_protocol_version e \<noteq> PROTOCOL_VERSION then Inl (CeUnsupportedProtocolVersion (we_protocol_version e))
      else
        and_then (ok_or (Option.bind (message_kind_from_wire (we_message_kind e)) (\<lambda>k. if k \<noteq> MkUnknown then Some k else None))
          (CeUnknownMessageKind (we_message_kind e))) (\<lambda>kind.
        and_then (ok_or (Option.bind (wire_delivery_class_from_wire (we_delivery_class e)) (\<lambda>d. if d \<noteq> DcUnknown then Some d else None))
          (CeUnknownDeliveryClass (we_delivery_class e))) (\<lambda>delivery_class.
        and_then (decode_message codec e kind) (\<lambda>message.
          let decoded =
                \<lparr>ev_protocol_version = we_protocol_version e, ev_delivery_class = delivery_class,
                 ev_namespace_id = we_namespace_id e, ev_session_id = we_session_id e, ev_space_id = we_space_id e,
                 ev_channel_id = nonzero (we_channel_id e), ev_entity_id = nonzero (we_entity_id e),
                 ev_space_epoch = we_space_epoch e, ev_server_tick = we_server_tick e,
                 ev_sender_sequence = we_sender_sequence e, ev_correlation_id = nonzero (we_correlation_id e),
                 ev_routing_position = map_option (\<lambda>(x, y, z). \<lparr>rp_x = x, rp_y = y, rp_z = z\<rparr>) (we_routing_position e),
                 ev_message = message\<rparr>
          in and_then (validate decoded) (\<lambda>_. Inr decoded)))))"

definition decode :: "FlatBuffers \<Rightarrow> Codec \<Rightarrow> u8 list \<Rightarrow> CodecError + Envelope" where
  "decode fb codec frame =
     and_then (expected_frame_len codec frame) (\<lambda>len.
     and_then (ok_or len (CeTruncatedFrame SIZE_PREFIX_LEN (length frame))) (\<lambda>expected.
       if length frame < expected then Inl (CeTruncatedFrame expected (length frame))
       else if expected < length frame then Inl (CeTrailingBytes expected (length frame))
       else if \<not> fb_has_identifier fb frame then Inl CeInvalidFileIdentifier
       else and_then (map_err CeInvalidFlatbuffer (fb_size_prefixed_root fb frame)) (decode_verified codec)))"

end
