(* ===== verification/Protocol_Round.thy ===== *)
theory Protocol_Round
  imports Protocol_Codec
begin

text \<open>
  The codec reads back what it writes, arm by arm of \<open>encode_control\<close> and \<open>decode_control\<close>, and what the
  decoder accepts has passed the semantic checks.
\<close>

lemmas encode_arms =
  encode_client_log_def encode_request_admission_def encode_admission_result_def
  encode_queue_status_request_def encode_queue_heartbeat_def encode_queue_claim_def
  encode_queue_cancel_def encode_queue_update_def encode_hello_def encode_capabilities_def
  encode_authenticate_def encode_authenticated_def encode_join_session_def encode_leave_session_def
  encode_subscribe_space_def encode_unsubscribe_space_def encode_subscription_accepted_def
  encode_subscription_rejected_def encode_entity_entered_def encode_entity_left_def
  encode_snapshot_request_def encode_space_transition_def encode_ping_def encode_pong_def
  encode_protocol_error_def encode_inference_requested_def encode_inference_accepted_def
  encode_inference_progress_def encode_inference_stream_chunk_def encode_inference_completed_def
  encode_inference_failed_def encode_inference_cancelled_def encode_inference_expired_def
  encode_tool_call_proposed_def encode_tool_call_accepted_def encode_tool_call_rejected_def
  encode_tool_call_completed_def

lemmas decode_arms =
  decode_client_log_def decode_request_admission_def decode_admission_result_def
  decode_queue_status_request_def decode_queue_heartbeat_def decode_queue_claim_def
  decode_queue_cancel_def decode_queue_update_def decode_hello_def decode_capabilities_def
  decode_authenticate_def decode_authenticated_def decode_join_session_def decode_leave_session_def
  decode_subscribe_space_def decode_unsubscribe_space_def decode_subscription_accepted_def
  decode_subscription_rejected_def decode_entity_entered_def decode_entity_left_def
  decode_snapshot_request_def decode_space_transition_def decode_ping_def decode_pong_def
  decode_protocol_error_def decode_inference_requested_def decode_inference_accepted_def
  decode_inference_progress_def decode_inference_stream_chunk_def decode_inference_completed_def
  decode_inference_failed_def decode_inference_cancelled_def decode_inference_expired_def
  decode_tool_call_proposed_def decode_tool_call_accepted_def decode_tool_call_rejected_def
  decode_tool_call_completed_def

section \<open>Small facts\<close>

lemma enforce_payload_limit_ok [accepts]:
  "enforce_payload_limit codec n = Inr u \<longleftrightarrow> n \<le> max_payload_len (codec_limits codec)"
  by (simp add: enforce_payload_limit_def linorder_not_less)

lemma enforce_frame_limit_ok [accepts]:
  "enforce_frame_limit codec n = Inr u \<longleftrightarrow> n \<le> max_frame_len (codec_limits codec)"
  by (simp add: enforce_frame_limit_def linorder_not_less)

lemma ok_or_ok [accepts]: "ok_or x err = Inr y \<longleftrightarrow> x = Some y"
  by (cases x) (simp_all add: ok_or_def)

lemma nonzero_unwrap [simp]: "x \<noteq> Some 0 \<Longrightarrow> nonzero (unwrap_or_zero x) = x"
  by (cases x) (simp_all add: nonzero_def unwrap_or_zero_def)

lemma unwrap_nonzero [simp]: "unwrap_or_zero (nonzero v) = v"
  by (simp add: nonzero_def unwrap_or_zero_def)

lemma nonzero_not_zero [simp]: "nonzero v \<noteq> Some 0"
  by (simp add: nonzero_def)

text \<open>A codec that \<open>Codec::new\<close> made has limits far below the range of \<open>usize\<close>.\<close>

lemma codec_new_limits:
  assumes "codec_new limits = Inr codec"
  shows "max_payload_len (codec_limits codec) \<le> max_frame_len (codec_limits codec)"
    and "max_frame_len (codec_limits codec) < usize_max"
  using assms
  by (auto simp: codec_new_def codec_limits_new_def accepts usize_sat_add_def usize_max_def SIZE_PREFIX_LEN_def
      split: if_splits)

lemma within_sum:
  assumes "usize_sat_add a b \<le> m" "m < usize_max"
  shows "a \<le> m" "b \<le> m"
  using assms by (auto simp: usize_sat_add_def)

section \<open>Control payloads\<close>

text \<open>The optional identifiers of a payload, which the wire represents by zero.\<close>

fun optional_ids :: "ControlPayload \<Rightarrow> u64 option list" where
  "optional_ids (CtlAdmissionResult v) = [war_ticket_id v]"
| "optional_ids (CtlAuthenticated v) = [wad_assigned_entity_id v]"
| "optional_ids (CtlEntityEntered v) = [wee_owner_entity_id v]"
| "optional_ids (CtlSnapshotRequest v) = [wsq_after_server_tick v]"
| "optional_ids _ = []"

lemma validated_optional_ids:
  assumes "validate_control e c = Inr u"
  shows "Some 0 \<notin> set (optional_ids c)"
  using assms
  by (cases c) (auto simp: accepts validate_managed_def managed_fields_ok_def validate_snapshot_request_def
      split: if_splits)

lemma enforce_payload_limit_within [simp]:
  "n \<le> max_payload_len (codec_limits codec) \<Longrightarrow> enforce_payload_limit codec n = Inr ()"
  by (simp add: enforce_payload_limit_def)

lemma require_control_found [simp]:
  "we_control_type w = t \<Longrightarrow> we_control w = Some c \<Longrightarrow> require_control w k t = Inr ()"
  by (simp add: require_control_def)

lemma ok_or_Some [simp]: "ok_or (Some x) err = Inr x"
  by (simp add: ok_or_def)

lemma checked_control_some [simp]:
  "length s \<le> max_payload_len (codec_limits codec) \<Longrightarrow> checked_control_string codec (Some s) = Inr s"
  "length b \<le> max_payload_len (codec_limits codec) \<Longrightarrow> checked_control_vector codec (Some b) = Inr b"
  by (simp_all add: checked_control_string_def checked_control_vector_def unwrap_or_default_def vector_bytes_def)

lemma checked_control_strings_some [simp]:
  "usize_sat_add (length s) (length t) \<le> max_payload_len (codec_limits codec) \<Longrightarrow>
     checked_control_strings codec (unwrap_or_default (Some s)) (unwrap_or_default (Some t)) = Inr (s, t)"
  by (simp add: checked_control_strings_def unwrap_or_default_def)

lemma require_channel_mirror_same [simp]: "require_channel_mirror w k (we_channel_id w) = Inr ()"
  by (simp add: require_channel_mirror_def)

lemma decode_encoded_control:
  assumes ctl: "we_control w = Some (encode_control c (we_channel_id w))"
    and tag: "we_control_type w = wire_tag (encode_control c (we_channel_id w))"
    and ids: "Some 0 \<notin> set (optional_ids c)"
    and fits: "variable_len c \<le> max_payload_len (codec_limits codec)"
    and small: "max_payload_len (codec_limits codec) < usize_max"
  shows "decode_control codec w (control_kind c) = Inr c"
proof -
  have parts: "and_then (checked_control_string codec (Some xs)) f = f xs
      \<and> and_then (checked_control_vector codec (Some ys)) g = g ys"
    if "usize_sat_add (length xs) (length ys) \<le> max_payload_len (codec_limits codec)"
    for xs ys and f :: "string \<Rightarrow> CodecError + ControlPayload" and g :: "u8 list \<Rightarrow> CodecError + ControlPayload"
    using within_sum [OF that small] by simp
  show ?thesis
    using ids fits ctl tag
    by (cases c;
        simp only: encode_control.simps decode_control.simps control_kind.simps variable_len.simps
          encode_arms wire_tag.simps;
        simp only: decode_arms; simp add: parts del: and_then_Inr)
qed

section \<open>What the decoder read\<close>

text \<open>FlatBuffers distinguishes an absent string or vector from an empty one; the decoder does not. A table
  with every string and vector present is canonical.\<close>

abbreviation present :: "'a list option \<Rightarrow> 'a list option" where
  "present x \<equiv> Some (case x of None \<Rightarrow> [] | Some y \<Rightarrow> y)"

fun canonical_control :: "WireControl \<Rightarrow> WireControl" where
  "canonical_control (ClientLogPayload level message) = ClientLogPayload level (present message)"
| "canonical_control (RequestAdmissionPayload key) = RequestAdmissionPayload (present key)"
| "canonical_control (HelloPayload a b name version c d f) = HelloPayload a b (present name) (present version) c d f"
| "canonical_control (CapabilitiesPayload a name version c d f) =
     CapabilitiesPayload a (present name) (present version) c d f"
| "canonical_control (AuthenticatePayload scheme credentials) = AuthenticatePayload scheme (present credentials)"
| "canonical_control (JoinSessionPayload token) = JoinSessionPayload (present token)"
| "canonical_control (LeaveSessionPayload reason) = LeaveSessionPayload (present reason)"
| "canonical_control (SubscriptionRejectedPayload code reason) = SubscriptionRejectedPayload code (present reason)"
| "canonical_control (ProtocolErrorPayload code kind message) = ProtocolErrorPayload code kind (present message)"
| "canonical_control (InferenceRequestedPayload capability deadline input) =
     InferenceRequestedPayload (present capability) deadline (present input)"
| "canonical_control (InferenceStreamChunkPayload sequence chunk final) =
     InferenceStreamChunkPayload sequence (present chunk) final"
| "canonical_control (InferenceCompletedPayload result) = InferenceCompletedPayload (present result)"
| "canonical_control (InferenceFailedPayload reason) = InferenceFailedPayload (present reason)"
| "canonical_control (InferenceCancelledPayload reason) = InferenceCancelledPayload (present reason)"
| "canonical_control (InferenceExpiredPayload reason) = InferenceExpiredPayload (present reason)"
| "canonical_control (ToolCallProposedPayload tool version arguments revision) =
     ToolCallProposedPayload (present tool) version (present arguments) revision"
| "canonical_control (ToolCallAcceptedPayload tool) = ToolCallAcceptedPayload (present tool)"
| "canonical_control (ToolCallRejectedPayload code reason) = ToolCallRejectedPayload code (present reason)"
| "canonical_control (ToolCallCompletedPayload revision result) = ToolCallCompletedPayload revision (present result)"
| "canonical_control control = control"

lemma checked_control_ok [accepts]:
  "checked_control_string codec s = Inr t \<longleftrightarrow>
     t = unwrap_or_default s \<and> length t \<le> max_payload_len (codec_limits codec)"
  "checked_control_vector codec v = Inr b \<longleftrightarrow>
     b = vector_bytes v \<and> length b \<le> max_payload_len (codec_limits codec)"
  by (auto simp: checked_control_string_def checked_control_vector_def vector_bytes_def accepts Let_def
      split: option.splits)

lemma checked_control_strings_ok [accepts]:
  "checked_control_strings codec s t = Inr p \<longleftrightarrow>
     p = (s, t) \<and> usize_sat_add (length s) (length t) \<le> max_payload_len (codec_limits codec)"
  by (auto simp: checked_control_strings_def accepts)

lemma require_channel_mirror_ok [accepts]: "require_channel_mirror w k m = Inr u \<longleftrightarrow> m = we_channel_id w"
  by (simp add: require_channel_mirror_def)

lemma require_control_ok [accepts]:
  "require_control w k t = Inr u \<longleftrightarrow> we_control_type w = t \<and> we_control w \<noteq> None"
  by (simp add: require_control_def)

lemma decoded_control:
  assumes "decode_control codec w k = Inr c"
  shows "control_kind c = k \<and> (\<exists>t. we_control w = Some t \<and> canonical_control t = encode_control c (we_channel_id w)
           \<and> we_control_type w = wire_tag t)"
proof -
  obtain t where t: "we_control w = Some t"
    using assms by (cases k; simp only: decode_control.simps decode_arms; auto simp: accepts)
  show ?thesis
    using assms
    by (cases k; simp only: decode_control.simps decode_arms t option.case;
        simp add: accepts t split: WireControl.split_asm;
        auto simp: encode_arms unwrap_or_default_def vector_bytes_def)
qed

end
