(* ===== verification/Protocol_Properties.thy ===== *)
theory Protocol_Properties
  imports Protocol_Round
begin

text \<open>
  What the codec promises: envelopes survive the wire, nothing the decoder reads is lost, every decoded
  envelope has passed the checks of \<open>semantics.rs\<close>, and a frame has exactly one acceptable length.
\<close>

section \<open>Envelopes on the wire\<close>

lemma validated_envelope:
  assumes "validate e = Inr u"
  shows "ev_channel_id e \<noteq> Some 0" "ev_entity_id e \<noteq> Some 0" "ev_correlation_id e \<noteq> Some 0"
    and "message_kind e \<noteq> MkUnknown"
    and "ev_message e = MsgControl c \<Longrightarrow> validate_control e c = Inr ()"
    and "opaque (ev_message e) = Some p \<Longrightarrow> op_type_id p \<noteq> 0"
  using assms
  by (auto simp: validate_def accepts validate_delivery_def validate_opaque_def message_kind_def
      split: MessagePayload.splits if_splits)

lemma control_kind_is_control:
  "control_kind c \<notin> {MkUnknown, MkEntityState, MkReliableEvent, MkSnapshot}"
  by (cases c) auto

lemma decode_message_encoded:
  assumes out: "validate_outbound codec e = Inr u" and small: "max_payload_len (codec_limits codec) < usize_max"
  shows "decode_message codec (wire_envelope e) (message_kind e) = Inr (ev_message e)"
proof (cases "ev_message e")
  case (MsgControl c)
  have valid: "validate e = Inr ()" and fits: "variable_len c \<le> max_payload_len (codec_limits codec)"
    using out MsgControl by (auto simp: validate_outbound_def accepts split: if_splits)
  have "decode_control codec (wire_envelope e) (control_kind c) = Inr c"
    using validated_optional_ids [OF validated_envelope(5) [OF valid MsgControl]] fits small
    by (intro decode_encoded_control) (simp_all add: wire_envelope_def MsgControl Let_def)
  then show ?thesis
    using MsgControl control_kind_is_control [of c]
    by (simp add: decode_message_def message_kind_def wire_envelope_def Let_def)
qed (use out in \<open>auto simp: decode_message_def decode_opaque_def message_kind_def wire_envelope_def Let_def accepts
       vector_bytes_def validate_outbound_def enforce_payload_limit_def split: if_splits\<close>)

lemma routing_position_eta [simp]: "\<lparr>rp_x = rp_x p, rp_y = rp_y p, rp_z = rp_z p\<rparr> = p"
  by simp

lemma routing_position_round:
  "map_option (\<lambda>(x, y, z). \<lparr>rp_x = x, rp_y = y, rp_z = z\<rparr>) (map_option (\<lambda>p. (rp_x p, rp_y p, rp_z p)) r) = r"
  by (cases r) simp_all

lemma envelope_eta:
  "\<lparr>ev_protocol_version = ev_protocol_version e, ev_delivery_class = ev_delivery_class e,
    ev_namespace_id = ev_namespace_id e, ev_session_id = ev_session_id e, ev_space_id = ev_space_id e,
    ev_channel_id = ev_channel_id e, ev_entity_id = ev_entity_id e, ev_space_epoch = ev_space_epoch e,
    ev_server_tick = ev_server_tick e, ev_sender_sequence = ev_sender_sequence e,
    ev_correlation_id = ev_correlation_id e, ev_routing_position = ev_routing_position e,
    ev_message = ev_message e\<rparr> = e"
  by simp

lemma wire_envelope_fields [simp]:
  "we_protocol_version (wire_envelope e) = ev_protocol_version e"
  "we_message_kind (wire_envelope e) = message_kind_value (message_kind e)"
  "we_delivery_class (wire_envelope e) = wire_delivery_class_value (ev_delivery_class e)"
  "we_namespace_id (wire_envelope e) = ev_namespace_id e"
  "we_session_id (wire_envelope e) = ev_session_id e"
  "we_space_id (wire_envelope e) = ev_space_id e"
  "we_entity_id (wire_envelope e) = unwrap_or_zero (ev_entity_id e)"
  "we_space_epoch (wire_envelope e) = ev_space_epoch e"
  "we_server_tick (wire_envelope e) = ev_server_tick e"
  "we_sender_sequence (wire_envelope e) = ev_sender_sequence e"
  "we_correlation_id (wire_envelope e) = unwrap_or_zero (ev_correlation_id e)"
  "we_channel_id (wire_envelope e) = unwrap_or_zero (ev_channel_id e)"
  "we_routing_position (wire_envelope e) = map_option (\<lambda>p. (rp_x p, rp_y p, rp_z p)) (ev_routing_position e)"
  by (simp_all add: wire_envelope_def Let_def)

lemma wire_envelope_payload:
  "we_payload_type_id (wire_envelope e) = (case opaque (ev_message e) of None \<Rightarrow> 0 | Some p \<Rightarrow> op_type_id p)"
  "we_payload (wire_envelope e) = map_option op_bytes (opaque (ev_message e))"
  "we_control (wire_envelope e) =
     (case ev_message e of MsgControl c \<Rightarrow> Some (encode_control c (we_channel_id (wire_envelope e))) | _ \<Rightarrow> None)"
  "we_control_type (wire_envelope e) = (case we_control (wire_envelope e) of None \<Rightarrow> 0 | Some t \<Rightarrow> wire_tag t)"
  by (simp_all add: wire_envelope_def Let_def split: MessagePayload.splits)

lemma decode_verified_encoded:
  assumes out: "validate_outbound codec e = Inr u" and small: "max_payload_len (codec_limits codec) < usize_max"
  shows "decode_verified codec (wire_envelope e) = Inr e"
proof -
  have valid: "validate e = Inr ()" and head: "ev_protocol_version e = PROTOCOL_VERSION" "ev_delivery_class e \<noteq> DcUnknown"
    using out by (auto simp: validate_outbound_def accepts split: if_splits)
  show ?thesis
    using valid head validated_envelope(1-4) [OF valid] decode_message_encoded [OF out small]
    by (simp add: decode_verified_def Let_def routing_position_round envelope_eta [of e, unfolded head(1)]
        del: and_then_Inr)
qed

text \<open>The decoder inverts the encoder up to absent strings and vectors.\<close>

definition canonical_wire :: "WireEnvelope \<Rightarrow> WireEnvelope" where
  "canonical_wire w =
     w\<lparr>we_control := map_option canonical_control (we_control w),
       we_payload := (if we_control w = None then present (we_payload w) else we_payload w)\<rparr>"

lemma canonical_wire_fields [simp]:
  "we_control (canonical_wire w) = map_option canonical_control (we_control w)"
  "we_payload (canonical_wire w) = (if we_control w = None then present (we_payload w) else we_payload w)"
  "we_protocol_version (canonical_wire w) = we_protocol_version w"
  "we_channel_id (canonical_wire w) = we_channel_id w"
  by (simp_all add: canonical_wire_def)

lemma wire_tag_canonical [simp]: "wire_tag (canonical_control t) = wire_tag t"
  by (cases t) simp_all

lemma decoded_message:
  assumes "decode_message codec w k = Inr m"
  shows "payload_kind m = k"
    and "we_payload_type_id w = (case opaque m of None \<Rightarrow> 0 | Some p \<Rightarrow> op_type_id p)"
    and "we_payload (canonical_wire w) = map_option op_bytes (opaque m)"
    and "we_control (canonical_wire w) =
           (case m of MsgControl c \<Rightarrow> Some (encode_control c (we_channel_id w)) | _ \<Rightarrow> None)"
    and "we_control_type w = (case we_control w of None \<Rightarrow> 0 | Some t \<Rightarrow> wire_tag t)"
proof -
  have "(\<exists>c. m = MsgControl c \<and> decode_control codec w k = Inr c \<and> we_payload_type_id w = 0 \<and> we_payload w = None)
      \<or> decode_opaque codec w k = Inr m"
    using assms by (auto simp: decode_message_def split: if_splits)
  then have "payload_kind m = k
    \<and> we_payload_type_id w = (case opaque m of None \<Rightarrow> 0 | Some p \<Rightarrow> op_type_id p)
    \<and> we_payload (canonical_wire w) = map_option op_bytes (opaque m)
    \<and> we_control (canonical_wire w) =
         (case m of MsgControl c \<Rightarrow> Some (encode_control c (we_channel_id w)) | _ \<Rightarrow> None)
    \<and> we_control_type w = (case we_control w of None \<Rightarrow> 0 | Some t \<Rightarrow> wire_tag t)"
  proof (elim disjE exE conjE)
    fix c assume "m = MsgControl c" "decode_control codec w k = Inr c" "we_payload_type_id w = 0" "we_payload w = None"
    then show ?thesis using decoded_control [of codec w k c] by auto
  next
    assume "decode_opaque codec w k = Inr m"
    then show ?thesis
      by (auto simp: decode_opaque_def accepts vector_bytes_def Let_def split: if_splits MessageKind.splits)
  qed
  then show "payload_kind m = k"
    and "we_payload_type_id w = (case opaque m of None \<Rightarrow> 0 | Some p \<Rightarrow> op_type_id p)"
    and "we_payload (canonical_wire w) = map_option op_bytes (opaque m)"
    and "we_control (canonical_wire w) =
           (case m of MsgControl c \<Rightarrow> Some (encode_control c (we_channel_id w)) | _ \<Rightarrow> None)"
    and "we_control_type w = (case we_control w of None \<Rightarrow> 0 | Some t \<Rightarrow> wire_tag t)"
    by blast+
qed

lemma routing_tuple_round:
  "map_option (\<lambda>p. (rp_x p, rp_y p, rp_z p)) (map_option (\<lambda>(x, y, z). \<lparr>rp_x = x, rp_y = y, rp_z = z\<rparr>) r) = r"
  by (cases r) auto

lemma decode_verified_spec:
  assumes "decode_verified codec w = Inr e"
  shows "validate e = Inr ()" "ev_protocol_version e = PROTOCOL_VERSION" "ev_delivery_class e \<noteq> DcUnknown"
    and "wire_envelope e = canonical_wire w"
proof -
  from assms obtain kind delivery m where parts:
      "we_protocol_version w = PROTOCOL_VERSION" "message_kind_value kind = we_message_kind w"
      "wire_delivery_class_value delivery = we_delivery_class w" "delivery \<noteq> DcUnknown"
      "decode_message codec w kind = Inr m"
    and e: "e = \<lparr>ev_protocol_version = we_protocol_version w, ev_delivery_class = delivery,
                 ev_namespace_id = we_namespace_id w, ev_session_id = we_session_id w, ev_space_id = we_space_id w,
                 ev_channel_id = nonzero (we_channel_id w), ev_entity_id = nonzero (we_entity_id w),
                 ev_space_epoch = we_space_epoch w, ev_server_tick = we_server_tick w,
                 ev_sender_sequence = we_sender_sequence w, ev_correlation_id = nonzero (we_correlation_id w),
                 ev_routing_position = map_option (\<lambda>(x, y, z). \<lparr>rp_x = x, rp_y = y, rp_z = z\<rparr>) (we_routing_position w),
                 ev_message = m\<rparr>"
    and valid: "validate e = Inr ()"
    by (auto simp: decode_verified_def accepts Let_def bind_eq_Some_conv split: if_splits)
  show "validate e = Inr ()" "ev_protocol_version e = PROTOCOL_VERSION" "ev_delivery_class e \<noteq> DcUnknown"
    using valid e parts by simp_all
  have fields: "ev_message e = m" "we_channel_id (wire_envelope e) = we_channel_id w" "message_kind e = kind"
    using decoded_message(1) [OF parts(5)] by (simp_all add: e message_kind_def)
  have control: "we_control (wire_envelope e) = we_control (canonical_wire w)"
    using decoded_message(4) [OF parts(5)] by (simp only: wire_envelope_payload fields)
  have "we_control_type (wire_envelope e) = we_control_type (canonical_wire w)"
    using decoded_message(5) [OF parts(5)]
    by (simp add: wire_envelope_payload(4) control canonical_wire_def split: option.splits)
  moreover have "we_payload_type_id (wire_envelope e) = we_payload_type_id (canonical_wire w)"
    "we_payload (wire_envelope e) = we_payload (canonical_wire w)"
    using decoded_message(2,3) [OF parts(5)]
    by (simp_all only: wire_envelope_payload fields) (simp add: canonical_wire_def)
  ultimately have "wire_envelope e = canonical_wire w"
    using control parts(2,3) fields(3)
    by (intro WireEnvelope.equality) (simp_all add: e routing_tuple_round, simp_all add: canonical_wire_def)
  then show "wire_envelope e = canonical_wire w" .
qed

section \<open>Frames\<close>

text \<open>What the codec relies on of FlatBuffers for one table: the finished buffer carries the file identifier,
  verifies and reads back as that table, is preceded by its own length, and is no shorter than the root
  offset and the identifier.\<close>

definition fb_faithful :: "FlatBuffers \<Rightarrow> WireEnvelope \<Rightarrow> bool" where
  "fb_faithful fb w \<longleftrightarrow>
     (let frame = fb_finish_size_prefixed fb w
      in fb_has_identifier fb frame \<and> fb_size_prefixed_root fb frame = Inr w
         \<and> MIN_FRAME_LEN \<le> length frame
         \<and> unat (u32_from_le_bytes (take SIZE_PREFIX_LEN frame)) + SIZE_PREFIX_LEN = length frame)"

definition announced_len :: "u8 list \<Rightarrow> usize" where
  "announced_len frame = unat (u32_from_le_bytes (take SIZE_PREFIX_LEN frame)) + SIZE_PREFIX_LEN"

lemma announced_len_small: "announced_len frame < usize_max"
  using unsigned_less [of "u32_from_le_bytes (take SIZE_PREFIX_LEN frame)", where ?'a = nat]
  by (simp add: announced_len_def usize_max_def SIZE_PREFIX_LEN_def)

lemma announced_len_append:
  "SIZE_PREFIX_LEN \<le> length frame \<Longrightarrow> announced_len (frame @ extra) = announced_len frame"
  "SIZE_PREFIX_LEN \<le> n \<Longrightarrow> announced_len (take n frame) = announced_len frame"
  by (simp_all add: announced_len_def min_def)

lemma expected_frame_len_ok:
  "expected_frame_len codec frame = Inr (Some n) \<longleftrightarrow>
     SIZE_PREFIX_LEN \<le> length frame \<and> n = announced_len frame \<and> MIN_FRAME_LEN \<le> n
     \<and> n \<le> max_frame_len (codec_limits codec)"
proof -
  have "usize_sat_add (unat (u32_from_le_bytes (take SIZE_PREFIX_LEN frame))) SIZE_PREFIX_LEN = announced_len frame"
    using announced_len_small [of frame] by (simp add: usize_sat_add_def announced_len_def)
  moreover have "(u32_from_le_bytes (take SIZE_PREFIX_LEN frame) < MIN_ENCODED_LEN) = (announced_len frame < MIN_FRAME_LEN)"
    by (simp add: announced_len_def MIN_ENCODED_LEN_def MIN_FRAME_LEN_def SIZE_PREFIX_LEN_def word_less_nat_alt)
  ultimately show ?thesis
    by (auto simp: expected_frame_len_def Let_def accepts linorder_not_less)
qed

lemma expected_frame_len_none:
  "length frame < SIZE_PREFIX_LEN \<Longrightarrow> expected_frame_len codec frame = Inr None"
  by (simp add: expected_frame_len_def)

lemma decode_ok:
  "decode fb codec frame = Inr e \<longleftrightarrow>
     expected_frame_len codec frame = Inr (Some (length frame)) \<and> fb_has_identifier fb frame
     \<and> (\<exists>w. fb_size_prefixed_root fb frame = Inr w \<and> decode_verified codec w = Inr e)"
  by (auto simp: decode_def accepts map_err_def split: if_splits sum.splits)

section \<open>Messages and their scopes\<close>

datatype MessageScope = ConnectionLevel | SessionLevel | SpaceLevel bool bool | ErrorLevel

text \<open>The scope each kind of message travels in: \<open>SpaceLevel channel entity\<close> says whether it carries a channel
  and whether it must name an entity.\<close>

fun message_scope :: "MessageKind \<Rightarrow> MessageScope" where
  "message_scope MkHello = ConnectionLevel"
| "message_scope MkCapabilities = ConnectionLevel"
| "message_scope MkAuthenticate = ConnectionLevel"
| "message_scope MkAuthenticated = ConnectionLevel"
| "message_scope MkPing = ConnectionLevel"
| "message_scope MkPong = ConnectionLevel"
| "message_scope MkClientLog = SessionLevel"
| "message_scope MkJoinSession = SessionLevel"
| "message_scope MkLeaveSession = SessionLevel"
| "message_scope MkRequestAdmission = SessionLevel"
| "message_scope MkAdmissionResult = SessionLevel"
| "message_scope MkQueueStatusRequest = SessionLevel"
| "message_scope MkQueueHeartbeat = SessionLevel"
| "message_scope MkQueueClaim = SessionLevel"
| "message_scope MkQueueCancel = SessionLevel"
| "message_scope MkQueueUpdate = SessionLevel"
| "message_scope MkSubscribeSpace = SpaceLevel True False"
| "message_scope MkUnsubscribeSpace = SpaceLevel True False"
| "message_scope MkSubscriptionAccepted = SpaceLevel True False"
| "message_scope MkSubscriptionRejected = SpaceLevel True False"
| "message_scope MkSnapshotRequest = SpaceLevel True False"
| "message_scope MkReliableEvent = SpaceLevel True False"
| "message_scope MkSnapshot = SpaceLevel True False"
| "message_scope MkEntityState = SpaceLevel True True"
| "message_scope MkProtocolError = ErrorLevel"
| "message_scope _ = SpaceLevel False True"

fun in_scope :: "MessageScope \<Rightarrow> Envelope \<Rightarrow> bool" where
  "in_scope ConnectionLevel e \<longleftrightarrow>
     ev_namespace_id e = 0 \<and> ev_session_id e = 0 \<and> ev_space_id e = 0 \<and> ev_space_epoch e = 0
     \<and> ev_channel_id e = None \<and> ev_entity_id e = None"
| "in_scope SessionLevel e \<longleftrightarrow>
     ev_namespace_id e \<noteq> 0 \<and> ev_session_id e \<noteq> 0 \<and> ev_space_id e = 0 \<and> ev_space_epoch e = 0
     \<and> ev_channel_id e = None \<and> ev_entity_id e = None"
| "in_scope (SpaceLevel channel entity) e \<longleftrightarrow>
     ev_namespace_id e \<noteq> 0 \<and> ev_session_id e \<noteq> 0 \<and> ev_space_id e \<noteq> 0 \<and> ev_space_epoch e \<noteq> 0
     \<and> (ev_channel_id e \<noteq> None) = channel \<and> (entity \<longrightarrow> ev_entity_id e \<noteq> None)"
| "in_scope ErrorLevel e \<longleftrightarrow>
     (ev_session_id e \<noteq> 0 \<longrightarrow> ev_namespace_id e \<noteq> 0) \<and> (ev_space_id e \<noteq> 0 \<longrightarrow> ev_session_id e \<noteq> 0)
     \<and> (ev_channel_id e \<noteq> None \<or> ev_entity_id e \<noteq> None \<or> ev_space_epoch e \<noteq> 0 \<longrightarrow> ev_space_id e \<noteq> 0)"

fun delivery_classes :: "MessageKind \<Rightarrow> WireDeliveryClass set" where
  "delivery_classes MkEntityState = {DcLatestValue, DcUnreliableSequenced}"
| "delivery_classes MkReliableEvent = {DcReliableOrdered, DcReliableUnordered}"
| "delivery_classes MkPing = {DcReliableUnordered}"
| "delivery_classes MkPong = {DcReliableUnordered}"
| "delivery_classes MkInferenceProgress = {DcBestEffortEvent}"
| "delivery_classes MkInferenceStreamChunk = {DcBestEffortEvent}"
| "delivery_classes MkUnknown = {}"
| "delivery_classes _ = {DcReliableOrdered}"

lemma validate_delivery_ok: "validate_delivery e = Inr u \<longleftrightarrow> ev_delivery_class e \<in> delivery_classes (message_kind e)"
  by (cases "message_kind e") (simp_all add: validate_delivery_def Let_def)

lemma validated_control_in_scope:
  assumes "validate_control e c = Inr u"
  shows "in_scope (message_scope (control_kind c)) e"
  using assms
  by (cases c)
     (auto simp: accepts validate_managed_def validate_transition_def validate_inference_control_def
        validate_protocol_error_def validate_optional_scope_def Let_def split: if_splits)

lemma validated_in_scope:
  assumes "validate e = Inr u"
  shows "in_scope (message_scope (message_kind e)) e"
  using assms validated_control_in_scope [of e]
  by (auto simp: validate_def accepts validate_opaque_def message_kind_def split: MessagePayload.splits)

lemma validated_position:
  assumes "validate e = Inr u" "ev_routing_position e = Some p"
  shows "message_kind e = MkEntityState \<and> routing_is_finite p"
  using assms
  by (auto simp: validate_def accepts validate_opaque_def message_kind_def split: MessagePayload.splits if_splits)

section \<open>A sample exchange\<close>

definition sample_codec :: Codec where
  "sample_codec = \<lparr>codec_limits = \<lparr>max_frame_len = 1024, max_payload_len = 6\<rparr>\<rparr>"

definition sample_log :: Envelope where
  "sample_log =
     (envelope_control DcReliableOrdered (CtlClientLog \<lparr>wcl_level = LogWarn, wcl_message = ''hello''\<rparr>))
       \<lparr>ev_namespace_id := 7, ev_session_id := 9, ev_correlation_id := Some 3\<rparr>"

definition sample_frame :: "u8 list" where
  "sample_frame = [8, 0, 0, 0, 4, 0, 0, 0, 87, 86, 78, 49]"

definition sample_flatbuffers :: FlatBuffers where
  "sample_flatbuffers =
     \<lparr>fb_finish_size_prefixed = (\<lambda>_. sample_frame), fb_has_identifier = (\<lambda>frame. frame = sample_frame),
      fb_size_prefixed_root = (\<lambda>_. Inr (wire_envelope sample_log))\<rparr>"


lemma sample_valid: "validate_outbound sample_codec sample_log = Inr ()"
  by (simp add: validate_outbound_def sample_log_def sample_codec_def envelope_control_def envelope_new_def
      validate_def accepts validate_delivery_def message_kind_def MAX_LOG_MESSAGE_BYTES_def)

lemma sample_encodes: "encode sample_flatbuffers sample_codec sample_log = Inr sample_frame"
  using sample_valid
  by (simp add: encode_def sample_flatbuffers_def sample_frame_def accepts sample_codec_def)

lemma sample_len: "announced_len sample_frame = length sample_frame"
  by (simp add: announced_len_def sample_frame_def SIZE_PREFIX_LEN_def u32_from_le_bytes_def)

lemma sample_faithful: "fb_faithful sample_flatbuffers (wire_envelope sample_log)"
  using sample_len
  by (simp add: fb_faithful_def sample_flatbuffers_def announced_len_def)
     (simp add: sample_frame_def MIN_FRAME_LEN_def)

lemma sample_codec_made: "codec_new \<lparr>max_frame_len = 1024, max_payload_len = 6\<rparr> = Inr sample_codec"
  by (simp add: codec_new_def codec_limits_new_def sample_codec_def usize_sat_add_def usize_max_def
      SIZE_PREFIX_LEN_def MIN_FRAME_LEN_def)

lemma sample_decodes: "decode sample_flatbuffers sample_codec sample_frame = Inr sample_log"
  using decode_verified_encoded [OF sample_valid] sample_len
  by (simp add: decode_ok expected_frame_len_ok)
     (simp add: sample_flatbuffers_def sample_frame_def sample_codec_def SIZE_PREFIX_LEN_def MIN_FRAME_LEN_def
       usize_max_def)




section \<open>Properties\<close>

text \<open>C8. Encoding and then decoding an envelope gives the envelope back. For every codec \<open>Codec::new\<close>
  accepts and every envelope \<open>encode\<close> accepts, of whatever kind and payload, \<open>decode\<close> of the frame is the
  envelope itself, provided FlatBuffers reads back the one table that was written.\<close>

theorem codec_round_trip:
  assumes codec: "codec_new limits = Inr codec"
    and enc: "encode fb codec e = Inr frame"
    and fb: "fb_faithful fb (wire_envelope e)"
  shows "decode fb codec frame = Inr e"
proof -
  have out: "validate_outbound codec e = Inr ()"
    and frame: "frame = fb_finish_size_prefixed fb (wire_envelope e)"
    and len: "length frame \<le> max_frame_len (codec_limits codec)"
    using enc by (auto simp: encode_def accepts Let_def)
  have "expected_frame_len codec frame = Inr (Some (length frame))"
    using fb len by (auto simp: expected_frame_len_ok fb_faithful_def frame Let_def announced_len_def
        SIZE_PREFIX_LEN_def MIN_FRAME_LEN_def)
  moreover have "max_payload_len (codec_limits codec) < usize_max"
    using codec_new_limits [OF codec] by linarith
  ultimately show ?thesis
    using decode_verified_encoded [OF out] fb by (simp add: decode_ok frame fb_faithful_def Let_def)
qed

theorem codec_round_trip_witness:
  "decode sample_flatbuffers sample_codec sample_frame = Inr sample_log"
  using codec_round_trip [OF sample_codec_made sample_encodes sample_faithful] .

text \<open>C9. The decoder loses nothing. Whenever \<open>decode\<close> accepts a frame, encoding the envelope it returned
  would write the very table the frame holds, with absent strings and vectors written as empty ones: no
  field of an accepted frame is dropped, defaulted or confused with another.\<close>

theorem decode_loses_nothing:
  assumes "decode fb codec frame = Inr e"
  shows "\<exists>w. fb_size_prefixed_root fb frame = Inr w \<and> wire_envelope e = canonical_wire w"
  using assms by (auto simp: decode_ok dest: decode_verified_spec(4))

theorem decode_loses_nothing_witness:
  "\<exists>w. fb_size_prefixed_root sample_flatbuffers sample_frame = Inr w \<and> wire_envelope sample_log = canonical_wire w"
  using decode_loses_nothing [OF sample_decodes] .

text \<open>C18. Every decoded envelope is well formed: it has the protocol's version, travels in the scope of its
  kind and in a delivery class that kind allows, no optional identifier is zero, and only an entity state
  carries a routing position, whose coordinates are finite.\<close>

theorem decoded_is_well_formed:
  assumes "decode fb codec frame = Inr e"
  shows "ev_protocol_version e = PROTOCOL_VERSION
    \<and> message_kind e \<noteq> MkUnknown
    \<and> in_scope (message_scope (message_kind e)) e
    \<and> ev_delivery_class e \<in> delivery_classes (message_kind e)
    \<and> ev_channel_id e \<noteq> Some 0 \<and> ev_entity_id e \<noteq> Some 0 \<and> ev_correlation_id e \<noteq> Some 0
    \<and> (\<forall>p. ev_routing_position e = Some p \<longrightarrow> message_kind e = MkEntityState \<and> routing_is_finite p)"
proof -
  obtain w where "decode_verified codec w = Inr e"
    using assms by (auto simp: decode_ok)
  then have "validate e = Inr ()" "ev_protocol_version e = PROTOCOL_VERSION"
    using decode_verified_spec by blast+
  moreover from this have "validate_delivery e = Inr ()"
    by (auto simp: validate_def)
  ultimately show ?thesis
    using validated_envelope(1-4) validated_in_scope validated_position validate_delivery_ok by blast
qed

theorem decoded_is_well_formed_witness:
  "in_scope SessionLevel sample_log \<and> ev_delivery_class sample_log \<in> {DcReliableOrdered}"
  using decoded_is_well_formed [OF sample_decodes]
  by (simp add: sample_log_def message_kind_def envelope_control_def envelope_new_def)

text \<open>C19. A frame has exactly one acceptable length. If a frame decodes then it is within the codec's limit,
  every proper prefix of it is refused as truncated (with the number of bytes still expected) and every
  extension of it is refused for its trailing bytes.\<close>

theorem frame_length_is_exact:
  assumes "decode fb codec frame = Inr e"
  shows "MIN_FRAME_LEN \<le> length frame \<and> length frame \<le> max_frame_len (codec_limits codec)
    \<and> (\<forall>n < length frame.
         decode fb codec (take n frame) =
           Inl (CeTruncatedFrame (if n < SIZE_PREFIX_LEN then SIZE_PREFIX_LEN else length frame) n))
    \<and> (\<forall>b extra. decode fb codec (frame @ b # extra) =
         Inl (CeTrailingBytes (length frame) (length frame + Suc (length extra))))"
proof -
  have ok: "expected_frame_len codec frame = Inr (Some (length frame))"
    using assms by (simp add: decode_ok)
  then have len: "SIZE_PREFIX_LEN \<le> length frame" "announced_len frame = length frame"
      "MIN_FRAME_LEN \<le> length frame" "length frame \<le> max_frame_len (codec_limits codec)"
    by (auto simp: expected_frame_len_ok)
  have short: "decode fb codec (take n frame) =
      Inl (CeTruncatedFrame (if n < SIZE_PREFIX_LEN then SIZE_PREFIX_LEN else length frame) n)"
    if "n < length frame" for n
  proof (cases "n < SIZE_PREFIX_LEN")
    case True
    then show ?thesis using that by (simp add: decode_def expected_frame_len_none ok_or_def)
  next
    case False
    then have "expected_frame_len codec (take n frame) = Inr (Some (length frame))"
      using that len by (simp add: expected_frame_len_ok announced_len_append)
    then show ?thesis using that False by (simp add: decode_def)
  qed
  have long: "decode fb codec (frame @ b # extra) =
      Inl (CeTrailingBytes (length frame) (length frame + Suc (length extra)))" for b extra
  proof -
    have "expected_frame_len codec (frame @ b # extra) = Inr (Some (length frame))"
      using len by (simp add: expected_frame_len_ok announced_len_append)
    then show ?thesis by (simp add: decode_def)
  qed
  from short long len(3,4) show ?thesis by blast
qed

theorem frame_length_is_exact_witness:
  "decode sample_flatbuffers sample_codec (take 11 sample_frame) = Inl (CeTruncatedFrame 12 11)
   \<and> decode sample_flatbuffers sample_codec (sample_frame @ [0, 0]) = Inl (CeTrailingBytes 12 14)"
proof -
  have "length sample_frame = 12" by (simp add: sample_frame_def)
  then show ?thesis
    using frame_length_is_exact [OF sample_decodes] by (simp add: SIZE_PREFIX_LEN_def)
qed


end
