(* ===== verification/Worker_Dispatch.thy ===== *)
theory Worker_Dispatch
  imports Core_Sample
begin

text \<open>
  The worker that owns the core (\<open>woven-core/src/worker.rs\<close>): one command per request a transport makes,
  its dispatch to the core, and the bounded single-threaded harness around it. Where the source reads the
  clock the model takes the instant from \<open>WorkerEnv\<close>; \<open>None\<close> is a panic of the core.
\<close>

section \<open>Commands\<close>

datatype Command =
    TransportConnected
  | AuthenticateConnection ConnectionId Credentials
  | JoinSession ConnectionId SessionKey
  | RequestSessionAdmission ConnectionId SessionKey IdempotencyKey
  | SessionQueue ConnectionId SessionKey QueueTicketId QueueOperation
  | JoinSessionWithAdmission ConnectionId SessionKey AdmissionLease
  | LeaveSession ConnectionId SessionKey
  | Subscribe ConnectionId SpaceKey
  | Unsubscribe ConnectionId SpaceKey
  | SpawnEntity ConnectionId SpaceKey SpaceEpoch
  | RemoveEntity ConnectionId SessionKey EntityId
  | UpdateEntityPosition ConnectionId SessionKey EntityId EntityPosition
  | TransitionEntity EntityTransitionRequest
  | Publish PublishRequest
  | TakeSnapshot ConnectionId SessionKey
  | DrainOutbound ConnectionId
  | TransportLost ConnectionId

datatype CommandResult =
    Connected ConnectionId
  | Authenticated PrincipalId
  | Joined
  | Admission JoinDecision
  | Queue QueueStatus
  | Left CleanupSummary
  | Subscribed
  | Unsubscribed CleanupSummary
  | EntitySpawned EntityId
  | EntityRemoved CleanupSummary
  | EntityPositionUpdated
  | EntityTransitioned EntityTransition
  | Published PublishOutcome
  | SnapshotTaken SessionSnapshot
  | Outbound "OutboundMessage list"
  | Disconnected CleanupSummary

record WorkerEnv =
  env_now :: Instant
  env_clock :: "ConnectionId \<Rightarrow> nat \<Rightarrow> Instant"
  env_digest :: "string \<Rightarrow> u8 list"

definition answer :: "('a \<Rightarrow> CommandResult) \<Rightarrow> (CoreError + 'a) \<times> WovenCore
    \<Rightarrow> ((CoreError + CommandResult) \<times> WovenCore) option" where
  "answer f = (\<lambda>(r, w). Some (map_sum id f r, w))"

fun handle :: "WorkerEnv \<Rightarrow> Command \<Rightarrow> WovenCore \<Rightarrow> ((CoreError + CommandResult) \<times> WovenCore) option" where
  "handle env TransportConnected w = answer Connected (transport_connected w)"
| "handle env (AuthenticateConnection c credentials) w =
     answer Authenticated (authenticate (env_digest env) c credentials (env_now env) w)"
| "handle env (JoinSession c session) w = answer (\<lambda>_. Joined) (join_session_at c session (env_now env) w)"
| "handle env (RequestSessionAdmission c session key) w =
     answer Admission (admit_and_join_session_at c session key (env_now env) w)"
| "handle env (SessionQueue c session ticket operation) w =
     answer Queue (session_queue_at c session ticket operation (env_now env) w)"
| "handle env (JoinSessionWithAdmission c session lease) w =
     answer (\<lambda>_. Joined) (join_session_with_admission_at c session lease (env_now env) w)"
| "handle env (LeaveSession c session) w = answer Left (leave_session c session (env_now env) w)"
| "handle env (Subscribe c space) w = answer (\<lambda>_. Subscribed) (subscribe c space w)"
| "handle env (Unsubscribe c space) w = answer Unsubscribed (unsubscribe c space w)"
| "handle env (SpawnEntity c space epoch) w = answer EntitySpawned (spawn_entity c space epoch w)"
| "handle env (RemoveEntity c session entity) w = answer EntityRemoved (remove_entity c session entity w)"
| "handle env (UpdateEntityPosition c session entity position) w =
     answer (\<lambda>_. EntityPositionUpdated) (update_entity_position c session entity position w)"
| "handle env (TransitionEntity request) w = answer EntityTransitioned (transition_entity request w)"
| "handle env (Publish request) w =
     Option.bind (publish_at (env_clock env) request (env_now env) w) (answer Published)"
| "handle env (TakeSnapshot c session) w = answer SnapshotTaken (snapshot w c session, w)"
| "handle env (DrainOutbound c) w = answer Outbound (drain_outbound c w)"
| "handle env (TransportLost c) w = answer Disconnected (transport_lost (env_clock env c) c w)"

section \<open>The harness\<close>

datatype HarnessError = ZeroCapacity | HarnessFull

record WorkerHarness =
  wh_core :: WovenCore
  wh_capacity :: usize
  wh_commands :: "Command list"

definition harness_new :: "WovenCore \<Rightarrow> usize \<Rightarrow> HarnessError + WorkerHarness" where
  "harness_new w capacity =
     (if capacity = 0 then Inl ZeroCapacity
      else Inr \<lparr>wh_core = w, wh_capacity = capacity, wh_commands = []\<rparr>)"

definition submit :: "Command \<Rightarrow> WorkerHarness \<Rightarrow> (HarnessError + unit) \<times> WorkerHarness" where
  "submit command h =
     (if length (wh_commands h) = wh_capacity h then (Inl HarnessFull, h)
      else (Inr (), h\<lparr>wh_commands := wh_commands h @ [command]\<rparr>))"

text \<open>\<open>harness_step\<close> is \<open>None\<close> on a panic of the core, and \<open>Some (None, _)\<close> where the source returns \<open>None\<close>:
  no command is pending.\<close>

definition harness_step :: "WorkerEnv \<Rightarrow> WorkerHarness \<Rightarrow> ((CoreError + CommandResult) option \<times> WorkerHarness) option" where
  "harness_step env h =
     (case wh_commands h of
        [] \<Rightarrow> Some (None, h)
      | command # rest \<Rightarrow>
          Option.bind (handle env command (wh_core h)) (\<lambda>(r, w). Some (Some r, h\<lparr>wh_core := w, wh_commands := rest\<rparr>)))"

partial_function (option) run_pending ::
  "(nat \<Rightarrow> WorkerEnv) \<Rightarrow> nat \<Rightarrow> WorkerHarness \<Rightarrow> ((CoreError + CommandResult) list \<times> WorkerHarness) option" where
  "run_pending env i h =
     Option.bind (harness_step (env i) h) (\<lambda>(outcome, h1).
       case outcome of
         None \<Rightarrow> Some ([], h1)
       | Some r \<Rightarrow> Option.bind (run_pending env (Suc i) h1) (\<lambda>(rs, h2). Some (r # rs, h2)))"

section \<open>The worker keeps the core's invariant\<close>

lemma answer_Some [simp]: "answer f p = Some (r, w) \<longleftrightarrow> w = snd p \<and> r = map_sum id f (fst p)"
  by (auto simp: answer_def case_prod_beta)

lemma snd_answer: "map_option snd (answer f p) = Some (snd p)"
  by (simp add: answer_def case_prod_beta)

text \<open>Every command is one step of the core.\<close>

lemma handle_core_step:
  assumes "handle env command w = Some (r, w')"
  shows "core_step w w' \<or> w' = w"
proof (cases command)
  case (Publish request)
  then show ?thesis using assms by (auto simp: bind_eq_Some_conv intro: core_step.intros)
qed (use assms in \<open>auto intro: core_step.intros\<close>)

lemma handle_total:
  assumes "core_inv w"
  shows "\<exists>r w'. handle env command w = Some (r, w') \<and> core_inv w'"
proof -
  have "\<exists>r w'. handle env command w = Some (r, w')"
  proof (cases command)
    case (Publish request)
    then show ?thesis
      using publish_at_cases [OF assms, of "env_clock env" request "env_now env"] by fastforce
  qed (auto simp: answer_def split: prod.splits)
  then obtain r w' where "handle env command w = Some (r, w')" by blast
  with handle_core_step [OF this] core_step_inv assms show ?thesis by blast
qed

section \<open>The harness runs to completion\<close>

text \<open>The answers a run must give: one per command, in the order of submission, each computed from the core
  the previous one left.\<close>

fun answers :: "(nat \<Rightarrow> WorkerEnv) \<Rightarrow> nat \<Rightarrow> Command list \<Rightarrow> WovenCore \<Rightarrow> (CoreError + CommandResult) list \<Rightarrow> WovenCore \<Rightarrow> bool" where
  "answers env i [] w rs w' \<longleftrightarrow> rs = [] \<and> w' = w"
| "answers env i (command # rest) w rs w' \<longleftrightarrow>
     (case rs of
        [] \<Rightarrow> False
      | r # rs' \<Rightarrow> \<exists>w1. handle (env i) command w = Some (r, w1) \<and> answers env (Suc i) rest w1 rs' w')"

lemma answers_length: "answers env i commands w rs w' \<Longrightarrow> length rs = length commands"
  by (induction env i commands w rs w' rule: answers.induct) (auto split: list.splits)

lemma run_pending_spec:
  assumes "core_inv (wh_core h)"
  shows "\<exists>rs w'. run_pending env i h = Some (rs, h\<lparr>wh_core := w', wh_commands := []\<rparr>)
    \<and> answers env i (wh_commands h) (wh_core h) rs w' \<and> core_inv w'"
  using assms
proof (induction "wh_commands h" arbitrary: h i)
  case Nil
  then have "h\<lparr>wh_core := wh_core h, wh_commands := []\<rparr> = h" by simp
  with Nil show ?case by (subst run_pending.simps) (auto simp: harness_step_def)
next
  case (Cons command rest)
  from handle_total [OF Cons.prems, of "env i" command]
  obtain r w1 where h1: "handle (env i) command (wh_core h) = Some (r, w1)" "core_inv w1" by blast
  from Cons.hyps(1) [of "h\<lparr>wh_core := w1, wh_commands := rest\<rparr>" "Suc i"] h1(2)
  obtain rs w' where "run_pending env (Suc i) (h\<lparr>wh_core := w1, wh_commands := rest\<rparr>)
      = Some (rs, h\<lparr>wh_core := w', wh_commands := []\<rparr>)"
    "answers env (Suc i) rest w1 rs w'" "core_inv w'" by auto
  with h1 Cons.hyps(2) [symmetric] show ?case
    by (subst run_pending.simps) (auto simp: harness_step_def intro!: exI [of _ "r # rs"])
qed

text \<open>C35. The command loop returns. On any reachable core and any pending commands \<open>run_pending\<close> terminates
  without a panic, leaves nothing pending, and answers every command once, in the order of submission and
  each against the core its predecessor left.\<close>

theorem run_pending_terminates:
  assumes "config_ok cfg" and "reachable_core cfg (wh_core h)"
  shows "\<exists>rs h'. run_pending env i h = Some (rs, h') \<and> wh_commands h' = []
    \<and> length rs = length (wh_commands h) \<and> answers env i (wh_commands h) (wh_core h) rs (wh_core h')"
proof -
  from run_pending_spec [OF reachable_core_inv [OF assms], of env i]
  obtain rs w' where "run_pending env i h = Some (rs, h\<lparr>wh_core := w', wh_commands := []\<rparr>)"
    "answers env i (wh_commands h) (wh_core h) rs w'" by blast
  then show ?thesis using answers_length by auto
qed

definition demo_harness :: WorkerHarness where
  "demo_harness = \<lparr>wh_core = demo_core, wh_capacity = 8, wh_commands = [Publish (demo_request 1), DrainOutbound 2, TransportLost 1]\<rparr>"

theorem run_pending_terminates_witness:
  "\<exists>rs h'. run_pending (\<lambda>_. \<lparr>env_now = 0, env_clock = \<lambda>_ _. 0, env_digest = \<lambda>_. []\<rparr>) 0 demo_harness = Some (rs, h')
     \<and> length rs = 3"
  using run_pending_terminates [OF demo_config_ok, of demo_harness "\<lambda>_. \<lparr>env_now = 0, env_clock = \<lambda>_ _. 0, env_digest = \<lambda>_. []\<rparr>" 0]
    demo_reachable
  by (auto simp: demo_harness_def)

end
