(* ===== verification/Relay_Logs.thy ===== *)
theory Relay_Logs
  imports Core_Sample Protocol_Properties
begin

text \<open>
  The volatile capture of client and node logs (\<open>woven-transport/src/logging.rs\<close>): a bounded ring of
  numbered entries, the sessions each connection was last seen in, and a sliding window that bounds the
  messages of a connection and of the node. The wall-clock time of an entry is a parameter, read once per
  sequence number; \<open>None\<close> is a panic.
\<close>

definition LOG_CAPACITY :: usize where "LOG_CAPACITY = 2048"

definition MAX_LOG_PAGE_ENTRIES :: usize where "MAX_LOG_PAGE_ENTRIES = 32"

definition CONNECTION_LOG_RATE :: usize where "CONNECTION_LOG_RATE = 10"

definition NODE_LOG_RATE :: usize where "NODE_LOG_RATE = 1024"

definition LOG_WINDOW :: Duration where "LOG_WINDOW = from_secs 1"

record LogEntry =
  le_sequence :: u64
  le_occurred_at_ms :: u64
  le_session :: SessionKey
  le_connection :: ConnectionId
  le_source :: string
  le_event :: string
  le_level :: LogLevel
  le_message :: string

record LogPage =
  lp_entries :: "LogEntry list"
  lp_next_sequence :: u64
  lp_dropped_through :: u64

record ConnectionCapture =
  cc_sessions :: "SessionKey btree_set"
  cc_accepted :: "Instant list"

record LogCapture =
  lc_entries :: "LogEntry list"
  lc_last_sequence :: u64
  lc_dropped_through :: u64
  lc_connections :: "(ConnectionId, ConnectionCapture) btree_map"
  lc_accepted :: "Instant list"

definition new_capture :: LogCapture where
  "new_capture =
     \<lparr>lc_entries = [], lc_last_sequence = 0, lc_dropped_through = 0, lc_connections = bt_empty, lc_accepted = []\<rparr>"

section \<open>Errors of the core on the wire\<close>

fun core_error_code :: "CoreError \<Rightarrow> ProtocolErrorCode" where
  "core_error_code AuthenticationRequired = PeAuthenticationRequired"
| "core_error_code (NamespaceReadAccessDenied _) = PeUnauthorized"
| "core_error_code (NamespaceWriteAccessDenied _) = PeUnauthorized"
| "core_error_code (SessionReadAccessDenied _) = PeUnauthorized"
| "core_error_code (SessionWriteAccessDenied _) = PeUnauthorized"
| "core_error_code (SpaceReadAccessDenied _) = PeUnauthorized"
| "core_error_code (SpaceWriteAccessDenied _) = PeUnauthorized"
| "core_error_code (ChannelWriteAccessDenied _) = PeUnauthorized"
| "core_error_code (EntityNotOwned _) = PeUnauthorized"
| "core_error_code (AuthorityRejected _) = PeUnauthorized"
| "core_error_code (AdmissionLeaseRequired _) = PeUnauthorized"
| "core_error_code (InvalidAdmissionLease _) = PeUnauthorized"
| "core_error_code (SessionNotFound _) = PeInvalidScope"
| "core_error_code (SpaceEpochMismatch _ _) = PeStaleEpoch"
| "core_error_code (StaleSequence _ _) = PeSequenceRejected"
| "core_error_code (PayloadTooLarge _ _) = PePayloadTooLarge"
| "core_error_code (PublishRateLimited _) = PeRateLimited"
| "core_error_code (AdmissionRateLimited _) = PeRateLimited"
| "core_error_code _ = PeInternal"

lemma core_error_code_known [simp]: "core_error_code e \<noteq> PeUnknown"
  by (cases e) simp_all

section \<open>Capture\<close>

definition is_connected :: "WovenCore \<Rightarrow> ConnectionId \<Rightarrow> bool" where
  "is_connected w connection \<longleftrightarrow> bt_contains (wc_connections w) connection"

definition expire :: "Instant list \<Rightarrow> Instant \<Rightarrow> Instant list" where
  "expire window now = dropWhile (\<lambda>t. LOG_WINDOW \<le> saturating_duration_since now t) window"

definition validate_log :: "ClientLog \<Rightarrow> ProtocolErrorCode + unit" where
  "validate_log entry =
     (if MAX_LOG_MESSAGE_BYTES < length (wcl_message entry) then Inl PePayloadTooLarge
      else if wcl_message entry = [] \<or> wcl_level entry = LogUnknown then Inl PeMalformedFrame
      else Inr ())"

text \<open>\<open>pop_front\<close> of a full ring that turns out empty is the \<open>expect\<close> of the source; the ring is non-empty
  because its capacity is positive.\<close>

definition append_log ::
  "(u64 \<Rightarrow> u64) \<Rightarrow> ConnectionId \<Rightarrow> SessionKey \<Rightarrow> string \<Rightarrow> string \<Rightarrow> LogLevel \<Rightarrow> string \<Rightarrow> LogCapture \<Rightarrow> LogCapture" where
  "append_log wall connection session source event level message lc =
     (case checked_add_u64 (lc_last_sequence lc) 1 of
        None \<Rightarrow> lc
      | Some sequence \<Rightarrow>
          let lc1 = lc\<lparr>lc_last_sequence := sequence\<rparr>;
              lc2 = (if length (lc_entries lc1) = LOG_CAPACITY
                     then lc1\<lparr>lc_dropped_through := le_sequence (hd (lc_entries lc1)), lc_entries := tl (lc_entries lc1)\<rparr>
                     else lc1)
          in lc2\<lparr>lc_entries := lc_entries lc2 @
               [\<lparr>le_sequence = sequence, le_occurred_at_ms = wall sequence, le_session = session,
                 le_connection = connection, le_source = source, le_event = event, le_level = level,
                 le_message = message\<rparr>]\<rparr>)"

definition observe_connection ::
  "(u64 \<Rightarrow> u64) \<Rightarrow> WovenCore \<Rightarrow> ConnectionId \<Rightarrow> string \<Rightarrow> LogCapture \<Rightarrow> LogCapture" where
  "observe_connection wall w connection reason lc =
     (let current = (case session_memberships w connection of Inl _ \<Rightarrow> None | Inr sessions \<Rightarrow> Some sessions);
          capture = (case bt_get (lc_connections lc) connection of
                       None \<Rightarrow> \<lparr>cc_sessions = bt_empty, cc_accepted = []\<rparr> | Some capture \<Rightarrow> capture);
          lc1 = lc\<lparr>lc_connections := bt_remove connection (lc_connections lc)\<rparr>;
          gone = filter (\<lambda>s. case current of None \<Rightarrow> True | Some sessions \<Rightarrow> \<not> bs_member s sessions)
                   (bs_list (cc_sessions capture));
          lc2 = fold (\<lambda>s. append_log wall connection s ''node'' ''client.disconnected'' LogInfo reason) gone lc1;
          (lc3, capture1) =
            (case current of
               None \<Rightarrow> (lc2, capture)
             | Some sessions \<Rightarrow>
                 (fold (\<lambda>s. append_log wall connection s ''node'' ''client.connected'' LogInfo ''session joined'')
                    (filter (\<lambda>s. \<not> bs_member s (cc_sessions capture)) (bs_list sessions)) lc2,
                  capture\<lparr>cc_sessions := sessions\<rparr>))
      in if is_connected w connection \<and> (\<not> bt_is_empty (cc_sessions capture1) \<or> cc_accepted capture1 \<noteq> [])
         then lc3\<lparr>lc_connections := bt_insert connection capture1 (lc_connections lc3)\<rparr>
         else lc3)"

definition client_log ::
  "(u64 \<Rightarrow> u64) \<Rightarrow> WovenCore \<Rightarrow> ConnectionId \<Rightarrow> SessionKey \<Rightarrow> ClientLog \<Rightarrow> Instant \<Rightarrow> LogCapture
   \<Rightarrow> ((ProtocolErrorCode + unit) \<times> LogCapture) option" where
  "client_log wall w connection session entry now lc =
     (case session_memberships w connection of
        Inl e \<Rightarrow> Some (Inl (core_error_code e), lc)
      | Inr memberships \<Rightarrow>
          if \<not> bs_member session memberships then Some (Inl PeInvalidScope, lc)
          else case validate_log entry of
            Inl code \<Rightarrow> Some (Inl code, lc)
          | Inr _ \<Rightarrow>
              let lc1 = observe_connection wall w connection ''session left'' lc
              in Option.bind (bt_get (lc_connections lc1) connection) (\<lambda>capture.
                   let own = expire (cc_accepted capture) now;
                       node = expire (lc_accepted lc1) now;
                       lc2 = lc1\<lparr>lc_connections := bt_insert connection (capture\<lparr>cc_accepted := own\<rparr>) (lc_connections lc1),
                                 lc_accepted := node\<rparr>
                   in if CONNECTION_LOG_RATE \<le> length own \<or> NODE_LOG_RATE \<le> length node
                      then Some (Inl PeRateLimited, lc2)
                      else Some (Inr (), append_log wall connection session ''client'' ''client.log'' (wcl_level entry) (wcl_message entry)
                             (lc2\<lparr>lc_connections := bt_insert connection (capture\<lparr>cc_accepted := own @ [now]\<rparr>) (lc_connections lc2),
                                  lc_accepted := node @ [now]\<rparr>))))"

definition log_disconnected :: "WovenCore \<Rightarrow> LogCapture \<Rightarrow> ConnectionId list" where
  "log_disconnected w lc = filter (\<lambda>c. \<not> is_connected w c) (bt_keys (lc_connections lc))"

definition log_page :: "u64 \<Rightarrow> usize \<Rightarrow> LogCapture \<Rightarrow> LogPage" where
  "log_page after limit lc =
     (let entries = take (min limit MAX_LOG_PAGE_ENTRIES) (filter (\<lambda>e. after < le_sequence e) (lc_entries lc))
      in \<lparr>lp_entries = entries, lp_next_sequence = (if entries = [] then after else le_sequence (last entries)),
          lp_dropped_through = lc_dropped_through lc\<rparr>)"

section \<open>The ring\<close>

text \<open>The ring holds the entries numbered from just after the last dropped one to the last one written, at
  most its capacity of them; every window holds no more than its rate.\<close>

definition ring_ok :: "LogCapture \<Rightarrow> bool" where
  "ring_ok lc \<longleftrightarrow>
     map (unat \<circ> le_sequence) (lc_entries lc) = [Suc (unat (lc_dropped_through lc)) ..< Suc (unat (lc_last_sequence lc))]
     \<and> unat (lc_dropped_through lc) \<le> unat (lc_last_sequence lc)
     \<and> length (lc_entries lc) \<le> LOG_CAPACITY
     \<and> (lc_entries lc = [] \<longrightarrow> lc_last_sequence lc = 0)"

definition windows_ok :: "LogCapture \<Rightarrow> bool" where
  "windows_ok lc \<longleftrightarrow> length (lc_accepted lc) \<le> NODE_LOG_RATE
     \<and> (\<forall>c capture. bt_get (lc_connections lc) c = Some capture \<longrightarrow> length (cc_accepted capture) \<le> CONNECTION_LOG_RATE)"

definition log_inv :: "LogCapture \<Rightarrow> bool" where
  "log_inv lc \<longleftrightarrow> ring_ok lc \<and> windows_ok lc"

lemma append_log_frame [simp]:
  "lc_connections (append_log wall c s src ev lv m lc) = lc_connections lc"
  "lc_accepted (append_log wall c s src ev lv m lc) = lc_accepted lc"
  by (simp_all add: append_log_def Let_def split: option.splits)

lemma fold_append_log_frame [simp]:
  "lc_connections (fold (\<lambda>s. append_log wall c s src ev lv m) ss lc) = lc_connections lc"
  "lc_accepted (fold (\<lambda>s. append_log wall c s src ev lv m) ss lc) = lc_accepted lc"
  by (induction ss arbitrary: lc) simp_all

lemma ring_ok_update [simp]:
  "ring_ok (lc\<lparr>lc_connections := m\<rparr>) = ring_ok lc" "ring_ok (lc\<lparr>lc_accepted := a\<rparr>) = ring_ok lc"
  "ring_ok (lc\<lparr>lc_connections := m, lc_accepted := a\<rparr>) = ring_ok lc"
  by (simp_all add: ring_ok_def)

lemma append_log_ring:
  assumes "ring_ok lc"
  shows "ring_ok (append_log wall c s src ev lv m lc)"
proof (cases "checked_add_u64 (lc_last_sequence lc) 1")
  case (Some q)
  then have q: "unat q = Suc (unat (lc_last_sequence lc))"
    using checked_add_u64_Some by fastforce
  have "length (map (unat \<circ> le_sequence) (lc_entries lc))
      = length [Suc (unat (lc_dropped_through lc)) ..< Suc (unat (lc_last_sequence lc))]"
    using assms unfolding ring_ok_def by metis
  then have len: "length (lc_entries lc) = unat (lc_last_sequence lc) - unat (lc_dropped_through lc)"
    by (simp del: upt_Suc)
  show ?thesis
  proof (cases "length (lc_entries lc) = LOG_CAPACITY")
    case True
    then obtain e es where es: "lc_entries lc = e # es"
      by (cases "lc_entries lc") (auto simp: LOG_CAPACITY_def)
    have "Suc (unat (lc_dropped_through lc)) < Suc (unat (lc_last_sequence lc))"
      using len True by (simp add: LOG_CAPACITY_def)
    with assms es have "unat (le_sequence e) = Suc (unat (lc_dropped_through lc))"
        "map (unat \<circ> le_sequence) es = [Suc (Suc (unat (lc_dropped_through lc))) ..< Suc (unat (lc_last_sequence lc))]"
      by (simp_all add: ring_ok_def upt_conv_Cons del: upt_Suc)
    with True es Some q len show ?thesis
      by (simp add: append_log_def ring_ok_def LOG_CAPACITY_def)
  next
    case False
    with assms Some q show ?thesis by (simp add: append_log_def ring_ok_def)
  qed
qed (use assms in \<open>simp add: append_log_def\<close>)

lemma fold_append_log_ring:
  "ring_ok lc \<Longrightarrow> ring_ok (fold (\<lambda>s. append_log wall c s src ev lv m) ss lc)"
  by (induction ss arbitrary: lc) (simp_all add: append_log_ring)

lemma windows_ok_frame:
  "lc_connections lc' = lc_connections lc \<Longrightarrow> lc_accepted lc' = lc_accepted lc \<Longrightarrow> windows_ok lc' = windows_ok lc"
  by (simp add: windows_ok_def)

lemma observe_connection_ring:
  "ring_ok lc \<Longrightarrow> ring_ok (observe_connection wall w c reason lc)"
  by (auto simp: observe_connection_def Let_def fold_append_log_ring split: option.splits sum.splits)

lemma observe_connection_accepted [simp]: "lc_accepted (observe_connection wall w c reason lc) = lc_accepted lc"
  by (auto simp: observe_connection_def Let_def split: option.splits sum.splits)

text \<open>After an observation a connection is tracked exactly when it is connected and has a session or a
  non-empty window, and its sessions are those of the core.\<close>

lemma observe_connection_get:
  "bt_get (lc_connections (observe_connection wall w c reason lc)) c' =
     (if c' \<noteq> c then bt_get (lc_connections lc) c'
      else
        let window = (case bt_get (lc_connections lc) c of None \<Rightarrow> [] | Some capture \<Rightarrow> cc_accepted capture);
            sessions = (case session_memberships w c of
                          Inr sessions \<Rightarrow> sessions
                        | Inl _ \<Rightarrow> (case bt_get (lc_connections lc) c of None \<Rightarrow> bt_empty | Some capture \<Rightarrow> cc_sessions capture))
        in if is_connected w c \<and> (sessions \<noteq> bt_empty \<or> window \<noteq> [])
           then Some \<lparr>cc_sessions = sessions, cc_accepted = window\<rparr> else None)"
  by (auto simp: observe_connection_def Let_def bt_get_insert bt_get_remove split: option.splits sum.splits)

lemma observe_connection_windows:
  "windows_ok lc \<Longrightarrow> windows_ok (observe_connection wall w c reason lc)"
  by (auto simp: windows_ok_def observe_connection_get Let_def CONNECTION_LOG_RATE_def split: if_splits option.splits)

lemma expire_shorter: "length (expire window now) \<le> length window"
  by (simp add: expire_def length_dropWhile_le)

lemma client_log_total: "client_log wall w c s entry now lc \<noteq> None"
proof -
  have "bt_get (lc_connections (observe_connection wall w c ''session left'' lc)) c \<noteq> None"
    if m: "session_memberships w c = Inr sessions" and s: "s \<in> bs_set sessions" for sessions
  proof -
    have "is_connected w c" using m by (auto simp: session_memberships_def is_connected_def)
    moreover have "sessions \<noteq> bt_empty" using s by auto
    ultimately show ?thesis using m by (simp add: observe_connection_get Let_def)
  qed
  then show ?thesis
    by (auto simp: client_log_def Let_def bind_eq_None_conv split: sum.splits if_splits)
qed

lemma client_log_inv:
  assumes "log_inv lc" and "client_log wall w c s entry now lc = Some (r, lc')"
  shows "log_inv lc'"
proof -
  let ?o = "observe_connection wall w c ''session left'' lc"
  have o: "ring_ok ?o" "windows_ok ?o"
    using assms(1) by (simp_all add: log_inv_def observe_connection_ring observe_connection_windows)
  have short: "length (expire (cc_accepted capture) now) \<le> CONNECTION_LOG_RATE"
    if "bt_get (lc_connections ?o) c = Some capture" for capture
    using that o(2) expire_shorter [of "cc_accepted capture" now] by (fastforce simp: windows_ok_def)
  have node: "length (expire (lc_accepted ?o) now) \<le> NODE_LOG_RATE"
    using o(2) expire_shorter [of "lc_accepted ?o" now] by (simp add: windows_ok_def)
  show ?thesis
    using assms o short node
    by (auto simp: client_log_def log_inv_def Let_def bind_eq_Some_conv append_log_ring windows_ok_def bt_get_insert
        split: sum.splits if_splits)
qed

section \<open>Runs of the capture\<close>

text \<open>The worker calls the capture with whatever core it owns at the time.\<close>

inductive log_step :: "LogCapture \<Rightarrow> LogCapture \<Rightarrow> bool" where
  log_step_client: "client_log wall w c s entry now lc = Some (r, lc') \<Longrightarrow> log_step lc lc'"
| log_step_observe: "log_step lc (observe_connection wall w c reason lc)"

lemma new_capture_inv: "log_inv new_capture"
  by (simp add: new_capture_def log_inv_def ring_ok_def windows_ok_def)

lemma log_step_inv: "log_step lc lc' \<Longrightarrow> log_inv lc \<Longrightarrow> log_inv lc'"
proof (induction rule: log_step.induct)
  case (log_step_observe lc wall w c reason)
  then show ?case by (simp add: log_inv_def observe_connection_ring observe_connection_windows)
qed (blast intro: client_log_inv)

interpretation logs: invariant_machine "\<lambda>lc. lc = new_capture" log_step log_inv
  by unfold_locales (simp_all add: new_capture_inv log_step_inv)

lemma upt_filter_less: "i \<le> k \<Longrightarrow> filter (\<lambda>n. k < n) [Suc i ..< j] = [Suc k ..< j]"
  by (induction j) auto

lemma ring_sorted:
  assumes "ring_ok lc"
  shows "sorted_wrt (\<lambda>a b. le_sequence a < le_sequence b) (lc_entries lc)"
proof -
  have "sorted_wrt (<) (map (unat \<circ> le_sequence) (lc_entries lc))"
    using assms unfolding ring_ok_def by (metis sorted_wrt_upt)
  then show ?thesis by (simp add: sorted_wrt_map word_less_nat_alt)
qed

lemma sorted_take_rest:
  assumes "sorted_wrt (\<lambda>a b. f a < f b) es" and "take n es \<noteq> []"
  shows "filter (\<lambda>e. f (last (take n es)) < (f e :: 'b :: linorder)) es = drop n es"
proof -
  let ?x = "last (take n es)"
  have es: "es = take n es @ drop n es" by simp
  have "\<not> f ?x < f a" if "a \<in> set (take n es)" for a
  proof -
    have "sorted_wrt (\<lambda>a b. f a < f b) (butlast (take n es) @ [?x])"
      using assms sorted_wrt_take [of "\<lambda>a b. f a < f b" es n] by simp
    then have "\<forall>b \<in> set (butlast (take n es)). f b < f ?x" by (simp add: sorted_wrt_append)
    moreover have "set (take n es) = set (butlast (take n es)) \<union> {?x}"
      using assms(2) by (metis append_butlast_last_id list.simps(15) set_append empty_set)
    ultimately show ?thesis using that by auto
  qed
  then have none: "filter (\<lambda>e. f ?x < f e) (take n es) = []" by (simp add: filter_empty_conv)
  have "\<forall>a \<in> set (take n es). \<forall>b \<in> set (drop n es). f a < f b"
    using assms(1) es sorted_wrt_append by metis
  then have "\<forall>b \<in> set (drop n es). f ?x < f b" using assms(2) by simp
  then have all: "filter (\<lambda>e. f ?x < f e) (drop n es) = drop n es" by (simp add: filter_id_conv)
  have "filter (\<lambda>e. f ?x < f e) es = filter (\<lambda>e. f ?x < f e) (take n es) @ filter (\<lambda>e. f ?x < f e) (drop n es)"
    using filter_append es by metis
  with none all show ?thesis by simp
qed

section \<open>Properties\<close>

text \<open>C36. The log stream has no gaps. In every state the capture reaches, its ring holds exactly the entries
  numbered from just after the last dropped one to the last one written, in order and never more than its
  capacity, no connection's window holds more than ten accepted messages and the node's no more than
  1024.\<close>

theorem log_stream_has_no_gaps:
  assumes "log_step\<^sup>*\<^sup>* new_capture lc"
  shows "map (unat \<circ> le_sequence) (lc_entries lc)
      = [Suc (unat (lc_dropped_through lc)) ..< Suc (unat (lc_last_sequence lc))]
    \<and> length (lc_entries lc) \<le> LOG_CAPACITY
    \<and> length (lc_accepted lc) \<le> NODE_LOG_RATE
    \<and> (\<forall>c capture. bt_get (lc_connections lc) c = Some capture \<longrightarrow> length (cc_accepted capture) \<le> CONNECTION_LOG_RATE)"
  using logs.reached_inv [OF refl assms] by (simp add: log_inv_def ring_ok_def windows_ok_def)

definition demo_log :: ClientLog where
  "demo_log = \<lparr>wcl_level = LogWarn, wcl_message = ''late frame''\<rparr>"

lemma demo_capture:
  obtains r lc where "client_log (\<lambda>_. 0) demo_core 1 demo_key demo_log 0 new_capture = Some (r, lc)" "log_step\<^sup>*\<^sup>* new_capture lc"
proof -
  obtain r lc where c: "client_log (\<lambda>_. 0) demo_core 1 demo_key demo_log 0 new_capture = Some (r, lc)"
    using client_log_total [of "\<lambda>_. 0" demo_core 1 demo_key demo_log 0 new_capture] by fastforce
  with that show ?thesis using log_step_client [OF c] by blast
qed

theorem log_stream_has_no_gaps_witness:
  "\<exists>r lc. client_log (\<lambda>_. 0) demo_core 1 demo_key demo_log 0 new_capture = Some (r, lc) \<and> length (lc_entries lc) \<le> LOG_CAPACITY"
  using demo_capture log_stream_has_no_gaps by metis

text \<open>The entries after a starting point.\<close>

abbreviation unread :: "u64 \<Rightarrow> LogCapture \<Rightarrow> LogEntry list" where
  "unread after lc \<equiv> filter (\<lambda>e. after < le_sequence e) (lc_entries lc)"

lemma unread_numbers:
  assumes "ring_ok lc"
  shows "map (unat \<circ> le_sequence) (unread after lc)
    = filter (\<lambda>n. unat after < n) [Suc (unat (lc_dropped_through lc)) ..< Suc (unat (lc_last_sequence lc))]"
proof -
  have "map (unat \<circ> le_sequence) (unread after lc) = filter (\<lambda>n. unat after < n) (map (unat \<circ> le_sequence) (lc_entries lc))"
    by (simp add: filter_map o_def word_less_nat_alt)
  with assms show ?thesis unfolding ring_ok_def by metis
qed

lemma unread_empty:
  assumes ring: "ring_ok lc"
  shows "unread after lc = [] \<longleftrightarrow> lc_last_sequence lc \<le> after"
proof -
  have "unread after lc = [] \<longleftrightarrow> filter (\<lambda>n. unat after < n)
      [Suc (unat (lc_dropped_through lc)) ..< Suc (unat (lc_last_sequence lc))] = []"
    using unread_numbers [OF ring] by (metis map_is_Nil_conv)
  also have "\<dots> \<longleftrightarrow> unat (lc_last_sequence lc) \<le> unat after"
  proof (cases "lc_entries lc = []")
    case False
    then have "[Suc (unat (lc_dropped_through lc)) ..< Suc (unat (lc_last_sequence lc))] \<noteq> []"
      using ring unfolding ring_ok_def by (metis map_is_Nil_conv)
    then have "unat (lc_dropped_through lc) < unat (lc_last_sequence lc)"
      by (simp del: upt_Suc split: if_splits)
    then show ?thesis
      by (auto simp: filter_empty_conv not_less simp del: upt_Suc intro: order.trans)
  qed (use ring in \<open>auto simp: ring_ok_def\<close>)
  finally show ?thesis by (simp add: word_le_nat_alt)
qed

lemma page_then_rest:
  assumes ring: "ring_ok lc" and "0 < n" and "n = min limit MAX_LOG_PAGE_ENTRIES"
  shows "take n (unread after lc) @ unread (lp_next_sequence (log_page after limit lc)) lc = unread after lc"
proof (cases "unread after lc = []")
  case False
  then have resume: "lp_next_sequence (log_page after limit lc) = le_sequence (last (take n (unread after lc)))"
    and nonempty: "take n (unread after lc) \<noteq> []" using assms by (auto simp: log_page_def Let_def)
  have "after < le_sequence (last (take n (unread after lc)))"
    using nonempty in_set_takeD [OF last_in_set [OF nonempty]] by simp
  then have "unread (le_sequence (last (take n (unread after lc)))) lc
      = filter (\<lambda>e. le_sequence (last (take n (unread after lc))) < le_sequence e) (unread after lc)"
    by (auto simp: filter_filter intro!: filter_cong)
  with sorted_take_rest [OF sorted_wrt_filter [OF ring_sorted [OF ring]] nonempty] show ?thesis by (simp add: resume)
qed (simp add: log_page_def)

text \<open>C37. Reading the log page by page misses nothing and repeats nothing. A page and what a reader who
  continues at its \<open>next_sequence\<close> still has before it are together exactly the retained entries after the
  starting point; the page is empty only when there are none; and a reader who is not behind
  \<open>dropped_through\<close> sees every number up to the last one written.\<close>

theorem paging_reads_everything:
  assumes "log_step\<^sup>*\<^sup>* new_capture lc" and "0 < limit"
  shows "lp_entries (log_page after limit lc)
        @ filter (\<lambda>e. lp_next_sequence (log_page after limit lc) < le_sequence e) (lc_entries lc)
      = filter (\<lambda>e. after < le_sequence e) (lc_entries lc)
    \<and> (lp_entries (log_page after limit lc) = [] \<longleftrightarrow> lc_last_sequence lc \<le> after)
    \<and> (lp_dropped_through (log_page after limit lc) \<le> after \<longrightarrow>
         map (unat \<circ> le_sequence) (filter (\<lambda>e. after < le_sequence e) (lc_entries lc))
           = [Suc (unat after) ..< Suc (unat (lc_last_sequence lc))])"
proof -
  have ring: "ring_ok lc" using logs.reached_inv [OF refl assms(1)] by (simp add: log_inv_def)
  have n: "0 < min limit MAX_LOG_PAGE_ENTRIES" using assms(2) by (simp add: MAX_LOG_PAGE_ENTRIES_def)
  then show ?thesis
    using unread_empty [OF ring, of after] page_then_rest [OF ring n refl, of after] unread_numbers [OF ring, of after]
      upt_filter_less [of "unat (lc_dropped_through lc)" "unat after"]
    by (auto simp: log_page_def Let_def word_le_nat_alt simp del: upt_Suc)
qed

theorem paging_reads_everything_witness:
  "\<exists>r lc. client_log (\<lambda>_. 0) demo_core 1 demo_key demo_log 0 new_capture = Some (r, lc)
     \<and> (lp_entries (log_page 0 10 lc) = [] \<longleftrightarrow> lc_last_sequence lc \<le> 0)"
proof -
  obtain r lc where c: "client_log (\<lambda>_. 0) demo_core 1 demo_key demo_log 0 new_capture = Some (r, lc)" "log_step\<^sup>*\<^sup>* new_capture lc"
    by (rule demo_capture)
  with paging_reads_everything [OF c(2), of 10 0] show ?thesis by auto
qed

end
