(* ===== verification/Relay_Fanout.thy ===== *)
theory Relay_Fanout
  imports Worker_Dispatch Relay_Logs "HOL-Library.While_Combinator"
begin

text \<open>
  The state of the worker task and its lifecycle fan-out (\<open>woven-transport/src/lib.rs\<close>). The write and
  shutdown channels of a connection are tokio channels: the model holds handles to them and takes what the
  source calls on them, \<open>try_send\<close>, as the parameter \<open>Channels\<close> acting on the outside world. Notifying the
  subscribers of a space can find dead connections, whose cleanup removes entities and notifies further
  subscribers: the mutual recursion of the source is a loop over an explicit stack of pending calls.
\<close>

section \<open>State\<close>

record LifecycleRecipient =
  lr_sender :: nat
  lr_shutdown :: nat

record 'w Channels =
  ch_try_send :: "nat \<Rightarrow> Envelope \<Rightarrow> 'w \<Rightarrow> bool \<times> 'w"
  ch_signal :: "nat \<Rightarrow> 'w \<Rightarrow> 'w"

record ServerMetrics =
  sm_connections_total :: u64
  sm_authenticate_rejected_total :: u64
  sm_join_rejected_total :: u64
  sm_publishes_total :: u64
  sm_transform_publishes_total :: u64
  sm_publish_bytes_received_total :: u64
  sm_publish_bytes_delivered_total :: u64
  sm_events_delivered_total :: u64
  sm_queue_dropped_total :: u64
  sm_queue_evicted_total :: u64

record 'w Relay =
  ry_core :: WovenCore
  ry_recipients :: "(ConnectionId, LifecycleRecipient) btree_map"
  ry_subscriptions :: "(ConnectionId, SpaceKey btree_set) btree_map"
  ry_logs :: LogCapture
  ry_metrics :: ServerMetrics
  ry_world :: 'w

section \<open>Lifecycle notices\<close>

definition entity_entered_envelope :: "SpaceKey \<Rightarrow> SpaceEpoch \<Rightarrow> EntityId \<Rightarrow> Envelope" where
  "entity_entered_envelope space epoch entity =
     \<lparr>ev_protocol_version = PROTOCOL_VERSION, ev_delivery_class = DcReliableOrdered,
      ev_namespace_id = sk_namespace (spk_session space), ev_session_id = sk_session (spk_session space),
      ev_space_id = spk_space space, ev_channel_id = None, ev_entity_id = Some entity, ev_space_epoch = epoch,
      ev_server_tick = 0, ev_sender_sequence = 0, ev_correlation_id = None, ev_routing_position = None,
      ev_message = MsgControl (CtlEntityEntered \<lparr>wee_owner_entity_id = Some entity\<rparr>)\<rparr>"

definition entity_left_envelope :: "SpaceKey \<Rightarrow> SpaceEpoch \<Rightarrow> EntityId \<Rightarrow> EntityLeaveReason \<Rightarrow> Envelope" where
  "entity_left_envelope space epoch entity reason =
     \<lparr>ev_protocol_version = PROTOCOL_VERSION, ev_delivery_class = DcReliableOrdered,
      ev_namespace_id = sk_namespace (spk_session space), ev_session_id = sk_session (spk_session space),
      ev_space_id = spk_space space, ev_channel_id = None, ev_entity_id = Some entity, ev_space_epoch = epoch,
      ev_server_tick = 0, ev_sender_sequence = 0, ev_correlation_id = None, ev_routing_position = None,
      ev_message = MsgControl (CtlEntityLeft \<lparr>wel_reason = reason\<rparr>)\<rparr>"

definition removed_notice :: "RemovedEntity \<Rightarrow> EntityLeaveReason \<Rightarrow> Envelope" where
  "removed_notice removed reason =
     entity_left_envelope (SpaceKey (re_session removed) (re_space removed)) (re_space_epoch removed)
       (re_entity removed) reason"

definition space_targets :: "SpaceKey \<Rightarrow> ConnectionId option \<Rightarrow> 'w Relay \<Rightarrow> ConnectionId list" where
  "space_targets space excluded r =
     map fst (filter (\<lambda>(c, spaces). excluded \<noteq> Some c \<and> bs_member space spaces) (bt_entries (ry_subscriptions r)))"

fun send_targets :: "'w Channels \<Rightarrow> Envelope \<Rightarrow> ConnectionId list \<Rightarrow> 'w Relay \<Rightarrow> ConnectionId list \<times> 'w Relay" where
  "send_targets ch envelope [] r = ([], r)"
| "send_targets ch envelope (c # cs) r =
     (case bt_get (ry_recipients r) c of
        None \<Rightarrow> send_targets ch envelope cs r
      | Some recipient \<Rightarrow>
          (case ch_try_send ch (lr_sender recipient) envelope (ry_world r) of
             (True, world) \<Rightarrow> send_targets ch envelope cs (r\<lparr>ry_world := world\<rparr>)
           | (False, world) \<Rightarrow>
               (let (dead, r1) = send_targets ch envelope cs (r\<lparr>ry_world := ch_signal ch (lr_shutdown recipient) world\<rparr>)
                in (c # dead, r1))))"

section \<open>The cascade\<close>

text \<open>A pending call: \<open>cleanup_dead_connection\<close> for a connection, or \<open>distribute_removed_entity\<close>.\<close>

datatype Pending = CleanupDead ConnectionId | TellRemoved RemovedEntity EntityLeaveReason

definition tell_removed :: "EntityLeaveReason \<Rightarrow> CleanupSummary \<Rightarrow> Pending list" where
  "tell_removed reason summary = map (\<lambda>removed. TellRemoved removed reason) (cs_removed_entities summary)"

definition cleanup_dead_connection :: "WorkerEnv \<Rightarrow> ConnectionId \<Rightarrow> 'w Relay \<Rightarrow> Pending list \<times> 'w Relay" where
  "cleanup_dead_connection env connection r =
     (let drained = snd (drain_outbound connection (ry_core r));
          (result, lost) = transport_lost (env_clock env connection) connection drained;
          r1 = r\<lparr>ry_recipients := bt_remove connection (ry_recipients r),
                 ry_subscriptions := bt_remove connection (ry_subscriptions r), ry_core := lost\<rparr>
      in (case result of Inl _ \<Rightarrow> [] | Inr summary \<Rightarrow> tell_removed LrDisconnected summary, r1))"

definition distribute_removed_entity ::
  "'w Channels \<Rightarrow> RemovedEntity \<Rightarrow> EntityLeaveReason \<Rightarrow> 'w Relay \<Rightarrow> Pending list \<times> 'w Relay" where
  "distribute_removed_entity ch removed reason r =
     (let space = SpaceKey (re_session removed) (re_space removed);
          (dead, r1) = send_targets ch (removed_notice removed reason) (space_targets space None r) r
      in (map CleanupDead dead, r1))"

fun run_pending_call :: "'w Channels \<Rightarrow> WorkerEnv \<Rightarrow> Pending \<Rightarrow> 'w Relay \<Rightarrow> Pending list \<times> 'w Relay" where
  "run_pending_call ch env (CleanupDead connection) r = cleanup_dead_connection env connection r"
| "run_pending_call ch env (TellRemoved removed reason) r = distribute_removed_entity ch removed reason r"

fun cascade_step :: "'w Channels \<Rightarrow> WorkerEnv \<Rightarrow> Pending list \<times> 'w Relay \<Rightarrow> Pending list \<times> 'w Relay" where
  "cascade_step ch env ([], r) = ([], r)"
| "cascade_step ch env (call # stack, r) = (let (calls, r1) = run_pending_call ch env call r in (calls @ stack, r1))"

definition cascade :: "'w Channels \<Rightarrow> WorkerEnv \<Rightarrow> Pending list \<Rightarrow> 'w Relay \<Rightarrow> 'w Relay option" where
  "cascade ch env stack r = map_option snd (while_option (\<lambda>(stack, _). stack \<noteq> []) (cascade_step ch env) (stack, r))"

section \<open>Distribution\<close>

definition distribute_to_space_excluding ::
  "'w Channels \<Rightarrow> WorkerEnv \<Rightarrow> SpaceKey \<Rightarrow> Envelope \<Rightarrow> ConnectionId option \<Rightarrow> 'w Relay \<Rightarrow> 'w Relay option" where
  "distribute_to_space_excluding ch env space envelope excluded r =
     (let (dead, r1) = send_targets ch envelope (space_targets space excluded r) r
      in cascade ch env (map CleanupDead dead) r1)"

definition distribute_to_space :: "'w Channels \<Rightarrow> WorkerEnv \<Rightarrow> SpaceKey \<Rightarrow> Envelope \<Rightarrow> 'w Relay \<Rightarrow> 'w Relay option" where
  "distribute_to_space ch env space envelope r = distribute_to_space_excluding ch env space envelope None r"

definition distribute_removed_entities ::
  "'w Channels \<Rightarrow> WorkerEnv \<Rightarrow> CleanupSummary \<Rightarrow> EntityLeaveReason \<Rightarrow> 'w Relay \<Rightarrow> 'w Relay option" where
  "distribute_removed_entities ch env summary reason r = cascade ch env (tell_removed reason summary) r"

definition distribute_transition :: "'w Channels \<Rightarrow> WorkerEnv \<Rightarrow> EntityTransition \<Rightarrow> 'w Relay \<Rightarrow> 'w Relay option" where
  "distribute_transition ch env t r =
     (let source = SpaceKey (et_session t) (et_source_space t);
          destination = SpaceKey (et_session t) (et_destination_space t)
      in Option.bind
           (distribute_to_space ch env source
              (entity_left_envelope source (et_source_epoch t) (et_entity t) LrTransitioned) r)
           (distribute_to_space ch env destination
              (entity_entered_envelope destination (et_destination_epoch t) (et_entity t))))"

datatype TransportError = WorkerUnavailable | TransportCore CoreError | UnregisteredConnection

definition deliver_to_connection ::
  "'w Channels \<Rightarrow> WorkerEnv \<Rightarrow> ConnectionId \<Rightarrow> Envelope \<Rightarrow> 'w Relay \<Rightarrow> ((TransportError + unit) \<times> 'w Relay) option" where
  "deliver_to_connection ch env connection envelope r =
     (case bt_get (ry_recipients r) connection of
        None \<Rightarrow> Some (Inl UnregisteredConnection, r)
      | Some recipient \<Rightarrow>
          (case ch_try_send ch (lr_sender recipient) envelope (ry_world r) of
             (True, world) \<Rightarrow> Some (Inr (), r\<lparr>ry_world := world\<rparr>)
           | (False, world) \<Rightarrow>
               map_option (Pair (Inl UnregisteredConnection))
                 (cascade ch env [CleanupDead connection] (r\<lparr>ry_world := ch_signal ch (lr_shutdown recipient) world\<rparr>))))"

section \<open>The cascade ends\<close>

lemma drain_outbound_dom: "dom (bt_get (wc_connections (snd (drain_outbound c w)))) = dom (bt_get (wc_connections w))"
  by (auto simp: drain_outbound_def try_in_def ok_or_def Let_def bt_get_insert split: sum.splits option.splits prod.splits if_splits)

lemma drain_outbound_keeps: "core_inv w \<Longrightarrow> core_inv (snd (drain_outbound c w))"
  by (rule drain_outbound_inv)

text \<open>Losing a connection either fails and changes nothing or takes the connection out of the core; no other
  connection appears.\<close>

lemma transport_lost_cases:
  assumes inv: "core_inv w" and res: "transport_lost clk c w = (res, w')"
  obtains (unknown) e where "res = Inl e" "w' = w" "bt_get (wc_connections w) c = None"
  | (lost) summary where "res = Inr summary" "bt_get (wc_connections w) c \<noteq> None" "bt_get (wc_connections w') c = None"
      "dom (bt_get (wc_connections w')) \<subseteq> dom (bt_get (wc_connections w))" "core_inv w'"
proof (cases "bt_get (wc_connections w) c")
  case None
  then show ?thesis
    using res unknown by (auto simp: transport_lost_def try_in_def validate_connection_id_def split: sum.splits if_splits)
next
  case (Some st)
  have keep: "core_inv w'" using transport_lost_inv [OF inv, of clk c] res by simp
  from transport_lost_eq [OF inv Some, of clk] obtain sm where sm: "res = Inr sm"
    and w': "w' = forget_connection clk c (length (bs_list (cn_memberships st)))
        (snd (detach_memberships clk c 0 (bs_list (cn_memberships st)) (empty_summary, w)))"
    using res by auto
  have "bt_get (wc_connections w') c = None"
    using detach_memberships_inv [OF inv Some] forget_connections(1) unfolding w' by (metis bt_get_remove_same)
  moreover have "dom (bt_get (wc_connections w')) \<subseteq> dom (bt_get (wc_connections w))"
    using transport_lost_shrinks [OF inv Some, of clk] res by (fastforce simp: shrinks_def)
  ultimately show ?thesis using lost sm Some keep by simp
qed

lemma send_targets_frame [simp]:
  "ry_core (snd (send_targets ch envelope cs r)) = ry_core r"
  "ry_recipients (snd (send_targets ch envelope cs r)) = ry_recipients r"
  "ry_subscriptions (snd (send_targets ch envelope cs r)) = ry_subscriptions r"
  "ry_logs (snd (send_targets ch envelope cs r)) = ry_logs r"
  "ry_metrics (snd (send_targets ch envelope cs r)) = ry_metrics r"
proof -
  have "ry_core (snd (send_targets ch envelope cs r)) = ry_core r
    \<and> ry_recipients (snd (send_targets ch envelope cs r)) = ry_recipients r
    \<and> ry_subscriptions (snd (send_targets ch envelope cs r)) = ry_subscriptions r
    \<and> ry_logs (snd (send_targets ch envelope cs r)) = ry_logs r
    \<and> ry_metrics (snd (send_targets ch envelope cs r)) = ry_metrics r"
    by (induction cs arbitrary: r) (simp_all add: case_prod_beta Let_def split: option.split bool.split)
  then show "ry_core (snd (send_targets ch envelope cs r)) = ry_core r"
    "ry_recipients (snd (send_targets ch envelope cs r)) = ry_recipients r"
    "ry_subscriptions (snd (send_targets ch envelope cs r)) = ry_subscriptions r"
    "ry_logs (snd (send_targets ch envelope cs r)) = ry_logs r"
    "ry_metrics (snd (send_targets ch envelope cs r)) = ry_metrics r"
    by simp_all
qed

fun is_cleanup :: "Pending \<Rightarrow> bool" where
  "is_cleanup (CleanupDead _) = True"
| "is_cleanup (TellRemoved _ _) = False"

text \<open>Cleaning up a connection of the core leaves fewer connections; cleaning up another one, or telling about a
  removed entity, leaves fewer calls of their kind.\<close>

definition cascade_measure :: "Pending list \<times> 'w Relay \<Rightarrow> nat \<times> nat \<times> nat" where
  "cascade_measure p =
     (bt_len (wc_connections (ry_core (snd p))), length (filter (Not \<circ> is_cleanup) (fst p)), length (filter is_cleanup (fst p)))"

lemma cleanup_dead_connection_spec:
  assumes inv: "core_inv (ry_core r)" and run: "cleanup_dead_connection env c r = (calls, r')"
  shows "core_inv (ry_core r')"
    and "bt_get (ry_recipients r') = (bt_get (ry_recipients r))(c := None)"
    and "bt_get (ry_subscriptions r') = (bt_get (ry_subscriptions r))(c := None)"
    and "ry_world r' = ry_world r" "ry_logs r' = ry_logs r" "ry_metrics r' = ry_metrics r"
    and "dom (bt_get (wc_connections (ry_core r'))) \<subseteq> dom (bt_get (wc_connections (ry_core r)))"
    and "bt_get (wc_connections (ry_core r')) c = None"
    and "calls = [] \<or> bt_len (wc_connections (ry_core r')) < bt_len (wc_connections (ry_core r))"
    and "\<forall>call \<in> set calls. \<not> is_cleanup call"
proof -
  let ?w = "snd (drain_outbound c (ry_core r))"
  obtain res w' where lost: "transport_lost (env_clock env c) c ?w = (res, w')" by fastforce
  have r': "ry_core r' = w'" "ry_recipients r' = bt_remove c (ry_recipients r)"
      "ry_subscriptions r' = bt_remove c (ry_subscriptions r)" "ry_world r' = ry_world r" "ry_logs r' = ry_logs r"
      "ry_metrics r' = ry_metrics r"
    and calls: "calls = (case res of Inl _ \<Rightarrow> [] | Inr summary \<Rightarrow> tell_removed LrDisconnected summary)"
    using run lost by (auto simp: cleanup_dead_connection_def Let_def)
  show "bt_get (ry_recipients r') = (bt_get (ry_recipients r))(c := None)"
    "bt_get (ry_subscriptions r') = (bt_get (ry_subscriptions r))(c := None)"
    "ry_world r' = ry_world r" "ry_logs r' = ry_logs r" "ry_metrics r' = ry_metrics r"
    by (auto simp: r' bt_get_remove)
  show "\<forall>call \<in> set calls. \<not> is_cleanup call"
    by (auto simp: calls tell_removed_def split: sum.splits)
  have invw: "core_inv ?w" using inv by (rule drain_outbound_keeps)
  have "core_inv w' \<and> dom (bt_get (wc_connections w')) \<subseteq> dom (bt_get (wc_connections ?w))
    \<and> bt_get (wc_connections w') c = None
    \<and> (calls = [] \<or> bt_len (wc_connections w') < bt_len (wc_connections ?w))"
    using invw lost
  proof (cases rule: transport_lost_cases)
    case (unknown e)
    then show ?thesis using invw calls by auto
  next
    case (lost summary)
    then have "dom (bt_get (wc_connections w')) \<subset> dom (bt_get (wc_connections ?w))" by auto
    then have "bt_len (wc_connections w') < bt_len (wc_connections ?w)"
      by (simp add: bt_len_card psubset_card_mono)
    with lost show ?thesis by simp
  qed
  moreover have "bt_len (wc_connections ?w) = bt_len (wc_connections (ry_core r))"
    by (simp add: bt_len_card drain_outbound_dom)
  ultimately show "core_inv (ry_core r')"
    "dom (bt_get (wc_connections (ry_core r'))) \<subseteq> dom (bt_get (wc_connections (ry_core r)))"
    "bt_get (wc_connections (ry_core r')) c = None"
    "calls = [] \<or> bt_len (wc_connections (ry_core r')) < bt_len (wc_connections (ry_core r))"
    by (simp_all add: r' drain_outbound_dom)
qed

lemma distribute_removed_entity_spec:
  assumes "distribute_removed_entity ch removed reason r = (calls, r')"
  shows "ry_core r' = ry_core r" "ry_recipients r' = ry_recipients r" "ry_subscriptions r' = ry_subscriptions r"
    "ry_logs r' = ry_logs r" "ry_metrics r' = ry_metrics r" and "\<forall>call \<in> set calls. is_cleanup call"
  using assms by (auto simp: distribute_removed_entity_def Let_def case_prod_beta)

lemma run_pending_call_decreases:
  assumes inv: "core_inv (ry_core r)" and run: "run_pending_call ch env call r = (calls, r')"
  shows "core_inv (ry_core r')"
    and "(cascade_measure (calls @ stack, r'), cascade_measure (call # stack, r)) \<in> less_than <*lex*> less_than <*lex*> less_than"
proof -
  have filters: "filter is_cleanup cs = (if P then cs else [])" "filter (Not \<circ> is_cleanup) cs = (if P then [] else cs)"
    if "\<forall>call \<in> set cs. is_cleanup call = P" for cs P
    using that by (auto simp: filter_id_conv filter_empty_conv)
  have "core_inv (ry_core r') \<and>
    (cascade_measure (calls @ stack, r'), cascade_measure (call # stack, r)) \<in> less_than <*lex*> less_than <*lex*> less_than"
  proof (cases call)
    case (CleanupDead c)
    with run have c: "cleanup_dead_connection env c r = (calls, r')" by simp
    note spec = cleanup_dead_connection_spec [OF inv c]
    have "bt_len (wc_connections (ry_core r')) \<le> bt_len (wc_connections (ry_core r))"
      using spec(7) by (rule bt_len_mono)
    with spec(1,9) CleanupDead show ?thesis by (auto simp: cascade_measure_def)
  next
    case (TellRemoved removed reason)
    with run have d: "distribute_removed_entity ch removed reason r = (calls, r')" by simp
    note spec = distribute_removed_entity_spec [OF d]
    with inv TellRemoved filters(2) [of calls True] show ?thesis by (simp add: cascade_measure_def)
  qed
  then show "core_inv (ry_core r')"
    "(cascade_measure (calls @ stack, r'), cascade_measure (call # stack, r)) \<in> less_than <*lex*> less_than <*lex*> less_than"
    by blast+
qed

lemma cascade_returns:
  assumes "core_inv (ry_core r)"
  shows "\<exists>r'. cascade ch env stack r = Some r'"
proof -
  let ?b = "\<lambda>(stack :: Pending list, _ :: 'a Relay). stack \<noteq> []"
  let ?R = "inv_image (less_than <*lex*> less_than <*lex*> less_than) cascade_measure"
  have "\<exists>t. while_option ?b (cascade_step ch env) (stack, r) = Some t"
  proof (rule wf_rel_while_option_Some [where R = ?R and P = "\<lambda>p. core_inv (ry_core (snd p))"])
    fix s :: "Pending list \<times> 'a Relay"
    assume "core_inv (ry_core (snd s)) \<and> ?b s"
    then obtain call rest q where s: "s = (call # rest, q)" "core_inv (ry_core q)"
      by (cases s; cases "fst s") auto
    obtain calls q' where "run_pending_call ch env call q = (calls, q')" by fastforce
    with s show "(cascade_step ch env s, s) \<in> ?R"
      using run_pending_call_decreases(2) [OF s(2), of ch env call calls q' rest] by simp
  next
    fix s :: "Pending list \<times> 'a Relay"
    assume "core_inv (ry_core (snd s)) \<and> ?b s"
    then obtain call rest q where s: "s = (call # rest, q)" "core_inv (ry_core q)"
      by (cases s; cases "fst s") auto
    obtain calls q' where "run_pending_call ch env call q = (calls, q')" by fastforce
    with s show "core_inv (ry_core (snd (cascade_step ch env s)))"
      using run_pending_call_decreases(1) [OF s(2), of ch env call calls q'] by simp
  qed (use assms in auto)
  then show ?thesis by (auto simp: cascade_def)
qed

lemma cascade_rule:
  assumes run: "cascade ch env stack r = Some r'" and init: "P stack r"
    and step: "\<And>call rest q calls q'. P (call # rest) q \<Longrightarrow> run_pending_call ch env call q = (calls, q') \<Longrightarrow> P (calls @ rest) q'"
  shows "P [] r'"
proof -
  obtain stack' where w: "while_option (\<lambda>(stack, _). stack \<noteq> []) (cascade_step ch env) (stack, r) = Some (stack', r')"
    using run by (auto simp: cascade_def)
  have "case (stack', r') of (st, q) \<Rightarrow> P st q"
  proof (rule while_option_rule [OF _ w])
    fix s assume a: "case s of (st, q) \<Rightarrow> P st q" "case s of (stack, _) \<Rightarrow> stack \<noteq> []"
    then obtain call rest q where s: "s = (call # rest, q)" by (cases s; cases "fst s") auto
    obtain calls q' where "run_pending_call ch env call q = (calls, q')" by fastforce
    with s a step show "case cascade_step ch env s of (st, q) \<Rightarrow> P st q" by simp
  qed (use init in simp)
  moreover have "stack' = []" using while_option_stop [OF w] by simp
  ultimately show ?thesis by simp
qed

section \<open>Who hears a notice\<close>

text \<open>What the fan-out relies on of the channels: \<open>view world h\<close> is everything \<open>try_send\<close> has accepted on the
  channel \<open>h\<close>, in order; a refused send and a shutdown signal add nothing.\<close>

definition channels_ok :: "'w Channels \<Rightarrow> ('w \<Rightarrow> nat \<Rightarrow> Envelope list) \<Rightarrow> bool" where
  "channels_ok ch view \<longleftrightarrow>
     (\<forall>h e w. case ch_try_send ch h e w of
        (True, w') \<Rightarrow> view w' = (view w)(h := view w h @ [e])
      | (False, w') \<Rightarrow> view w' = view w)
     \<and> (\<forall>h w. view (ch_signal ch h w) = view w)"

lemma channels_okD:
  assumes "channels_ok ch view"
  shows "ch_try_send ch h e w = (True, w') \<Longrightarrow> view w' = (view w)(h := view w h @ [e])"
    and "ch_try_send ch h e w = (False, w') \<Longrightarrow> view w' = view w"
    and "view (ch_signal ch h w) = view w"
proof -
  have "case ch_try_send ch h e w of (True, w') \<Rightarrow> view w' = (view w)(h := view w h @ [e]) | (False, w') \<Rightarrow> view w' = view w"
    using assms by (simp add: channels_ok_def)
  then show "ch_try_send ch h e w = (True, w') \<Longrightarrow> view w' = (view w)(h := view w h @ [e])"
    "ch_try_send ch h e w = (False, w') \<Longrightarrow> view w' = view w" by simp_all
qed (use assms in \<open>simp add: channels_ok_def\<close>)

definition heard_more :: "('w \<Rightarrow> nat \<Rightarrow> Envelope list) \<Rightarrow> 'w \<Rightarrow> 'w \<Rightarrow> bool" where
  "heard_more view w w' \<longleftrightarrow> (\<forall>h. set (view w h) \<subseteq> set (view w' h))"

lemma heard_more_refl [simp]: "heard_more view w w"
  by (simp add: heard_more_def)

lemma heard_more_trans: "heard_more view a b \<Longrightarrow> heard_more view b c \<Longrightarrow> heard_more view a c"
  by (auto simp: heard_more_def)

lemma send_targets_heard:
  assumes ok: "channels_ok ch view"
  shows "heard_more view (ry_world r) (ry_world (snd (send_targets ch e cs r)))
    \<and> (\<forall>c rc. c \<in> set cs \<longrightarrow> bt_get (ry_recipients r) c = Some rc \<longrightarrow>
         c \<in> set (fst (send_targets ch e cs r)) \<or> e \<in> set (view (ry_world (snd (send_targets ch e cs r))) (lr_sender rc)))"
proof (induction cs arbitrary: r)
  case (Cons c cs)
  show ?case
  proof (cases "bt_get (ry_recipients r) c")
    case (Some rc)
    obtain sent world where t: "ch_try_send ch (lr_sender rc) e (ry_world r) = (sent, world)" by fastforce
    define r1 where "r1 = r\<lparr>ry_world := if sent then world else ch_signal ch (lr_shutdown rc) world\<rparr>"
    have first: "heard_more view (ry_world r) (ry_world r1)"
      "sent \<Longrightarrow> e \<in> set (view (ry_world r1) (lr_sender rc))"
      using channels_okD [OF ok] t by (cases sent; auto simp: r1_def heard_more_def)+
    have step: "send_targets ch e (c # cs) r =
        ((if sent then [] else [c]) @ fst (send_targets ch e cs r1), snd (send_targets ch e cs r1))"
      using Some t by (cases sent) (simp_all add: r1_def case_prod_beta)
    have same: "bt_get (ry_recipients r1) = bt_get (ry_recipients r)" by (simp add: r1_def)
    note IH = Cons.IH [of r1, unfolded same]
    have "e \<in> set (view (ry_world (snd (send_targets ch e cs r1))) (lr_sender rc))" if sent
      using IH first(2) [OF that] unfolding heard_more_def by blast
    with IH heard_more_trans [OF first(1)] Some show ?thesis unfolding step by auto
  qed (use Cons.IH [of r] in auto)
qed simp

text \<open>What a cascade does to the relay: the core keeps its invariant, connections, recipients and subscriptions
  only disappear, and nothing accepted by a channel is taken back.\<close>

definition calmed :: "('w \<Rightarrow> nat \<Rightarrow> Envelope list) \<Rightarrow> 'w Relay \<Rightarrow> 'w Relay \<Rightarrow> bool" where
  "calmed view r r' \<longleftrightarrow> core_inv (ry_core r')
     \<and> bt_get (ry_recipients r') \<subseteq>\<^sub>m bt_get (ry_recipients r)
     \<and> bt_get (ry_subscriptions r') \<subseteq>\<^sub>m bt_get (ry_subscriptions r)
     \<and> dom (bt_get (wc_connections (ry_core r'))) \<subseteq> dom (bt_get (wc_connections (ry_core r)))
     \<and> dom (bt_get (ry_recipients r)) - dom (bt_get (ry_recipients r'))
         \<subseteq> - dom (bt_get (wc_connections (ry_core r')))
     \<and> heard_more view (ry_world r) (ry_world r')
     \<and> ry_logs r' = ry_logs r \<and> ry_metrics r' = ry_metrics r
     \<and> (\<forall>c. bt_get (ry_recipients r') c \<noteq> None \<longrightarrow> bt_get (ry_subscriptions r') c = bt_get (ry_subscriptions r) c)"

lemma calmed_refl: "core_inv (ry_core r) \<Longrightarrow> calmed view r r"
  by (simp add: calmed_def)

lemma calmedD:
  assumes "calmed view r r'"
  shows "core_inv (ry_core r')"
    and "bt_get (ry_recipients r') \<subseteq>\<^sub>m bt_get (ry_recipients r)"
    and "bt_get (ry_subscriptions r') \<subseteq>\<^sub>m bt_get (ry_subscriptions r)"
    and "dom (bt_get (wc_connections (ry_core r'))) \<subseteq> dom (bt_get (wc_connections (ry_core r)))"
    and "dom (bt_get (ry_recipients r)) - dom (bt_get (ry_recipients r')) \<subseteq> - dom (bt_get (wc_connections (ry_core r')))"
    and "heard_more view (ry_world r) (ry_world r')"
    and "ry_logs r' = ry_logs r" and "ry_metrics r' = ry_metrics r"
    and "bt_get (ry_recipients r') c \<noteq> None \<Longrightarrow> bt_get (ry_subscriptions r') c = bt_get (ry_subscriptions r) c"
  using assms unfolding calmed_def by blast+

lemma calmed_forgets:
  assumes "calmed view r r'"
  shows "bt_get (ry_recipients r) c = None \<Longrightarrow> bt_get (ry_recipients r') c = None"
    and "bt_get (wc_connections (ry_core r)) c = None \<Longrightarrow> bt_get (wc_connections (ry_core r')) c = None"
  using map_le_implies_dom_le [OF calmedD(2) [OF assms]] calmedD(4) [OF assms] by (auto simp: domIff dest!: subsetD [where c = c])

lemma calmed_trans:
  assumes ab: "calmed view a b" and bc: "calmed view b c"
  shows "calmed view a c"
  unfolding calmed_def
proof (intro conjI)
  show "bt_get (ry_recipients c) \<subseteq>\<^sub>m bt_get (ry_recipients a)"
    using calmedD(2) [OF bc] calmedD(2) [OF ab] by (rule map_le_trans)
  show "bt_get (ry_subscriptions c) \<subseteq>\<^sub>m bt_get (ry_subscriptions a)"
    using calmedD(3) [OF bc] calmedD(3) [OF ab] by (rule map_le_trans)
  show "dom (bt_get (ry_recipients a)) - dom (bt_get (ry_recipients c)) \<subseteq> - dom (bt_get (wc_connections (ry_core c)))"
    using calmedD(5) [OF ab] calmedD(5) [OF bc] calmedD(4) [OF bc] by blast
  show "heard_more view (ry_world a) (ry_world c)"
    using calmedD(6) [OF ab] calmedD(6) [OF bc] by (rule heard_more_trans)
  show "\<forall>x. bt_get (ry_recipients c) x \<noteq> None \<longrightarrow> bt_get (ry_subscriptions c) x = bt_get (ry_subscriptions a) x"
    using calmedD(9) [OF ab] calmedD(9) [OF bc] calmed_forgets(1) [OF bc] by metis
qed (use calmedD [OF ab] calmedD [OF bc] in auto)

lemma calmed_send:
  assumes "channels_ok ch view" and "core_inv (ry_core r)"
  shows "calmed view r (snd (send_targets ch e cs r))"
  using assms send_targets_heard [OF assms(1), of r e cs] by (simp add: calmed_def)

lemma calmed_call:
  assumes ok: "channels_ok ch view" and inv: "core_inv (ry_core r)"
    and run: "run_pending_call ch env call r = (calls, r')"
  shows "calmed view r r'"
proof (cases call)
  case (CleanupDead c)
  with run have "cleanup_dead_connection env c r = (calls, r')" by simp
  from cleanup_dead_connection_spec [OF inv this] show ?thesis
    by (auto simp: calmed_def map_le_def split: if_splits)
next
  case (TellRemoved removed reason)
  with run show ?thesis
    using calmed_send [OF ok inv] by (auto simp: distribute_removed_entity_def Let_def case_prod_beta)
qed

lemma cascade_spec:
  assumes ok: "channels_ok ch view" and inv: "core_inv (ry_core r)" and run: "cascade ch env stack r = Some r'"
  shows "calmed view r r'"
    and "CleanupDead c \<in> set stack \<Longrightarrow> bt_get (ry_recipients r') c = None \<and> bt_get (wc_connections (ry_core r')) c = None"
proof -
  define P where "P = (\<lambda>st q. calmed view r q \<and> (\<forall>c. CleanupDead c \<in> set stack \<longrightarrow>
     CleanupDead c \<in> set st \<or> bt_get (ry_recipients q) c = None \<and> bt_get (wc_connections (ry_core q)) c = None))"
  have "P [] r'"
  proof (rule cascade_rule [OF run])
    show "P stack r" using inv by (simp add: P_def calmed_refl)
  next
    fix call rest q calls q'
    assume p: "P (call # rest) q" and c: "run_pending_call ch env call q = (calls, q')"
    have q: "core_inv (ry_core q)" using p by (simp add: P_def calmed_def)
    have calm: "calmed view q q'" using ok q c by (rule calmed_call)
    have gone: "bt_get (ry_recipients q') c = None \<and> bt_get (wc_connections (ry_core q')) c = None"
      if "bt_get (ry_recipients q) c = None \<and> bt_get (wc_connections (ry_core q)) c = None" for c
      using that calmed_forgets [OF calm] by blast
    have cleaned: "bt_get (ry_recipients q') c = None \<and> bt_get (wc_connections (ry_core q')) c = None" if "call = CleanupDead c" for c
      using cleanup_dead_connection_spec(2,8) [OF q, of env c calls q'] c that by simp
    show "P (calls @ rest) q'"
      using p calmed_trans [OF _ calm] gone cleaned unfolding P_def by auto
  qed
  then show "calmed view r r'"
    and "CleanupDead c \<in> set stack \<Longrightarrow> bt_get (ry_recipients r') c = None \<and> bt_get (wc_connections (ry_core r')) c = None"
    by (auto simp: P_def)
qed

definition gone :: "ConnectionId \<Rightarrow> 'w Relay \<Rightarrow> bool" where
  "gone c r \<longleftrightarrow> bt_get (ry_recipients r) c = None \<and> bt_get (wc_connections (ry_core r)) c = None"

definition listens :: "'w Relay \<Rightarrow> ConnectionId \<Rightarrow> LifecycleRecipient \<Rightarrow> SpaceKey \<Rightarrow> bool" where
  "listens r c rc space \<longleftrightarrow> bt_get (ry_recipients r) c = Some rc
     \<and> (\<exists>spaces. bt_get (ry_subscriptions r) c = Some spaces \<and> space \<in> bs_set spaces)"

lemma gone_calmed: "calmed view r r' \<Longrightarrow> gone c r \<Longrightarrow> gone c r'"
  unfolding gone_def using calmed_forgets by blast

lemma listens_calmed:
  assumes "calmed view r r'" and "listens r c rc space"
  shows "gone c r' \<or> listens r' c rc space"
proof (cases "bt_get (ry_recipients r') c")
  case None
  then have "c \<in> dom (bt_get (ry_recipients r)) - dom (bt_get (ry_recipients r'))"
    using assms(2) by (auto simp: listens_def)
  with calmedD(5) [OF assms(1)] None show ?thesis by (auto simp: gone_def)
next
  case (Some rc')
  then have "rc' = rc" using calmedD(2) [OF assms(1)] assms(2) unfolding map_le_def listens_def by (metis domI option.inject)
  with Some calmedD(9) [OF assms(1), of c] assms(2) show ?thesis by (auto simp: listens_def)
qed

lemma space_targets_iff:
  "c \<in> set (space_targets space excluded r) \<longleftrightarrow>
     excluded \<noteq> Some c \<and> (\<exists>spaces. bt_get (ry_subscriptions r) c = Some spaces \<and> space \<in> bs_set spaces)"
  by (force simp: space_targets_def bt_entries_iff)

lemma send_to_listeners:
  assumes ok: "channels_ok ch view" and "listens r c rc space" and "excluded \<noteq> Some c"
    and sent: "send_targets ch e (space_targets space excluded r) r = (dead, r')"
  shows "c \<in> set dead \<or> e \<in> set (view (ry_world r') (lr_sender rc))"
  using send_targets_heard [OF ok, of r e "space_targets space excluded r"] assms(2,3) sent
  by (auto simp: space_targets_iff listens_def)

text \<open>Whoever listens to a space when its entities are removed hears of each of them or is gone in the end.\<close>

lemma cascade_tells:
  assumes ok: "channels_ok ch view" and inv: "core_inv (ry_core r)" and run: "cascade ch env stack r = Some r'"
    and told: "TellRemoved removed reason \<in> set stack"
    and l: "listens r c rc (SpaceKey (re_session removed) (re_space removed))"
  shows "removed_notice removed reason \<in> set (view (ry_world r') (lr_sender rc)) \<or> gone c r'"
proof -
  let ?space = "SpaceKey (re_session removed) (re_space removed)" and ?e = "removed_notice removed reason"
  define P where "P = (\<lambda>st q. calmed view r q \<and>
     (TellRemoved removed reason \<in> set st \<or> ?e \<in> set (view (ry_world q) (lr_sender rc)) \<or> CleanupDead c \<in> set st \<or> gone c q))"
  have "P [] r'"
  proof (rule cascade_rule [OF run])
    show "P stack r" using inv told by (simp add: P_def calmed_refl)
  next
    fix call rest q calls q'
    assume p: "P (call # rest) q" and c: "run_pending_call ch env call q = (calls, q')"
    have pre: "calmed view r q" using p by (simp add: P_def)
    have q: "core_inv (ry_core q)" using calmedD(1) [OF pre] .
    have calm: "calmed view q q'" using ok q c by (rule calmed_call)
    have kept: "?e \<in> set (view (ry_world q') (lr_sender rc))" if "?e \<in> set (view (ry_world q) (lr_sender rc))"
      using that calmedD(6) [OF calm] by (auto simp: heard_more_def)
    have cleaned: "gone c q'" if "call = CleanupDead c"
      using cleanup_dead_connection_spec(2,8) [OF q, of env c calls q'] c that by (simp add: gone_def)
    have now: "?e \<in> set (view (ry_world q') (lr_sender rc)) \<or> CleanupDead c \<in> set calls \<or> gone c q'"
      if tells: "call = TellRemoved removed reason"
    proof (cases "gone c q")
      case False
      with listens_calmed [OF pre l] have lq: "listens q c rc ?space" by blast
      obtain dead where d: "send_targets ch ?e (space_targets ?space None q) q = (dead, q')" "calls = map CleanupDead dead"
        using c unfolding tells by (auto simp: distribute_removed_entity_def Let_def split: prod.splits)
      with send_to_listeners [OF ok lq _ d(1)] show ?thesis by auto
    qed (use gone_calmed [OF calm] in blast)
    show "P (calls @ rest) q'"
      using p calmed_trans [OF pre calm] kept cleaned now gone_calmed [OF calm] unfolding P_def by auto
  qed
  then show ?thesis by (simp add: P_def)
qed

end
