(* ===== verification/Relay_Worker.thy ===== *)
theory Relay_Worker
  imports Relay_Fanout
begin

text \<open>
  The loop of the worker task (\<open>spawn_worker_inner\<close> in \<open>woven-transport/src/lib.rs\<close>): the requests of its
  mailbox, one at a time, with the counters, the log capture and the lifecycle fan-out around each command,
  and its two timers. The arm for managed requests is left out. \<open>None\<close> would be a panic or a cascade that
  never ends.
\<close>

section \<open>Counters\<close>

definition new_metrics :: ServerMetrics where
  "new_metrics = \<lparr>sm_connections_total = 0, sm_authenticate_rejected_total = 0, sm_join_rejected_total = 0,
     sm_publishes_total = 0, sm_transform_publishes_total = 0, sm_publish_bytes_received_total = 0,
     sm_publish_bytes_delivered_total = 0, sm_events_delivered_total = 0, sm_queue_dropped_total = 0,
     sm_queue_evicted_total = 0\<rparr>"

definition saturating_mul_u64 :: "u64 \<Rightarrow> u64 \<Rightarrow> u64" where
  "saturating_mul_u64 a b = (if unat a * unat b < 2 ^ 64 then a * b else u64_max)"

definition record_connected :: "ServerMetrics \<Rightarrow> ServerMetrics" where
  "record_connected m = m\<lparr>sm_connections_total := sm_connections_total m + 1\<rparr>"

definition record_authenticate_rejected :: "ServerMetrics \<Rightarrow> ServerMetrics" where
  "record_authenticate_rejected m = m\<lparr>sm_authenticate_rejected_total := sm_authenticate_rejected_total m + 1\<rparr>"

definition record_join_rejected :: "ServerMetrics \<Rightarrow> ServerMetrics" where
  "record_join_rejected m = m\<lparr>sm_join_rejected_total := sm_join_rejected_total m + 1\<rparr>"

definition record_publish :: "u64 \<Rightarrow> bool \<Rightarrow> ServerMetrics \<Rightarrow> ServerMetrics" where
  "record_publish bytes is_transform m =
     m\<lparr>sm_publishes_total := sm_publishes_total m + 1,
       sm_publish_bytes_received_total := sm_publish_bytes_received_total m + bytes,
       sm_transform_publishes_total := sm_transform_publishes_total m + (if is_transform then 1 else 0)\<rparr>"

definition record_publish_outcome :: "u64 \<Rightarrow> u64 \<Rightarrow> u64 \<Rightarrow> u64 \<Rightarrow> ServerMetrics \<Rightarrow> ServerMetrics" where
  "record_publish_outcome bytes recipient_attempts dropped evicted m =
     m\<lparr>sm_events_delivered_total := sm_events_delivered_total m + recipient_attempts,
       sm_publish_bytes_delivered_total := sm_publish_bytes_delivered_total m + saturating_mul_u64 bytes recipient_attempts,
       sm_queue_dropped_total := sm_queue_dropped_total m + dropped,
       sm_queue_evicted_total := sm_queue_evicted_total m + evicted\<rparr>"

datatype MetricsContext =
    McNone | McConnected | McTransportLost ConnectionId | McAuthenticate ConnectionId
  | McJoin ConnectionId SessionKey | McLeave ConnectionId SessionKey | McPublish u64 bool

definition is_transform_publication :: "PublishRequest \<Rightarrow> bool" where
  "is_transform_publication request \<longleftrightarrow> rq_entity request \<noteq> None \<and> rq_delivery request = LatestValue"

fun metrics_context :: "Command \<Rightarrow> MetricsContext" where
  "metrics_context TransportConnected = McConnected"
| "metrics_context (TransportLost c) = McTransportLost c"
| "metrics_context (AuthenticateConnection c _) = McAuthenticate c"
| "metrics_context (JoinSession c session) = McJoin c session"
| "metrics_context (JoinSessionWithAdmission c session _) = McJoin c session"
| "metrics_context (LeaveSession c session) = McLeave c session"
| "metrics_context (Publish request) = McPublish (of_nat (length (rq_payload request))) (is_transform_publication request)"
| "metrics_context _ = McNone"

definition observe_command :: "MetricsContext \<Rightarrow> CoreError + CommandResult \<Rightarrow> ServerMetrics \<Rightarrow> ServerMetrics" where
  "observe_command context result m =
     (case context of
        McConnected \<Rightarrow> (case result of Inr (Connected _) \<Rightarrow> record_connected m | _ \<Rightarrow> m)
      | McAuthenticate _ \<Rightarrow> if is_ok result then m else record_authenticate_rejected m
      | McJoin _ _ \<Rightarrow> if is_ok result then m else record_join_rejected m
      | McPublish bytes is_transform \<Rightarrow>
          (let m1 = record_publish bytes is_transform m
           in case result of
                Inr (Published outcome) \<Rightarrow>
                  (let q = po_queues outcome;
                       dropped = of_nat (qa_dropped_latest q + qa_dropped_best_effort q + qa_critical_capacity_exhausted q);
                       evicted = of_nat (qa_critical_evictions q + qa_evicted_latest q + qa_replaced_latest q)
                   in record_publish_outcome bytes (of_nat (po_recipient_attempts outcome)) dropped evicted m1)
              | _ \<Rightarrow> m1)
      | _ \<Rightarrow> m)"

section \<open>Lifecycle actions\<close>

datatype LifecycleAction =
    LaNone
  | LaSubscribe ConnectionId SpaceKey
  | LaUnsubscribe ConnectionId SpaceKey
  | LaLeaveSession ConnectionId SessionKey
  | LaSpawn SpaceKey SpaceEpoch
  | LaRemoveEntity
  | LaTransition
  | LaTransportLost ConnectionId

fun lifecycle_action :: "Command \<Rightarrow> LifecycleAction" where
  "lifecycle_action (Subscribe c space) = LaSubscribe c space"
| "lifecycle_action (Unsubscribe c space) = LaUnsubscribe c space"
| "lifecycle_action (LeaveSession c session) = LaLeaveSession c session"
| "lifecycle_action (SpawnEntity _ space epoch) = LaSpawn space epoch"
| "lifecycle_action (RemoveEntity _ _ _) = LaRemoveEntity"
| "lifecycle_action (TransitionEntity _) = LaTransition"
| "lifecycle_action (TransportLost c) = LaTransportLost c"
| "lifecycle_action _ = LaNone"

fun membership_log_context :: "Command \<Rightarrow> (ConnectionId \<times> string) option" where
  "membership_log_context (JoinSession c _) = Some (c, ''session left'')"
| "membership_log_context (JoinSessionWithAdmission c _ _) = Some (c, ''session left'')"
| "membership_log_context (RequestSessionAdmission c _ _) = Some (c, ''session left'')"
| "membership_log_context (SessionQueue c _ _ _) = Some (c, ''session left'')"
| "membership_log_context (LeaveSession c _) = Some (c, ''session left'')"
| "membership_log_context (TransportLost c) = Some (c, ''transport lost'')"
| "membership_log_context _ = None"

definition or_default :: "ConnectionId \<Rightarrow> (ConnectionId, SpaceKey btree_set) btree_map \<Rightarrow> SpaceKey btree_set" where
  "or_default c subscriptions = (case bt_get subscriptions c of None \<Rightarrow> bt_empty | Some spaces \<Rightarrow> spaces)"

definition activate :: "ConnectionId \<Rightarrow> SpaceKey \<Rightarrow> 'w Relay \<Rightarrow> 'w Relay" where
  "activate c space r =
     r\<lparr>ry_subscriptions := bt_insert c (bs_insert space (or_default c (ry_subscriptions r))) (ry_subscriptions r)\<rparr>"

definition apply_lifecycle_action ::
  "'w Channels \<Rightarrow> WorkerEnv \<Rightarrow> LifecycleAction \<Rightarrow> CommandResult \<Rightarrow> 'w Relay \<Rightarrow> 'w Relay option" where
  "apply_lifecycle_action ch env action result r =
     (case action of
        LaNone \<Rightarrow> Some r
      | LaSubscribe c space \<Rightarrow> (case result of Subscribed \<Rightarrow> Some (activate c space r) | _ \<Rightarrow> Some r)
      | LaUnsubscribe c space \<Rightarrow>
          (case result of
             Unsubscribed summary \<Rightarrow>
               distribute_removed_entities ch env summary LrRemoved
                 (r\<lparr>ry_subscriptions := bt_update c (bs_remove space) (ry_subscriptions r)\<rparr>)
           | _ \<Rightarrow> Some r)
      | LaLeaveSession c session \<Rightarrow>
          (case result of
             Left summary \<Rightarrow>
               distribute_removed_entities ch env summary LrRemoved
                 (r\<lparr>ry_subscriptions :=
                      bt_update c (bs_retain (\<lambda>space. spk_session space \<noteq> session)) (ry_subscriptions r)\<rparr>)
           | _ \<Rightarrow> Some r)
      | LaSpawn space epoch \<Rightarrow>
          (case result of
             EntitySpawned entity \<Rightarrow> distribute_to_space ch env space (entity_entered_envelope space epoch entity) r
           | _ \<Rightarrow> Some r)
      | LaRemoveEntity \<Rightarrow>
          (case result of EntityRemoved summary \<Rightarrow> distribute_removed_entities ch env summary LrRemoved r | _ \<Rightarrow> Some r)
      | LaTransition \<Rightarrow>
          (case result of EntityTransitioned transition \<Rightarrow> distribute_transition ch env transition r | _ \<Rightarrow> Some r)
      | LaTransportLost c \<Rightarrow>
          (case result of
             Disconnected summary \<Rightarrow>
               distribute_removed_entities ch env summary LrDisconnected
                 (r\<lparr>ry_recipients := bt_remove c (ry_recipients r), ry_subscriptions := bt_remove c (ry_subscriptions r)\<rparr>)
           | _ \<Rightarrow> Some r))"

section \<open>Requests\<close>

datatype WorkerRequest =
    ClientLogRequest ConnectionId SessionKey ClientLog
  | LogsRequest u64 usize
  | CommandRequest Command
  | ChannelPersistenceRequest ConnectionId SessionKey ChannelId
  | RegisterLifecycle ConnectionId LifecycleRecipient
  | SubscribeAndSpawn ConnectionId SpaceKey SpaceEpoch
  | ActivateSubscription ConnectionId SpaceKey
  | BroadcastToSpace SpaceKey Envelope "ConnectionId option"
  | SendToConnection ConnectionId Envelope
  | LiveCountsRequest

text \<open>What the reply channel of a request receives; \<open>NoReply\<close> is a reply channel dropped unanswered.\<close>

datatype WorkerReply =
    LogReply "ProtocolErrorCode + unit"
  | PageReply LogPage
  | CommandReply "CoreError + CommandResult"
  | PersistenceReply "CoreError + PersistenceClass"
  | UnitReply
  | SpawnReply "CoreError + EntityId"
  | SendReply "TransportError + unit"
  | CountsReply usize usize
  | NoReply

fun request_can_disconnect :: "WorkerRequest \<Rightarrow> bool" where
  "request_can_disconnect (CommandRequest command) \<longleftrightarrow> lifecycle_action command \<noteq> LaNone"
| "request_can_disconnect (SubscribeAndSpawn _ _ _) = True"
| "request_can_disconnect (BroadcastToSpace _ _ _) = True"
| "request_can_disconnect (SendToConnection _ _) = True"
| "request_can_disconnect _ = False"

text \<open>A registered connection is drained only for the spaces its transport has activated.\<close>

definition run_command :: "WorkerEnv \<Rightarrow> Command \<Rightarrow> 'w Relay \<Rightarrow> ((CoreError + CommandResult) \<times> 'w Relay) option" where
  "run_command env command r =
     (case command of
        DrainOutbound c \<Rightarrow>
          if bt_contains (ry_recipients r) c
          then let active = or_default c (ry_subscriptions r);
                   r1 = r\<lparr>ry_subscriptions := bt_insert c active (ry_subscriptions r)\<rparr>
               in Option.bind (drain_outbound_for_spaces c active (ry_core r)) (\<lambda>(result, w).
                    Some (map_sum id Outbound result, r1\<lparr>ry_core := w\<rparr>))
          else Option.bind (handle env command (ry_core r)) (\<lambda>(result, w). Some (result, r\<lparr>ry_core := w\<rparr>))
      | _ \<Rightarrow> Option.bind (handle env command (ry_core r)) (\<lambda>(result, w). Some (result, r\<lparr>ry_core := w\<rparr>)))"

definition process_command ::
  "'w Channels \<Rightarrow> (u64 \<Rightarrow> u64) \<Rightarrow> WorkerEnv \<Rightarrow> Command \<Rightarrow> 'w Relay \<Rightarrow> ((CoreError + CommandResult) \<times> 'w Relay) option" where
  "process_command ch wall env command r =
     Option.bind (run_command env command r) (\<lambda>(result, r1).
       let r2 = (case membership_log_context command of
                   None \<Rightarrow> r1
                 | Some (c, reason) \<Rightarrow> r1\<lparr>ry_logs := observe_connection wall (ry_core r1) c reason (ry_logs r1)\<rparr>);
           r3 = r2\<lparr>ry_metrics := observe_command (metrics_context command) result (ry_metrics r2)\<rparr>
       in map_option (Pair result)
            (case result of
               Inl _ \<Rightarrow> Some r3
             | Inr success \<Rightarrow> apply_lifecycle_action ch env (lifecycle_action command) success r3))"

definition subscribe_and_spawn ::
  "'w Channels \<Rightarrow> WorkerEnv \<Rightarrow> ConnectionId \<Rightarrow> SpaceKey \<Rightarrow> SpaceEpoch \<Rightarrow> 'w Relay \<Rightarrow> ((CoreError + EntityId) \<times> 'w Relay) option" where
  "subscribe_and_spawn ch env c space epoch r =
     (case subscribe c space (ry_core r) of
        (Inl e, w) \<Rightarrow> Some (Inl e, r\<lparr>ry_core := w\<rparr>)
      | (Inr _, w) \<Rightarrow>
          (case spawn_entity c space epoch w of
             (Inl e, w1) \<Rightarrow> Some (Inl e, r\<lparr>ry_core := w1\<rparr>)
           | (Inr entity, w1) \<Rightarrow>
               map_option (Pair (Inr entity))
                 (distribute_to_space_excluding ch env space (entity_entered_envelope space epoch entity) (Some c)
                    (r\<lparr>ry_core := w1\<rparr>))))"

definition reconcile_one :: "'w Channels \<Rightarrow> (u64 \<Rightarrow> u64) \<Rightarrow> ConnectionId \<Rightarrow> 'w Relay \<Rightarrow> 'w Relay" where
  "reconcile_one ch wall c r =
     r\<lparr>ry_logs := observe_connection wall (ry_core r) c ''slow consumer disconnected'' (ry_logs r),
       ry_recipients := bt_remove c (ry_recipients r),
       ry_subscriptions := bt_remove c (ry_subscriptions r),
       ry_world := (case bt_get (ry_recipients r) c of
                      None \<Rightarrow> ry_world r | Some recipient \<Rightarrow> ch_signal ch (lr_shutdown recipient) (ry_world r))\<rparr>"

definition reconcile :: "'w Channels \<Rightarrow> (u64 \<Rightarrow> u64) \<Rightarrow> 'w Relay \<Rightarrow> 'w Relay" where
  "reconcile ch wall r = fold (reconcile_one ch wall) (log_disconnected (ry_core r) (ry_logs r)) r"

definition serve_request ::
  "'w Channels \<Rightarrow> (u64 \<Rightarrow> u64) \<Rightarrow> WorkerEnv \<Rightarrow> WorkerRequest \<Rightarrow> 'w Relay \<Rightarrow> (WorkerReply \<times> 'w Relay) option" where
  "serve_request ch wall env request r =
     (case request of
        ClientLogRequest c session entry \<Rightarrow>
          map_option (\<lambda>(result, logs). (LogReply result, r\<lparr>ry_logs := logs\<rparr>))
            (client_log wall (ry_core r) c session entry (env_now env) (ry_logs r))
      | LogsRequest after limit \<Rightarrow> Some (PageReply (log_page after limit (ry_logs r)), r)
      | CommandRequest command \<Rightarrow>
          map_option (\<lambda>(result, r1). (CommandReply result, r1)) (process_command ch wall env command r)
      | ChannelPersistenceRequest c session channel \<Rightarrow>
          Some (PersistenceReply (channel_persistence (ry_core r) c session channel), r)
      | RegisterLifecycle c recipient \<Rightarrow>
          if \<not> is_connected (ry_core r) c
          then Some (NoReply, r\<lparr>ry_world := ch_signal ch (lr_shutdown recipient) (ry_world r)\<rparr>)
          else Some (UnitReply, r\<lparr>ry_recipients := bt_insert c recipient (ry_recipients r),
                 ry_subscriptions := bt_insert c (or_default c (ry_subscriptions r)) (ry_subscriptions r)\<rparr>)
      | SubscribeAndSpawn c space epoch \<Rightarrow>
          map_option (\<lambda>(result, r1). (SpawnReply result, r1)) (subscribe_and_spawn ch env c space epoch r)
      | ActivateSubscription c space \<Rightarrow> Some (UnitReply, activate c space r)
      | BroadcastToSpace space envelope exclude \<Rightarrow>
          map_option (Pair UnitReply) (distribute_to_space_excluding ch env space envelope exclude r)
      | SendToConnection c envelope \<Rightarrow>
          map_option (\<lambda>(result, r1). (SendReply result, r1)) (deliver_to_connection ch env c envelope r)
      | LiveCountsRequest \<Rightarrow>
          Some (CountsReply (bt_len (wc_connections (ry_core r))) (bt_len (wc_sessions (ry_core r))), r))"

definition reconciles :: "WorkerRequest \<Rightarrow> WorkerReply \<Rightarrow> bool" where
  "reconciles request reply =
     (case reply of
        CommandReply (Inr (Published outcome)) \<Rightarrow> po_disconnected_slow_consumers outcome \<noteq> []
      | _ \<Rightarrow> request_can_disconnect request)"

definition process_request ::
  "'w Channels \<Rightarrow> (u64 \<Rightarrow> u64) \<Rightarrow> WorkerEnv \<Rightarrow> WorkerRequest \<Rightarrow> 'w Relay \<Rightarrow> (WorkerReply \<times> 'w Relay) option" where
  "process_request ch wall env request r =
     map_option (\<lambda>(reply, r1). (reply, if reconciles request reply then reconcile ch wall r1 else r1))
       (serve_request ch wall env request r)"

definition relay_new :: "WovenCore \<Rightarrow> 'w \<Rightarrow> 'w Relay" where
  "relay_new w world =
     \<lparr>ry_core = w, ry_recipients = bt_empty, ry_subscriptions = bt_empty, ry_logs = new_capture,
      ry_metrics = new_metrics, ry_world = world\<rparr>"

definition admission_tick :: "Instant \<Rightarrow> 'w Relay \<Rightarrow> 'w Relay" where
  "admission_tick now r = r\<lparr>ry_core := maintain_admission_at now (ry_core r)\<rparr>"

definition sweep_tick :: "Instant \<Rightarrow> 'w Relay \<Rightarrow> 'w Relay" where
  "sweep_tick now r = r\<lparr>ry_core := snd (sweep_expired_state now (ry_core r))\<rparr>"

section \<open>The worker always answers\<close>

definition relay_inv :: "'w Relay \<Rightarrow> bool" where
  "relay_inv r \<longleftrightarrow> core_inv (ry_core r) \<and> log_inv (ry_logs r)"

lemma relay_inv_update [simp]:
  "relay_inv (r\<lparr>ry_recipients := a\<rparr>) = relay_inv r" "relay_inv (r\<lparr>ry_subscriptions := b\<rparr>) = relay_inv r"
  "relay_inv (r\<lparr>ry_metrics := m\<rparr>) = relay_inv r" "relay_inv (r\<lparr>ry_world := x\<rparr>) = relay_inv r"
  by (simp_all add: relay_inv_def)

lemma relay_inv_activate [simp]: "relay_inv (activate c space r) = relay_inv r"
  by (simp add: activate_def)

lemma relay_inv_core: "relay_inv r \<Longrightarrow> core_inv w \<Longrightarrow> relay_inv (r\<lparr>ry_core := w\<rparr>)"
  by (simp add: relay_inv_def)

lemma relay_inv_observe: "relay_inv r \<Longrightarrow> relay_inv (r\<lparr>ry_logs := observe_connection wall w c reason (ry_logs r)\<rparr>)"
  by (simp add: relay_inv_def log_inv_def observe_connection_ring observe_connection_windows)

lemma relay_inv_send [simp]: "relay_inv (snd (send_targets ch e cs r)) = relay_inv r"
  by (simp add: relay_inv_def)

lemma cascade_total:
  assumes "relay_inv r"
  shows "\<exists>r'. cascade ch env stack r = Some r' \<and> relay_inv r'"
proof -
  obtain r' where run: "cascade ch env stack r = Some r'"
    using cascade_returns assms unfolding relay_inv_def by blast
  have "relay_inv r'"
  proof (rule cascade_rule [OF run, where P = "\<lambda>_. relay_inv"])
    fix call rest q calls q'
    assume q: "relay_inv q" and c: "run_pending_call ch env call q = (calls, q')"
    have "ry_logs q' = ry_logs q"
      using c q cleanup_dead_connection_spec(5) [of q env _ calls q'] distribute_removed_entity_spec(4) [of ch _ _ q calls q']
      by (cases call) (auto simp: relay_inv_def)
    then show "relay_inv q'" using q run_pending_call_decreases(1) [OF _ c] by (simp add: relay_inv_def)
  qed (rule assms)
  with run show ?thesis by blast
qed

lemma distribute_total:
  assumes "relay_inv r"
  shows "\<exists>r'. distribute_to_space_excluding ch env space e excluded r = Some r' \<and> relay_inv r'"
    and "\<exists>r'. distribute_to_space ch env space e r = Some r' \<and> relay_inv r'"
    and "\<exists>r'. distribute_removed_entities ch env summary reason r = Some r' \<and> relay_inv r'"
    and "\<exists>r'. distribute_transition ch env t r = Some r' \<and> relay_inv r'"
proof -
  have all: "\<exists>r'. distribute_to_space_excluding ch env space e excluded r = Some r' \<and> relay_inv r'"
    if "relay_inv r" for space e excluded and r :: "'a Relay"
    using cascade_total [of "snd (send_targets ch e (space_targets space excluded r) r)"] that
    by (simp add: distribute_to_space_excluding_def Let_def case_prod_beta)
  from all [OF assms] show "\<exists>r'. distribute_to_space_excluding ch env space e excluded r = Some r' \<and> relay_inv r'"
    "\<exists>r'. distribute_to_space ch env space e r = Some r' \<and> relay_inv r'"
    by (simp_all add: distribute_to_space_def)
  show "\<exists>r'. distribute_removed_entities ch env summary reason r = Some r' \<and> relay_inv r'"
    using cascade_total [OF assms] by (simp add: distribute_removed_entities_def)
  show "\<exists>r'. distribute_transition ch env t r = Some r' \<and> relay_inv r'"
    using all assms unfolding distribute_transition_def distribute_to_space_def Let_def by (metis bind.bind_lunit)
qed

lemma apply_lifecycle_action_total:
  "relay_inv r \<Longrightarrow> \<exists>r'. apply_lifecycle_action ch env action result r = Some r' \<and> relay_inv r'"
  by (cases action; cases result) (simp_all add: apply_lifecycle_action_def distribute_total)

lemma run_command_total:
  assumes "relay_inv r"
  shows "\<exists>result r'. run_command env command r = Some (result, r') \<and> relay_inv r'"
proof -
  have w: "core_inv (ry_core r)" using assms by (simp add: relay_inv_def)
  have plain: "\<exists>result r'. Option.bind (handle env command (ry_core r)) (\<lambda>(result, w). Some (result, r\<lparr>ry_core := w\<rparr>)) = Some (result, r') \<and> relay_inv r'"
    using handle_total [OF w, of env command] relay_inv_core [OF assms] by auto
  show ?thesis
  proof (cases command)
    case (DrainOutbound c)
    show ?thesis
    proof (cases "bt_contains (ry_recipients r) c")
      case True
      then show ?thesis
        using DrainOutbound drain_for_spaces_total [OF w, of c "or_default c (ry_subscriptions r)"] assms
        by (auto simp: run_command_def Let_def relay_inv_def)
    qed (use plain DrainOutbound in \<open>simp add: run_command_def\<close>)
  qed (use plain in \<open>simp_all add: run_command_def\<close>)
qed

lemma process_command_total:
  assumes "relay_inv r"
  shows "\<exists>result r'. process_command ch wall env command r = Some (result, r') \<and> relay_inv r'"
proof -
  obtain result r1 where run: "run_command env command r = Some (result, r1)" "relay_inv r1"
    using run_command_total [OF assms] by blast
  define r2 where "r2 = (case membership_log_context command of
      None \<Rightarrow> r1
    | Some (c, reason) \<Rightarrow> r1\<lparr>ry_logs := observe_connection wall (ry_core r1) c reason (ry_logs r1)\<rparr>)"
  define r3 where "r3 = r2\<lparr>ry_metrics := observe_command (metrics_context command) result (ry_metrics r2)\<rparr>"
  have r3: "relay_inv r3"
    using run(2) by (auto simp: r3_def r2_def relay_inv_observe split: option.splits)
  have "process_command ch wall env command r = map_option (Pair result)
      (case result of Inl _ \<Rightarrow> Some r3 | Inr success \<Rightarrow> apply_lifecycle_action ch env (lifecycle_action command) success r3)"
    unfolding process_command_def run(1) r3_def r2_def Let_def by simp
  with r3 apply_lifecycle_action_total [OF r3, of ch env "lifecycle_action command"] show ?thesis
    by (cases result) auto
qed

lemma reconcile_inv:
  assumes "relay_inv r"
  shows "relay_inv (reconcile ch wall r)"
proof -
  have one: "relay_inv (reconcile_one ch wall c q)" if "relay_inv q" for c q
    using relay_inv_observe [OF that, of wall "ry_core q" c] by (simp add: reconcile_one_def relay_inv_def)
  have "relay_inv q \<Longrightarrow> relay_inv (fold (reconcile_one ch wall) cs q)" for cs q
    by (induction cs arbitrary: q) (simp_all add: one)
  then show ?thesis using assms by (simp add: reconcile_def)
qed

lemma subscribe_and_spawn_total:
  assumes "relay_inv r"
  shows "\<exists>result r'. subscribe_and_spawn ch env c space epoch r = Some (result, r') \<and> relay_inv r'"
proof -
  obtain res w where sub: "subscribe c space (ry_core r) = (res, w)" by fastforce
  then have w: "core_inv w" using subscribe_inv [of "ry_core r" c space] assms by (simp add: relay_inv_def)
  obtain res1 w1 where spawn: "spawn_entity c space epoch w = (res1, w1)" by fastforce
  then have w1: "core_inv w1" using spawn_entity_inv [OF w, of c space epoch] by simp
  note keep = relay_inv_core [OF assms w] relay_inv_core [OF assms w1]
  show ?thesis
    using keep distribute_total(1) [OF keep(2), of ch env space _ "Some c"]
    by (cases res; cases res1) (fastforce simp: subscribe_and_spawn_def sub spawn)+
qed

lemma deliver_to_connection_total:
  assumes "relay_inv r"
  shows "\<exists>result r'. deliver_to_connection ch env c e r = Some (result, r') \<and> relay_inv r'"
proof -
  have fails: "\<exists>r'. cascade ch env [CleanupDead c] (r\<lparr>ry_world := x\<rparr>) = Some r' \<and> relay_inv r'" for x
    using assms by (intro cascade_total) simp
  show ?thesis
  proof (cases "bt_get (ry_recipients r) c")
    case (Some rc)
    obtain sent world where t: "ch_try_send ch (lr_sender rc) e (ry_world r) = (sent, world)" by fastforce
    show ?thesis
      using fails [of "ch_signal ch (lr_shutdown rc) world"] assms
      by (cases sent) (auto simp: deliver_to_connection_def Some t)
  qed (use assms in \<open>simp add: deliver_to_connection_def\<close>)
qed

lemma process_request_total:
  assumes "relay_inv r"
  shows "\<exists>reply r'. process_request ch wall env request r = Some (reply, r') \<and> relay_inv r'"
proof -
  have "\<exists>reply r'. serve_request ch wall env request r = Some (reply, r') \<and> relay_inv r'"
  proof (cases request)
    case (ClientLogRequest c session entry)
    obtain result logs where l: "client_log wall (ry_core r) c session entry (env_now env) (ry_logs r) = Some (result, logs)"
      using client_log_total [of wall "ry_core r" c session entry "env_now env" "ry_logs r"] by fastforce
    then have "log_inv logs" using assms client_log_inv unfolding relay_inv_def by blast
    with l assms ClientLogRequest show ?thesis by (simp add: serve_request_def relay_inv_def)
  next
    case (RegisterLifecycle c recipient)
    then show ?thesis using assms by (simp add: serve_request_def relay_inv_def)
  qed (use assms process_command_total [OF assms, of ch wall env] subscribe_and_spawn_total [OF assms, of ch env]
        deliver_to_connection_total [OF assms, of ch env] distribute_total(1) [OF assms, of ch env]
      in \<open>fastforce simp: serve_request_def\<close>)+
  then obtain reply r1 where s: "serve_request ch wall env request r = Some (reply, r1)" "relay_inv r1" by blast
  then have "process_request ch wall env request r = Some (reply, if reconciles request reply then reconcile ch wall r1 else r1)"
    by (simp add: process_request_def)
  moreover have "relay_inv (if reconciles request reply then reconcile ch wall r1 else r1)"
    using s(2) by (simp add: reconcile_inv)
  ultimately show ?thesis by blast
qed

section \<open>Runs of the worker\<close>

text \<open>Between two requests the timers fire and the other ends of the channels move the world.\<close>

inductive relay_step :: "'w Channels \<Rightarrow> 'w Relay \<Rightarrow> 'w Relay \<Rightarrow> bool" for ch where
  relay_request: "process_request ch wall env request r = Some (reply, r') \<Longrightarrow> relay_step ch r r'"
| relay_admission_tick: "relay_step ch r (admission_tick now r)"
| relay_sweep_tick: "relay_step ch r (sweep_tick now r)"
| relay_world: "relay_step ch r (r\<lparr>ry_world := world\<rparr>)"

lemma relay_step_inv: "relay_step ch r r' \<Longrightarrow> relay_inv r \<Longrightarrow> relay_inv r'"
proof (induction rule: relay_step.induct)
  case (relay_request wall env request r reply r')
  then show ?case using process_request_total [of r ch wall env request] by simp
qed (simp_all add: admission_tick_def sweep_tick_def relay_inv_def maintain_admission_inv sweep_expired_state_inv)

definition relay_starts :: "'w Relay \<Rightarrow> bool" where
  "relay_starts r \<longleftrightarrow> (\<exists>cfg w world. config_ok cfg \<and> reachable_core cfg w \<and> r = relay_new w world)"

interpretation relay: invariant_machine relay_starts "relay_step ch" relay_inv for ch
proof
  show "relay_starts r \<Longrightarrow> relay_inv r" for r :: "'a Relay"
    by (auto simp: relay_starts_def relay_new_def relay_inv_def new_capture_inv reachable_core_inv)
qed (rule relay_step_inv)

section \<open>Reconciling tells nobody\<close>

lemma reconcile_frame:
  assumes "channels_ok ch view"
  shows "view (ry_world (reconcile ch wall r)) = view (ry_world r)"
    and "ry_core (reconcile ch wall r) = ry_core r"
    and "gone c r \<Longrightarrow> gone c (reconcile ch wall r)"
proof -
  have one: "view (ry_world (reconcile_one ch wall c q)) = view (ry_world q)" "ry_core (reconcile_one ch wall c q) = ry_core q"
    "gone c' q \<Longrightarrow> gone c' (reconcile_one ch wall c q)" for c c' q
    using channels_okD(3) [OF assms] by (auto simp: reconcile_one_def gone_def bt_get_remove split: option.splits)
  have "view (ry_world (fold (reconcile_one ch wall) cs q)) = view (ry_world q)
    \<and> ry_core (fold (reconcile_one ch wall) cs q) = ry_core q
    \<and> (gone c q \<longrightarrow> gone c (fold (reconcile_one ch wall) cs q))" for cs q
    by (induction cs arbitrary: q) (simp_all add: one)
  then show "view (ry_world (reconcile ch wall r)) = view (ry_world r)"
    "ry_core (reconcile ch wall r) = ry_core r" "gone c r \<Longrightarrow> gone c (reconcile ch wall r)"
    by (simp_all add: reconcile_def)
qed

lemma lost_command:
  assumes "process_command ch wall env (TransportLost c) r = Some (Inr (Disconnected summary), r')"
  obtains q where "distribute_removed_entities ch env summary LrDisconnected q = Some r'"
    "ry_core q = snd (transport_lost (env_clock env c) c (ry_core r))" "ry_world q = ry_world r"
    "ry_recipients q = bt_remove c (ry_recipients r)" "ry_subscriptions q = bt_remove c (ry_subscriptions r)"
  using assms that
  by (auto simp: process_command_def run_command_def bind_eq_Some_conv Let_def apply_lifecycle_action_def
      split: sum.splits prod.splits)

section \<open>Properties\<close>

text \<open>C10. The worker answers every request. In every state the worker task reaches, serving the next request of
  its mailbox terminates without a panic, whichever sends the channels refuse and however many connections
  the refusals take down in turn, and the core and the log capture keep their invariants.\<close>

theorem worker_always_answers:
  assumes "relay_starts r0" and "(relay_step ch)\<^sup>*\<^sup>* r0 r"
  shows "\<exists>reply r'. process_request ch wall env request r = Some (reply, r') \<and> core_inv (ry_core r') \<and> log_inv (ry_logs r')"
  using process_request_total [OF relay.reached_inv [OF assms]] unfolding relay_inv_def .

text \<open>Channels that accept everything, for a first run of a worker.\<close>

definition open_channels :: "(nat \<times> Envelope) list Channels" where
  "open_channels = \<lparr>ch_try_send = (\<lambda>h e world. (True, world @ [(h, e)])), ch_signal = (\<lambda>_ world. world)\<rparr>"

lemma demo_relay_starts: "relay_starts (relay_new demo_core ([] :: (nat \<times> Envelope) list))"
  using demo_config_ok demo_reachable by (auto simp: relay_starts_def)

theorem worker_always_answers_witness:
  "\<exists>reply r'. process_request open_channels (\<lambda>_. 0) \<lparr>env_now = 0, env_clock = \<lambda>_ _. 0, env_digest = \<lambda>_. []\<rparr>
      (CommandRequest (TransportLost 1)) (relay_new demo_core []) = Some (reply, r') \<and> core_inv (ry_core r')"
  using worker_always_answers [OF demo_relay_starts rtranclp.rtrancl_refl] by blast

text \<open>C11. A lost connection is announced. When the worker takes a connection out of the core on
  \<open>TransportLost\<close>, then for every entity removed with it, every other registered connection that has activated
  the entity's space has the \<open>EntityLeft\<close> notice in its write channel afterwards, or has itself been
  disconnected because its channel refused a notice.\<close>

theorem lost_connection_is_announced:
  assumes "relay_starts r0" and "(relay_step ch)\<^sup>*\<^sup>* r0 r" and ok: "channels_ok ch view"
    and run: "process_request ch wall env (CommandRequest (TransportLost c)) r = Some (CommandReply (Inr (Disconnected summary)), r')"
    and removed: "removed \<in> set (cs_removed_entities summary)"
    and other: "c' \<noteq> c" and listening: "listens r c' rc (SpaceKey (re_session removed) (re_space removed))"
  shows "removed_notice removed LrDisconnected \<in> set (view (ry_world r') (lr_sender rc)) \<or> gone c' r'"
proof -
  have inv: "core_inv (ry_core r)"
    using relay.reached_inv [OF assms(1,2)] by (simp add: relay_inv_def)
  obtain r1 where r1: "process_command ch wall env (TransportLost c) r = Some (Inr (Disconnected summary), r1)"
      "r' = reconcile ch wall r1"
    using run by (auto simp: process_request_def serve_request_def reconciles_def)
  from r1(1) obtain q where q: "distribute_removed_entities ch env summary LrDisconnected q = Some r1"
    "ry_core q = snd (transport_lost (env_clock env c) c (ry_core r))"
    "ry_recipients q = bt_remove c (ry_recipients r)" "ry_subscriptions q = bt_remove c (ry_subscriptions r)"
    by (rule lost_command)
  have "core_inv (ry_core q)" unfolding q(2) using inv by (rule transport_lost_inv)
  moreover have "listens q c' rc (SpaceKey (re_session removed) (re_space removed))"
    using listening other by (simp add: listens_def q)
  moreover have "TellRemoved removed LrDisconnected \<in> set (tell_removed LrDisconnected summary)"
    using removed by (simp add: tell_removed_def)
  ultimately have "removed_notice removed LrDisconnected \<in> set (view (ry_world r1) (lr_sender rc)) \<or> gone c' r1"
    using cascade_tells [OF ok _ q(1) [unfolded distribute_removed_entities_def]] by blast
  then show ?thesis using reconcile_frame [OF ok] unfolding r1(2) by metis
qed

text \<open>The second connection of the demo core registers and activates the space; then the first is lost.\<close>

definition demo_env :: WorkerEnv where
  "demo_env = \<lparr>env_now = 0, env_clock = \<lambda>_ _. 0, env_digest = \<lambda>_. []\<rparr>"

definition demo_view :: "(nat \<times> Envelope) list \<Rightarrow> nat \<Rightarrow> Envelope list" where
  "demo_view world h = map snd (filter (\<lambda>(h', _). h' = h) world)"

lemma open_channels_ok: "channels_ok open_channels demo_view"
  by (auto simp: channels_ok_def open_channels_def demo_view_def fun_eq_iff)

definition demo_recipient :: LifecycleRecipient where
  "demo_recipient = \<lparr>lr_sender = 5, lr_shutdown = 6\<rparr>"

definition demo_relay :: "(nat \<times> Envelope) list Relay" where
  "demo_relay = activate 2 demo_space ((relay_new demo_core [])
     \<lparr>ry_recipients := bt_insert 2 demo_recipient bt_empty, ry_subscriptions := bt_insert 2 bt_empty bt_empty\<rparr>)"

lemma demo_relay_reached: "(relay_step open_channels)\<^sup>*\<^sup>* (relay_new demo_core []) demo_relay"
proof -
  let ?r = "(relay_new demo_core [])\<lparr>ry_recipients := bt_insert 2 demo_recipient bt_empty, ry_subscriptions := bt_insert 2 bt_empty bt_empty\<rparr>"
  have "is_connected demo_core 2" using demo_reader by (auto simp: is_connected_def split: option.splits)
  then have "process_request open_channels (\<lambda>_. 0) demo_env (RegisterLifecycle 2 demo_recipient) (relay_new demo_core []) = Some (UnitReply, ?r)"
    by (simp add: process_request_def serve_request_def relay_new_def reconciles_def or_default_def)
  then have "relay_step open_channels (relay_new demo_core []) ?r" by (rule relay_request)
  moreover have "process_request open_channels (\<lambda>_. 0) demo_env (ActivateSubscription 2 demo_space) ?r = Some (UnitReply, demo_relay)"
    by (simp add: process_request_def serve_request_def reconciles_def demo_relay_def)
  then have "relay_step open_channels ?r demo_relay" by (rule relay_request)
  ultimately show ?thesis by simp
qed

lemma demo_loss:
  "(\<lambda>w. case fst (transport_lost (\<lambda>_. 0) 1 w) of
      Inl _ \<Rightarrow> False
    | Inr summary \<Rightarrow> cs_removed_entities summary = [\<lparr>re_entity = 1, re_session = demo_key, re_space = 1, re_space_epoch = 1\<rparr>]) demo_core"
  by code_simp

lemma lost_reply:
  assumes "process_request ch wall env (CommandRequest (TransportLost c)) r = Some (reply, r')"
  shows "reply = CommandReply (map_sum id Disconnected (fst (transport_lost (env_clock env c) c (ry_core r))))"
  using assms
  by (auto simp: process_request_def serve_request_def process_command_def run_command_def bind_eq_Some_conv Let_def)

theorem lost_connection_is_announced_witness:
  "\<exists>reply r'. process_request open_channels (\<lambda>_. 0) demo_env (CommandRequest (TransportLost 1)) demo_relay = Some (reply, r')
     \<and> (entity_left_envelope demo_space 1 1 LrDisconnected \<in> set (demo_view (ry_world r') 5) \<or> gone 2 r')"
proof -
  let ?e = "\<lparr>re_entity = 1, re_session = demo_key, re_space = 1, re_space_epoch = 1\<rparr> :: RemovedEntity"
  obtain reply r' where run: "process_request open_channels (\<lambda>_. 0) demo_env (CommandRequest (TransportLost 1)) demo_relay = Some (reply, r')"
    using process_request_total [OF relay.reached_inv [OF demo_relay_starts demo_relay_reached]] by blast
  obtain summary where sm: "fst (transport_lost (\<lambda>_. 0) 1 demo_core) = Inr summary" "cs_removed_entities summary = [?e]"
    using demo_loss by (auto split: sum.splits)
  have "reply = CommandReply (Inr (Disconnected summary))"
    using lost_reply [OF run] sm by (simp add: demo_relay_def activate_def relay_new_def demo_env_def)
  moreover have "listens demo_relay 2 demo_recipient (SpaceKey (re_session ?e) (re_space ?e))"
    by (simp add: listens_def demo_relay_def activate_def or_default_def demo_space_def)
  ultimately have "removed_notice ?e LrDisconnected \<in> set (demo_view (ry_world r') (lr_sender demo_recipient)) \<or> gone 2 r'"
    using lost_connection_is_announced [OF demo_relay_starts demo_relay_reached open_channels_ok, of "\<lambda>_. 0" demo_env 1 summary r' ?e 2] run sm(2)
    by simp
  then show ?thesis using run by (simp add: removed_notice_def demo_recipient_def demo_space_def)
qed

text \<open>C38. A publish announces nobody. Serving a \<open>Publish\<close> puts nothing into any write channel, also when the
  publish disconnects slow consumers and the core removes their entities: the remaining subscribers get no
  \<open>EntityLeft\<close> for them.\<close>

theorem publish_announces_nobody:
  assumes ok: "channels_ok ch view"
    and run: "process_request ch wall env (CommandRequest (Publish request)) r = Some (reply, r')"
  shows "view (ry_world r') = view (ry_world r)"
proof -
  obtain result r1 where "process_command ch wall env (Publish request) r = Some (result, r1)"
    and r': "r' = r1 \<or> r' = reconcile ch wall r1"
    using run by (auto simp: process_request_def serve_request_def split: if_splits)
  then have "ry_world r1 = ry_world r"
    by (cases result)
       (auto simp: process_command_def run_command_def bind_eq_Some_conv Let_def apply_lifecycle_action_def)
  with r' reconcile_frame(1) [OF ok] show ?thesis by auto
qed

theorem publish_announces_nobody_witness:
  "\<exists>reply r'. process_request open_channels (\<lambda>_. 0) demo_env (CommandRequest (Publish (demo_request 1))) demo_relay = Some (reply, r')
     \<and> demo_view (ry_world r') = demo_view (ry_world demo_relay)"
  using process_request_total [OF relay.reached_inv [OF demo_relay_starts demo_relay_reached]]
    publish_announces_nobody [OF open_channels_ok] by blast

end
