(* ===== verification/Bridge.thy ===== *)
theory Bridge
  imports Relay_Worker
begin

unbundle bit_operations_syntax

text \<open>
  The protocol bridge (\<open>handle_authenticated_with_capabilities\<close> and its helpers in
  \<open>woven-transport/src/lib.rs\<close>, \<open>handle\<close> in \<open>woven-transport/src/admission.rs\<close>): what happens to one envelope
  of an authenticated connection. Other tasks run between any two awaits, so the function is a tree of
  interactions: at \<open>Ask\<close> it waits for the worker's reply (\<open>None\<close> when the worker is gone), at \<open>Send\<close> it offers
  an envelope to the connection's bounded write channel and goes on in one of two ways, \<open>Finish\<close> returns
  \<open>Ok(())\<close> or \<open>Err(())\<close>, and \<open>Crash\<close> is a panic. How errors and snapshots are printed is a parameter.
\<close>

section \<open>Interactions\<close>

datatype Bridge =
    Finish bool
  | Send Envelope Bridge Bridge
  | Sink Envelope Bridge
  | Ask WorkerRequest "WorkerReply option \<Rightarrow> Bridge"
  | Crash

record Printing =
  pr_error :: "TransportError \<Rightarrow> string"
  pr_snapshot :: "SessionSnapshot \<Rightarrow> u8 list list"

definition CAPABILITY_POSITIONED_ENTITY_STATE :: u64 where "CAPABILITY_POSITIONED_ENTITY_STATE = 1"

definition CAPABILITY_CLIENT_LOG :: u64 where "CAPABILITY_CLIENT_LOG = 2"

definition MAX_PAYLOAD_BYTES :: usize where "MAX_PAYLOAD_BYTES = 65536"

definition send_envelope :: "Envelope \<Rightarrow> Bridge \<Rightarrow> Bridge" where
  "send_envelope envelope continue = Send envelope continue (Finish False)"

definition protocol_error_envelope :: "ProtocolErrorCode \<Rightarrow> MessageKind \<Rightarrow> string \<Rightarrow> Envelope" where
  "protocol_error_envelope code related message =
     envelope_control DcReliableOrdered
       (CtlProtocolError \<lparr>wpe_code = code, wpe_related_message_kind = related, wpe_message = message\<rparr>)"

definition send_error :: "MessageKind \<Rightarrow> ProtocolErrorCode \<Rightarrow> string \<Rightarrow> Bridge \<Rightarrow> Bridge" where
  "send_error related code message continue =
     (let related = (if related = MkUnknown then MkProtocolError else related)
      in Send (protocol_error_envelope code related message) continue continue)"

fun transport_error_code :: "TransportError \<Rightarrow> ProtocolErrorCode" where
  "transport_error_code (TransportCore e) = core_error_code e"
| "transport_error_code WorkerUnavailable = PeInternal"
| "transport_error_code UnregisteredConnection = PeInternal"

definition send_transport_error :: "Printing \<Rightarrow> MessageKind \<Rightarrow> TransportError \<Rightarrow> Bridge \<Rightarrow> Bridge" where
  "send_transport_error pr related error continue =
     send_error related (transport_error_code error) (pr_error pr error) continue"

section \<open>The worker handle\<close>

text \<open>Each method of the handle sends one request and waits. The reply channel of a request carries replies of one
  kind only; a missing or foreign reply stands for a closed channel.\<close>

fun core_result :: "CoreError + 'a \<Rightarrow> TransportError + 'a" where
  "core_result (Inl e) = Inl (TransportCore e)"
| "core_result (Inr v) = Inr v"

definition capture_client_log ::
  "ConnectionId \<Rightarrow> SessionKey \<Rightarrow> ClientLog \<Rightarrow> (ProtocolErrorCode + unit \<Rightarrow> Bridge) \<Rightarrow> Bridge" where
  "capture_client_log connection session entry continue =
     (case validate_log entry of
        Inl code \<Rightarrow> continue (Inl code)
      | Inr _ \<Rightarrow>
          Ask (ClientLogRequest connection session entry) (\<lambda>reply.
            continue (case reply of Some (LogReply result) \<Rightarrow> result | _ \<Rightarrow> Inl PeInternal)))"

definition execute :: "Command \<Rightarrow> (TransportError + CommandResult \<Rightarrow> Bridge) \<Rightarrow> Bridge" where
  "execute command continue =
     Ask (CommandRequest command) (\<lambda>reply. continue
       (case reply of Some (CommandReply result) \<Rightarrow> core_result result | _ \<Rightarrow> Inl WorkerUnavailable))"

definition channel_persistence_call ::
  "ConnectionId \<Rightarrow> SessionKey \<Rightarrow> ChannelId \<Rightarrow> (TransportError + PersistenceClass \<Rightarrow> Bridge) \<Rightarrow> Bridge" where
  "channel_persistence_call connection session channel continue =
     Ask (ChannelPersistenceRequest connection session channel) (\<lambda>reply. continue
       (case reply of Some (PersistenceReply result) \<Rightarrow> core_result result | _ \<Rightarrow> Inl WorkerUnavailable))"

definition register_lifecycle :: "ConnectionId \<Rightarrow> LifecycleRecipient \<Rightarrow> (TransportError + unit \<Rightarrow> Bridge) \<Rightarrow> Bridge" where
  "register_lifecycle connection recipient continue =
     Ask (RegisterLifecycle connection recipient) (\<lambda>reply. continue
       (case reply of Some UnitReply \<Rightarrow> Inr () | _ \<Rightarrow> Inl WorkerUnavailable))"

definition discard_and_disconnect :: "ConnectionId \<Rightarrow> Bridge \<Rightarrow> Bridge" where
  "discard_and_disconnect connection continue =
     execute (DrainOutbound connection) (\<lambda>_. execute (TransportLost connection) (\<lambda>_. continue))"

definition subscribe_and_spawn_call ::
  "ConnectionId \<Rightarrow> SpaceKey \<Rightarrow> SpaceEpoch \<Rightarrow> (TransportError + EntityId \<Rightarrow> Bridge) \<Rightarrow> Bridge" where
  "subscribe_and_spawn_call connection space epoch continue =
     Ask (SubscribeAndSpawn connection space epoch) (\<lambda>reply. continue
       (case reply of Some (SpawnReply result) \<Rightarrow> core_result result | _ \<Rightarrow> Inl WorkerUnavailable))"

definition activate_subscription :: "ConnectionId \<Rightarrow> SpaceKey \<Rightarrow> (TransportError + unit \<Rightarrow> Bridge) \<Rightarrow> Bridge" where
  "activate_subscription connection space continue =
     Ask (ActivateSubscription connection space) (\<lambda>reply. continue
       (case reply of Some UnitReply \<Rightarrow> Inr () | _ \<Rightarrow> Inl WorkerUnavailable))"

section \<open>Delivery classes and messages\<close>

fun core_delivery :: "WireDeliveryClass \<Rightarrow> DeliveryClass option" where
  "core_delivery DcReliableOrdered = Some ReliableOrdered"
| "core_delivery DcReliableUnordered = Some ReliableUnordered"
| "core_delivery DcLatestValue = Some LatestValue"
| "core_delivery DcUnreliableSequenced = Some UnreliableSequenced"
| "core_delivery DcBestEffortEvent = Some BestEffortEvent"
| "core_delivery DcUnknown = None"

fun protocol_delivery :: "DeliveryClass \<Rightarrow> WireDeliveryClass" where
  "protocol_delivery ReliableOrdered = DcReliableOrdered"
| "protocol_delivery ReliableUnordered = DcReliableUnordered"
| "protocol_delivery LatestValue = DcLatestValue"
| "protocol_delivery UnreliableSequenced = DcUnreliableSequenced"
| "protocol_delivery BestEffortEvent = DcBestEffortEvent"

text \<open>A two-dimensional routing position is the \<open>unreachable!\<close> of the source.\<close>

definition outbound_envelope :: "OutboundMessage \<Rightarrow> Envelope option" where
  "outbound_envelope message =
     (let delivery = protocol_delivery (om_delivery message);
          opaque = \<lparr>op_type_id = (case om_coalesce_key message of None \<Rightarrow> 1 | Some key \<Rightarrow> ck_component key),
                    op_bytes = om_payload message\<rparr>;
          payload = (if delivery = DcLatestValue \<or> delivery = DcUnreliableSequenced then MsgEntityState opaque
                     else MsgReliableEvent opaque);
          envelope = (\<lambda>position.
            \<lparr>ev_protocol_version = PROTOCOL_VERSION, ev_delivery_class = delivery, ev_namespace_id = om_namespace message,
             ev_session_id = om_session message, ev_space_id = om_space message,
             ev_channel_id = Some (om_channel message), ev_entity_id = om_entity message,
             ev_space_epoch = om_space_epoch message, ev_server_tick = 0, ev_sender_sequence = om_sequence message,
             ev_correlation_id = None, ev_routing_position = position, ev_message = payload\<rparr>)
      in case om_routing_position message of
           None \<Rightarrow> Some (envelope None)
         | Some (PosCartesian3D x y z) \<Rightarrow> Some (envelope (Some \<lparr>rp_x = x, rp_y = y, rp_z = z\<rparr>))
         | Some (PosCartesian2D _ _) \<Rightarrow> None)"

fun send_outbound :: "OutboundMessage list \<Rightarrow> Bridge" where
  "send_outbound [] = Finish True"
| "send_outbound (message # rest) =
     (case outbound_envelope message of
        None \<Rightarrow> Crash
      | Some envelope \<Rightarrow> send_envelope envelope (send_outbound rest))"

definition flush_outbound :: "ConnectionId \<Rightarrow> Bridge" where
  "flush_outbound connection =
     execute (DrainOutbound connection) (\<lambda>result.
       case result of Inr (Outbound messages) \<Rightarrow> send_outbound messages | _ \<Rightarrow> Finish True)"

fun write_pieces :: "u8 list \<Rightarrow> u8 list list \<Rightarrow> u8 list option" where
  "write_pieces written [] = Some written"
| "write_pieces written (piece # rest) =
     (if MAX_PAYLOAD_BYTES - length written < length piece then None else write_pieces (written @ piece) rest)"

definition bounded_snapshot_payload :: "Printing \<Rightarrow> SessionSnapshot \<Rightarrow> u8 list option" where
  "bounded_snapshot_payload pr taken = write_pieces [] (pr_snapshot pr taken)"

section \<open>Managed admission\<close>

definition response :: "Envelope \<Rightarrow> ControlPayload \<Rightarrow> Envelope" where
  "response request control =
     (envelope_control DcReliableOrdered control)
       \<lparr>ev_namespace_id := ev_namespace_id request, ev_session_id := ev_session_id request,
        ev_correlation_id := ev_correlation_id request\<rparr>"

definition reject :: "Envelope \<Rightarrow> ProtocolErrorCode \<Rightarrow> Bridge" where
  "reject request code =
     send_envelope
       (response request (CtlProtocolError \<lparr>wpe_code = code, wpe_related_message_kind = message_kind request,
          wpe_message = ''admission operation rejected''\<rparr>))
       (Finish False)"

fun rejection_code :: "RejectionReason \<Rightarrow> AdmissionRejectionCode" where
  "rejection_code ServerPaused = ArServerPaused"
| "rejection_code QueueFull = ArQueueFull"
| "rejection_code QueueDisabled = ArQueueDisabled"
| "rejection_code AlreadyQueued = ArAlreadyQueued"
| "rejection_code InvalidIdempotencyKey = ArInvalidIdempotencyKey"

definition admission_result :: "JoinDecision \<Rightarrow> AdmissionResult" where
  "admission_result decision =
     (let (status, code, ticket_id) =
            (case decision of
               Admitted _ \<Rightarrow> (AdAdmitted, ArNone, None)
             | QueuedJoin ticket \<Rightarrow> (AdQueued, ArNone, Some (qt_id ticket))
             | Paused \<Rightarrow> (AdPaused, ArNone, None)
             | Rejected reason \<Rightarrow> (AdRejected, rejection_code reason, None))
      in \<lparr>war_status = status, war_rejection_code = code, war_ticket_id = ticket_id,
          war_poll_after_ms = (if status = AdQueued \<or> status = AdPaused then 1000 else 0),
          war_ticket_remaining_ms = 0\<rparr>)"

definition queue_update :: "u64 \<Rightarrow> QueueStatus \<Rightarrow> QueueUpdate option" where
  "queue_update ticket_id status =
     (let update = (\<lambda>state position.
            \<lparr>wqu_ticket_id = ticket_id, wqu_state = state, wqu_position = position,
             wqu_poll_after_ms = (if state = QsWaiting \<or> state = QsOffered then 1000 else 0),
             wqu_ticket_remaining_ms = 0, wqu_offer_remaining_ms = 0\<rparr>)
      in case status of
           StatusWaiting position \<Rightarrow> if position < 2 ^ 32 then Some (update QsWaiting (of_nat position)) else None
         | StatusOffered \<Rightarrow> Some (update QsOffered 0)
         | StatusAdmitted \<Rightarrow> Some (update QsAdmitted 0)
         | StatusCancelled \<Rightarrow> Some (update QsCancelled 0)
         | StatusExpired \<Rightarrow> Some (update QsExpired 0)
         | StatusMissing \<Rightarrow> Some (update QsMissing 0))"

fun queue_operation :: "ControlPayload \<Rightarrow> (u64 \<times> QueueOperation) option" where
  "queue_operation (CtlQueueStatusRequest v) = Some (wqr_ticket_id v, OpStatus)"
| "queue_operation (CtlQueueHeartbeat v) = Some (wqh_ticket_id v, OpHeartbeat)"
| "queue_operation (CtlQueueClaim v) = Some (wqc_ticket_id v, OpClaim)"
| "queue_operation (CtlQueueCancel v) = Some (wqx_ticket_id v, OpCancel)"
| "queue_operation _ = None"

definition admission_answer :: "Envelope \<Rightarrow> u64 option \<Rightarrow> TransportError + CommandResult \<Rightarrow> Bridge" where
  "admission_answer request ticket_id result =
     (case result of
        Inr (Admission decision) \<Rightarrow>
          if ticket_id = None
          then send_envelope (response request (CtlAdmissionResult (admission_result decision))) (Finish True)
          else reject request PeInternal
      | Inr (Queue status) \<Rightarrow>
          (case Option.bind ticket_id (\<lambda>ticket. queue_update ticket status) of
             None \<Rightarrow> Finish False
           | Some update \<Rightarrow> send_envelope (response request (CtlQueueUpdate update)) (Finish True))
      | Inr _ \<Rightarrow> reject request PeInternal
      | Inl error \<Rightarrow> reject request (transport_error_code error))"

definition admission_handle :: "FlatBuffers \<Rightarrow> ConnectionId \<Rightarrow> Envelope \<Rightarrow> Bridge" where
  "admission_handle fb connection request =
     (if \<not> is_ok (encode fb \<lparr>codec_limits = default_codec_limits\<rparr> request) then Finish False
      else
        let session = SessionKey (ev_namespace_id request) (ev_session_id request)
        in case ev_message request of
             MsgControl (CtlRequestAdmission v) \<Rightarrow>
               (case new_idempotency_key (wra_idempotency_key v) of
                  None \<Rightarrow> Finish False
                | Some key \<Rightarrow> execute (RequestSessionAdmission connection session key) (admission_answer request None))
           | MsgControl control \<Rightarrow>
               (case queue_operation control of
                  None \<Rightarrow> reject request PeUnsupportedMessage
                | Some (ticket, operation) \<Rightarrow>
                    execute (SessionQueue connection session ticket operation) (admission_answer request (Some ticket)))
           | _ \<Rightarrow> Finish False)"

section \<open>Envelopes of an authenticated connection\<close>

definition handle_client_log :: "ConnectionId \<Rightarrow> Envelope \<Rightarrow> u64 \<Rightarrow> ClientLog \<Rightarrow> Bridge" where
  "handle_client_log connection envelope capabilities entry =
     (let session = SessionKey (ev_namespace_id envelope) (ev_session_id envelope);
          finish = (\<lambda>result.
            case result of
              Inl code \<Rightarrow>
                send_envelope
                  ((protocol_error_envelope code MkClientLog ''client log rejected'')
                     \<lparr>ev_correlation_id := ev_correlation_id envelope\<rparr>)
                  (Finish True)
            | Inr _ \<Rightarrow> Finish True)
      in if capabilities AND CAPABILITY_CLIENT_LOG = 0 then finish (Inl PeUnsupportedMessage)
         else if ev_delivery_class envelope \<noteq> DcReliableOrdered \<or> ev_space_id envelope \<noteq> 0 \<or> ev_space_epoch envelope \<noteq> 0
                 \<or> ev_channel_id envelope \<noteq> None \<or> ev_entity_id envelope \<noteq> None \<or> ev_routing_position envelope \<noteq> None
         then finish (Inl PeInvalidScope)
         else case validate_log entry of
                Inl code \<Rightarrow> finish (Inl code)
              | Inr _ \<Rightarrow> capture_client_log connection session entry finish)"

definition handle_snapshot_request :: "Printing \<Rightarrow> ConnectionId \<Rightarrow> Envelope \<Rightarrow> Bridge" where
  "handle_snapshot_request pr connection envelope =
     execute (TakeSnapshot connection (SessionKey (ev_namespace_id envelope) (ev_session_id envelope))) (\<lambda>result.
       case result of
         Inr (SnapshotTaken taken) \<Rightarrow>
           send_envelope
             (envelope\<lparr>ev_message :=
                (case bounded_snapshot_payload pr taken of
                   Some bytes \<Rightarrow> MsgSnapshot \<lparr>op_type_id = 1, op_bytes = bytes\<rparr>
                 | None \<Rightarrow>
                     MsgControl (CtlProtocolError \<lparr>wpe_code = PePayloadTooLarge, wpe_related_message_kind = MkSnapshotRequest,
                       wpe_message = ''snapshot payload exceeds limit 65536 bytes''\<rparr>))\<rparr>)
             (Finish True)
       | Inr _ \<Rightarrow> Finish False
       | Inl error \<Rightarrow> send_error MkSnapshotRequest PeInternal (pr_error pr error) (Finish False))"

definition handle_subscribe_space :: "Printing \<Rightarrow> ConnectionId \<Rightarrow> Envelope \<Rightarrow> Bridge" where
  "handle_subscribe_space pr connection envelope =
     (let session = SessionKey (ev_namespace_id envelope) (ev_session_id envelope);
          space = SpaceKey session (ev_space_id envelope)
      in subscribe_and_spawn_call connection space (ev_space_epoch envelope) (\<lambda>result.
           case result of
             Inr entity \<Rightarrow>
               send_envelope
                 (envelope\<lparr>ev_message := MsgControl (CtlSubscriptionAccepted
                    \<lparr>wsa_subscription_id = ev_space_id envelope, wsa_accepted_space_epoch = ev_space_epoch envelope\<rparr>),
                    ev_delivery_class := DcReliableOrdered\<rparr>)
               (send_envelope (entity_entered_envelope space (ev_space_epoch envelope) entity)
               (activate_subscription connection space (\<lambda>activated.
                  case activated of Inr _ \<Rightarrow> flush_outbound connection | Inl _ \<Rightarrow> Finish False)))
           | Inl error \<Rightarrow> send_transport_error pr MkSubscribeSpace error (Finish False)))"

definition run_bridge_command :: "Printing \<Rightarrow> ConnectionId \<Rightarrow> Envelope \<Rightarrow> Command \<Rightarrow> Bridge" where
  "run_bridge_command pr connection envelope command =
     execute command (\<lambda>result.
       case result of
         Inr _ \<Rightarrow> flush_outbound connection
       | Inl error \<Rightarrow>
           if ev_delivery_class envelope = DcUnreliableSequenced
              \<and> (case error of TransportCore (StaleSequence _ _) \<Rightarrow> True | _ \<Rightarrow> False)
           then Finish True
           else send_transport_error pr (message_kind envelope) error (Finish False))"

definition publish_request ::
  "ConnectionId \<Rightarrow> Envelope \<Rightarrow> OpaquePayload \<Rightarrow> DeliveryClass \<Rightarrow> ChannelId \<Rightarrow> PersistenceClass \<Rightarrow> PublishRequest" where
  "publish_request connection envelope payload delivery channel persistence =
     \<lparr>rq_connection = connection, rq_session = SessionKey (ev_namespace_id envelope) (ev_session_id envelope),
      rq_space = ev_space_id envelope, rq_space_epoch = ev_space_epoch envelope, rq_entity = ev_entity_id envelope,
      rq_channel = channel, rq_sequence = ev_sender_sequence envelope, rq_delivery = delivery,
      rq_persistence = persistence,
      rq_coalesce_key =
        (if is_replaceable delivery then Some (CoalesceKey channel (ev_entity_id envelope) (op_type_id payload)) else None),
      rq_routing_position = map_option (\<lambda>p. PosCartesian3D (rp_x p) (rp_y p) (rp_z p)) (ev_routing_position envelope),
      rq_payload = op_bytes payload\<rparr>"

definition handle_publish :: "Printing \<Rightarrow> ConnectionId \<Rightarrow> Envelope \<Rightarrow> OpaquePayload \<Rightarrow> Bridge" where
  "handle_publish pr connection envelope payload =
     (case core_delivery (ev_delivery_class envelope) of
        None \<Rightarrow> Finish False
      | Some delivery \<Rightarrow>
          (case ev_channel_id envelope of
             None \<Rightarrow> Finish False
           | Some channel \<Rightarrow>
               channel_persistence_call connection (SessionKey (ev_namespace_id envelope) (ev_session_id envelope)) channel
                 (\<lambda>result. case result of
                    Inr persistence \<Rightarrow>
                      run_bridge_command pr connection envelope
                        (Publish (publish_request connection envelope payload delivery channel persistence))
                  | Inl error \<Rightarrow> send_transport_error pr (message_kind envelope) error (Finish False))))"

definition managed_kinds :: "MessageKind list" where
  "managed_kinds = [MkRequestAdmission, MkAdmissionResult, MkQueueStatusRequest, MkQueueHeartbeat, MkQueueClaim,
     MkQueueCancel, MkQueueUpdate]"

definition handle_other :: "Printing \<Rightarrow> ConnectionId \<Rightarrow> Envelope \<Rightarrow> Bridge" where
  "handle_other pr connection envelope =
     (let session = SessionKey (ev_namespace_id envelope) (ev_session_id envelope);
          unsupported = send_error (message_kind envelope) PeUnsupportedMessage
            ''message is not implemented by this transport'' (Finish False)
      in case ev_message envelope of
           MsgControl control \<Rightarrow>
             (case control of
                CtlJoinSession _ \<Rightarrow> run_bridge_command pr connection envelope (JoinSession connection session)
              | CtlLeaveSession _ \<Rightarrow> run_bridge_command pr connection envelope (LeaveSession connection session)
              | CtlUnsubscribeSpace _ \<Rightarrow>
                  run_bridge_command pr connection envelope (Unsubscribe connection (SpaceKey session (ev_space_id envelope)))
              | CtlSpaceTransition transition \<Rightarrow>
                  (case ev_entity_id envelope of
                     None \<Rightarrow> Finish False
                   | Some entity \<Rightarrow>
                       run_bridge_command pr connection envelope (TransitionEntity
                         \<lparr>tr_connection = connection, tr_session = session, tr_entity = entity,
                          tr_source_space = wst_from_space_id transition, tr_source_epoch = ev_space_epoch envelope,
                          tr_destination_space = wst_to_space_id transition,
                          tr_destination_epoch = wst_to_space_epoch transition\<rparr>))
              | _ \<Rightarrow> unsupported)
         | MsgReliableEvent payload \<Rightarrow> handle_publish pr connection envelope payload
         | MsgEntityState payload \<Rightarrow> handle_publish pr connection envelope payload
         | MsgSnapshot _ \<Rightarrow> unsupported)"

definition handle_authenticated_with_capabilities ::
  "FlatBuffers \<Rightarrow> Printing \<Rightarrow> ConnectionId \<Rightarrow> Envelope \<Rightarrow> bool \<Rightarrow> u64 \<Rightarrow> Bridge" where
  "handle_authenticated_with_capabilities fb pr connection envelope has_inference_sink capabilities =
     (if ev_routing_position envelope \<noteq> None \<and> capabilities AND CAPABILITY_POSITIONED_ENTITY_STATE = 0
      then send_error (message_kind envelope) PeUnsupportedMessage
             ''positioned EntityState capability was not negotiated'' (Finish False)
      else if has_inference_sink
              \<and> (message_kind envelope = MkInferenceRequested \<or> message_kind envelope = MkInferenceCancelled)
      then Sink envelope (Finish True)
      else if message_kind envelope \<in> set managed_kinds then admission_handle fb connection envelope
      else case ev_message envelope of
             MsgControl (CtlClientLog entry) \<Rightarrow> handle_client_log connection envelope capabilities entry
           | MsgControl (CtlSnapshotRequest _) \<Rightarrow> handle_snapshot_request pr connection envelope
           | MsgControl CtlSubscribeSpace \<Rightarrow> handle_subscribe_space pr connection envelope
           | _ \<Rightarrow> handle_other pr connection envelope)"

definition handle_authenticated :: "FlatBuffers \<Rightarrow> Printing \<Rightarrow> ConnectionId \<Rightarrow> Envelope \<Rightarrow> bool \<Rightarrow> Bridge" where
  "handle_authenticated fb pr connection envelope has_inference_sink =
     handle_authenticated_with_capabilities fb pr connection envelope has_inference_sink 0"

section \<open>What the bridge may send\<close>

text \<open>\<open>sends R b e\<close>: some run of \<open>b\<close> offers \<open>e\<close> to the write channel, when every reply of the worker satisfies
  \<open>R\<close>; \<open>panics R b\<close>: some such run panics. Replies may be missing, and a send may succeed or fail.\<close>

inductive sends :: "(WorkerReply \<Rightarrow> bool) \<Rightarrow> Bridge \<Rightarrow> Envelope \<Rightarrow> bool" for R where
  sends_now: "sends R (Send e b c) e"
| sends_ok: "sends R b x \<Longrightarrow> sends R (Send e b c) x"
| sends_failed: "sends R c x \<Longrightarrow> sends R (Send e b c) x"
| sends_sink: "sends R b x \<Longrightarrow> sends R (Sink e b) x"
| sends_reply: "pred_option R reply \<Longrightarrow> sends R (k reply) x \<Longrightarrow> sends R (Ask request k) x"

inductive_simps sends_simps [simp]:
  "sends R (Finish ok) x" "sends R (Send e b c) x" "sends R (Sink e b) x" "sends R (Ask request k) x" "sends R Crash x"

inductive panics :: "(WorkerReply \<Rightarrow> bool) \<Rightarrow> Bridge \<Rightarrow> bool" for R where
  panics_now: "panics R Crash"
| panics_ok: "panics R b \<Longrightarrow> panics R (Send e b c)"
| panics_failed: "panics R c \<Longrightarrow> panics R (Send e b c)"
| panics_sink: "panics R b \<Longrightarrow> panics R (Sink e b)"
| panics_reply: "pred_option R reply \<Longrightarrow> panics R (k reply) \<Longrightarrow> panics R (Ask request k)"

inductive_simps panics_simps [simp]:
  "panics R (Finish ok)" "panics R (Send e b c)" "panics R (Sink e b)" "panics R (Ask request k)" "panics R Crash"

definition bridge_ok :: "(WorkerReply \<Rightarrow> bool) \<Rightarrow> Bridge \<Rightarrow> bool" where
  "bridge_ok R b \<longleftrightarrow> (\<forall>e. sends R b e \<longrightarrow> validate e = Inr ()) \<and> \<not> panics R b"

lemma bridge_ok_simps [simp]:
  "bridge_ok R (Finish ok)"
  "bridge_ok R (Send e b c) \<longleftrightarrow> validate e = Inr () \<and> bridge_ok R b \<and> bridge_ok R c"
  "bridge_ok R (Sink e b) \<longleftrightarrow> bridge_ok R b"
  "bridge_ok R (Ask request k) \<longleftrightarrow> (\<forall>reply. pred_option R reply \<longrightarrow> bridge_ok R (k reply))"
  "\<not> bridge_ok R Crash"
  by (auto simp: bridge_ok_def)

text \<open>What the bridge relies on of the worker's replies: ids it hands out are not zero, the first place in a queue
  is one, error codes are known, and a drained message has the fields a wire message needs.\<close>

fun position_ready :: "DeliveryClass \<Rightarrow> EntityPosition option \<Rightarrow> bool" where
  "position_ready delivery None = True"
| "position_ready delivery (Some (PosCartesian3D x y z)) \<longleftrightarrow>
     is_replaceable delivery \<and> routing_is_finite \<lparr>rp_x = x, rp_y = y, rp_z = z\<rparr>"
| "position_ready delivery (Some (PosCartesian2D x y)) = False"

definition wire_ready :: "OutboundMessage \<Rightarrow> bool" where
  "wire_ready m \<longleftrightarrow>
     om_namespace m \<noteq> 0 \<and> om_session m \<noteq> 0 \<and> om_space m \<noteq> 0 \<and> om_space_epoch m \<noteq> 0 \<and> om_channel m \<noteq> 0
     \<and> om_entity m \<noteq> Some 0 \<and> om_delivery m \<noteq> BestEffortEvent
     \<and> (is_replaceable (om_delivery m) \<longrightarrow> om_entity m \<noteq> None)
     \<and> (\<forall>key. om_coalesce_key m = Some key \<longrightarrow> ck_component key \<noteq> 0)
     \<and> position_ready (om_delivery m) (om_routing_position m)"

fun reply_ok :: "WorkerReply \<Rightarrow> bool" where
  "reply_ok (CommandReply (Inr (Outbound messages))) \<longleftrightarrow> list_all wire_ready messages"
| "reply_ok (CommandReply (Inr (Admission (QueuedJoin ticket)))) \<longleftrightarrow> qt_id ticket \<noteq> 0"
| "reply_ok (CommandReply (Inr (Queue (StatusWaiting position)))) \<longleftrightarrow> 0 < position"
| "reply_ok (SpawnReply (Inr entity)) \<longleftrightarrow> entity \<noteq> 0"
| "reply_ok (LogReply (Inl code)) \<longleftrightarrow> code \<noteq> PeUnknown"
| "reply_ok _ = True"

lemma transport_error_code_known [simp]: "transport_error_code e \<noteq> PeUnknown"
  by (cases e) auto

lemma protocol_error_valid [simp]:
  "code \<noteq> PeUnknown \<Longrightarrow> related \<noteq> MkUnknown \<Longrightarrow> validate (protocol_error_envelope code related message) = Inr ()"
  by (simp add: validate_def protocol_error_envelope_def envelope_control_def envelope_new_def accepts
      validate_delivery_def message_kind_def validate_protocol_error_def validate_optional_scope_def)

lemma control_kind_known [simp]: "control_kind c \<noteq> MkUnknown"
  by (cases c) simp_all

lemma message_kind_known [simp]: "message_kind e \<noteq> MkUnknown"
  by (cases "ev_message e") (simp_all add: message_kind_def)

lemma send_error_ok [simp]:
  "bridge_ok R (send_error related code message b) \<longleftrightarrow> bridge_ok R b" if "code \<noteq> PeUnknown"
  using that by (auto simp: send_error_def Let_def)

lemma send_transport_error_ok [simp]: "bridge_ok R (send_transport_error pr related error b) \<longleftrightarrow> bridge_ok R b"
  by (simp add: send_transport_error_def)

lemma send_envelope_ok [simp]:
  "bridge_ok R (send_envelope e b) \<longleftrightarrow> validate e = Inr () \<and> bridge_ok R b"
  by (simp add: send_envelope_def)

lemma outbound_envelope_valid:
  assumes "wire_ready m"
  obtains e where "outbound_envelope m = Some e" "validate e = Inr ()"
proof -
  have position: "om_routing_position m = None
      \<or> (\<exists>x y z. om_routing_position m = Some (PosCartesian3D x y z)) \<and> is_replaceable (om_delivery m)"
    using assms by (cases "(om_delivery m, om_routing_position m)" rule: position_ready.cases) (auto simp: wire_ready_def)
  have "\<exists>e. outbound_envelope m = Some e \<and> validate e = Inr ()"
    using assms position
    by (cases "om_delivery m")
       (auto simp: outbound_envelope_def wire_ready_def Let_def validate_def accepts validate_delivery_def message_kind_def
         is_replaceable_def validate_opaque_def split: option.splits)
  then show ?thesis using that by blast
qed

lemma send_outbound_ok: "list_all wire_ready ms \<Longrightarrow> bridge_ok R (send_outbound ms)"
proof (induction ms)
  case (Cons m ms)
  from Cons.prems have "wire_ready m" by simp
  then obtain e where "outbound_envelope m = Some e" "validate e = Inr ()" by (rule outbound_envelope_valid)
  with Cons show ?case by simp
qed simp

lemma core_result_Inr [simp]: "core_result result = Inr v \<longleftrightarrow> result = Inr v"
  by (cases result) auto

lemma execute_ok:
  assumes "\<And>result. (\<And>v. result = Inr v \<Longrightarrow> reply_ok (CommandReply (Inr v))) \<Longrightarrow> bridge_ok reply_ok (k result)"
  shows "bridge_ok reply_ok (execute command k)"
proof -
  have "bridge_ok reply_ok (k (core_result result))" if "reply_ok (CommandReply result)" for result
    using that by (cases result) (auto intro!: assms)
  then show ?thesis by (auto simp: execute_def intro!: assms split: option.split WorkerReply.split)
qed

lemma flush_outbound_ok [simp]: "bridge_ok reply_ok (flush_outbound connection)"
  unfolding flush_outbound_def
  by (rule execute_ok) (auto simp: send_outbound_ok split: sum.split CommandResult.split)

lemma run_bridge_command_ok [simp]: "bridge_ok reply_ok (run_bridge_command pr connection e command)"
  unfolding run_bridge_command_def by (rule execute_ok) (auto split: sum.split)

lemma handle_publish_ok [simp]: "bridge_ok reply_ok (handle_publish pr connection e payload)"
  by (auto simp: handle_publish_def channel_persistence_call_def split: option.split sum.split)







lemma rejection_code_some [simp]: "rejection_code reason \<noteq> ArNone"
  by (cases reason) simp_all








text \<open>A message that came in through a validated envelope has every field a wire message needs.\<close>

lemma core_delivery_inverse: "core_delivery c = Some d \<longleftrightarrow> protocol_delivery d = c"
  by (cases c; cases d) simp_all

lemma published_message_ready:
  assumes "validate e = Inr ()" "ev_message e = MsgEntityState payload \<or> ev_message e = MsgReliableEvent payload"
    and "core_delivery (ev_delivery_class e) = Some delivery" "ev_channel_id e = Some channel"
  shows "wire_ready (to_outbound (SessionKey (ev_namespace_id e) (ev_session_id e))
           (from_request (publish_request connection e payload delivery channel persistence)))"
  using assms
  by (cases "ev_delivery_class e"; cases "ev_routing_position e")
     (auto simp: wire_ready_def to_outbound_def from_request_def publish_request_def validate_def accepts
       validate_delivery_def message_kind_def validate_opaque_def is_replaceable_def split: if_splits)

text \<open>The entity a subscription spawns has an id the wire accepts.\<close>

lemma spawn_reply_ok:
  assumes "relay_inv r" and "subscribe_and_spawn ch env c space epoch r = Some (result, r')"
  shows "reply_ok (SpawnReply result)"
proof (cases result)
  case (Inr entity)
  obtain a w where sub: "subscribe c space (ry_core r) = (a, w)" by fastforce
  from assms(1) have "core_inv w"
    using subscribe_inv [of "ry_core r" c space] sub by (simp add: relay_inv_def)
  moreover obtain w1 where "spawn_entity c space epoch w = (Inr entity, w1)"
    using assms(2) Inr sub by (auto simp: subscribe_and_spawn_def split: sum.splits prod.splits)
  ultimately show ?thesis
    using Inr by (auto simp: core_inv_def ids_fresh_def spawn_entity_def Let_def split: option.splits sum.splits if_splits)
qed simp

section \<open>Properties\<close>







lemma relayed_state:
  assumes "validate e = Inr ()" and "ev_protocol_version e = PROTOCOL_VERSION" and "ev_message e = MsgEntityState payload"
    and "core_delivery (ev_delivery_class e) = Some delivery" and "ev_channel_id e = Some channel"
  shows "outbound_envelope (to_outbound (SessionKey (ev_namespace_id e) (ev_session_id e))
           (from_request (publish_request connection e payload delivery channel persistence)))
         = Some (e\<lparr>ev_server_tick := 0, ev_correlation_id := None\<rparr>)"
proof -
  from assms(1,3,4) have "is_replaceable delivery" "protocol_delivery delivery = ev_delivery_class e"
    by (cases delivery; auto simp: validate_def accepts validate_delivery_def message_kind_def core_delivery_inverse
        is_replaceable_def Let_def split: if_splits)+
  then show ?thesis
    using assms(2,3,5)
    by (auto simp: outbound_envelope_def to_outbound_def from_request_def publish_request_def is_replaceable_def Let_def
        split: option.split)
qed

lemma relayed_event:
  assumes "validate e = Inr ()" and "ev_protocol_version e = PROTOCOL_VERSION" and "ev_message e = MsgReliableEvent payload"
    and "core_delivery (ev_delivery_class e) = Some delivery" and "ev_channel_id e = Some channel"
  shows "outbound_envelope (to_outbound (SessionKey (ev_namespace_id e) (ev_session_id e))
           (from_request (publish_request connection e payload delivery channel persistence)))
         = Some (e\<lparr>ev_server_tick := 0, ev_correlation_id := None,
                    ev_message := MsgReliableEvent (payload\<lparr>op_type_id := 1\<rparr>)\<rparr>)"
proof -
  from assms(1,3,4) have "\<not> is_replaceable delivery" "protocol_delivery delivery = ev_delivery_class e"
    "ev_routing_position e = None"
    by (cases delivery; auto simp: validate_def accepts validate_delivery_def validate_opaque_def message_kind_def
        core_delivery_inverse is_replaceable_def Let_def split: if_splits)+
  then show ?thesis
    using assms(2,3,5)
    by (cases delivery) (auto simp: outbound_envelope_def to_outbound_def from_request_def publish_request_def
        is_replaceable_def Let_def)
qed

fun relayed :: "MessagePayload \<Rightarrow> MessagePayload" where
  "relayed (MsgReliableEvent payload) = MsgReliableEvent (payload\<lparr>op_type_id := 1\<rparr>)"
| "relayed message = message"

definition demo_state :: Envelope where
  "demo_state =
     (envelope_entity_state DcLatestValue \<lparr>op_type_id = 9, op_bytes = [1, 2]\<rparr>)
       \<lparr>ev_namespace_id := 1, ev_session_id := 2, ev_space_id := 3, ev_channel_id := Some 4, ev_entity_id := Some 6,
        ev_space_epoch := 5, ev_sender_sequence := 8\<rparr>"

text \<open>C13. What the relay keeps of a message. An envelope with a domain payload that passed the semantic checks becomes
  a publish request, the core turns the request into an outbound message, and the envelope built from that message is
  the one the sender wrote: scope, epoch, entity, channel, sequence, delivery class, position and bytes, and for an
  \<open>EntityState\<close> also the type id. The server tick and the correlation id are reset, and a \<open>ReliableEvent\<close> arrives with
  type id 1 whatever its sender wrote.\<close>

theorem relayed_message_is_preserved:
  assumes "validate e = Inr ()" and "ev_protocol_version e = PROTOCOL_VERSION"
    and "ev_message e = MsgEntityState payload \<or> ev_message e = MsgReliableEvent payload"
    and "core_delivery (ev_delivery_class e) = Some delivery" and "ev_channel_id e = Some channel"
  shows "outbound_envelope (to_outbound (SessionKey (ev_namespace_id e) (ev_session_id e))
           (from_request (publish_request connection e payload delivery channel persistence)))
         = Some (e\<lparr>ev_server_tick := 0, ev_correlation_id := None, ev_message := relayed (ev_message e)\<rparr>)"
  using assms(3)
proof
  assume e: "ev_message e = MsgEntityState payload"
  then have "e\<lparr>ev_server_tick := 0, ev_correlation_id := None, ev_message := relayed (ev_message e)\<rparr>
      = e\<lparr>ev_server_tick := 0, ev_correlation_id := None\<rparr>" by simp
  then show ?thesis using relayed_state [OF assms(1,2) e assms(4,5)] by simp
next
  assume e: "ev_message e = MsgReliableEvent payload"
  then show ?thesis using relayed_event [OF assms(1,2) e assms(4,5)] by simp
qed

theorem relayed_message_is_preserved_witness:
  "outbound_envelope (to_outbound (SessionKey 1 2)
     (from_request (publish_request 1 demo_state \<lparr>op_type_id = 9, op_bytes = [1, 2]\<rparr> LatestValue 4 Ephemeral)))
   = Some (demo_state\<lparr>ev_server_tick := 0, ev_correlation_id := None, ev_message := relayed (ev_message demo_state)\<rparr>)"
  using relayed_message_is_preserved [of demo_state "\<lparr>op_type_id = 9, op_bytes = [1, 2]\<rparr>" LatestValue 4 1 Ephemeral]
  by (simp add: demo_state_def envelope_entity_state_def envelope_new_def validate_def accepts validate_delivery_def
      message_kind_def)

end
