(* ===== verification/Spec2Isabelle.thy ===== *)
theory Spec2Isabelle
  imports Core_Properties Core_Removal Core_Consistency Core_Epochs Rate_Limits Protocol_Properties Bridge
begin

text \<open>
  \<^bold>\<open>A verification of the WOVEN realtime relay.\<close>

  WOVEN relays messages between clients that share \<^emph>\<open>sessions\<close>. A session holds \<^emph>\<open>spaces\<close>, a space holds
  \<^emph>\<open>entities\<close>, clients subscribe to spaces and publish on \<^emph>\<open>channels\<close>. A network adapter decodes a frame into an
  envelope (\<open>woven-protocol\<close>), the bridge turns the envelope into requests to the worker task
  (\<open>woven-transport\<close>), the worker owns the core (\<open>woven-core\<close>) and executes one command at a time. The core puts
  outbound messages into one bounded queue per connection; the bridge drains the queue back into envelopes.

  \<^bold>\<open>Conventions.\<close> One definition per function, under the name it has in the source where that name is free. A Rust
  \<open>Result\<close> is a sum with the error on the left, \<open>?\<close> is \<open>and_then\<close> or, when the state already changed, \<open>try_in\<close>;
  a \<open>&mut self\<close> method returns the new state; \<open>None\<close> in the result of an operation stands for a panic, so a
  theorem that such a result is \<open>Some\<close> is the absence of panics. \<open>u64\<close>, \<open>u32\<close>, \<open>u16\<close> and \<open>u8\<close> are words and wrap; a
  \<open>usize\<close> is a natural number, and where the source saturates or checks it the bound \<open>usize_max\<close> is written out;
  \<open>f64\<close> is exact binary64 arithmetic on rationals with infinities and NaN. \<open>BTreeMap\<close> and \<open>BTreeSet\<close> are
  key-sorted association lists with their iteration order.

  \<^bold>\<open>Theories.\<close>
  \<^item> \<open>Prelude\<close>, \<open>BTree_Map\<close>, \<open>Float64\<close>: results, machine integers, clocks, the invariant machine (the locale behind every
    statement over runs), ordered maps, doubles.
  \<^item> \<open>Model\<close> (\<open>ids.rs\<close>, \<open>model.rs\<close>), \<open>Auth\<close> (\<open>auth.rs\<close>), \<open>Authority\<close> (\<open>authority.rs\<close>), \<open>Cache\<close> (\<open>cache.rs\<close>), \<open>Journal\<close>
    (\<open>journal.rs\<close>), \<open>Usage\<close> (\<open>usage.rs\<close>): the smaller parts of the core crate.
  \<^item> \<open>Buffer_Interface\<close>, \<open>Outbound_Queue\<close> (\<open>queue.rs\<close>): the contract of a bounded buffer as locales, interpreted by the
    journal outbox and by the three-lane outbound queue of a connection.
  \<^item> \<open>Admission\<close>, \<open>Admission_Inv\<close> (\<open>admission.rs\<close>): the admission controller of a managed session, with leases,
    reconnect reservations, a FIFO waiting room and offers; its invariant over every run.
  \<^item> \<open>Core_State\<close>, \<open>Routing\<close>, \<open>Core_Cleanup\<close>, \<open>Core_Ops\<close>, \<open>Core_Publish\<close> (\<open>core.rs\<close>, the scopes of \<open>managed.rs\<close>): state
    and operations of the core. Publishing is the composition authorize, plan, commit, deliver, as in \<open>publish_at\<close>.
  \<^item> \<open>Core_Links\<close>, \<open>Session_Inv\<close>, \<open>Core_Inv\<close>: the invariant. \<open>Core_Control\<close>, \<open>Core_Connections\<close>, \<open>Core_Entities\<close>,
    \<open>Publish_Plan\<close>, \<open>Publish_Deliver\<close>: every operation keeps it. \<open>Core_Run\<close>: runs of the core as a step relation.
  \<^item> \<open>Core_Delivery\<close>, \<open>Core_Properties\<close>, \<open>Core_Removal\<close>, \<open>Core_Consistency\<close>, \<open>Core_Epochs\<close>, \<open>Rate_Limits\<close>: properties of the
    core. \<open>Core_Sample\<close>: the concrete run on which they are applied.
  \<^item> \<open>Protocol_Model\<close>, \<open>Protocol_Semantics\<close>, \<open>Protocol_Codec\<close>, \<open>Protocol_Round\<close>, \<open>Protocol_Properties\<close>
    (\<open>woven-protocol\<close>): all messages, the semantic checks, encoder and decoder arm by arm.
  \<^item> \<open>Worker_Dispatch\<close> (\<open>worker.rs\<close>): commands, their dispatch, the bounded harness.
  \<^item> \<open>Relay_Logs\<close> (\<open>logging.rs\<close>), \<open>Relay_Fanout\<close> and \<open>Relay_Worker\<close> (\<open>woven-transport/src/lib.rs\<close>, \<open>metrics.rs\<close>): the log
    ring, the lifecycle notices and the worker loop over the core.
  \<^item> \<open>Bridge\<close> (\<open>handle_authenticated_with_capabilities\<close> and the worker handle in \<open>lib.rs\<close>, \<open>woven-transport/src/admission.rs\<close>):
    the interaction of one connection with the worker as a tree of requests, replies and sends, since other tasks
    run between two awaits.

  \<^bold>\<open>What is shown.\<close>
  \<^item> The core (C1 to C7, C14 to C17, C32 to C34, C39): its invariant over every run and every failing call; a publish
    reaches only readers, needs rights, refuses replays, commits nothing when refused and never panics; critical
    messages reach every subscriber or disconnect it; a lost transport leaves no trace; removal is the least closure of
    an inductive specification; the spatial index is a scan; epochs never go back; the capacity projection is
    exact; rate limits bound every window. C39 is a reachable state in which advancing an epoch is not atomic.
  \<^item> The codec (C8, C9, C18, C19, C40): round trip in both directions, well-formedness of everything decoded, one acceptable
    length per frame. C40 is a message the decoder accepts and the encoder refuses.
  \<^item> The transport (C10 to C13, C35 to C38): the worker answers every request, the cascade of notices and cleanups
    included; a lost connection is announced to every listener; the bridge sends only valid envelopes and never panics;
    what the relay preserves of a message; the harness terminates; the log stream has no gaps and paging reads all
    of it. C38 is that a publish announces nobody, although it may remove entities.
  \<^item> Queue and admission (C20 to C31): no overcommitment, bounded waiting room, FIFO promotion, no barging, claims at most
    once, resumption, idempotent retries; critical messages are never lost, latest values coalesce, drains keep order.

  \<^bold>\<open>Loops and bounds.\<close> Recursion over data is structural. The closure loop of a removal is \<open>closure_loop\<close>, a \<open>function\<close>
  whose measure is what lies outside the two sets. The mutual recursion of notices and cleanups is \<open>while_option\<close> over a
  stack of pending calls (\<open>cascade\<close>); it returns because a cleanup takes a connection out of the core or has nothing
  to tell, and \<open>cascade_measure\<close> counts connections and pending calls. \<open>run_pending\<close> is a partial function shown to
  return. No definition uses fuel. \<open>config_ok\<close> is what \<open>CoreConfig::validate\<close> accepts, with limits whose sums stay below
  \<open>usize_max\<close>; every statement over runs of the core starts there.

  \<^bold>\<open>Parameters.\<close> Code outside the repository is an argument: the digest of the development authenticator, custom authenticators
  and channel authorities (a function in the channel definition), FlatBuffers (\<open>FlatBuffers\<close>, with \<open>fb_faithful\<close>: the one
  table that was written is read back), the channels of tokio (\<open>Channels\<close>, with \<open>channels_ok\<close>: a send that succeeds is
  appended to that channel and others keep what they hold), the monotonic and the wall clock, and how errors and
  snapshots are printed (\<open>Printing\<close>). The statement about the bridge relies on replies with non-zero ids and on drained
  messages with the fields of a wire message (\<open>reply_ok\<close>, \<open>wire_ready\<close>); \<open>spawn_reply_ok\<close> and \<open>published_message_ready\<close>
  show this for spawned entities and for messages that came in through a validated envelope.

  \<^bold>\<open>Not modelled.\<close> The managed control plane (provisioning, patching and checkpoints in \<open>managed.rs\<close> and
  \<open>managed_checkpoint.rs\<close>, the \<open>Managed\<close> request of the worker and its persistence) beyond the scopes the core consults:
  it is driven by the administration API only. The usage aggregator and file sink, the QUIC and WebTransport adapters,
  the server process and the clients are I/O and task plumbing around what is modelled. The inference crates sit behind a
  channel to which the bridge hands their controls. Tracing and debug logging have no effect on the state.
\<close>

end
